(* ===== verification/Transitions.thy ===== *)
theory Transitions
  imports Main
begin

text \<open>
  Step relations: the states reachable from the initial ones, and the two arguments about them that the
  components share. An invariant holds initially and is kept by every step; a simulation maps the
  states of one system to those of another, each step to a step or to none. Both are interfaces: a component
  interprets them with its own step relation and uses the conclusions.
\<close>

inductive reachable :: "('s \<Rightarrow> bool) \<Rightarrow> ('s \<Rightarrow> 's \<Rightarrow> bool) \<Rightarrow> 's \<Rightarrow> bool" for start step where
  init: "start s \<Longrightarrow> reachable start step s"
| step: "reachable start step s \<Longrightarrow> step s s' \<Longrightarrow> reachable start step s'"

lemma reachable_once: "step s s' \<Longrightarrow> start s \<Longrightarrow> reachable start step s'"
  by (blast intro: reachable.intros)

lemma reachable_run: "step\<^sup>*\<^sup>* s0 s \<Longrightarrow> reachable start step s0 \<Longrightarrow> reachable start step s"
  by (induction rule: rtranclp_induct) (auto intro: reachable.step)

lemma reachable_iff: "reachable start step s \<longleftrightarrow> (\<exists>s0. start s0 \<and> step\<^sup>*\<^sup>* s0 s)"
proof
  assume "reachable start step s"
  then show "\<exists>s0. start s0 \<and> step\<^sup>*\<^sup>* s0 s"
    by (induction rule: reachable.induct) (blast intro: rtranclp.rtrancl_into_rtrancl)+
qed (blast intro: reachable_run reachable.init)

text \<open>A property that no step destroys.\<close>

locale preserved =
  fixes step :: "'s \<Rightarrow> 's \<Rightarrow> bool"
    and inv :: "'s \<Rightarrow> bool"
  assumes kept: "step s s' \<Longrightarrow> inv s \<Longrightarrow> inv s'"
begin

lemma stays: "step\<^sup>*\<^sup>* s s' \<Longrightarrow> inv s \<Longrightarrow> inv s'"
  by (induction rule: rtranclp_induct) (blast intro: kept)+

end

locale step_invariant = preserved step inv
  for step :: "'s \<Rightarrow> 's \<Rightarrow> bool" and inv :: "'s \<Rightarrow> bool" +
  fixes start :: "'s \<Rightarrow> bool"
  assumes initially: "start s \<Longrightarrow> inv s"
begin

lemma always: "reachable start step s \<Longrightarrow> inv s"
  by (auto simp: reachable_iff intro: stays initially)

lemma always_run: "step\<^sup>*\<^sup>* s0 s \<Longrightarrow> start s0 \<Longrightarrow> inv s"
  by (blast intro: stays initially)

end

text \<open>
  A simulation with stuttering: every step of the concrete system is a step of the abstract one, or is not
  seen there.
\<close>

locale simulation =
  fixes abs :: "'c \<Rightarrow> 'a"
    and start :: "'c \<Rightarrow> bool"
    and step :: "'c \<Rightarrow> 'c \<Rightarrow> bool"
    and astart :: "'a \<Rightarrow> bool"
    and astep :: "'a \<Rightarrow> 'a \<Rightarrow> bool"
  assumes start_abs: "start s \<Longrightarrow> astart (abs s)"
    and step_abs: "step s s' \<Longrightarrow> abs s' = abs s \<or> astep (abs s) (abs s')"
begin

lemma run_abs: "step\<^sup>*\<^sup>* s s' \<Longrightarrow> astep\<^sup>*\<^sup>* (abs s) (abs s')"
proof (induction rule: rtranclp_induct)
  case (step s1 s2)
  then show ?case using step_abs [of s1 s2] by (metis rtranclp.rtrancl_into_rtrancl)
qed simp

lemma reachable_abs: "reachable start step s \<Longrightarrow> reachable astart astep (abs s)"
  unfolding reachable_iff using start_abs run_abs by blast

lemma run_reachable: "step\<^sup>*\<^sup>* s0 s \<Longrightarrow> start s0 \<Longrightarrow> reachable astart astep (abs s)"
  using reachable_abs reachable_iff by metis

end

end
