(* ===== verification/UI_Prelude.thy ===== *)
theory UI_Prelude
  imports Transitions "HOL-Library.Multiset" "HOL-Library.Sublist"
begin

text \<open>
  Shared ground of the development: the pieces of the JavaScript language and
  of its standard library that the sources under \<^verbatim>\<open>src/notification-admin-ui/src\<close>
  rely on, written as executable functions, and the generic lemmas the component
  theories use.

  Conventions. A JavaScript string is a \<^typ>\<open>string\<close> of code units below 256, so
  \<^verbatim>\<open>length\<close> is the number of code units; white space and letter case are those of
  that alphabet. A plain object with own string properties is an association list in
  insertion order (type \<^verbatim>\<open>'v obj\<close>); properties inherited from
  \<^verbatim>\<open>Object.prototype\<close> are outside the model. An integral \<^verbatim>\<open>number\<close> is an
  \<^typ>\<open>int\<close>. The value \<^verbatim>\<open>undefined\<close> (or a missing property) is
  \<^const>\<open>None\<close>.
\<close>

named_theorems js_simps \<open>equations of the JavaScript primitives\<close>
named_theorems step_simps \<open>equations of the handlers of a component\<close>

section \<open>Strings\<close>

definition is_ws :: "char \<Rightarrow> bool" where
  "is_ws c \<longleftrightarrow> of_char c \<in> set [9, 10, 11, 12, 13, 32, 160 :: nat]"

definition trim_start :: "string \<Rightarrow> string" where
  "trim_start s = dropWhile is_ws s"

definition trim :: "string \<Rightarrow> string" where
  "trim s = rev (dropWhile is_ws (rev (dropWhile is_ws s)))"

text \<open>\<^verbatim>\<open>s.replace(/\s+/g, ' ')\<close>: every maximal run of white space becomes one blank.\<close>

function collapse_ws :: "string \<Rightarrow> string" where
  "collapse_ws [] = []"
| "collapse_ws (c # s) =
     (if is_ws c then CHR '' '' # collapse_ws (dropWhile is_ws s) else c # collapse_ws s)"
  by pat_completeness auto
termination
  by (relation "measure length") (auto simp: less_Suc_eq_le length_dropWhile_le)

text \<open>\<^verbatim>\<open>s.replace(/_/g, ' ')\<close> and \<^verbatim>\<open>s.replace('_', ' ')\<close> (first occurrence only).\<close>

definition replace_all_char :: "char \<Rightarrow> char \<Rightarrow> string \<Rightarrow> string" where
  "replace_all_char a b s = map (\<lambda>c. if c = a then b else c) s"

fun replace_first_char :: "char \<Rightarrow> char \<Rightarrow> string \<Rightarrow> string" where
  "replace_first_char a b [] = []"
| "replace_first_char a b (c # s) = (if c = a then b # s else c # replace_first_char a b s)"

definition starts_with :: "string \<Rightarrow> string \<Rightarrow> bool" where
  "starts_with s p \<longleftrightarrow> take (length p) s = p"

fun str_includes :: "string \<Rightarrow> string \<Rightarrow> bool" where
  "str_includes [] p = (p = [])"
| "str_includes (c # s) p = (starts_with (c # s) p \<or> str_includes s p)"

definition lower_char :: "char \<Rightarrow> char" where
  "lower_char c = (let n = of_char c :: nat in
     if (65 \<le> n \<and> n \<le> 90) \<or> (192 \<le> n \<and> n \<le> 222 \<and> n \<noteq> 215) then char_of (n + 32) else c)"

definition to_lower :: "string \<Rightarrow> string" where
  "to_lower s = map lower_char s"

text \<open>
  \<^verbatim>\<open>toUpperCase\<close> on the letters whose capital is in the alphabet of the model; the three
  letters of Latin-1 with no such capital are left alone.
\<close>

definition upper_char :: "char \<Rightarrow> char" where
  "upper_char c = (let n = of_char c :: nat in
     if (97 \<le> n \<and> n \<le> 122) \<or> (224 \<le> n \<and> n \<le> 254 \<and> n \<noteq> 247) then char_of (n - 32) else c)"

definition to_upper :: "string \<Rightarrow> string" where
  "to_upper s = map upper_char s"

text \<open>\<^verbatim>\<open>a || b\<close> on strings, and on a possibly missing string.\<close>

definition or_str :: "string \<Rightarrow> string \<Rightarrow> string" where
  "or_str a b = (if a \<noteq> [] then a else b)"

definition or_opt :: "string option \<Rightarrow> string \<Rightarrow> string" where
  "or_opt a b = (case a of None \<Rightarrow> b | Some s \<Rightarrow> or_str s b)"

text \<open>Decimal rendering of an integral number, \<^verbatim>\<open>String(n)\<close>.\<close>

fun nat_str :: "nat \<Rightarrow> string" where
  "nat_str n = (if n < 10 then [char_of (48 + n)] else nat_str (n div 10) @ [char_of (48 + n mod 10)])"

declare nat_str.simps [simp del]

definition int_str :: "int \<Rightarrow> string" where
  "int_str i = (if i < 0 then CHR ''-'' # nat_str (nat (- i)) else nat_str (nat i))"

text \<open>\<^verbatim>\<open>xs.join(sep)\<close>\<close>

fun join_str :: "string \<Rightarrow> string list \<Rightarrow> string" where
  "join_str sep [] = []"
| "join_str sep [x] = x"
| "join_str sep (x # y # xs) = x @ sep @ join_str sep (y # xs)"

lemma or_str_simps [simp]: "or_str [] b = b" "or_str (c # a) b = c # a"
  by (simp_all add: or_str_def)

lemma or_str_Nil [simp]: "or_str a [] = a"
  by (simp add: or_str_def)

lemma or_str_eq_Nil [simp]: "or_str a b = [] \<longleftrightarrow> a = [] \<and> b = []"
  by (simp add: or_str_def)

lemma or_opt_simps [simp]: "or_opt None b = b" "or_opt (Some a) b = or_str a b"
  by (simp_all add: or_opt_def)

lemma trim_Nil [simp]: "trim [] = []"
  by (simp add: trim_def)

lemma trim_eq_Nil: "trim s = [] \<longleftrightarrow> (\<forall>c \<in> set s. is_ws c)"
proof -
  have "trim s = [] \<longleftrightarrow> (\<forall>c \<in> set (dropWhile is_ws s). is_ws c)"
    by (simp add: trim_def)
  also have "\<dots> \<longleftrightarrow> dropWhile is_ws s = []"
    by (metis dropWhile_eq_Nil_conv dropWhile_idem)
  finally show ?thesis by simp
qed

lemma dropWhile_hd: "dropWhile P xs = y # ys \<Longrightarrow> \<not> P y"
  by (induction xs) (auto split: if_splits)

lemma dropWhile_rev_fix:
  assumes "dropWhile P xs = xs"
  shows "dropWhile P (rev (dropWhile P (rev xs))) = rev (dropWhile P (rev xs))"
proof (cases "rev (dropWhile P (rev xs))")
  case Nil
  then show ?thesis by (simp only: dropWhile.simps)
next
  case (Cons y ys)
  have "xs = rev (takeWhile P (rev xs) @ dropWhile P (rev xs))"
    by (metis rev_rev_ident takeWhile_dropWhile_id)
  then have "xs = rev (dropWhile P (rev xs)) @ rev (takeWhile P (rev xs))"
    by (simp only: rev_append)
  then obtain zs where "xs = y # zs" using Cons by (metis append_Cons)
  with assms have "\<not> P y" by (metis dropWhile_hd)
  with Cons show ?thesis by simp
qed

lemma trim_trim [simp]: "trim (trim s) = trim s"
proof -
  let ?d = "dropWhile is_ws s"
  have "dropWhile is_ws (rev (dropWhile is_ws (rev ?d))) = rev (dropWhile is_ws (rev ?d))"
    by (rule dropWhile_rev_fix) (simp add: dropWhile_idem)
  then show ?thesis by (simp add: trim_def dropWhile_idem)
qed

lemma length_replace_all_char [simp]: "length (replace_all_char a b s) = length s"
  by (simp add: replace_all_char_def)

lemma replace_all_char_gone: "a \<noteq> b \<Longrightarrow> a \<notin> set (replace_all_char a b s)"
  by (auto simp: replace_all_char_def)

lemma starts_with_iff_prefix: "starts_with s p \<longleftrightarrow> prefix p s"
  by (auto simp: starts_with_def prefix_def) (metis append_take_drop_id)

lemma str_includes_iff: "str_includes s p \<longleftrightarrow> (\<exists>u v. s = u @ p @ v)"
proof (induction s)
  case Nil
  then show ?case by auto
next
  case (Cons c s)
  have "(\<exists>u v. c # s = u @ p @ v) \<longleftrightarrow> prefix p (c # s) \<or> (\<exists>u v. s = u @ p @ v)"
    by (cases p) (auto simp: prefix_def Cons_eq_append_conv)
  with Cons.IH show ?case by (simp add: starts_with_iff_prefix)
qed

lemma str_includes_Nil [simp]: "str_includes s []"
  by (cases s) (simp_all add: starts_with_def)

lemma nat_str_not_Nil [simp]: "nat_str n \<noteq> []"
  by (subst nat_str.simps) simp

lemma int_str_not_Nil [simp]: "int_str n \<noteq> []"
  by (simp add: int_str_def)

section \<open>Plain objects\<close>

text \<open>
  An object literal grown by property assignment. Assigning to an own property keeps its
  place, assigning to a new one puts it last. \<^verbatim>\<open>Object.entries\<close> lists the array-index
  keys first, in numeric order, and the other keys in insertion order.
\<close>

type_synonym 'v obj = "(string \<times> 'v) list"

definition obj_get :: "'v obj \<Rightarrow> string \<Rightarrow> 'v option" where
  "obj_get ob k = map_of ob k"

fun obj_set :: "string \<Rightarrow> 'v \<Rightarrow> 'v obj \<Rightarrow> 'v obj" where
  "obj_set k v [] = [(k, v)]"
| "obj_set k v ((k', v') # ob) = (if k' = k then (k, v) # ob else (k', v') # obj_set k v ob)"

definition obj_delete :: "string \<Rightarrow> 'v obj \<Rightarrow> 'v obj" where
  "obj_delete k ob = filter (\<lambda>p. fst p \<noteq> k) ob"

definition obj_wf :: "'v obj \<Rightarrow> bool" where
  "obj_wf ob \<longleftrightarrow> distinct (map fst ob)"

definition is_digit_char :: "char \<Rightarrow> bool" where
  "is_digit_char c \<longleftrightarrow> 48 \<le> (of_char c :: nat) \<and> (of_char c :: nat) \<le> 57"

definition digits_value :: "string \<Rightarrow> nat" where
  "digits_value s = foldl (\<lambda>n c. 10 * n + (of_char c - 48)) 0 s"

definition is_index_key :: "string \<Rightarrow> bool" where
  "is_index_key s \<longleftrightarrow> s = ''0'' \<or>
     (s \<noteq> [] \<and> hd s \<noteq> CHR ''0'' \<and> list_all is_digit_char s \<and> digits_value s < 4294967295)"

definition obj_entries :: "'v obj \<Rightarrow> 'v obj" where
  "obj_entries ob =
     sort_key (\<lambda>p. digits_value (fst p)) (filter (\<lambda>p. is_index_key (fst p)) ob) @
     filter (\<lambda>p. \<not> is_index_key (fst p)) ob"

definition obj_keys :: "'v obj \<Rightarrow> string list" where
  "obj_keys ob = map fst (obj_entries ob)"

lemma obj_get_simps [simp]:
  "obj_get [] k = None"
  "obj_get ((k', v) # ob) k = (if k = k' then Some v else obj_get ob k)"
  by (simp_all add: obj_get_def)

lemma obj_get_set [simp]: "obj_get (obj_set k v ob) k' = (if k' = k then Some v else obj_get ob k')"
  by (induction k v ob rule: obj_set.induct) auto

lemma obj_get_delete [simp]: "obj_get (obj_delete k ob) k' = (if k' = k then None else obj_get ob k')"
  by (induction ob) (auto simp: obj_delete_def)

lemma obj_get_fold_set:
  "obj_get (fold (\<lambda>x. obj_set (k x) (g (k x))) xs ob) key = (if key \<in> k ` set xs then Some (g key) else obj_get ob key)"
  by (induction xs arbitrary: ob) auto

lemma fst_set_obj_set [simp]: "fst ` set (obj_set k v ob) = insert k (fst ` set ob)"
  by (induction k v ob rule: obj_set.induct) auto

lemma obj_set_not_Nil [simp]: "obj_set k v ob \<noteq> []"
  by (induction k v ob rule: obj_set.induct) simp_all

lemma obj_get_None_iff: "obj_get ob k = None \<longleftrightarrow> k \<notin> fst ` set ob"
  by (simp add: obj_get_def map_of_eq_None_iff)

lemma obj_wf_Nil [simp]: "obj_wf []"
  by (simp add: obj_wf_def)

lemma obj_wf_set [simp]: "obj_wf ob \<Longrightarrow> obj_wf (obj_set k v ob)"
proof (induction k v ob rule: obj_set.induct)
  case (2 k v k' v' ob)
  then show ?case by (auto simp: obj_wf_def simp flip: image_set)
qed (simp add: obj_wf_def)

lemma obj_wf_delete [simp]: "obj_wf ob \<Longrightarrow> obj_wf (obj_delete k ob)"
  by (induction ob) (auto simp: obj_wf_def obj_delete_def)

lemma mset_obj_entries [simp]: "mset (obj_entries ob) = mset ob"
proof -
  have "mset (obj_entries ob) =
      filter_mset (\<lambda>p. is_index_key (fst p)) (mset ob) + filter_mset (\<lambda>p. \<not> is_index_key (fst p)) (mset ob)"
    by (simp add: obj_entries_def)
  then show ?thesis by (simp add: multiset_partition [symmetric])
qed

lemma set_obj_entries [simp]: "set (obj_entries ob) = set ob"
  by (metis mset_obj_entries set_mset_mset)

lemma length_obj_entries [simp]: "length (obj_entries ob) = length ob"
  by (metis mset_obj_entries size_mset)

text \<open>
  The contract the clients of a keyed store use: what a read returns after a write or a
  delete, and that both keep the store well formed.
\<close>

locale keyed_store =
  fixes empty :: "'m"
    and get :: "'m \<Rightarrow> 'k \<Rightarrow> 'v option"
    and set_at :: "'k \<Rightarrow> 'v \<Rightarrow> 'm \<Rightarrow> 'm"
    and del :: "'k \<Rightarrow> 'm \<Rightarrow> 'm"
    and wf :: "'m \<Rightarrow> bool"
  assumes get_empty: "get empty k = None"
    and get_set_at: "wf m \<Longrightarrow> get (set_at k v m) k' = (if k' = k then Some v else get m k')"
    and get_del: "wf m \<Longrightarrow> get (del k m) k' = (if k' = k then None else get m k')"
    and wf_empty: "wf empty"
    and wf_set_at: "wf m \<Longrightarrow> wf (set_at k v m)"
    and wf_del: "wf m \<Longrightarrow> wf (del k m)"
begin

text \<open>Filling a store from a list of writes: the last write to a key is the one read.\<close>

definition fill :: "('k \<times> 'v) list \<Rightarrow> 'm" where
  "fill ws = fold (\<lambda>(k, v) m. set_at k v m) ws empty"

lemma wf_fold: "wf m \<Longrightarrow> wf (fold (\<lambda>(k, v) m. set_at k v m) ws m)"
  by (induction ws arbitrary: m) (auto simp: wf_set_at)

lemma get_fold:
  "wf m \<Longrightarrow> get (fold (\<lambda>(k, v) m. set_at k v m) ws m) k =
     (case map_of (rev ws) k of None \<Rightarrow> get m k | Some v \<Rightarrow> Some v)"
proof (induction ws arbitrary: m)
  case (Cons w ws)
  obtain k' v' where w: "w = (k', v')" by (cases w)
  have "wf (set_at k' v' m)" using Cons.prems by (rule wf_set_at)
  from Cons.IH [OF this] Cons.prems show ?case
    by (auto simp: w get_set_at map_add_def split: option.splits)
qed simp

lemma get_fill: "get (fill ws) k = map_of (rev ws) k"
  by (simp add: fill_def get_fold wf_empty get_empty split: option.splits)

lemma wf_fill: "wf (fill ws)"
  by (simp add: fill_def wf_fold wf_empty)

end

interpretation object: keyed_store "[]" obj_get obj_set obj_delete obj_wf
  by unfold_locales simp_all

section \<open>Arrays\<close>

text \<open>\<^verbatim>\<open>[...new Set(xs)]\<close>: first occurrences, in order.\<close>

fun uniq_acc :: "'a list \<Rightarrow> 'a list \<Rightarrow> 'a list" where
  "uniq_acc seen [] = []"
| "uniq_acc seen (x # xs) =
     (if List.member seen x then uniq_acc seen xs else x # uniq_acc (x # seen) xs)"

definition uniq :: "'a list \<Rightarrow> 'a list" where
  "uniq xs = uniq_acc [] xs"

lemma set_uniq_acc: "set (uniq_acc seen xs) = set xs - set seen"
  by (induction seen xs rule: uniq_acc.induct) (auto simp: List.member_iff)

lemma distinct_uniq_acc: "distinct (uniq_acc seen xs)"
  by (induction seen xs rule: uniq_acc.induct) (auto simp: set_uniq_acc List.member_iff)

lemma set_uniq [simp]: "set (uniq xs) = set xs"
  by (simp add: uniq_def set_uniq_acc)

lemma distinct_uniq [simp]: "distinct (uniq xs)"
  by (simp add: uniq_def distinct_uniq_acc)

text \<open>
  The idiom \<^verbatim>\<open>xs.includes(v) ? xs.filter(x => x !== v) : [...xs, v]\<close>.
\<close>

definition toggle_list :: "'a \<Rightarrow> 'a list \<Rightarrow> 'a list" where
  "toggle_list v xs = (if List.member xs v then filter (\<lambda>x. x \<noteq> v) xs else xs @ [v])"

text \<open>The contract of a togglable selection: membership flips for one element only.\<close>

locale selection =
  fixes members :: "'s \<Rightarrow> 'a set"
    and toggle :: "'a \<Rightarrow> 's \<Rightarrow> 's"
  assumes members_toggle: "members (toggle v s) = (if v \<in> members s then members s - {v} else insert v (members s))"
begin

lemma toggle_flips: "v \<in> members (toggle v s) \<longleftrightarrow> v \<notin> members s"
  by (simp add: members_toggle)

lemma toggle_others: "w \<noteq> v \<Longrightarrow> w \<in> members (toggle v s) \<longleftrightarrow> w \<in> members s"
  by (simp add: members_toggle)

lemma toggle_twice: "members (toggle v (toggle v s)) = members s"
  by (auto simp: members_toggle)

lemma toggle_commute: "members (toggle v (toggle w s)) = members (toggle w (toggle v s))"
  by (auto simp: members_toggle)

end

interpretation toggled: selection set toggle_list
  by unfold_locales (auto simp: toggle_list_def List.member_iff)

lemma distinct_toggle_list [simp]: "distinct xs \<Longrightarrow> distinct (toggle_list v xs)"
  by (auto simp: toggle_list_def List.member_iff)

text \<open>\<^verbatim>\<open>xs.slice(-n)\<close>: the last n elements.\<close>

definition slice_last :: "nat \<Rightarrow> 'a list \<Rightarrow> 'a list" where
  "slice_last n xs = drop (length xs - n) xs"

lemma length_slice_last [simp]: "length (slice_last n xs) = min n (length xs)"
  by (simp add: slice_last_def)

lemma set_slice_last: "set (slice_last n xs) \<subseteq> set xs"
  by (simp add: slice_last_def set_drop_subset)

text \<open>
  Grouping rows under a string key, the loop
  \<^verbatim>\<open>if (!acc[key]) acc[key] = []; acc[key].push(row)\<close> shared by several pages.
\<close>

definition group_push :: "string \<Rightarrow> 'a \<Rightarrow> 'a list obj \<Rightarrow> 'a list obj" where
  "group_push k x acc = obj_set k ((case obj_get acc k of None \<Rightarrow> [] | Some xs \<Rightarrow> xs) @ [x]) acc"

definition group_by_key :: "('a \<Rightarrow> string) \<Rightarrow> 'a list \<Rightarrow> 'a list obj" where
  "group_by_key key xs = fold (\<lambda>x acc. group_push (key x) x acc) xs []"

lemma group_fold_get:
  "obj_get (fold (\<lambda>x acc. group_push (key x) x acc) xs acc) k =
     (if obj_get acc k = None \<and> (\<forall>x \<in> set xs. key x \<noteq> k) then None
      else Some ((case obj_get acc k of None \<Rightarrow> [] | Some ys \<Rightarrow> ys) @ filter (\<lambda>x. key x = k) xs))"
proof (induction xs arbitrary: acc)
  case Nil
  then show ?case by (auto split: option.splits)
next
  case (Cons x xs)
  show ?case
    by (simp only: fold.simps comp_apply Cons.IH) (auto simp: group_push_def split: option.splits)
qed

lemma group_by_key_get:
  "obj_get (group_by_key key xs) k =
     (if \<exists>x \<in> set xs. key x = k then Some (filter (\<lambda>x. key x = k) xs) else None)"
  by (auto simp: group_by_key_def group_fold_get)

lemma group_by_key_wf: "obj_wf (group_by_key key xs)"
proof -
  have "obj_wf acc \<Longrightarrow> obj_wf (fold (\<lambda>x acc. group_push (key x) x acc) xs acc)" for acc
    by (induction xs arbitrary: acc) (simp_all add: group_push_def)
  then show ?thesis by (simp add: group_by_key_def)
qed

text \<open>The groups together hold every row once.\<close>

lemma mset_obj_set_group:
  "obj_wf acc \<Longrightarrow> mset (concat (map snd (group_push k x acc))) = mset (concat (map snd acc)) + {#x#}"
proof -
  have "mset (concat (map snd (obj_set k (ys @ [x]) acc))) = mset (concat (map snd acc)) + {#x#}"
    if "obj_wf acc" "obj_get acc k = Some ys" for ys
    using that by (induction acc) (auto simp: obj_wf_def)
  moreover have "mset (concat (map snd (obj_set k [x] acc))) = mset (concat (map snd acc)) + {#x#}"
    if "obj_get acc k = None"
    using that by (induction acc) (auto split: if_splits)
  moreover assume "obj_wf acc"
  ultimately show ?thesis by (auto simp: group_push_def split: option.splits)
qed

lemma group_by_key_mset: "mset (concat (map snd (obj_entries (group_by_key key xs)))) = mset xs"
proof -
  have "mset (concat (map snd (fold (\<lambda>x acc. group_push (key x) x acc) xs acc))) = mset (concat (map snd acc)) + mset xs"
    if "obj_wf acc" for acc
    using that
  proof (induction xs arbitrary: acc)
    case (Cons x xs)
    have "obj_wf (group_push (key x) x acc)" using Cons.prems by (simp add: group_push_def)
    from Cons.IH [OF this] mset_obj_set_group [OF Cons.prems, of "key x" x] show ?case by simp
  qed simp
  then have "mset (concat (map snd (group_by_key key xs))) = mset xs" by (simp add: group_by_key_def)
  moreover have "mset (concat (map snd (obj_entries ob))) = mset (concat (map snd ob))" for ob :: "'a list obj"
  proof -
    have "mset (concat (map snd l)) = sum_mset (image_mset (mset \<circ> snd) (mset l))" for l :: "'a list obj"
      by (induction l) auto
    then show ?thesis by simp
  qed
  ultimately show ?thesis by simp
qed

end
