(* ===== verification/Json_Value.thy ===== *)
theory Json_Value
  imports UI_Prelude
begin

text \<open>
  JSON values as they cross the network: the bodies the pages send
  (\<^verbatim>\<open>JSON.stringify(x)\<close> is represented by the value \<^verbatim>\<open>x\<close> itself, with the
  \<^verbatim>\<open>undefined\<close> properties left out) and the parsed bodies of the responses. Numbers
  are integral.
\<close>

datatype json =
    JNull
  | JBool bool
  | JNum int
  | JStr string
  | JArr "json list"
  | JObj "(string \<times> json) list"

text \<open>Property access on any value: only objects have the properties the sources read.\<close>

fun jprop :: "json \<Rightarrow> string \<Rightarrow> json option" where
  "jprop (JObj ob) k = obj_get ob k"
| "jprop _ k = None"

fun truthy :: "json \<Rightarrow> bool" where
  "truthy JNull = False"
| "truthy (JBool b) = b"
| "truthy (JNum n) = (n \<noteq> 0)"
| "truthy (JStr s) = (s \<noteq> [])"
| "truthy (JArr _) = True"
| "truthy (JObj _) = True"

definition truthy_opt :: "json option \<Rightarrow> bool" where
  "truthy_opt v = (case v of None \<Rightarrow> False | Some j \<Rightarrow> truthy j)"

text \<open>\<^verbatim>\<open>String(v)\<close>; inside an array \<^verbatim>\<open>null\<close> prints as the empty string.\<close>

fun js_string :: "json \<Rightarrow> string" where
  "js_string JNull = ''null''"
| "js_string (JBool b) = (if b then ''true'' else ''false'')"
| "js_string (JNum n) = int_str n"
| "js_string (JStr s) = s"
| "js_string (JArr vs) = join_str '','' (map (\<lambda>v. if v = JNull then [] else js_string v) vs)"
| "js_string (JObj _) = ''[object Object]''"

text \<open>\<^verbatim>\<open>String(v)\<close> where the value may be missing.\<close>

definition js_string_opt :: "json option \<Rightarrow> string" where
  "js_string_opt v = (case v of None \<Rightarrow> ''undefined'' | Some j \<Rightarrow> js_string j)"

lemma truthy_opt_simps [simp]: "truthy_opt None = False" "truthy_opt (Some j) = truthy j"
  by (simp_all add: truthy_opt_def)

lemma js_string_opt_simps [simp]:
  "js_string_opt None = ''undefined''" "js_string_opt (Some j) = js_string j"
  by (simp_all add: js_string_opt_def)

text \<open>An object body of string properties, the usual shape of a form payload.\<close>

definition str_obj :: "string obj \<Rightarrow> json" where
  "str_obj ob = JObj (map (\<lambda>(k, v). (k, JStr v)) ob)"

lemma jprop_str_obj [simp]: "jprop (str_obj ob) k = map_option JStr (obj_get ob k)"
  by (induction ob) (auto simp: str_obj_def)

end
