(* ===== verification/Url_Query.thy ===== *)
theory Url_Query
  imports UI_Prelude
begin

text \<open>
  The part of \<^verbatim>\<open>URLSearchParams\<close> that \<^verbatim>\<open>listPage\<close> of
  \<^verbatim>\<open>src/notification-admin-ui/src/api/client.ts\<close> and
  \<^verbatim>\<open>load\<close> of \<^verbatim>\<open>src/notification-admin-ui/src/pages/users/UsersPage.tsx\<close> use:
  parsing a query string, setting a parameter, and the
  \<^verbatim>\<open>application/x-www-form-urlencoded\<close> serialisation, with the round trip between them.

  A code point beyond the alphabet of the model, or an ill-formed UTF-8 byte, decodes to the
  substitute character \<^term>\<open>CHR 0x1A\<close>.
\<close>

section \<open>Encoding\<close>

definition utf8_char :: "char \<Rightarrow> nat list" where
  "utf8_char c = (let n = of_char c in if n < 128 then [n] else [192 + n div 64, 128 + n mod 64])"

definition form_unreserved :: "nat \<Rightarrow> bool" where
  "form_unreserved b \<longleftrightarrow> (48 \<le> b \<and> b \<le> 57) \<or> (65 \<le> b \<and> b \<le> 90) \<or> (97 \<le> b \<and> b \<le> 122) \<or>
     b = 42 \<or> b = 45 \<or> b = 46 \<or> b = 95"

definition hex_digit :: "nat \<Rightarrow> char" where
  "hex_digit n = (if n < 10 then char_of (48 + n) else char_of (55 + n))"

definition form_byte :: "nat \<Rightarrow> string" where
  "form_byte b = (if form_unreserved b then [char_of b] else if b = 32 then ''+''
     else [CHR ''%'', hex_digit (b div 16), hex_digit (b mod 16)])"

definition form_encode :: "string \<Rightarrow> string" where
  "form_encode s = concat (map form_byte (concat (map utf8_char s)))"

text \<open>\<^verbatim>\<open>encodeURIComponent\<close> leaves letters, digits and \<^verbatim>\<open>-_.!~*'()\<close> alone.\<close>

definition uri_unreserved :: "nat \<Rightarrow> bool" where
  "uri_unreserved b \<longleftrightarrow> (48 \<le> b \<and> b \<le> 57) \<or> (65 \<le> b \<and> b \<le> 90) \<or> (97 \<le> b \<and> b \<le> 122) \<or>
     b \<in> set [45, 95, 46, 33, 126, 42, 39, 40, 41]"

definition encodeURIComponent :: "string \<Rightarrow> string" where
  "encodeURIComponent s =
    concat (map (\<lambda>b. if uri_unreserved b then [char_of b] else [CHR ''%'', hex_digit (b div 16), hex_digit (b mod 16)])
      (concat (map utf8_char s)))"

type_synonym query = "(string \<times> string) list"

definition query_string :: "query \<Rightarrow> string" where
  "query_string q = join_str ''&'' (map (\<lambda>(k, v). form_encode k @ ''='' @ form_encode v) q)"

section \<open>Decoding\<close>

definition hex_value :: "char \<Rightarrow> nat option" where
  "hex_value c = (let n = of_char c in
     if 48 \<le> n \<and> n \<le> 57 then Some (n - 48)
     else if 65 \<le> n \<and> n \<le> 70 then Some (n - 55)
     else if 97 \<le> n \<and> n \<le> 102 then Some (n - 87) else None)"

fun form_bytes :: "string \<Rightarrow> nat list" where
  "form_bytes (c # a # b # s) =
     (if c = CHR ''+'' then 32 # form_bytes (a # b # s)
      else if c = CHR ''%'' then
        (case (hex_value a, hex_value b) of
           (Some x, Some y) \<Rightarrow> (16 * x + y) # form_bytes s
         | _ \<Rightarrow> 37 # form_bytes (a # b # s))
      else utf8_char c @ form_bytes (a # b # s))"
| "form_bytes (c # s) = (if c = CHR ''+'' then [32] else utf8_char c) @ form_bytes s"
| "form_bytes [] = []"

fun utf8_decode :: "nat list \<Rightarrow> string" where
  "utf8_decode (b # c # bs) =
     (if b < 128 then char_of b # utf8_decode (c # bs)
      else if (b = 194 \<or> b = 195) \<and> 128 \<le> c \<and> c < 192
        then char_of ((b - 192) * 64 + (c - 128)) # utf8_decode bs
      else CHR 0x1A # utf8_decode (c # bs))"
| "utf8_decode [b] = [if b < 128 then char_of b else CHR 0x1A]"
| "utf8_decode [] = []"

definition form_decode :: "string \<Rightarrow> string" where
  "form_decode s = utf8_decode (form_bytes s)"

fun split_on :: "char \<Rightarrow> string \<Rightarrow> string list" where
  "split_on d [] = [[]]"
| "split_on d (c # s) =
     (if c = d then [] # split_on d s
      else case split_on d s of [] \<Rightarrow> [[c]] | w # ws \<Rightarrow> (c # w) # ws)"

definition parse_pair :: "string \<Rightarrow> string \<times> string" where
  "parse_pair w = (form_decode (takeWhile (\<lambda>c. c \<noteq> CHR ''='') w),
                   form_decode (tl (dropWhile (\<lambda>c. c \<noteq> CHR ''='') w)))"

text \<open>\<^verbatim>\<open>new URLSearchParams(s)\<close>; a leading question mark is dropped.\<close>

definition parse_query :: "string \<Rightarrow> query" where
  "parse_query s = map parse_pair (filter (\<lambda>w. w \<noteq> [])
     (split_on CHR ''&'' (if take 1 s = ''?'' then drop 1 s else s)))"

text \<open>\<^verbatim>\<open>params.set(k, v)\<close>: the first entry of the key is overwritten, the others go.\<close>

fun query_set :: "string \<Rightarrow> string \<Rightarrow> query \<Rightarrow> query" where
  "query_set k v [] = [(k, v)]"
| "query_set k v ((k', v') # q) =
     (if k' = k then (k, v) # filter (\<lambda>p. fst p \<noteq> k) q else (k', v') # query_set k v q)"

section \<open>Round trip\<close>

lemma hex_value_digit: "n < 16 \<Longrightarrow> hex_value (hex_digit n) = Some n"
  by (auto simp: hex_value_def hex_digit_def Let_def)

lemma char_of_eq_lit: "b < 256 \<Longrightarrow> char_of b = c \<longleftrightarrow> b = (of_char c :: nat)"
  by auto

lemma form_byte_bytes: "b < 256 \<Longrightarrow> form_bytes (form_byte b @ s) = b # form_bytes s"
proof (cases "form_unreserved b")
  case True
  assume "b < 256"
  with True have "form_byte b = [char_of b]" "b \<noteq> 43" "b \<noteq> 37" "b < 128"
    by (auto simp: form_byte_def form_unreserved_def)
  then show ?thesis
    by (cases s rule: form_bytes.cases) (auto simp: utf8_char_def char_of_eq_lit)
next
  case False
  assume b: "b < 256"
  show ?thesis
  proof (cases "b = 32")
    case True
    with False show ?thesis
      by (cases s rule: form_bytes.cases) (auto simp: form_byte_def)
  next
    case neq: False
    have "b div 16 < 16" using b by simp
    with False neq show ?thesis
      by (simp add: form_byte_def hex_value_digit)
  qed
qed

lemma utf8_char_lt: "b \<in> set (utf8_char c) \<Longrightarrow> b < 256"
proof -
  assume b: "b \<in> set (utf8_char c)"
  have "of_char c div 64 < (4::nat)" by (rule less_mult_imp_div_less) simp
  with b show ?thesis by (auto simp: utf8_char_def Let_def split: if_splits)
qed

lemma form_bytes_encode:
  "\<forall>b \<in> set bs. b < 256 \<Longrightarrow> form_bytes (concat (map form_byte bs)) = bs"
  by (induction bs) (simp_all add: form_byte_bytes)

lemma utf8_decode_char: "utf8_decode (utf8_char c @ bs) = c # utf8_decode bs"
proof -
  have *: "char_of (of_char c :: nat) = c" by simp
  show ?thesis
  proof (cases "of_char c < (128::nat)")
    case True
    then show ?thesis
      by (cases bs) (simp_all add: utf8_char_def)
  next
    case False
    have lt: "of_char c < (256::nat)" by simp
    define n where "n = (of_char c :: nat)"
    have n: "128 \<le> n" "n < 256" using False lt by (simp_all add: n_def)
    then have "n div 64 = 2 \<or> n div 64 = 3" by auto
    moreover have "(192 + n div 64 - 192) * 64 + (128 + n mod 64 - 128) = n" by simp
    moreover have "utf8_char c = [192 + n div 64, 128 + n mod 64]"
      using n by (simp add: utf8_char_def n_def [symmetric] Let_def)
    ultimately show ?thesis
      using * n by (auto simp: n_def [symmetric])
  qed
qed

lemma utf8_decode_encode: "utf8_decode (concat (map utf8_char s)) = s"
  by (induction s) (simp_all add: utf8_decode_char)

lemma form_decode_encode [simp]: "form_decode (form_encode s) = s"
proof -
  have "\<forall>b \<in> set (concat (map utf8_char s)). b < 256" by (auto dest: utf8_char_lt)
  then show ?thesis
    by (simp add: form_decode_def form_encode_def form_bytes_encode utf8_decode_encode)
qed

definition form_safe :: "char \<Rightarrow> bool" where
  "form_safe c \<longleftrightarrow> c \<noteq> CHR ''&'' \<and> c \<noteq> CHR ''='' \<and> c \<noteq> CHR ''?''"

lemma form_byte_safe: "b < 256 \<Longrightarrow> c \<in> set (form_byte b) \<Longrightarrow> form_safe c"
proof -
  assume b: "b < 256" and c: "c \<in> set (form_byte b)"
  have hx: "form_safe (hex_digit n)" if "n < 16" for n
  proof -
    have "of_char (hex_digit n) \<noteq> (38::nat)" "of_char (hex_digit n) \<noteq> (61::nat)"
      "of_char (hex_digit n) \<noteq> (63::nat)"
      using that by (auto simp: hex_digit_def)
    then show ?thesis by (auto simp: form_safe_def)
  qed
  have "b div 16 < 16" using b by simp
  with b c show "form_safe c"
    by (auto simp: form_byte_def hx split: if_splits)
       (auto simp: form_safe_def form_unreserved_def char_of_eq_lit)
qed

lemma form_encode_safe: "c \<in> set (form_encode s) \<Longrightarrow> form_safe c"
  unfolding form_encode_def by (auto dest: utf8_char_lt form_byte_safe)

lemma split_on_not_Nil [simp]: "split_on d s \<noteq> []"
  by (induction s) (auto split: list.splits)

lemma split_on_free: "d \<notin> set s \<Longrightarrow> split_on d s = [s]"
  by (induction s) auto

lemma split_on_append: "d \<notin> set u \<Longrightarrow> split_on d (u @ d # s) = u # split_on d s"
  by (induction u) auto

lemma split_on_join:
  "\<forall>w \<in> set ws. d \<notin> set w \<Longrightarrow> ws \<noteq> [] \<Longrightarrow> split_on d (join_str [d] ws) = ws"
  by (induction "[d]" ws rule: join_str.induct) (auto simp: split_on_free split_on_append)

lemma parse_pair_encode: "parse_pair (form_encode k @ ''='' @ form_encode v) = (k, v)"
proof -
  have *: "\<forall>c \<in> set (form_encode k). c \<noteq> CHR ''=''"
    by (auto dest: form_encode_safe simp: form_safe_def)
  then show ?thesis
    by (simp add: parse_pair_def takeWhile_append2 dropWhile_append2)
qed

lemma query_string_head: "take 1 (query_string q) \<noteq> ''?''"
proof (cases q)
  case (Cons p q')
  obtain k v where p: "p = (k, v)" by (cases p)
  obtain r where r: "query_string q = form_encode k @ ''='' @ r"
    by (cases q') (auto simp: query_string_def Cons p)
  show ?thesis
  proof (cases "form_encode k")
    case (Cons c cs)
    then have "form_safe c" by (metis form_encode_safe list.set_intros(1))
    with Cons r show ?thesis by (auto simp: form_safe_def)
  qed (simp add: r)
qed (simp add: query_string_def)

lemma parse_query_string: "parse_query (query_string q) = q"
proof (cases "q = []")
  case True
  then show ?thesis by (simp add: parse_query_def query_string_def)
next
  case False
  let ?ws = "map (\<lambda>(k, v). form_encode k @ ''='' @ form_encode v) q"
  have safe: "\<forall>w \<in> set ?ws. CHR ''&'' \<notin> set w"
    by (auto dest: form_encode_safe simp: form_safe_def)
  have "split_on CHR ''&'' (query_string q) = ?ws"
    unfolding query_string_def using safe False by (intro split_on_join) auto
  then have "parse_query (query_string q) = map parse_pair (filter (\<lambda>w. w \<noteq> []) ?ws)"
    using query_string_head [of q] by (simp add: parse_query_def)
  also have "filter (\<lambda>w. w \<noteq> []) ?ws = ?ws" by (auto simp: filter_id_conv)
  finally show ?thesis
    by (simp add: comp_def case_prod_beta' parse_pair_encode [simplified])
qed

lemma query_set_fresh: "k \<notin> fst ` set q \<Longrightarrow> query_set k v q = q @ [(k, v)]"
  by (induction k v q rule: query_set.induct) auto

lemma map_of_query_set: "map_of (query_set k v q) = (map_of q)(k \<mapsto> v)"
proof (induction k v q rule: query_set.induct)
  case (2 k v k' v' q)
  have "map_of (filter (\<lambda>p. fst p \<noteq> k) q) j = map_of q j" if "j \<noteq> k" for j
    using that by (induction q) auto
  with 2 show ?case by (auto simp: fun_eq_iff)
qed auto

end
