(* ===== verification/Api_Client.thy ===== *)
theory Api_Client
  imports Json_Value Url_Query
begin

text \<open>
  The HTTP client of the dashboard, \<^verbatim>\<open>src/notification-admin-ui/src/api/client.ts\<close>:
  error codes and messages, the credentials kept in \<^verbatim>\<open>localStorage\<close>,
  \<^verbatim>\<open>apiRequest\<close> with its refresh of an expired access token, and the list helpers
  that build query strings. One call at a time is modelled here; overlapping calls that share
  one refresh are the subject of the theory \<^verbatim>\<open>Refresh_Flight\<close>.

  The server is a parameter: a function from its own state and a request to an answer and the
  next state. \<^verbatim>\<open>apiRequest\<close> calls itself after every granted refresh, so it carries fuel and
  \<^const>\<open>None\<close> means that the fuel is spent before the call settles.
\<close>

section \<open>Responses and errors\<close>

record response =
  resp_status :: int
  resp_statusText :: string
  resp_json :: "json option"

definition resp_ok :: "response \<Rightarrow> bool" where
  "resp_ok r \<longleftrightarrow> 200 \<le> resp_status r \<and> resp_status r \<le> 299"

text \<open>\<^verbatim>\<open>await response.json().catch(() => ({}))\<close>\<close>

definition resp_data :: "response \<Rightarrow> json" where
  "resp_data r = (case resp_json r of None \<Rightarrow> JObj [] | Some j \<Rightarrow> j)"

definition STATUS_ERROR_CODES :: "(int \<times> string) list" where
  "STATUS_ERROR_CODES =
    [(400, ''VALIDATION_ERROR''),
     (401, ''AUTHENTICATION_ERROR''),
     (403, ''AUTHORIZATION_ERROR''),
     (404, ''NOT_FOUND''),
     (409, ''CONFLICT''),
     (422, ''VALIDATION_ERROR''),
     (429, ''RATE_LIMITED'')]"

definition errorCodeForStatus :: "int \<Rightarrow> string" where
  "errorCodeForStatus status =
    (case map_of STATUS_ERROR_CODES status of
       Some code \<Rightarrow> code
     | None \<Rightarrow> if status \<ge> 500 then ''SERVER_ERROR'' else ''REQUEST_ERROR'')"

text \<open>The chain \<^verbatim>\<open>a || b || \<dots> || z\<close> over possibly missing values.\<close>

fun first_truthy :: "json option list \<Rightarrow> json \<Rightarrow> json" where
  "first_truthy [] d = d"
| "first_truthy (v # vs) d = (case v of Some j \<Rightarrow> if truthy j then j else first_truthy vs d | None \<Rightarrow> first_truthy vs d)"

definition cleanServerMessage :: "json \<Rightarrow> response \<Rightarrow> string" where
  "cleanServerMessage data r =
    (let raw = first_truthy [jprop data ''message'', jprop data ''error'', jprop data ''detail'',
                             Some (JStr (resp_statusText r))] (JStr ''Request failed'')
     in trim (collapse_ws (js_string raw)))"

text \<open>
  What a rejected promise carries: an \<^verbatim>\<open>ApiError\<close> (status, code, detail), another
  \<^verbatim>\<open>Error\<close> with its message (\<^verbatim>\<open>fetch\<close> rejects with one when the network
  fails), or a value that is no \<^verbatim>\<open>Error\<close>.
\<close>

datatype js_error = ApiError int string string | OtherError string | NonError

fun error_message :: "js_error \<Rightarrow> string option" where
  "error_message (ApiError status code detail) =
     Some (code @ '' ('' @ int_str status @ ''): '' @ detail)"
| "error_message (OtherError m) = Some m"
| "error_message NonError = None"

fun getErrorMessage :: "js_error \<Rightarrow> string \<Rightarrow> string" where
  "getErrorMessage (ApiError status code detail) fallback =
     the (error_message (ApiError status code detail))"
| "getErrorMessage (OtherError m) fallback = m"
| "getErrorMessage NonError fallback = fallback"

type_synonym 'a outcome = "js_error + 'a"

section \<open>Browser state\<close>

text \<open>
  A slot of \<^verbatim>\<open>localStorage\<close> that holds a serialised value: the value itself, or the
  text \<^verbatim>\<open>undefined\<close> that \<^verbatim>\<open>setItem\<close> writes when it is given
  \<^verbatim>\<open>JSON.stringify(undefined)\<close>.
\<close>

datatype slot = SlotJson json | SlotUndefined

record storage =
  access_token :: "string option"
  refresh_token :: "string option"
  stored_user :: "slot option"

datatype browser_event = LogoutEvent | ReplaceLocation string

record browser =
  store :: storage
  pathname :: string
  events :: "browser_event list"

definition empty_storage :: storage where
  "empty_storage = \<lparr>access_token = None, refresh_token = None, stored_user = None\<rparr>"

text \<open>A stored token that is the empty string counts as absent.\<close>

definition usable :: "string option \<Rightarrow> string option" where
  "usable t = (case t of Some s \<Rightarrow> if s = [] then None else Some s | None \<Rightarrow> None)"

definition clearAuthAndRedirect :: "browser \<Rightarrow> browser" where
  "clearAuthAndRedirect b =
    (let b1 = b\<lparr>store := empty_storage, events := events b @ [LogoutEvent]\<rparr>
     in if pathname b \<noteq> ''/login''
        then b1\<lparr>events := events b1 @ [ReplaceLocation ''/login''], pathname := ''/login''\<rparr>
        else b1)"

section \<open>Requests\<close>

record options =
  opt_method :: string
  opt_headers :: "string obj"
  opt_body :: "json option"

definition get_options :: options where
  "get_options = \<lparr>opt_method = ''GET'', opt_headers = [], opt_body = None\<rparr>"

record http_request =
  rq_method :: string
  rq_url :: string
  rq_headers :: "string obj"
  rq_body :: "json option"

datatype net_reply = Reply response | NetFail string

type_synonym 'e server = "'e \<Rightarrow> http_request \<Rightarrow> net_reply \<times> 'e"

text \<open>Header names are case insensitive and kept in lower case.\<close>

definition request_headers :: "string option \<Rightarrow> string obj \<Rightarrow> string obj" where
  "request_headers token hs =
    (let h0 = fold (\<lambda>(k, v) h. obj_set (to_lower k) v h) hs [];
         h1 = obj_set ''content-type'' ''application/json'' h0
     in case usable token of
          Some t \<Rightarrow> obj_set ''authorization'' (''Bearer '' @ t) h1
        | None \<Rightarrow> h1)"

definition build_request :: "string \<Rightarrow> string \<Rightarrow> options \<Rightarrow> storage \<Rightarrow> http_request" where
  "build_request base path opts st =
    \<lparr>rq_method = opt_method opts, rq_url = base @ path,
     rq_headers = request_headers (access_token st) (opt_headers opts), rq_body = opt_body opts\<rparr>"

definition login_path :: string where "login_path = ''/admin/api/v1/auth/login''"
definition refresh_path :: string where "refresh_path = ''/admin/api/v1/auth/refresh''"

definition shouldRefresh :: "string \<Rightarrow> bool" where
  "shouldRefresh path \<longleftrightarrow> \<not> str_includes path login_path \<and> \<not> str_includes path refresh_path"

definition refresh_request :: "string \<Rightarrow> string \<Rightarrow> http_request" where
  "refresh_request base tok =
    \<lparr>rq_method = ''POST'', rq_url = base @ refresh_path,
     rq_headers = [(''content-type'', ''application/json'')],
     rq_body = Some (JObj [(''refresh_token'', JStr tok)])\<rparr>"

text \<open>The \<^verbatim>\<open>then\<close> callback of the refresh: the tokens are stored only when both came.\<close>

definition apply_refresh :: "net_reply \<Rightarrow> storage \<Rightarrow> bool \<times> storage" where
  "apply_refresh r st =
    (case r of
       NetFail _ \<Rightarrow> (False, st)
     | Reply resp \<Rightarrow>
         let data = resp_data resp in
         if \<not> resp_ok resp \<or> \<not> truthy_opt (jprop data ''access_token'')
              \<or> \<not> truthy_opt (jprop data ''refresh_token'')
         then (False, st)
         else
           let st1 = st\<lparr>access_token := Some (js_string_opt (jprop data ''access_token'')),
                        refresh_token := Some (js_string_opt (jprop data ''refresh_token''))\<rparr>
           in (True, case jprop data ''user'' of
                       Some u \<Rightarrow> if truthy u then st1\<lparr>stored_user := Some (SlotJson u)\<rparr> else st1
                     | None \<Rightarrow> st1))"

definition refreshAccessToken ::
    "'e server \<Rightarrow> string \<Rightarrow> browser \<Rightarrow> 'e \<Rightarrow> bool \<times> browser \<times> 'e" where
  "refreshAccessToken srv base b e =
    (case usable (refresh_token (store b)) of
       None \<Rightarrow> (False, b, e)
     | Some tok \<Rightarrow>
         let (r, e1) = srv e (refresh_request base tok);
             (ok, st) = apply_refresh r (store b)
         in (ok, b\<lparr>store := st\<rparr>, e1))"

text \<open>The end of \<^verbatim>\<open>apiRequest\<close>: throw on a bad status, return the data otherwise.\<close>

definition settle :: "response \<Rightarrow> json outcome" where
  "settle r = (if \<not> resp_ok r
     then Inl (ApiError (resp_status r) (errorCodeForStatus (resp_status r)) (cleanServerMessage (resp_data r) r))
     else Inr (resp_data r))"

fun apiRequest ::
    "'e server \<Rightarrow> string \<Rightarrow> nat \<Rightarrow> string \<Rightarrow> options \<Rightarrow> browser \<Rightarrow> 'e \<Rightarrow> (json outcome \<times> browser \<times> 'e) option" where
  "apiRequest srv base 0 path opts b e = None"
| "apiRequest srv base (Suc n) path opts b e =
    (case srv e (build_request base path opts (store b)) of
       (NetFail m, e1) \<Rightarrow> Some (Inl (OtherError m), b, e1)
     | (Reply r, e1) \<Rightarrow>
         if resp_status r = 401 \<and> shouldRefresh path
         then (case refreshAccessToken srv base b e1 of
                 (refreshed, b2, e2) \<Rightarrow>
                   if refreshed then apiRequest srv base n path opts b2 e2
                   else Some (settle r, clearAuthAndRedirect b2, e2))
         else Some (settle r, b, e1))"

section \<open>Lists\<close>

datatype pval = PStr string | PNum int | PUndef

fun pval_string :: "pval \<Rightarrow> string" where
  "pval_string (PStr s) = s"
| "pval_string (PNum n) = int_str n"
| "pval_string PUndef = ''undefined''"

definition pval_kept :: "pval \<Rightarrow> bool" where
  "pval_kept v \<longleftrightarrow> v \<noteq> PUndef \<and> v \<noteq> PStr []"

definition listPage_url :: "string \<Rightarrow> pval obj \<Rightarrow> string" where
  "listPage_url path params =
    (let parts = split_on CHR ''?'' path;
         base = hd parts;
         existing = (case tl parts of [] \<Rightarrow> [] | x # _ \<Rightarrow> x);
         q = fold (\<lambda>(k, v) q. if pval_kept v then query_set k (pval_string v) q else q)
                  (obj_entries params) (parse_query existing);
         qs = query_string q
     in base @ (if qs \<noteq> [] then ''?'' @ qs else []))"

definition list_request ::
    "'e server \<Rightarrow> string \<Rightarrow> nat \<Rightarrow> string \<Rightarrow> browser \<Rightarrow> 'e \<Rightarrow> (json outcome \<times> browser \<times> 'e) option" where
  "list_request srv base n path b e = apiRequest srv base n path get_options b e"

definition listPage ::
    "'e server \<Rightarrow> string \<Rightarrow> nat \<Rightarrow> string \<Rightarrow> pval obj \<Rightarrow> browser \<Rightarrow> 'e \<Rightarrow> (json outcome \<times> browser \<times> 'e) option" where
  "listPage srv base n path params b e = list_request srv base n (listPage_url path params) b e"

section \<open>Lemmas\<close>

lemma usable_simps [simp]:
  "usable None = None"
  "usable (Some s) = (if s = [] then None else Some s)"
  by (simp_all add: usable_def)

lemma request_headers_token: "t \<noteq> [] \<Longrightarrow> obj_get (request_headers (Some t) hs) ''authorization'' = Some (''Bearer '' @ t)"
  by (simp add: request_headers_def Let_def)

lemma settle_bad: "\<not> resp_ok r \<Longrightarrow> \<exists>m. settle r = Inl (ApiError (resp_status r) (errorCodeForStatus (resp_status r)) m)"
  by (simp add: settle_def)

lemma status_401_not_ok: "resp_status r = 401 \<Longrightarrow> \<not> resp_ok r"
  by (simp add: resp_ok_def)

lemma error_code_401: "errorCodeForStatus 401 = ''AUTHENTICATION_ERROR''"
  by (simp add: errorCodeForStatus_def STATUS_ERROR_CODES_def)

lemma apply_refresh_True:
  "apply_refresh r st = (True, st') \<Longrightarrow>
     \<exists>a t. access_token st' = Some a \<and> refresh_token st' = Some t"
  by (auto simp: apply_refresh_def Let_def split: net_reply.splits if_splits option.splits)

lemma apply_refresh_False: "apply_refresh r st = (False, st') \<Longrightarrow> st' = st"
  by (auto simp: apply_refresh_def Let_def split: net_reply.splits if_splits option.splits)

lemma apply_refresh_granted:
  assumes "resp_ok r" "jprop (resp_data r) ''access_token'' = Some (JStr a)" "a \<noteq> []"
    "jprop (resp_data r) ''refresh_token'' = Some (JStr t)" "t \<noteq> []"
  shows "\<exists>st'. apply_refresh (Reply r) st = (True, st') \<and> access_token st' = Some a \<and> refresh_token st' = Some t"
  using assms by (auto simp: apply_refresh_def Let_def split: option.splits)

lemma refreshAccessToken_store:
  "refreshAccessToken srv base b e = (ok, b', e') \<Longrightarrow>
     pathname b' = pathname b \<and> events b' = events b \<and>
     (if ok then \<exists>a t. access_token (store b') = Some a \<and> refresh_token (store b') = Some t
      else b' = b)"
  by (cases ok)
     (auto simp: refreshAccessToken_def Let_def split: option.splits prod.splits
           dest: apply_refresh_True apply_refresh_False)

lemma clearAuthAndRedirect_store [simp]: "store (clearAuthAndRedirect b) = empty_storage"
  by (simp add: clearAuthAndRedirect_def Let_def)

lemma clearAuthAndRedirect_pathname [simp]: "pathname (clearAuthAndRedirect b) = ''/login''"
  by (simp add: clearAuthAndRedirect_def Let_def)

lemma clearAuthAndRedirect_events:
  "events (clearAuthAndRedirect b) =
     events b @ LogoutEvent # (if pathname b = ''/login'' then [] else [ReplaceLocation ''/login''])"
  by (simp add: clearAuthAndRedirect_def Let_def)

text \<open>More fuel never changes a settled call.\<close>

lemma apiRequest_mono:
  "apiRequest srv base n path opts b e = Some res \<Longrightarrow> n \<le> m \<Longrightarrow>
   apiRequest srv base m path opts b e = Some res"
proof (induction n arbitrary: m b e)
  case (Suc n)
  then obtain k where m: "m = Suc k" "n \<le> k" by (cases m) auto
  obtain reply e1 where srv: "srv e (build_request base path opts (store b)) = (reply, e1)" by fastforce
  show ?case
  proof (cases reply)
    case (Reply r)
    obtain ok b2 e2 where ref: "refreshAccessToken srv base b e1 = (ok, b2, e2)" by (metis prod_cases3)
    show ?thesis
    proof (cases "resp_status r = 401 \<and> shouldRefresh path \<and> ok")
      case True
      with Suc.prems srv Reply ref have "apiRequest srv base n path opts b2 e2 = Some res" by simp
      from Suc.IH [OF this m(2)] True srv Reply ref m(1) show ?thesis by simp
    next
      case False
      with Suc.prems(1) srv Reply ref m(1) show ?thesis by auto
    qed
  qed (use Suc.prems srv m in simp)
qed simp

section \<open>White space of error messages\<close>

text \<open>
  The form \<^verbatim>\<open>replace(/\s+/g, ' ').trim()\<close> leaves: every white space character is a
  blank, no two of them are adjacent.
\<close>

fun single_blanks :: "string \<Rightarrow> bool" where
  "single_blanks [] = True"
| "single_blanks [c] = (is_ws c \<longrightarrow> c = CHR '' '')"
| "single_blanks (c # d # s) = ((is_ws c \<longrightarrow> c = CHR '' '' \<and> \<not> is_ws d) \<and> single_blanks (d # s))"

lemma is_ws_blank [simp]: "is_ws CHR '' ''"
  by (simp add: is_ws_def)

lemma single_blanks_Cons:
  "single_blanks (c # s) \<longleftrightarrow> (is_ws c \<longrightarrow> c = CHR '' '' \<and> (s \<noteq> [] \<longrightarrow> \<not> is_ws (hd s))) \<and> single_blanks s"
  by (cases s) auto

lemma hd_collapse_ws: "s \<noteq> [] \<Longrightarrow> \<not> is_ws (hd s) \<Longrightarrow> collapse_ws s \<noteq> [] \<and> hd (collapse_ws s) = hd s"
  by (cases s) auto

lemma single_blanks_collapse: "single_blanks (collapse_ws s)"
proof (induction s rule: collapse_ws.induct)
  case (2 c s)
  show ?case
  proof (cases "is_ws c")
    case True
    let ?d = "dropWhile is_ws s"
    have "collapse_ws ?d \<noteq> [] \<longrightarrow> \<not> is_ws (hd (collapse_ws ?d))"
    proof (cases "?d = []")
      case False
      then show ?thesis using hd_collapse_ws [OF False] hd_dropWhile [of is_ws s] by auto
    next
      case True
      then show ?thesis by (simp only: collapse_ws.simps) simp
    qed
    with True 2 show ?thesis by (simp add: single_blanks_Cons)
  next
    case False
    with 2 show ?thesis by (simp add: single_blanks_Cons)
  qed
qed simp

lemma single_blanks_drop: "single_blanks s \<Longrightarrow> single_blanks (dropWhile P s)"
  by (induction s rule: single_blanks.induct) auto

lemma single_blanks_append1: "single_blanks (u @ v) \<Longrightarrow> single_blanks u"
  by (induction u rule: single_blanks.induct) (auto simp: single_blanks_Cons split: if_splits)

lemma single_blanks_trim: "single_blanks s \<Longrightarrow> single_blanks (trim s)"
proof -
  let ?d = "dropWhile is_ws s"
  assume "single_blanks s"
  then have "single_blanks ?d" by (rule single_blanks_drop)
  moreover have "?d = rev (dropWhile is_ws (rev ?d)) @ rev (takeWhile is_ws (rev ?d))"
    by (metis rev_append rev_rev_ident takeWhile_dropWhile_id)
  ultimately show ?thesis unfolding trim_def by (metis single_blanks_append1)
qed

section \<open>Query strings of list requests\<close>

lemma fold_query_set:
  "distinct (map fst q @ map fst ps) \<Longrightarrow>
   fold (\<lambda>(k, v) q. if pval_kept v then query_set k (pval_string v) q else q) ps q =
     q @ map (\<lambda>(k, v). (k, pval_string v)) (filter (\<lambda>(k, v). pval_kept v) ps)"
proof (induction ps arbitrary: q)
  case (Cons p ps)
  obtain k v where p: "p = (k, v)" by (cases p)
  have "k \<notin> fst ` set q" using Cons.prems p by auto
  then have "query_set k (pval_string v) q = q @ [(k, pval_string v)]" by (rule query_set_fresh)
  with Cons p show ?case by (auto simp: Cons.IH)
qed simp

lemma query_string_Nil: "query_string q = [] \<longleftrightarrow> q = []"
proof
  assume "query_string q = []"
  then have "parse_query (query_string q) = []" by (simp add: parse_query_def)
  then show "q = []" by (simp add: parse_query_string)
qed (simp add: query_string_def)

lemma distinct_entries: "obj_wf ps \<Longrightarrow> distinct (map fst (obj_entries ps))"
  unfolding obj_wf_def by (metis mset_eq_imp_distinct_iff mset_map mset_obj_entries)

lemma obj_get_entries: "obj_wf ps \<Longrightarrow> map_of (obj_entries ps) k = obj_get ps k"
  unfolding obj_get_def by (metis distinct_entries map_of_inject_set obj_wf_def set_obj_entries)

section \<open>Vocabulary of the properties\<close>

text \<open>
  A server that honours the tokens it issues: the call that follows a granted refresh, made with the storage the
  refresh has left, is not answered 401.
\<close>

definition honours_refresh :: "'e server \<Rightarrow> string \<Rightarrow> string \<Rightarrow> options \<Rightarrow> bool" where
  "honours_refresh srv base path opts \<longleftrightarrow>
    (\<forall>e tok r e' st st' r2 e2. srv e (refresh_request base tok) = (Reply r, e') \<longrightarrow> apply_refresh (Reply r) st = (True, st') \<longrightarrow>
       srv e' (build_request base path opts st') = (Reply r2, e2) \<longrightarrow> resp_status r2 \<noteq> 401)"

definition paired :: "storage \<Rightarrow> bool" where
  "paired st \<longleftrightarrow> (access_token st = None \<longleftrightarrow> refresh_token st = None)"

section \<open>Properties\<close>

text \<open>
  A call that meets an expired access token recovers by itself: when the first
  answer is 401, the stored refresh token is accepted and the second answer is not another 401,
  the call settles with the second answer, the second request carries the new access token as its
  bearer token, and both new tokens are the ones in storage afterwards.
\<close>

theorem apiRequest_refresh_and_retry:
  assumes "srv e (build_request base path opts (store b)) = (Reply r1, e1)"
    and "resp_status r1 = 401" and "shouldRefresh path"
    and "refresh_token (store b) = Some tok" and "tok \<noteq> []"
    and "srv e1 (refresh_request base tok) = (Reply rr, e2)" and "resp_ok rr"
    and "jprop (resp_data rr) ''access_token'' = Some (JStr a)" and "a \<noteq> []"
    and "jprop (resp_data rr) ''refresh_token'' = Some (JStr t)" and "t \<noteq> []"
    and "\<And>st. access_token st = Some a \<Longrightarrow> refresh_token st = Some t \<Longrightarrow>
           srv e2 (build_request base path opts st) = (Reply r2, e3)"
    and "resp_status r2 \<noteq> 401"
  shows "\<exists>b'. apiRequest srv base (Suc (Suc n)) path opts b e = Some (settle r2, b', e3)
           \<and> access_token (store b') = Some a \<and> refresh_token (store b') = Some t
           \<and> obj_get (rq_headers (build_request base path opts (store b'))) ''authorization''
               = Some (''Bearer '' @ a)
           \<and> pathname b' = pathname b \<and> events b' = events b"
proof -
  obtain st' where st': "apply_refresh (Reply rr) (store b) = (True, st')"
    "access_token st' = Some a" "refresh_token st' = Some t"
    using apply_refresh_granted assms(7-11) by blast
  have ref: "refreshAccessToken srv base b e1 = (True, b\<lparr>store := st'\<rparr>, e2)"
    using assms(4-6) st'(1) by (simp add: refreshAccessToken_def)
  have second: "srv e2 (build_request base path opts st') = (Reply r2, e3)"
    using assms(12) st'(2,3) by blast
  have "apiRequest srv base (Suc (Suc n)) path opts b e = Some (settle r2, b\<lparr>store := st'\<rparr>, e3)"
    using assms(1-3,13) ref second by simp
  moreover have "obj_get (rq_headers (build_request base path opts st')) ''authorization'' = Some (''Bearer '' @ a)"
    using st'(2) assms(9) by (simp add: build_request_def request_headers_token)
  ultimately show ?thesis using st'(2,3) by auto
qed

text \<open>
  A small server for the witnesses. Its state is the access token it accepts; a refresh issues
  the token \<^verbatim>\<open>new\<close>; any other request is answered 200 when its bearer token is the
  accepted one and 401 otherwise.
\<close>

definition ok_response :: "json \<Rightarrow> response" where
  "ok_response j = \<lparr>resp_status = 200, resp_statusText = ''OK'', resp_json = Some j\<rparr>"

definition unauthorized_response :: response where
  "unauthorized_response = \<lparr>resp_status = 401, resp_statusText = ''Unauthorized'', resp_json = None\<rparr>"

definition token_pair :: json where
  "token_pair = JObj [(''access_token'', JStr ''new''), (''refresh_token'', JStr ''next'')]"

definition demo_server :: "string server" where
  "demo_server accepted rq =
    (if rq_url rq = refresh_path then (Reply (ok_response token_pair), ''new'')
     else if obj_get (rq_headers rq) ''authorization'' = Some (''Bearer '' @ accepted)
       then (Reply (ok_response (JObj [])), accepted)
     else (Reply unauthorized_response, accepted))"

definition demo_browser :: browser where
  "demo_browser = \<lparr>store = \<lparr>access_token = Some ''old'', refresh_token = Some ''r1'', stored_user = None\<rparr>,
                   pathname = ''/users'', events = []\<rparr>"

lemmas demo_simps = demo_server_def demo_browser_def ok_response_def unauthorized_response_def
  token_pair_def build_request_def request_headers_def refresh_request_def refresh_path_def
  login_path_def get_options_def resp_ok_def resp_data_def shouldRefresh_def starts_with_def

theorem apiRequest_refresh_and_retry_witness:
  "\<exists>b'. apiRequest demo_server [] 2 ''/x'' get_options demo_browser ''new''
          = Some (settle (ok_response (JObj [])), b', ''new'')
        \<and> access_token (store b') = Some ''new''"
proof -
  have "\<exists>b'. apiRequest demo_server [] (Suc (Suc 0)) ''/x'' get_options demo_browser ''new''
           = Some (settle (ok_response (JObj [])), b', ''new'')
         \<and> access_token (store b') = Some ''new'' \<and> refresh_token (store b') = Some ''next''
         \<and> obj_get (rq_headers (build_request [] ''/x'' get_options (store b'))) ''authorization''
             = Some (''Bearer '' @ ''new'')
         \<and> pathname b' = pathname demo_browser \<and> events b' = events demo_browser"
    by (rule apiRequest_refresh_and_retry
          [where ?r1.0 = unauthorized_response and ?e1.0 = "''new''" and tok = "''r1''"
             and rr = "ok_response token_pair" and ?e2.0 = "''new''" and a = "''new''" and t = "''next''"])
       (simp_all add: demo_simps)
  then show ?thesis by (auto simp: numeral_2_eq_2)
qed

text \<open>
  Property C2. When the session cannot be refreshed (no refresh token in storage, or the refresh is
  answered without a fresh pair of tokens), a 401 ends in a logged-out browser: the three storage
  keys are gone, the logout event is dispatched, the location is the login page (replaced only if it
  was another one), and the caller receives the 401 as an authentication error.
\<close>

theorem apiRequest_refresh_denied:
  assumes "srv e (build_request base path opts (store b)) = (Reply r, e1)"
    and "resp_status r = 401" and "shouldRefresh path"
    and "refreshAccessToken srv base b e1 = (False, b2, e2)"
  shows "apiRequest srv base (Suc n) path opts b e =
           Some (Inl (ApiError 401 ''AUTHENTICATION_ERROR'' (cleanServerMessage (resp_data r) r)),
                 clearAuthAndRedirect b, e2)
         \<and> store (clearAuthAndRedirect b) = empty_storage
         \<and> pathname (clearAuthAndRedirect b) = ''/login''
         \<and> events (clearAuthAndRedirect b) =
             events b @ LogoutEvent # (if pathname b = ''/login'' then [] else [ReplaceLocation ''/login''])"
proof -
  have "b2 = b" using refreshAccessToken_store [OF assms(4)] by simp
  moreover have "settle r = Inl (ApiError 401 ''AUTHENTICATION_ERROR'' (cleanServerMessage (resp_data r) r))"
    using assms(2) status_401_not_ok by (simp add: settle_def error_code_401)
  ultimately show ?thesis
    using assms by (simp add: clearAuthAndRedirect_events)
qed

theorem apiRequest_refresh_denied_witness:
  "apiRequest (\<lambda>e rq. (Reply unauthorized_response, e)) [] 1 ''/x'' get_options demo_browser ()
     = Some (Inl (ApiError 401 ''AUTHENTICATION_ERROR'' (cleanServerMessage (JObj []) unauthorized_response)),
             clearAuthAndRedirect demo_browser, ())"
proof -
  have "refreshAccessToken (\<lambda>e rq. (Reply unauthorized_response, e)) [] demo_browser () = (False, demo_browser, ())"
    by (simp add: refreshAccessToken_def apply_refresh_def demo_simps)
  from apiRequest_refresh_denied [OF _ _ _ this, where path = "''/x''" and opts = get_options
      and e = "()" and r = unauthorized_response and n = 0]
  show ?thesis by (simp add: demo_simps)
qed



text \<open>
  Against a server that honours the tokens it issues, every call settles within two rounds: two requests and
  one refresh at most.
\<close>

lemma honoured_call_settles:
  assumes "shouldRefresh path \<longrightarrow> honours_refresh srv base path opts"
  shows "\<exists>res. apiRequest srv base 2 path opts b e = Some res"
proof -
  obtain reply e1 where srv: "srv e (build_request base path opts (store b)) = (reply, e1)" by fastforce
  obtain ok b2 e2 where ref: "refreshAccessToken srv base b e1 = (ok, b2, e2)" by (metis prod_cases3)
  have "\<exists>res. apiRequest srv base (Suc 0) path opts b2 e2 = Some res" if "ok" "shouldRefresh path"
  proof -
    from ref that(1) obtain tok r where r: "srv e1 (refresh_request base tok) = (Reply r, e2)"
        "apply_refresh (Reply r) (store b) = (True, store b2)"
      by (auto simp: refreshAccessToken_def split: option.splits prod.splits)
         (metis (no_types, lifting) apply_refresh_def net_reply.exhaust net_reply.simps(6) prod.inject)
    obtain reply2 e3 where srv2: "srv e2 (build_request base path opts (store b2)) = (reply2, e3)" by fastforce
    have "resp_status r2 \<noteq> 401" if "reply2 = Reply r2" for r2
      using assms \<open>shouldRefresh path\<close> r srv2 that unfolding honours_refresh_def by blast
    then show ?thesis using srv2 by (cases reply2) simp_all
  qed
  then have "\<exists>res. apiRequest srv base (Suc (Suc 0)) path opts b e = Some res"
    using srv ref by (cases reply; cases ok; cases "shouldRefresh path") simp_all
  then show ?thesis by (simp add: numeral_2_eq_2)
qed

text \<open>
  The two tokens in storage are written and removed together: a call never leaves one
  of them without the other, on any path through refresh, retry and logout.
\<close>

theorem apiRequest_keeps_tokens_paired:
  assumes "apiRequest srv base n path opts b e = Some (res, b', e')" and "paired (store b)"
  shows "paired (store b')"
  using assms
proof (induction n arbitrary: b e)
  case (Suc n)
  obtain reply e1 where srv: "srv e (build_request base path opts (store b)) = (reply, e1)" by fastforce
  obtain ok b2 e2 where ref: "refreshAccessToken srv base b e1 = (ok, b2, e2)" by (metis prod_cases3)
  have "paired (store b2)"
    using refreshAccessToken_store [OF ref] Suc.prems(2) by (auto simp: paired_def split: if_splits)
  moreover have "paired empty_storage" by (simp add: paired_def empty_storage_def)
  ultimately show ?case
    using Suc.prems Suc.IH [of b2 e2] srv ref by (cases reply) (auto split: if_splits)
qed simp

theorem apiRequest_keeps_tokens_paired_witness:
  "paired (store (clearAuthAndRedirect demo_browser))"
proof -
  have "apiRequest (\<lambda>e rq. (Reply unauthorized_response, e)) [] 1 ''/x'' get_options demo_browser ()
     = Some (settle unauthorized_response, clearAuthAndRedirect demo_browser, ())"
    by (simp add: refreshAccessToken_def apply_refresh_def demo_simps)
  from apiRequest_keeps_tokens_paired [OF this] show ?thesis
    by (simp add: paired_def demo_browser_def)
qed

text \<open>
  The detail of every error is normalised: no leading or trailing white space, blanks
  as the only white space, never two in a row; and the code is chosen by the status alone, so that
  every status of 500 and above is a server error.
\<close>

theorem failed_response_error:
  assumes "\<not> resp_ok r"
  shows "\<exists>detail. settle r = Inl (ApiError (resp_status r) (errorCodeForStatus (resp_status r)) detail)
           \<and> trim detail = detail \<and> single_blanks detail
           \<and> (resp_status r \<ge> 500 \<longrightarrow> errorCodeForStatus (resp_status r) = ''SERVER_ERROR'')"
proof -
  have "errorCodeForStatus k = ''SERVER_ERROR''" if "k \<ge> 500" for k
    using that by (auto simp: errorCodeForStatus_def STATUS_ERROR_CODES_def)
  then show ?thesis
    using assms by (simp add: settle_def cleanServerMessage_def Let_def single_blanks_trim single_blanks_collapse)
qed

theorem failed_response_error_witness:
  "\<exists>detail. settle \<lparr>resp_status = 503, resp_statusText = ''Service Unavailable'', resp_json = None\<rparr>
      = Inl (ApiError 503 ''SERVER_ERROR'' detail) \<and> trim detail = detail"
  using failed_response_error [of "\<lparr>resp_status = 503, resp_statusText = ''Service Unavailable'', resp_json = None\<rparr>"]
  by (auto simp: resp_ok_def)

lemma listPage_url_decodes:
  assumes "CHR ''?'' \<notin> set path" and "obj_wf params"
  shows "\<exists>rest. listPage_url path params = path @ rest
           \<and> parse_query rest =
               map (\<lambda>(k, v). (k, pval_string v)) (filter (\<lambda>(k, v). pval_kept v) (obj_entries params))"
proof -
  let ?q = "map (\<lambda>(k, v). (k, pval_string v)) (filter (\<lambda>(k, v). pval_kept v) (obj_entries params))"
  have "fold (\<lambda>(k, v) q. if pval_kept v then query_set k (pval_string v) q else q)
          (obj_entries params) [] = ?q"
    using fold_query_set [of "[]" "obj_entries params"] distinct_entries [OF assms(2)] by simp
  moreover have "parse_query [] = []" by (simp add: parse_query_def)
  ultimately have url: "listPage_url path params = path @ (if query_string ?q \<noteq> [] then ''?'' @ query_string ?q else [])"
    using assms(1) by (simp add: listPage_url_def split_on_free Let_def)
  show ?thesis
  proof (cases "query_string ?q = []")
    case True
    then show ?thesis using url query_string_Nil [of ?q] by (simp add: parse_query_def)
  next
    case False
    have "parse_query (''?'' @ query_string ?q) = parse_query (query_string ?q)"
      using query_string_head [of ?q] by (simp add: parse_query_def)
    with False url show ?thesis using parse_query_string [of ?q] by auto
  qed
qed

text \<open>
  The address built by \<^verbatim>\<open>listPage\<close> for a path without a query says exactly what the
  page asked for: decoding its query string gives back every parameter that is neither undefined
  nor the empty string, with its value as text, in the order of the parameter object, and nothing
  else.
\<close>

theorem listPage_url_params:
  assumes "CHR ''?'' \<notin> set path" and "obj_wf params"
  shows "\<exists>rest. listPage_url path params = path @ rest
           \<and> parse_query rest =
               map (\<lambda>(k, v). (k, pval_string v)) (filter (\<lambda>(k, v). pval_kept v) (obj_entries params))"
  using assms by (rule listPage_url_decodes)

theorem listPage_url_params_witness:
  "\<exists>rest. listPage_url ''/users'' [(''q'', PStr ''a b''), (''s'', PStr []), (''page'', PNum 2)] = ''/users'' @ rest
      \<and> parse_query rest = [(''q'', ''a b''), (''page'', ''2'')]"
proof -
  have e: "obj_entries [(''q'', PStr ''a b''), (''s'', PStr []), (''page'', PNum 2)]
      = [(''q'', PStr ''a b''), (''s'', PStr []), (''page'', PNum 2)]"
    by (simp add: obj_entries_def is_index_key_def is_digit_char_def)
  have "obj_wf [(''q'', PStr ''a b''), (''s'', PStr []), (''page'', PNum 2)]"
    by (simp add: obj_wf_def)
  moreover have "int_str 2 = ''2''" by code_simp
  ultimately show ?thesis
    using listPage_url_params [of "''/users''" "[(''q'', PStr ''a b''), (''s'', PStr []), (''page'', PNum 2)]"]
    by (simp add: e pval_kept_def)
qed

end
