(* ===== verification/Widgets.thy ===== *)
theory Widgets
  imports Api_Client
begin

text \<open>
  The shared components under \<^verbatim>\<open>src/notification-admin-ui/src/components\<close>: the toast list,
  the confirmation dialog, the searchable select with the tenant filter built on it, the status badge
  and toggle, and the icon choice of modal buttons. Rendering is modelled by what is shown and which
  controls are enabled; style classes are left out.
\<close>

section \<open>Toasts\<close>

datatype toast_kind = TSuccess | TError | TInfo

record toast_item =
  toast_id :: int
  toast_kind :: toast_kind
  toast_title :: string
  toast_message :: "string option"

text \<open>
  What a handler asks of \<^verbatim>\<open>useToast\<close>: \<^verbatim>\<open>toast.success(title, message)\<close> and its kin. The
  provider chooses the identifier from the clock and a random number, here an argument.
\<close>

type_synonym toast_call = "toast_kind \<times> string \<times> string option"

definition toast_push :: "int \<Rightarrow> toast_call \<Rightarrow> toast_item list \<Rightarrow> toast_item list" where
  "toast_push ident call current =
    (case call of (kind, title, message) \<Rightarrow>
       slice_last 4 (current @ [\<lparr>toast_id = ident, toast_kind = kind, toast_title = title, toast_message = message\<rparr>]))"

text \<open>The close button and the five second timer do the same.\<close>

definition toast_dismiss :: "int \<Rightarrow> toast_item list \<Rightarrow> toast_item list" where
  "toast_dismiss ident current = filter (\<lambda>item. toast_id item \<noteq> ident) current"

datatype toast_event = Push int toast_call | Dismiss int

fun toast_step :: "toast_item list \<Rightarrow> toast_event \<Rightarrow> toast_item list" where
  "toast_step ts (Push ident call) = toast_push ident call ts"
| "toast_step ts (Dismiss ident) = toast_dismiss ident ts"

definition toast_run :: "toast_item list \<Rightarrow> toast_event list \<Rightarrow> toast_item list" where
  "toast_run = foldl toast_step"

section \<open>Confirmation dialog\<close>

datatype confirm_variant = CPrimary | CDanger

record 'act confirm_intent =
  intent_title :: string
  intent_description :: "string option"
  intent_body :: "string list"
  intent_confirmLabel :: "string option"
  intent_variant :: "confirm_variant option"
  intent_onConfirm :: 'act

record 'act confirm_state =
  intent :: "'act confirm_intent option"
  running :: bool

definition confirm_init :: "'act confirm_state" where
  "confirm_init = \<lparr>intent = None, running = False\<rparr>"

text \<open>
  \<^verbatim>\<open>confirm\<close> up to its \<^verbatim>\<open>await\<close>: the action that is started, if any; then the two ways
  the action can settle.
\<close>

definition confirm_start :: "'act confirm_state \<Rightarrow> 'act option \<times> 'act confirm_state" where
  "confirm_start s =
    (case intent s of
       None \<Rightarrow> (None, s)
     | Some i \<Rightarrow> (Some (intent_onConfirm i), s\<lparr>running := True\<rparr>))"

definition confirm_finish :: "bool \<Rightarrow> 'act confirm_state \<Rightarrow> 'act confirm_state" where
  "confirm_finish ok s = (if ok then s\<lparr>intent := None\<rparr> else s)\<lparr>running := False\<rparr>"

definition confirm_close :: "'act confirm_state \<Rightarrow> 'act confirm_state" where
  "confirm_close s = (if \<not> running s then s\<lparr>intent := None\<rparr> else s)"

definition requestConfirm :: "'act confirm_intent \<Rightarrow> 'act confirm_state \<Rightarrow> 'act confirm_state" where
  "requestConfirm i s = s\<lparr>intent := Some i\<rparr>"

text \<open>What the dialog shows: label and enabledness of its two buttons.\<close>

record dialog_view =
  dv_title :: string
  dv_cancel_enabled :: bool
  dv_confirm_enabled :: bool
  dv_confirm_danger :: bool
  dv_confirm_label :: string

definition confirmDialog :: "'act confirm_state \<Rightarrow> dialog_view option" where
  "confirmDialog s =
    (case intent s of
       None \<Rightarrow> None
     | Some i \<Rightarrow> Some
         \<lparr>dv_title = intent_title i,
          dv_cancel_enabled = (\<not> running s),
          dv_confirm_enabled = (\<not> running s),
          dv_confirm_danger = (intent_variant i = Some CDanger),
          dv_confirm_label = (if running s then ''Saving...'' else or_opt (intent_confirmLabel i) ''Confirm'')\<rparr>)"

text \<open>
  The dialog under a user: a click acts only on a rendered, enabled control. While a dialog is open it
  covers the page, so a new request comes only when none is shown. The second component counts the
  actions started.
\<close>

inductive dialog_step :: "'act confirm_state \<times> 'act list \<Rightarrow> 'act confirm_state \<times> 'act list \<Rightarrow> bool" where
  request: "intent s = None \<Longrightarrow> dialog_step (s, log) (requestConfirm i s, log)"
| click: "confirmDialog s = Some v \<Longrightarrow> dv_confirm_enabled v \<Longrightarrow> confirm_start s = (Some a, s') \<Longrightarrow>
     dialog_step (s, log) (s', log @ [a])"
| settled: "running s \<Longrightarrow> dialog_step (s, log) (confirm_finish ok s, log)"
| cancel: "confirmDialog s = Some v \<Longrightarrow> dv_cancel_enabled v \<Longrightarrow> dialog_step (s, log) (s\<lparr>intent := None\<rparr>, log)"
| close: "dialog_step (s, log) (confirm_close s, log)"

abbreviation dialog_reachable :: "'act confirm_state \<times> 'act list \<Rightarrow> bool" where
  "dialog_reachable \<equiv> reachable (\<lambda>c. c = (confirm_init, [])) dialog_step"

section \<open>Searchable select\<close>

record select_option =
  so_value :: string
  so_label :: string
  so_disabled :: bool

record select_state =
  ss_open :: bool
  ss_query :: string

definition select_init :: select_state where
  "select_init = \<lparr>ss_open = False, ss_query = []\<rparr>"

definition select_filtered :: "select_option list \<Rightarrow> select_state \<Rightarrow> select_option list" where
  "select_filtered opts s =
     filter (\<lambda>opt. str_includes (to_lower (so_label opt)) (to_lower (ss_query s))) opts"

definition select_toggle :: "select_state \<Rightarrow> select_state" where
  "select_toggle s = s\<lparr>ss_open := \<not> ss_open s, ss_query := []\<rparr>"

definition select_search :: "string \<Rightarrow> select_state \<Rightarrow> select_state" where
  "select_search q s = s\<lparr>ss_query := q\<rparr>"

text \<open>A press of the mouse outside of both the control and the menu closes it.\<close>

definition select_outside :: "select_state \<Rightarrow> select_state" where
  "select_outside s = s\<lparr>ss_open := False\<rparr>"

text \<open>
  A click on a menu entry: only entries of the open, filtered menu can be clicked, and a disabled
  entry does nothing. The result is the value reported to \<^verbatim>\<open>onChange\<close>.
\<close>

definition select_choose :: "select_option list \<Rightarrow> nat \<Rightarrow> select_state \<Rightarrow> string option \<times> select_state" where
  "select_choose opts k s =
    (if ss_open s \<and> k < length (select_filtered opts s) \<and> \<not> so_disabled (select_filtered opts s ! k)
     then (Some (so_value (select_filtered opts s ! k)), s\<lparr>ss_open := False\<rparr>)
     else (None, s))"

definition select_label :: "string \<Rightarrow> select_option list \<Rightarrow> string \<Rightarrow> string" where
  "select_label value opts placeholder =
    (case find (\<lambda>opt. so_value opt = value) opts of
       Some opt \<Rightarrow> or_str (so_label opt) placeholder
     | None \<Rightarrow> placeholder)"

record tenant_option =
  to_id :: string
  to_name :: string
  to_slug :: "string option"

definition TenantFilter_options :: "tenant_option list \<Rightarrow> select_option list" where
  "TenantFilter_options tenants =
    \<lparr>so_value = [], so_label = ''All tenants'', so_disabled = False\<rparr> #
    map (\<lambda>t. \<lparr>so_value = to_id t,
              so_label = (case to_slug t of
                            Some slug \<Rightarrow> if slug \<noteq> [] then to_name t @ '' ('' @ slug @ '')'' else to_name t
                          | None \<Rightarrow> to_name t),
              so_disabled = False\<rparr>) tenants"

section \<open>Status badge and toggle\<close>

definition positive :: "string list" where
  "positive = [''active'', ''enabled'', ''sent'', ''approved'', ''healthy'', ''connected'', ''sending'']"

definition negative :: "string list" where
  "negative = [''inactive'', ''disabled'', ''failed'', ''revoked'', ''cancelled'', ''dead'', ''blocked'']"

datatype status_value = StatusText "string option" | StatusFlag bool

datatype badge_tone = Good | Bad | Pending

definition StatusBadge :: "status_value \<Rightarrow> badge_tone \<times> string" where
  "StatusBadge status =
    (let value = (case status of
                    StatusFlag b \<Rightarrow> if b then ''enabled'' else ''disabled''
                  | StatusText s \<Rightarrow> to_lower (or_opt s ''unknown''))
     in (if List.member positive value then Good else if List.member negative value then Bad else Pending,
         replace_all_char CHR ''_'' CHR '' '' value))"

record toggle_view =
  tv_checked :: bool
  tv_label :: string
  tv_title :: string
  tv_enabled :: bool

definition StatusToggle :: "bool \<Rightarrow> string \<Rightarrow> bool \<Rightarrow> toggle_view" where
  "StatusToggle value label disabled =
    (let status = (if value then ''Enabled'' else ''Disabled'')
     in \<lparr>tv_checked = value, tv_label = label @ '': '' @ status, tv_title = status, tv_enabled = (\<not> disabled)\<rparr>)"

section \<open>Modal buttons\<close>

datatype modal_icon = LoaderCircle | XIcon | Trash2 | PencilIcon | PlusIcon | CheckIcon | SaveIcon

definition modalIcon :: "string option \<Rightarrow> modal_icon option" where
  "modalIcon children =
    (let label = to_lower (case children of Some s \<Rightarrow> s | None \<Rightarrow> []);
         inc = str_includes label
     in if inc ''creating'' \<or> inc ''saving'' \<or> inc ''deleting'' then Some LoaderCircle
        else if inc ''cancel'' \<or> inc ''close'' then Some XIcon
        else if inc ''delete'' \<or> inc ''revoke'' then Some Trash2
        else if inc ''edit'' then Some PencilIcon
        else if inc ''create'' \<or> inc ''add'' then Some PlusIcon
        else if inc ''save'' \<or> inc ''saved'' then (if inc ''saved'' then Some CheckIcon else Some SaveIcon)
        else None)"

text \<open>The keyboard handler of an open modal.\<close>

definition modal_key :: "string \<Rightarrow> bool" where
  "modal_key key \<longleftrightarrow> key = ''Escape''"

section \<open>Lemmas\<close>

text \<open>
  A bounded list of transient items: the contract of the toast list towards the pages.
\<close>

locale bounded_log =
  fixes add :: "'i \<Rightarrow> 'c \<Rightarrow> 'l \<Rightarrow> 'l"
    and drop_id :: "'i \<Rightarrow> 'l \<Rightarrow> 'l"
    and ids :: "'l \<Rightarrow> 'i list"
    and bound :: nat
  assumes bound_pos: "0 < bound"
    and ids_add: "ids (add i c l) = slice_last bound (ids l @ [i])"
    and ids_drop: "ids (drop_id i l) = filter (\<lambda>j. j \<noteq> i) (ids l)"
begin

lemma length_add: "length (ids (add i c l)) \<le> bound"
  by (simp add: ids_add)

lemma newest_kept: "ids (add i c l) \<noteq> [] \<and> last (ids (add i c l)) = i"
  using bound_pos by (auto simp: ids_add slice_last_def)

lemma dropped: "i \<notin> set (ids (drop_id i l))"
  by (simp add: ids_drop)

lemma drop_keeps_bound: "length (ids l) \<le> bound \<Longrightarrow> length (ids (drop_id i l)) \<le> bound"
  by (simp add: ids_drop) (meson le_trans length_filter_le)

end

lemma slice_last_map: "slice_last n (map f xs) = map f (slice_last n xs)"
  by (simp add: slice_last_def drop_map)

interpretation toasts: bounded_log toast_push toast_dismiss "map toast_id" 4
proof
  fix i :: int and c :: toast_call and l :: "toast_item list"
  show "map toast_id (toast_push i c l) = slice_last 4 (map toast_id l @ [i])"
    by (cases c) (simp add: toast_push_def flip: slice_last_map)
  show "map toast_id (toast_dismiss i l) = filter (\<lambda>j. j \<noteq> i) (map toast_id l)"
    by (simp add: toast_dismiss_def filter_map comp_def)
qed simp

lemma toast_run_simps [simp]:
  "toast_run ts [] = ts" "toast_run ts (e # es) = toast_run (toast_step ts e) es"
  by (simp_all add: toast_run_def)

lemma toast_step_bound: "length ts \<le> 4 \<Longrightarrow> length (toast_step ts e) \<le> 4"
  using toasts.length_add toasts.drop_keeps_bound by (cases e) (auto simp: length_map)

lemma toast_run_bound: "length ts \<le> 4 \<Longrightarrow> length (toast_run ts es) \<le> 4"
  by (induction es arbitrary: ts) (auto intro: toast_step_bound)

definition dialog_inv :: "'act confirm_state \<times> 'act list \<Rightarrow> bool" where
  "dialog_inv c \<longleftrightarrow> (running (fst c) \<longrightarrow>
     (\<exists>i. intent (fst c) = Some i \<and> snd c \<noteq> [] \<and> last (snd c) = intent_onConfirm i))"

lemma dialog_step_inv: "dialog_step c c' \<Longrightarrow> dialog_inv c \<Longrightarrow> dialog_inv c'"
  by (induction rule: dialog_step.induct)
     (auto simp: dialog_inv_def requestConfirm_def confirm_start_def confirm_finish_def confirm_close_def
        confirmDialog_def split: option.splits if_splits)

interpretation dialog: step_invariant dialog_step dialog_inv "\<lambda>c. c = (confirm_init, [])"
  by unfold_locales (erule (1) dialog_step_inv, simp add: dialog_inv_def confirm_init_def)

inductive_cases dialog_stepE: "dialog_step (s, log) (s', log')"

lemma select_choose_sound:
  "select_choose opts k s = (Some v, s') \<Longrightarrow>
     \<exists>opt \<in> set opts. so_value opt = v \<and> \<not> so_disabled opt
        \<and> str_includes (to_lower (so_label opt)) (to_lower (ss_query s))"
proof -
  assume *: "select_choose opts k s = (Some v, s')"
  then have "k < length (select_filtered opts s)" and v: "v = so_value (select_filtered opts s ! k)"
    and nd: "\<not> so_disabled (select_filtered opts s ! k)"
    by (auto simp: select_choose_def split: if_splits)
  then have "select_filtered opts s ! k \<in> set (select_filtered opts s)" by simp
  with v nd show ?thesis by (auto simp: select_filtered_def)
qed

section \<open>Properties\<close>

text \<open>
  The toast list stays small and current: whatever the sequence of pushes, dismissals and
  timeouts, at most four toasts are shown; right after a push the newest toast is the last one; and
  after its own dismissal or timeout no toast with that identifier is left.
\<close>

theorem toast_list_bounded:
  assumes "length ts \<le> 4"
  shows "length (toast_run ts es) \<le> 4
     \<and> map toast_id (toast_run ts (es @ [Push i c])) \<noteq> []
     \<and> last (map toast_id (toast_run ts (es @ [Push i c]))) = i
     \<and> i \<notin> set (map toast_id (toast_run ts (es @ [Dismiss i])))"
proof -
  have "toast_run ts (es @ [e]) = toast_step (toast_run ts es) e" for e
    by (simp add: toast_run_def)
  then show ?thesis
    using toast_run_bound [OF assms, of es] toasts.newest_kept [of i c "toast_run ts es"]
      toasts.dropped [of i "toast_run ts es"] by simp
qed

theorem toast_list_bounded_witness:
  "length (toast_run [] [Push 1 (TInfo, ''a'', None), Push 2 (TInfo, ''b'', None)]) \<le> 4"
  using toast_list_bounded [of "[]" "[Push 1 (TInfo, ''a'', None), Push 2 (TInfo, ''b'', None)]" 3 "(TInfo, ''c'', None)"]
  by simp

text \<open>
  Property C16. A confirmed action runs once: in every reachable state of a confirmation dialog, while
  an action runs its dialog stays open with both buttons disabled, so that no step starts an action
  before the running one has settled, and neither the cancel button nor a close can drop the dialog
  meanwhile.
\<close>

theorem confirm_runs_one_action:
  assumes "dialog_reachable (s, log)" and "running s" and "dialog_step (s, log) (s', log')"
  shows "log' = log \<and> (\<exists>i. intent s = Some i \<and> last log = intent_onConfirm i)
     \<and> (\<exists>v. confirmDialog s = Some v \<and> \<not> dv_confirm_enabled v \<and> \<not> dv_cancel_enabled v)
     \<and> (s' = s \<or> (\<exists>ok. s' = confirm_finish ok s))"
proof -
  obtain i where i: "intent s = Some i" "last log = intent_onConfirm i"
    using dialog.always [OF assms(1)] assms(2) by (auto simp: dialog_inv_def)
  then show ?thesis
    using assms(2,3) by (auto elim!: dialog_stepE simp: confirmDialog_def confirm_close_def)
qed

definition demo_intent :: "nat confirm_intent" where
  "demo_intent = \<lparr>intent_title = ''Delete user'', intent_description = None, intent_body = [], intent_confirmLabel = None,
                  intent_variant = Some CDanger, intent_onConfirm = 7\<rparr>"

theorem confirm_runs_one_action_witness:
  "\<exists>v. confirmDialog \<lparr>intent = Some demo_intent, running = True\<rparr> = Some v \<and> \<not> dv_confirm_enabled v"
proof -
  let ?s = "\<lparr>intent = Some demo_intent, running = False\<rparr>" and ?r = "\<lparr>intent = Some demo_intent, running = True\<rparr>"
  have "dialog_step (confirm_init, []) (requestConfirm demo_intent confirm_init, [])"
    by (rule dialog_step.request) (simp add: confirm_init_def)
  then have "dialog_reachable (requestConfirm demo_intent confirm_init, [])"
    by (rule reachable_once) (rule refl)
  then have "dialog_reachable (?s, [])" by (simp add: requestConfirm_def confirm_init_def)
  moreover have "dialog_step (?s, []) (?r, [] @ [7])"
    by (rule dialog_step.click [where v = "the (confirmDialog ?s)"])
       (simp_all add: confirmDialog_def confirm_start_def demo_intent_def)
  ultimately have "dialog_reachable (?r, [7])" by (metis reachable.step append_Nil)
  moreover have "dialog_step (?r, [7]) (confirm_close ?r, [7])" by (rule dialog_step.close)
  ultimately show ?thesis using confirm_runs_one_action [of ?r "[7]" "confirm_close ?r" "[7]"] by auto
qed

end
