(* ===== verification/Template_Text.thy ===== *)
theory Template_Text
  imports Widgets
begin

text \<open>
  The text functions of
  \<^verbatim>\<open>src/notification-admin-ui/src/pages/notifications/SendNotificationPage.tsx\<close>: placeholders of
  a template, their replacement, the plain rendering of light markup, the size of a text message and
  the address check. A regular expression of the source is a matching function that returns what the
  groups captured and the text that is left; a global replacement scans from left to right and goes on
  behind each match.
\<close>

section \<open>Placeholders\<close>

text \<open>The character class \<^verbatim>\<open>[a-zA-Z0-9_.-]\<close>.\<close>

definition is_name_char :: "char \<Rightarrow> bool" where
  "is_name_char c = (let n = of_char c :: nat in
     (97 \<le> n \<and> n \<le> 122) \<or> (65 \<le> n \<and> n \<le> 90) \<or> (48 \<le> n \<and> n \<le> 57)
     \<or> c = CHR ''_'' \<or> c = CHR ''.'' \<or> c = CHR ''-'')"

text \<open>
  A match of \<^verbatim>\<open>{{\s*(name)\s*}}\<close> at the start of the text: the captured name and the rest. White
  space, name characters and braces exclude each other, so that no backtracking is needed.
\<close>

definition match_placeholder :: "string \<Rightarrow> (string \<times> string) option" where
  "match_placeholder s =
    (if starts_with s ''{{'' then
       (let s1 = dropWhile is_ws (drop 2 s);
            name = takeWhile is_name_char s1;
            s2 = dropWhile is_ws (dropWhile is_name_char s1)
        in if name \<noteq> [] \<and> starts_with s2 ''}}'' then Some (name, drop 2 s2) else None)
     else None)"

lemma match_placeholder_shorter: "match_placeholder s = Some (k, rest) \<Longrightarrow> length rest < length s"
proof -
  assume m: "match_placeholder s = Some (k, rest)"
  then have sw: "starts_with s ''{{''"
    by (simp add: match_placeholder_def Let_def split: if_splits)
  from m sw have r: "rest = drop 2 (dropWhile is_ws (dropWhile is_name_char (dropWhile is_ws (drop 2 s))))"
    by (simp add: match_placeholder_def Let_def split: if_splits)
  have "length s \<noteq> 0" using sw by (auto simp: starts_with_def)
  have le: "length (dropWhile is_ws (dropWhile is_name_char (dropWhile is_ws (drop 2 s)))) \<le> length (drop 2 s)"
    by (meson length_dropWhile_le le_trans)
  have "length rest \<le> length (drop 2 s)" unfolding r using le by simp
  then have "length rest \<le> length s - 2" by simp
  then show ?thesis using \<open>length s \<noteq> 0\<close> by linarith
qed

datatype piece = Lit char | Var string

function template_pieces :: "string \<Rightarrow> piece list" where
  "template_pieces [] = []"
| "template_pieces (c # s) =
    (case match_placeholder (c # s) of
       Some (k, rest) \<Rightarrow> Var k # template_pieces rest
     | None \<Rightarrow> Lit c # template_pieces s)"
  by pat_completeness auto
termination
  by (relation "measure length") (auto dest: match_placeholder_shorter)

declare template_pieces.simps(2) [simp del]

definition piece_keys :: "piece list \<Rightarrow> string list" where
  "piece_keys ps = concat (map (\<lambda>p. case p of Var k \<Rightarrow> [k] | Lit c \<Rightarrow> []) ps)"

definition piece_text :: "string obj \<Rightarrow> piece \<Rightarrow> string" where
  "piece_text values p =
    (case p of Lit c \<Rightarrow> [c] | Var k \<Rightarrow> or_opt (obj_get values k) (''{{'' @ k @ ''}}''))"

definition renderTemplate :: "string \<Rightarrow> string obj \<Rightarrow> string" where
  "renderTemplate template values = concat (map (piece_text values) (template_pieces template))"

text \<open>The names in a subject and a body, each once, in order of appearance.\<close>

definition template_variables :: "string \<Rightarrow> string \<Rightarrow> string list" where
  "template_variables subject body = uniq (piece_keys (template_pieces (subject @ [char_of (10 :: nat)] @ body)))"

section \<open>Light markup\<close>

text \<open>
  A lazy match of \<^verbatim>\<open>(.*?)\<close> up to the next delimiter: the shortest content without a line break that
  is followed by the delimiter.
\<close>

definition is_line_break :: "char \<Rightarrow> bool" where
  "is_line_break c \<longleftrightarrow> of_char c \<in> set [10, 13 :: nat]"

fun lazy_until :: "string \<Rightarrow> string \<Rightarrow> (string \<times> string) option" where
  "lazy_until d [] = (if d = [] then Some ([], []) else None)"
| "lazy_until d (c # s) =
    (if starts_with (c # s) d then Some ([], drop (length d) (c # s))
     else if is_line_break c then None
     else map_option (\<lambda>(body, rest). (c # body, rest)) (lazy_until d s))"

lemma lazy_until_parts: "lazy_until d s = Some (body, rest) \<Longrightarrow> s = body @ d @ rest"
proof (induction d s arbitrary: body rest rule: lazy_until.induct)
  case (2 d c s)
  show ?case
  proof (cases "starts_with (c # s) d")
    case True
    with 2 show ?thesis by (simp add: starts_with_def) (metis append_take_drop_id)
  next
    case False
    with 2 show ?thesis by (auto split: if_splits)
  qed
qed (auto split: if_splits)

lemma lazy_until_shorter:
  "lazy_until d (drop (length d) s) = Some (body, rest) \<Longrightarrow> d \<noteq> [] \<Longrightarrow> length rest < length s"
proof -
  assume "lazy_until d (drop (length d) s) = Some (body, rest)" and "d \<noteq> []"
  then have "drop (length d) s = body @ d @ rest" by (simp add: lazy_until_parts)
  then have "length s - length d = length body + length d + length rest"
    by (metis length_append length_drop add.assoc)
  moreover have "0 < length d" using \<open>d \<noteq> []\<close> by simp
  ultimately show ?thesis by linarith
qed

text \<open>\<^verbatim>\<open>replace(/d(.*?)d/g, '$1')\<close> for a delimiter \<^verbatim>\<open>d\<close>.\<close>

function strip_pairs :: "string \<Rightarrow> string \<Rightarrow> string" where
  "strip_pairs d [] = []"
| "strip_pairs d (c # s) =
    (if d \<noteq> [] \<and> starts_with (c # s) d then
       (case lazy_until d (drop (length d) (c # s)) of
          Some (body, rest) \<Rightarrow> body @ strip_pairs d rest
        | None \<Rightarrow> c # strip_pairs d s)
     else c # strip_pairs d s)"
  by pat_completeness auto
termination
  by (relation "measure (length \<circ> snd)") (auto dest!: lazy_until_shorter)

text \<open>\<^verbatim>\<open>replace(/`([^`]+)`/g, '$1')\<close>: at least one character between the quotes, line breaks allowed.\<close>

function strip_quotes :: "char \<Rightarrow> string \<Rightarrow> string" where
  "strip_quotes q [] = []"
| "strip_quotes q (c # s) =
    (if c = q \<and> takeWhile (\<lambda>x. x \<noteq> q) s \<noteq> [] \<and> dropWhile (\<lambda>x. x \<noteq> q) s \<noteq> []
     then takeWhile (\<lambda>x. x \<noteq> q) s @ strip_quotes q (tl (dropWhile (\<lambda>x. x \<noteq> q) s))
     else c # strip_quotes q s)"
  by pat_completeness auto
termination
  by (relation "measure (length \<circ> snd)") (auto simp: less_Suc_eq_le intro: le_trans [OF diff_le_self length_dropWhile_le])

definition renderMarkdownLite :: "string \<Rightarrow> string" where
  "renderMarkdownLite value = strip_quotes CHR 0x60 (strip_pairs ''__'' (strip_pairs ''**'' value))"

section \<open>Text messages\<close>

record sms_stats =
  sms_length :: nat
  sms_segments :: nat
  sms_limit :: nat

definition smsStats :: "string \<Rightarrow> bool \<Rightarrow> sms_stats" where
  "smsStats value unicode =
    (let single = (if unicode then 70 else 160);
         multipart = (if unicode then 67 else 153);
         len = length value
     in \<lparr>sms_length = len,
         sms_segments = (if len \<le> single then 1 else (len + multipart - 1) div multipart),
         sms_limit = (if len \<le> single then single else multipart)\<rparr>)"

section \<open>Addresses\<close>

text \<open>\<^verbatim>\<open>/^[^\s@]+@[^\s@]+\.[^\s@]+$/\<close>: one at sign, no white space, a dot inside the domain.\<close>

definition valid_email :: "string \<Rightarrow> bool" where
  "valid_email s =
    (list_all (\<lambda>c. \<not> is_ws c) s \<and>
     (case split_on CHR ''@'' s of
        [local, domain] \<Rightarrow> local \<noteq> [] \<and> List.member (butlast (tl domain)) (CHR ''.'')
      | _ \<Rightarrow> False))"

section \<open>Lemmas\<close>

text \<open>The name of a placeholder is a non-empty run of name characters.\<close>

lemma match_placeholder_name:
  "match_placeholder s = Some (k, rest) \<Longrightarrow> k \<noteq> [] \<and> list_all is_name_char k"
  by (auto simp: match_placeholder_def Let_def list_all_iff split: if_splits dest: set_takeWhileD)

lemma name_char_not_ws: "is_name_char c \<Longrightarrow> \<not> is_ws c"
  by (auto simp: is_name_char_def is_ws_def Let_def)

lemma brace_chars [simp]:
  "\<not> is_name_char CHR ''{''" "\<not> is_name_char CHR ''}''" "\<not> is_ws CHR ''{''" "\<not> is_ws CHR ''}''"
  by (simp_all add: is_name_char_def is_ws_def)

text \<open>A placeholder written without blanks is recognised.\<close>

lemma match_placeholder_canonical:
  assumes "k \<noteq> []" and "list_all is_name_char k"
  shows "match_placeholder (''{{'' @ k @ ''}}'' @ rest) = Some (k, rest)"
proof -
  obtain c k' where k: "k = c # k'" using assms(1) by (cases k) auto
  then have "\<not> is_ws c" using assms(2) by (simp add: name_char_not_ws)
  then have ws: "dropWhile is_ws (k @ ''}}'' @ rest) = k @ ''}}'' @ rest" by (simp add: k)
  have nm: "takeWhile is_name_char (k @ ''}}'' @ rest) = k" "dropWhile is_name_char (k @ ''}}'' @ rest) = ''}}'' @ rest"
    using assms(2) by (simp_all add: list_all_iff)
  show ?thesis using assms(1) ws nm by (simp add: match_placeholder_def Let_def starts_with_def)
qed

lemma match_placeholder_brace: "match_placeholder (c # s) = Some r \<Longrightarrow> c = CHR ''{''"
  by (simp add: match_placeholder_def starts_with_def split: if_splits)

lemma template_pieces_names:
  "Var k \<in> set (template_pieces s) \<Longrightarrow> k \<noteq> [] \<and> list_all is_name_char k"
proof (induction s rule: template_pieces.induct)
  case (2 c s)
  show ?case
  proof (cases "match_placeholder (c # s)")
    case None
    with 2 show ?thesis by (simp add: template_pieces.simps)
  next
    case (Some r)
    obtain k' rest where r: "r = (k', rest)" by (cases r)
    from 2(2) [OF Some r [symmetric]] 2(3) Some r match_placeholder_name [of "c # s" k' rest] show ?thesis
      by (auto simp: template_pieces.simps)
  qed
qed simp

lemma set_piece_keys: "k \<in> set (piece_keys ps) \<longleftrightarrow> Var k \<in> set ps"
  by (induction ps) (auto simp: piece_keys_def split: piece.splits)

text \<open>
  Where no placeholder starts, none starts either when the text further on is replaced by text that
  begins with a brace or ends: a match cannot look beyond a brace other than its own.
\<close>

lemma no_brace_template: "CHR ''{'' \<notin> set s \<Longrightarrow> template_pieces s = map Lit s"
proof (induction s)
  case (Cons c s)
  then have "match_placeholder (c # s) = None"
    using match_placeholder_brace [of c s] by (cases "match_placeholder (c # s)") auto
  with Cons show ?case by (simp add: template_pieces.simps)
qed simp

lemma render_no_brace: "CHR ''{'' \<notin> set s \<Longrightarrow> renderTemplate s values = s"
  by (simp add: renderTemplate_def no_brace_template comp_def piece_text_def concat_map_singleton)

text \<open>Rendering looks only at the names that occur.\<close>

lemma render_cong:
  "(\<And>k. k \<in> set (piece_keys (template_pieces t)) \<Longrightarrow> obj_get u k = obj_get v k) \<Longrightarrow> renderTemplate t u = renderTemplate t v"
  by (auto simp: renderTemplate_def set_piece_keys piece_text_def intro!: arg_cong [where f = concat] split: piece.splits)

lemma subseq_strip_pairs: "subseq (strip_pairs d s) s"
proof (induction d s rule: strip_pairs.induct)
  case (2 d c s)
  show ?case
  proof (cases "d \<noteq> [] \<and> starts_with (c # s) d \<and> lazy_until d (drop (length d) (c # s)) \<noteq> None")
    case True
    then obtain body rest where lu: "lazy_until d (drop (length d) (c # s)) = Some (body, rest)" by fastforce
    have "c # s = take (length d) (c # s) @ body @ d @ rest"
      using lazy_until_parts [OF lu] by (metis append_take_drop_id)
    moreover have "subseq (body @ strip_pairs d rest) (take (length d) (c # s) @ body @ d @ rest)"
      using 2 True lu by (simp add: list_emb_append_mono subseq_drop_many)
    ultimately show ?thesis using True lu by simp
  next
    case False
    then have "strip_pairs d (c # s) = c # strip_pairs d s" by (auto split: option.splits)
    moreover have "subseq (strip_pairs d s) s" using 2 False by (cases "lazy_until d (drop (length d) (c # s))") auto
    ultimately show ?thesis by simp
  qed
qed simp

subsection \<open>Rendering without values\<close>

text \<open>Without values every placeholder is printed in its plain form; nothing else changes.\<close>

definition plain_text :: "string \<Rightarrow> string" where
  "plain_text s = renderTemplate s []"

lemma plain_text_Nil [simp]: "plain_text [] = []"
  by (simp add: plain_text_def renderTemplate_def)

lemma plain_text_Cons:
  "plain_text (c # s) =
     (case match_placeholder (c # s) of
        Some (k, rest) \<Rightarrow> ''{{'' @ k @ ''}}'' @ plain_text rest
      | None \<Rightarrow> c # plain_text s)"
  by (simp add: plain_text_def renderTemplate_def template_pieces.simps piece_text_def split: option.splits)

lemma plain_text_other: "c \<noteq> CHR ''{'' \<Longrightarrow> plain_text (c # s) = c # plain_text s"
  using match_placeholder_brace [of c s] by (auto simp: plain_text_Cons split: option.splits)

lemma plain_text_brace: "\<exists>u. plain_text (CHR ''{'' # s) = CHR ''{'' # u"
  by (auto simp: plain_text_Cons split: option.splits)

lemma plain_text_takeWhile:
  "\<not> P CHR ''{'' \<Longrightarrow> takeWhile P (plain_text s) = takeWhile P s \<and> dropWhile P (plain_text s) = plain_text (dropWhile P s)"
proof (induction s)
  case (Cons c s)
  show ?case
  proof (cases "c = CHR ''{''")
    case True
    with Cons.prems plain_text_brace [of s] show ?thesis by auto
  next
    case False
    with Cons show ?thesis by (auto simp: plain_text_other)
  qed
qed simp

lemma plain_text_starts: "CHR ''{'' \<notin> set p \<Longrightarrow> starts_with (plain_text s) p \<Longrightarrow> starts_with s p"
proof (induction s arbitrary: p)
  case (Cons c s)
  show ?case
  proof (cases "c = CHR ''{''")
    case True
    with Cons.prems plain_text_brace [of s] show ?thesis by (cases p) (auto simp: starts_with_def)
  next
    case False
    with Cons show ?thesis by (cases p) (auto simp: plain_text_other starts_with_def)
  qed
qed (simp add: starts_with_def)

lemma match_plain_text:
  assumes "match_placeholder (c # s) = None"
  shows "match_placeholder (c # plain_text s) = None"
proof (rule ccontr)
  assume "match_placeholder (c # plain_text s) \<noteq> None"
  then have sw: "c = CHR ''{''" "starts_with (plain_text s) ''{''"
    and nm: "takeWhile is_name_char (dropWhile is_ws (drop 1 (plain_text s))) \<noteq> []"
    and cl: "starts_with (dropWhile is_ws (dropWhile is_name_char (dropWhile is_ws (drop 1 (plain_text s))))) ''}}''"
    by (auto simp: match_placeholder_def Let_def starts_with_def split: if_splits)
  from sw(2) obtain s' where s: "s = CHR ''{'' # s'"
  proof (cases s)
    case (Cons a s')
    with sw(2) have "a = CHR ''{''" by (cases "a = CHR ''{''") (auto simp: plain_text_other starts_with_def)
    with Cons that show ?thesis by simp
  qed (simp add: starts_with_def)
  show False
  proof (cases "match_placeholder s")
    case (Some r)
    then have "drop 1 (plain_text s) = CHR ''{'' # fst r @ ''}}'' @ plain_text (snd r)"
      by (cases r) (simp add: s plain_text_Cons)
    with nm show False by simp
  next
    case None
    then have p: "drop 1 (plain_text s) = plain_text s'" by (simp add: s plain_text_Cons)
    have "takeWhile is_name_char (dropWhile is_ws s') \<noteq> []"
      and "starts_with (dropWhile is_ws (dropWhile is_name_char (dropWhile is_ws s'))) ''}}''"
      using nm cl unfolding p by (auto simp: plain_text_takeWhile dest: plain_text_starts [rotated])
    then show False using assms sw(1) by (simp add: s match_placeholder_def Let_def starts_with_def)
  qed
qed

lemma template_pieces_plain_text: "template_pieces (plain_text s) = template_pieces s"
proof (induction s rule: template_pieces.induct)
  case (2 c s)
  show ?case
  proof (cases "match_placeholder (c # s)")
    case None
    then show ?thesis
      using 2 by (simp add: plain_text_Cons template_pieces.simps match_plain_text)
  next
    case (Some r)
    obtain k rest where r: "r = (k, rest)" by (cases r)
    have "match_placeholder (''{{'' @ k @ ''}}'' @ plain_text rest) = Some (k, plain_text rest)"
      using match_placeholder_canonical match_placeholder_name [of "c # s" k rest] Some r by blast
    then show ?thesis
      using 2(2) [OF Some r [symmetric]] Some r by (simp add: plain_text_Cons template_pieces.simps)
  qed
qed simp

subsection \<open>Addresses and markup\<close>

lemma split_on_two: "split_on d s = [u, v] \<longleftrightarrow> s = u @ d # v \<and> d \<notin> set u \<and> d \<notin> set v"
proof
  assume sp: "split_on d s = [u, v]"
  show "s = u @ d # v \<and> d \<notin> set u \<and> d \<notin> set v"
  proof (cases "d \<in> set s")
    case True
    then obtain a b where s: "s = a @ d # b" "d \<notin> set a" by (metis split_list_first)
    then have "split_on d b = [v]" "a = u" using sp by (simp_all add: split_on_append)
    moreover have "d \<notin> set b"
    proof
      assume "d \<in> set b"
      then obtain a' b' where "b = a' @ d # b'" "d \<notin> set a'" by (metis split_list_first)
      with \<open>split_on d b = [v]\<close> show False by (simp add: split_on_append)
    qed
    ultimately show ?thesis using s by (simp add: split_on_free)
  next
    case False
    with sp show ?thesis by (simp add: split_on_free)
  qed
next
  assume "s = u @ d # v \<and> d \<notin> set u \<and> d \<notin> set v"
  then show "split_on d s = [u, v]" by (simp add: split_on_append split_on_free)
qed

lemma inner_member_iff: "x \<in> set (butlast (tl w)) \<longleftrightarrow> (\<exists>u v. w = u @ x # v \<and> u \<noteq> [] \<and> v \<noteq> [])"
proof
  assume x: "x \<in> set (butlast (tl w))"
  then have ne: "tl w \<noteq> []" by auto
  then have w: "w = hd w # butlast (tl w) @ [last (tl w)]" by (metis append_butlast_last_id list.collapse tl_Nil)
  obtain a b where "butlast (tl w) = a @ x # b" using x by (meson split_list)
  with w have "w = (hd w # a) @ x # (b @ [last (tl w)])" by simp
  then show "\<exists>u v. w = u @ x # v \<and> u \<noteq> [] \<and> v \<noteq> []" by blast
next
  assume "\<exists>u v. w = u @ x # v \<and> u \<noteq> [] \<and> v \<noteq> []"
  then obtain c u v where "w = (c # u) @ x # v" "v \<noteq> []" by (metis neq_Nil_conv)
  then show "x \<in> set (butlast (tl w))" by (simp add: butlast_append)
qed

lemma address_marks: "\<not> is_ws CHR ''@''" "\<not> is_ws CHR ''.''"
  by (simp_all add: is_ws_def)

lemma valid_email_split:
  "valid_email s \<longleftrightarrow> (\<exists>l w. s = l @ CHR ''@'' # w \<and> CHR ''@'' \<notin> set l \<and> CHR ''@'' \<notin> set w
      \<and> (\<forall>c \<in> set s. \<not> is_ws c) \<and> l \<noteq> [] \<and> (\<exists>d e. w = d @ CHR ''.'' # e \<and> d \<noteq> [] \<and> e \<noteq> []))"
proof -
  have "valid_email s \<longleftrightarrow> (\<exists>l w. split_on CHR ''@'' s = [l, w] \<and> (\<forall>c \<in> set s. \<not> is_ws c) \<and> l \<noteq> []
      \<and> CHR ''.'' \<in> set (butlast (tl w)))"
    by (auto simp: valid_email_def List.member_iff list_all_iff split: list.splits)
  then show ?thesis unfolding split_on_two inner_member_iff by blast
qed

lemma valid_email_iff:
  "valid_email s \<longleftrightarrow> (\<exists>l d e. s = l @ ''@'' @ d @ ''.'' @ e \<and> l \<noteq> [] \<and> d \<noteq> [] \<and> e \<noteq> []
      \<and> (\<forall>c \<in> set (l @ d @ e). \<not> is_ws c \<and> c \<noteq> CHR ''@''))" (is "_ \<longleftrightarrow> ?R")
proof
  assume "valid_email s"
  then obtain l w where s: "s = l @ CHR ''@'' # w" and at: "CHR ''@'' \<notin> set l" "CHR ''@'' \<notin> set w"
    and nows: "\<forall>c \<in> set s. \<not> is_ws c" and l: "l \<noteq> []" and "\<exists>d e. w = d @ CHR ''.'' # e \<and> d \<noteq> [] \<and> e \<noteq> []"
    unfolding valid_email_split by blast
  then obtain d e where w: "w = d @ CHR ''.'' # e" "d \<noteq> []" "e \<noteq> []" by blast
  have "\<forall>c \<in> set (l @ d @ e). \<not> is_ws c \<and> c \<noteq> CHR ''@''" using nows at unfolding s w(1) by auto
  then show ?R using s w l by (intro exI [of _ l] exI [of _ d] exI [of _ e]) simp
next
  assume ?R
  then obtain l d e where s: "s = l @ CHR ''@'' # (d @ CHR ''.'' # e)" and ne: "l \<noteq> []" "d \<noteq> []" "e \<noteq> []"
    and ok: "\<forall>c \<in> set (l @ d @ e). \<not> is_ws c \<and> c \<noteq> CHR ''@''" by auto
  have at: "CHR ''@'' \<notin> set l" "CHR ''@'' \<notin> set (d @ CHR ''.'' # e)" using ok by auto
  have nows: "\<forall>c \<in> set s. \<not> is_ws c" using ok address_marks unfolding s by auto
  show "valid_email s" unfolding valid_email_split using s at nows ne by blast
qed

lemma subseq_strip_quotes: "subseq (strip_quotes q s) s"
proof (induction q s rule: strip_quotes.induct)
  case (2 q c s)
  show ?case
  proof (cases "c = q \<and> takeWhile (\<lambda>x. x \<noteq> q) s \<noteq> [] \<and> dropWhile (\<lambda>x. x \<noteq> q) s \<noteq> []")
    case True
    have "subseq (strip_quotes q (tl (dropWhile (\<lambda>x. x \<noteq> q) s))) (dropWhile (\<lambda>x. x \<noteq> q) s)"
      using 2(1) [OF True] True by (cases "dropWhile (\<lambda>x. x \<noteq> q) s") (simp_all add: list_emb_Cons)
    then have "subseq (takeWhile (\<lambda>x. x \<noteq> q) s @ strip_quotes q (tl (dropWhile (\<lambda>x. x \<noteq> q) s)))
        (takeWhile (\<lambda>x. x \<noteq> q) s @ dropWhile (\<lambda>x. x \<noteq> q) s)"
      by (simp add: list_emb_append_mono del: takeWhile_dropWhile_id)
    then show ?thesis using True by (simp add: list_emb_Cons)
  next
    case False
    with 2(2) show ?thesis by auto
  qed
qed simp

lemma renderMarkdownLite_subseq: "subseq (renderMarkdownLite s) s"
  unfolding renderMarkdownLite_def
  by (meson subseq_order.order_trans subseq_strip_pairs subseq_strip_quotes)

subsection \<open>Templates in two parts\<close>

text \<open>What a match of a placeholder looks like.\<close>

lemma match_placeholder_iff:
  "match_placeholder s = Some (k, r) \<longleftrightarrow>
     (\<exists>a b. s = ''{{'' @ a @ k @ b @ ''}}'' @ r \<and> list_all is_ws a \<and> list_all is_ws b \<and> k \<noteq> [] \<and> list_all is_name_char k)"
  (is "?L \<longleftrightarrow> ?R")
proof
  assume m: ?L
  let ?s1 = "dropWhile is_ws (drop 2 s)"
  let ?s2 = "dropWhile is_name_char ?s1"
  have p: "starts_with s ''{{''" "k = takeWhile is_name_char ?s1" "starts_with (dropWhile is_ws ?s2) ''}}''"
      "r = drop 2 (dropWhile is_ws ?s2)"
    using m by (auto simp: match_placeholder_def Let_def split: if_splits)
  have "s = ''{{'' @ drop 2 s" using p(1) by (metis append_take_drop_id starts_with_def length_Cons list.size(3) numeral_2_eq_2)
  also have "drop 2 s = takeWhile is_ws (drop 2 s) @ ?s1" by simp
  also have "?s1 = k @ ?s2" using p(2) by simp
  also have "?s2 = takeWhile is_ws ?s2 @ dropWhile is_ws ?s2" by simp
  also have "dropWhile is_ws ?s2 = ''}}'' @ r"
    using p(3,4) by (metis append_take_drop_id starts_with_def length_Cons list.size(3) numeral_2_eq_2)
  finally have "s = ''{{'' @ takeWhile is_ws (drop 2 s) @ k @ takeWhile is_ws ?s2 @ ''}}'' @ r" by simp
  moreover have "list_all is_ws (takeWhile is_ws u)" for u by (auto simp: list_all_iff dest: set_takeWhileD)
  ultimately show ?R using match_placeholder_name [OF m] by blast
next
  assume ?R
  then obtain a b where s: "s = ''{{'' @ a @ k @ b @ ''}}'' @ r" and a: "list_all is_ws a" and b: "list_all is_ws b"
    and k: "k \<noteq> []" "list_all is_name_char k" by blast
  obtain c k' where kc: "k = c # k'" using k(1) by (cases k) auto
  then have "\<not> is_ws c" using k(2) by (simp add: name_char_not_ws)
  then have s1: "dropWhile is_ws (drop 2 s) = k @ b @ ''}}'' @ r"
    using a by (simp add: s kc list_all_iff)
  have nb: "\<forall>x \<in> set b. \<not> is_name_char x" using b name_char_not_ws by (auto simp: list_all_iff)
  have tw: "takeWhile is_name_char (b @ ''}}'' @ r) = []" and dw: "dropWhile is_name_char (b @ ''}}'' @ r) = b @ ''}}'' @ r"
    using nb by (cases b; simp)+
  have "takeWhile is_name_char (k @ b @ ''}}'' @ r) = k" "dropWhile is_name_char (k @ b @ ''}}'' @ r) = b @ ''}}'' @ r"
    using k(2) tw dw by (simp_all add: list_all_iff)
  moreover have "dropWhile is_ws (b @ ''}}'' @ r) = ''}}'' @ r" using b by (simp add: list_all_iff)
  ultimately show ?L
    using k(1) unfolding match_placeholder_def s1 by (simp add: Let_def s starts_with_def)
qed

lemma match_placeholder_inner:
  assumes "match_placeholder s = Some (k, r)"
  shows "\<exists>m. s = ''{{'' @ m @ r \<and> CHR ''{'' \<notin> set m"
proof -
  obtain a b where "s = ''{{'' @ (a @ k @ b @ ''}}'') @ r" and ok: "list_all is_ws a" "list_all is_ws b" "list_all is_name_char k"
    using assms by (auto simp: match_placeholder_iff)
  moreover have "CHR ''{'' \<notin> set (a @ k @ b @ ''}}'')" using ok brace_chars by (auto simp: list_all_iff)
  ultimately show ?thesis by blast
qed

lemma piece_keys_simps [simp]:
  "piece_keys [] = []" "piece_keys (Lit c # ps) = piece_keys ps" "piece_keys (Var k # ps) = k # piece_keys ps"
  by (simp_all add: piece_keys_def)

definition keys_of :: "string \<Rightarrow> string set" where
  "keys_of s = set (piece_keys (template_pieces s))"

lemma keys_of_Cons:
  "keys_of (c # s) = (case match_placeholder (c # s) of Some (k, r) \<Rightarrow> insert k (keys_of r) | None \<Rightarrow> keys_of s)"
  by (simp add: keys_of_def template_pieces.simps split: option.splits)

lemma keys_of_no_brace: "CHR ''{'' \<notin> set u \<Longrightarrow> keys_of (u @ s) = keys_of s"
proof (induction u)
  case (Cons c u)
  then have "match_placeholder (c # u @ s) = None"
    using match_placeholder_brace [of c "u @ s"] by (cases "match_placeholder (c # u @ s)") auto
  with Cons show ?case by (simp add: keys_of_Cons)
qed simp

lemma keys_of_short: "CHR ''{'' \<notin> set u \<Longrightarrow> keys_of (CHR ''{'' # u) = {}"
proof -
  assume u: "CHR ''{'' \<notin> set u"
  then have "match_placeholder (CHR ''{'' # u) = None"
    using match_placeholder_inner [of "CHR ''{'' # u"] by (cases "match_placeholder (CHR ''{'' # u)") auto
  with keys_of_no_brace [OF u, of "[]"] show ?thesis by (simp add: keys_of_Cons) (simp add: keys_of_def)
qed

lemma ws_not_brace: "is_ws n \<Longrightarrow> n \<noteq> CHR ''{''"
  using brace_chars(3) by metis

lemma keys_of_ws: "is_ws n \<Longrightarrow> keys_of (n # s) = keys_of s"
  using keys_of_no_brace [of "[n]" s] ws_not_brace [of n] by simp

lemma append_split:
  "u @ x = v @ y \<Longrightarrow> (\<exists>w. u = v @ w \<and> y = w @ x) \<or> (\<exists>w. w \<noteq> [] \<and> v = u @ w \<and> x = w @ y)"
  by (auto simp: append_eq_append_conv2)

text \<open>A placeholder of either part is one of the text joined by white space.\<close>

lemma keys_of_second: "is_ws n \<Longrightarrow> keys_of b \<subseteq> keys_of (u @ n # b)"
proof (induction u rule: length_induct)
  case (1 u)
  show ?case
  proof (cases u)
    case (Cons c v)
    show ?thesis
    proof (cases "match_placeholder (u @ n # b)")
      case None
      have "length v < length u" by (simp add: Cons)
      then have "keys_of b \<subseteq> keys_of (v @ n # b)" using 1 by blast
      with None show ?thesis by (simp add: Cons keys_of_Cons)
    next
      case (Some kr)
      obtain k r where kr: "kr = (k, r)" by (cases kr)
      obtain m where m: "u @ n # b = ''{{'' @ m @ r" "CHR ''{'' \<notin> set m"
        using match_placeholder_inner Some kr by blast
      have "u @ n # b = (''{{'' @ m) @ r" using m(1) by simp
      from append_split [OF this] have "keys_of b \<subseteq> keys_of r"
      proof (elim disjE exE conjE)
        fix w assume w: "u = (''{{'' @ m) @ w" "r = w @ n # b"
        then have "length w < length u" by simp
        with 1 w(2) show ?thesis by blast
      next
        fix w assume w: "w \<noteq> []" "''{{'' @ m = u @ w" "n # b = w @ r"
        then obtain w' where w': "w = n # w'" "b = w' @ r" by (cases w) auto
        have "set w' \<subseteq> set m"
          using w(2) w'(1) Cons ws_not_brace [OF 1(2)] by (cases v) auto
        with m(2) w'(2) keys_of_no_brace [of w' r] show ?thesis by blast
      qed
      with Some kr show ?thesis by (auto simp: Cons keys_of_Cons)
    qed
  qed (simp add: 1 keys_of_ws)
qed

text \<open>A match that starts at an unmatched text and runs past its end leaves no placeholder inside it.\<close>

lemma keys_of_cut:
  assumes None: "match_placeholder u = None" and Some: "match_placeholder (u @ t) = Some kr" and u: "u = c # v"
  shows "keys_of v = {}"
proof -
  obtain k r where "kr = (k, r)" by (cases kr)
  with Some obtain x y where e: "u @ t = (''{{'' @ x @ k @ y @ ''}}'') @ r"
    and ok: "list_all is_ws x" "list_all is_ws y" "k \<noteq> []" "list_all is_name_char k"
    by (auto simp: match_placeholder_iff)
  have "\<not> (\<exists>w. u = (''{{'' @ x @ k @ y @ ''}}'') @ w)"
    using None ok match_placeholder_iff [of u k] by fastforce
  then obtain w where w: "''{{'' @ x @ k @ y @ ''}}'' = u @ w" using append_split [OF e] by blast
  have "CHR ''{'' \<notin> set (x @ k @ y @ ''}}'')" using ok brace_chars by (auto simp: list_all_iff)
  moreover have "v = [] \<or> (\<exists>v'. v = CHR ''{'' # v' \<and> set v' \<subseteq> set (x @ k @ y @ ''}}''))"
  proof (cases v)
    case (Cons a v')
    with w u have "a = CHR ''{''" "x @ k @ y @ ''}}'' = v' @ w" by auto
    moreover from this(2) have "set v' \<subseteq> set (x @ k @ y @ ''}}'')" by (metis Un_upper1 set_append)
    ultimately show ?thesis using Cons by blast
  qed simp
  ultimately show ?thesis using keys_of_short by (auto simp: keys_of_def)
qed

lemma keys_of_first: "is_ws n \<Longrightarrow> keys_of u \<subseteq> keys_of (u @ n # b)"
proof (induction u rule: length_induct)
  case (1 u)
  show ?case
  proof (cases u)
    case (Cons c v)
    show ?thesis
    proof (cases "match_placeholder u")
      case (Some kr)
      obtain k r where kr: "kr = (k, r)" by (cases kr)
      have "match_placeholder (u @ n # b) = Some (k, r @ n # b)"
        using Some unfolding kr match_placeholder_iff by auto
      moreover have "length r < length u" using match_placeholder_shorter Some kr by blast
      ultimately show ?thesis using 1 Some kr by (fastforce simp: Cons keys_of_Cons)
    next
      case None
      show ?thesis
      proof (cases "match_placeholder (u @ n # b)")
        case None
        have "length v < length u" by (simp add: Cons)
        with 1 have "keys_of v \<subseteq> keys_of (v @ n # b)" by blast
        with None \<open>match_placeholder u = None\<close> show ?thesis by (simp add: Cons keys_of_Cons)
      next
        case (Some kr)
        have "keys_of v = {}" by (rule keys_of_cut [OF \<open>match_placeholder u = None\<close> Some Cons])
        then show ?thesis using \<open>match_placeholder u = None\<close> by (simp add: Cons keys_of_Cons)
      qed
    qed
  qed (simp add: keys_of_def)
qed

lemma template_variables_parts:
  "keys_of subject \<subseteq> set (template_variables subject body)" "keys_of body \<subseteq> set (template_variables subject body)"
proof -
  have n: "is_ws (char_of (10 :: nat))" by (simp add: is_ws_def)
  show "keys_of subject \<subseteq> set (template_variables subject body)" "keys_of body \<subseteq> set (template_variables subject body)"
    using keys_of_first [OF n, of subject body] keys_of_second [OF n, of body subject]
    by (simp_all add: template_variables_def keys_of_def)
qed

section \<open>Properties\<close>

text \<open>
  Unfilled placeholders survive the preview: rendering a template with no values keeps its
  placeholders, written in their plain form, so that rendering the result with values later gives the
  same text as rendering the template itself, whatever white space the placeholders were written with.
\<close>

theorem render_keeps_open_placeholders:
  "template_pieces (renderTemplate t []) = template_pieces t
   \<and> renderTemplate (renderTemplate t []) values = renderTemplate t values
   \<and> renderTemplate (renderTemplate t []) [] = renderTemplate t []"
  using template_pieces_plain_text [of t] by (simp add: renderTemplate_def plain_text_def)


text \<open>
  The address check accepts exactly the texts with one at sign that separates a non-empty
  local part from a domain with a dot inside, all of it free of white space.
\<close>

theorem valid_email_language:
  "valid_email s \<longleftrightarrow> (\<exists>l d e. s = l @ ''@'' @ d @ ''.'' @ e \<and> l \<noteq> [] \<and> d \<noteq> [] \<and> e \<noteq> []
      \<and> list_all (\<lambda>c. \<not> is_ws c \<and> c \<noteq> CHR ''@'') (l @ d @ e))"
  unfolding valid_email_iff by (simp add: list_all_iff)

end
