(* ===== verification/Paged_List.thy ===== *)
theory Paged_List
  imports Widgets
begin

text \<open>
  The list every administration page is built around: the page counters of
  \<^verbatim>\<open>src/notification-admin-ui/src/hooks/usePagination.ts\<close>, the footer of
  \<^verbatim>\<open>src/notification-admin-ui/src/components/TablePagination.tsx\<close>, and the loading effect the
  pages share: a request per change of the filters or of the page, whose answer replaces the rows.

  A page embeds a \<^verbatim>\<open>paged\<close> record for the part of its state that this effect owns. Requests are
  remembered in the order in which they were sent, each with the query it asks; an answer may be
  delivered for any of them. React runs the effects of a render in the order of the hooks, so that
  the reset of the page counter is requested before the list is loaded.

  Handlers that talk to the server are split at their \<^verbatim>\<open>await\<close>: a function that returns the
  call to make, and one that takes its outcome together with the values the closure captured. A call
  is the argument list of \<^verbatim>\<open>apiRequest\<close>.
\<close>

section \<open>Calls\<close>

record api_call =
  call_method :: string
  call_path :: string
  call_body :: "json option"

definition api_get :: "string \<Rightarrow> api_call" where
  "api_get path = \<lparr>call_method = ''GET'', call_path = path, call_body = None\<rparr>"

definition api_send :: "string \<Rightarrow> string \<Rightarrow> json \<Rightarrow> api_call" where
  "api_send method path body = \<lparr>call_method = method, call_path = path, call_body = Some body\<rparr>"

definition api_delete :: "string \<Rightarrow> api_call" where
  "api_delete path = \<lparr>call_method = ''DELETE'', call_path = path, call_body = None\<rparr>"

text \<open>The arguments as \<^verbatim>\<open>apiRequest\<close> of the client receives them.\<close>

definition call_options :: "api_call \<Rightarrow> options" where
  "call_options c = \<lparr>opt_method = call_method c, opt_headers = [], opt_body = call_body c\<rparr>"

section \<open>Page counters and rows\<close>

record pagination_meta =
  meta_page :: int
  meta_per_page :: int
  meta_total :: int
  meta_total_pages :: int

record ('f, 'a) paged =
  pg_filters :: 'f
  pg_page :: int
  pg_perPage :: int
  pg_items :: "'a list"
  pg_meta :: "pagination_meta option"
  pg_loading :: bool
  pg_pending :: "('f \<times> int \<times> int) list"

type_synonym 'a list_answer = "'a list \<times> pagination_meta option"

definition pg_query :: "('f, 'a) paged \<Rightarrow> 'f \<times> int \<times> int" where
  "pg_query s = (pg_filters s, pg_page s, pg_perPage s)"

text \<open>\<^verbatim>\<open>load\<close> as closed over a query, and as run by the effect of the current render.\<close>

definition pg_load_as :: "'f \<times> int \<times> int \<Rightarrow> ('f, 'a) paged \<Rightarrow> ('f, 'a) paged" where
  "pg_load_as q s = s\<lparr>pg_loading := True, pg_pending := pg_pending s @ [q]\<rparr>"

definition pg_load :: "('f, 'a) paged \<Rightarrow> ('f, 'a) paged" where
  "pg_load s = pg_load_as (pg_query s) s"

definition pg_mount :: "'f \<Rightarrow> ('f, 'a) paged" where
  "pg_mount f = pg_load \<lparr>pg_filters = f, pg_page = 1, pg_perPage = 25, pg_items = [], pg_meta = None,
                         pg_loading = True, pg_pending = []\<rparr>"

text \<open>
  A change of a filter listed in the reset keys: the effects of that render request page one and load
  with the page counter of the render; if the counter was not one, the next render loads again.
\<close>

definition pg_set_filter :: "'f \<Rightarrow> ('f, 'a) paged \<Rightarrow> ('f, 'a) paged" where
  "pg_set_filter f s =
    (if f = pg_filters s then s
     else let s1 = pg_load (s\<lparr>pg_filters := f\<rparr>)
          in if pg_page s = 1 then s1 else pg_load (s1\<lparr>pg_page := 1\<rparr>))"

text \<open>A filter that is set together with the page counter in one event handler: one render, one load.\<close>

definition pg_update_filter :: "'f \<Rightarrow> ('f, 'a) paged \<Rightarrow> ('f, 'a) paged" where
  "pg_update_filter f s =
    (if f = pg_filters s \<and> pg_page s = 1 then s else pg_load (s\<lparr>pg_filters := f, pg_page := 1\<rparr>))"

definition pg_set_page :: "int \<Rightarrow> ('f, 'a) paged \<Rightarrow> ('f, 'a) paged" where
  "pg_set_page p s = (if p = pg_page s then s else pg_load (s\<lparr>pg_page := p\<rparr>))"

definition pg_set_perPage :: "int \<Rightarrow> ('f, 'a) paged \<Rightarrow> ('f, 'a) paged" where
  "pg_set_perPage n s =
    (if n = pg_perPage s \<and> pg_page s = 1 then s else pg_load (s\<lparr>pg_perPage := n, pg_page := 1\<rparr>))"

text \<open>The k-th outstanding request settles: \<^verbatim>\<open>then\<close>, or \<^verbatim>\<open>catch\<close>, and in both cases \<^verbatim>\<open>finally\<close>.\<close>

definition pg_answer :: "nat \<Rightarrow> 'a list_answer outcome \<Rightarrow> ('f, 'a) paged \<Rightarrow> ('f, 'a) paged" where
  "pg_answer k res s =
    (let s1 = (case res of
                 Inr (items, meta) \<Rightarrow> s\<lparr>pg_items := items, pg_meta := meta\<rparr>
               | Inl _ \<Rightarrow> s)
     in s1\<lparr>pg_loading := False, pg_pending := take k (pg_pending s) @ drop (Suc k) (pg_pending s)\<rparr>)"

section \<open>Table footer\<close>

record pagination_view =
  pv_from :: int
  pv_to :: int
  pv_total :: int
  pv_totalPages :: int
  pv_previous :: "int option"
  pv_next :: "int option"

text \<open>An enabled button shows the page it leads to.\<close>

definition TablePagination :: "pagination_meta option \<Rightarrow> int \<Rightarrow> int \<Rightarrow> pagination_view" where
  "TablePagination meta page perPage =
    (let total = (case meta of Some m \<Rightarrow> meta_total m | None \<Rightarrow> 0);
         totalPages = max 1 (case meta of Some m \<Rightarrow> meta_total_pages m | None \<Rightarrow> 1);
         frm = (if total = 0 then 0 else (page - 1) * perPage + 1);
         upto = min (page * perPage) total
     in \<lparr>pv_from = frm, pv_to = upto, pv_total = total, pv_totalPages = totalPages,
         pv_previous = (if page \<le> 1 then None else Some (page - 1)),
         pv_next = (if page \<ge> totalPages then None else Some (page + 1))\<rparr>)"

definition rows_per_page :: "int list" where
  "rows_per_page = [10, 25, 50, 100]"

text \<open>The body of a table: a note while loading or without rows, else the rows.\<close>

datatype 'r list_content = ListLoading | ListEmpty string | ListRows "'r list"

definition table_content :: "string \<Rightarrow> ('a \<Rightarrow> 'r) \<Rightarrow> ('f, 'a) paged \<Rightarrow> 'r list_content" where
  "table_content none row l =
    (if pg_loading l then ListLoading else if pg_items l = [] then ListEmpty none else ListRows (map row (pg_items l)))"

definition footer_of :: "('f, 'a) paged \<Rightarrow> pagination_view" where
  "footer_of l = TablePagination (pg_meta l) (pg_page l) (pg_perPage l)"

text \<open>The filters of a list that is searched within a tenant, and its parameters.\<close>

record search_filter =
  sf_tenant :: string
  sf_search :: string

definition search_params :: "search_filter \<Rightarrow> int \<Rightarrow> int \<Rightarrow> pval obj" where
  "search_params f p n =
    [(''tenant_id'', PStr (sf_tenant f)), (''q'', PStr (sf_search f)), (''page'', PNum p), (''per_page'', PNum n)]"

text \<open>A cell shows its text, or a dash for the empty text, here \<^const>\<open>None\<close>.\<close>

definition or_dash :: "string \<Rightarrow> string option" where
  "or_dash s = (if s = [] then None else Some s)"

text \<open>The tenants a platform administrator can choose from, with their status; a failed load is ignored.\<close>

type_synonym tenant_choices = "(tenant_option \<times> string) list"

definition tenants_or :: "tenant_choices outcome \<Rightarrow> tenant_choices \<Rightarrow> tenant_choices" where
  "tenants_or res old = (case res of Inr ts \<Rightarrow> ts | Inl _ \<Rightarrow> old)"

text \<open>
  The server's side of paging, the end of the list middleware in
  \<^verbatim>\<open>src/notification-core-api/internal/http/middleware/middleware.go\<close>: the rows left after
  searching and filtering are cut into pages of at most a hundred.
\<close>

definition paginate :: "'a list \<Rightarrow> nat \<Rightarrow> nat \<Rightarrow> 'a list_answer" where
  "paginate filtered page perPage0 =
    (let perPage = (if perPage0 > 100 then 100 else perPage0);
         total = length filtered;
         start = min ((page - 1) * perPage) total;
         stop = min (start + perPage) total
     in (take (stop - start) (drop start filtered),
         Some \<lparr>meta_page = int page, meta_per_page = int perPage, meta_total = int total,
               meta_total_pages = max 1 (int ((total + perPage - 1) div perPage))\<rparr>))"

section \<open>The list under a user and a server\<close>

text \<open>
  \<^verbatim>\<open>ans\<close> stands for a server whose data do not change meanwhile; answers arrive in the order of
  the requests. The footer acts on the counters through its own buttons.
\<close>

inductive pg_step :: "('f \<times> int \<times> int \<Rightarrow> 'a list_answer) \<Rightarrow> ('f, 'a) paged \<Rightarrow> ('f, 'a) paged \<Rightarrow> bool"
  for ans where
  set_filter: "pg_step ans s (pg_set_filter f s)"
| update_filter: "pg_step ans s (pg_update_filter f s)"
| previous: "pv_previous (TablePagination (pg_meta s) (pg_page s) (pg_perPage s)) = Some p \<Longrightarrow>
    pg_step ans s (pg_set_page p s)"
| next_page: "pv_next (TablePagination (pg_meta s) (pg_page s) (pg_perPage s)) = Some p \<Longrightarrow>
    pg_step ans s (pg_set_page p s)"
| rows: "n \<in> set rows_per_page \<Longrightarrow> pg_step ans s (pg_set_perPage n s)"
| reload: "pg_step ans s (pg_load s)"
| answer: "pg_pending s = q # qs \<Longrightarrow> pg_step ans s (pg_answer 0 (Inr (ans q)) s)"

abbreviation pg_start :: "('f, 'a) paged \<Rightarrow> bool" where
  "pg_start l \<equiv> \<exists>f. l = pg_mount f"

abbreviation pg_reachable :: "('f \<times> int \<times> int \<Rightarrow> 'a list_answer) \<Rightarrow> ('f, 'a) paged \<Rightarrow> bool" where
  "pg_reachable ans \<equiv> reachable pg_start (pg_step ans)"

text \<open>The controls of the footer.\<close>

inductive pg_turn :: "('f, 'a) paged \<Rightarrow> ('f, 'a) paged \<Rightarrow> bool" where
  previous: "pv_previous (footer_of l) = Some p \<Longrightarrow> pg_turn l (pg_set_page p l)"
| next_page: "pv_next (footer_of l) = Some p \<Longrightarrow> pg_turn l (pg_set_page p l)"
| rows: "n \<in> set rows_per_page \<Longrightarrow> pg_turn l (pg_set_perPage n l)"

text \<open>A server that answers a list request by the parameters it reads from the address.\<close>

definition served ::
    "string \<Rightarrow> ('f \<Rightarrow> int \<Rightarrow> int \<Rightarrow> pval obj) \<Rightarrow> ((string \<rightharpoonup> string) \<Rightarrow> 'a list_answer) \<Rightarrow> 'f \<times> int \<times> int \<Rightarrow> 'a list_answer" where
  "served path params serve q =
    (case q of (f, p, n) \<Rightarrow> serve (map_of (parse_query (drop (length path) (listPage_url path (params f p n))))))"

text \<open>The parameters as the server reads them: a value that is not kept is not sent.\<close>

definition wire_params :: "pval obj \<Rightarrow> string \<rightharpoonup> string" where
  "wire_params ps k = Option.bind (obj_get ps k) (\<lambda>v. if pval_kept v then Some (pval_string v) else None)"

section \<open>Lemmas\<close>

lemmas pg_defs = pg_load_def pg_load_as_def pg_query_def pg_mount_def pg_set_filter_def pg_update_filter_def
  pg_set_page_def pg_set_perPage_def pg_answer_def

definition pg_inv :: "('f \<times> int \<times> int \<Rightarrow> 'a list_answer) \<Rightarrow> ('f, 'a) paged \<Rightarrow> bool" where
  "pg_inv ans s \<longleftrightarrow>
     (if pg_pending s = [] then \<not> pg_loading s \<and> (pg_items s, pg_meta s) = ans (pg_query s)
      else last (pg_pending s) = pg_query s)
     \<and> 1 \<le> pg_page s \<and> pg_perPage s \<in> set rows_per_page"

lemma pg_inv_load:
  "1 \<le> pg_page s \<Longrightarrow> pg_perPage s \<in> set rows_per_page \<Longrightarrow> pg_inv ans (pg_load s)"
  by (simp add: pg_inv_def pg_load_def pg_load_as_def pg_query_def)

lemma pg_load_counters [simp]:
  "pg_page (pg_load s) = pg_page s" "pg_perPage (pg_load s) = pg_perPage s" "pg_filters (pg_load s) = pg_filters s"
  "pg_pending (pg_load s) = pg_pending s @ [pg_query s]" "pg_loading (pg_load s)"
  "pg_items (pg_load s) = pg_items s" "pg_meta (pg_load s) = pg_meta s"
  by (simp_all add: pg_load_def pg_load_as_def)

lemma pg_answer_first_inv:
  "pg_inv ans s \<Longrightarrow> pg_pending s = q # qs \<Longrightarrow> pg_inv ans (pg_answer 0 (Inr (ans q)) s)"
  by (cases "ans q") (auto simp: pg_inv_def pg_answer_def pg_query_def split: if_splits)

lemma pg_step_inv: "pg_step ans s s' \<Longrightarrow> pg_inv ans s \<Longrightarrow> pg_inv ans s'"
proof (induction rule: pg_step.induct)
  case (answer s q qs)
  then show ?case by (simp add: pg_answer_first_inv)
qed (auto simp: pg_set_filter_def pg_update_filter_def pg_set_page_def pg_set_perPage_def TablePagination_def Let_def
    intro!: pg_inv_load split: if_splits; simp add: pg_inv_def)+

lemma pg_mount_inv: "pg_inv ans (pg_mount f)"
  unfolding pg_mount_def by (rule pg_inv_load) (simp_all add: rows_per_page_def)

interpretation paged_list: step_invariant "pg_step ans" "pg_inv ans" pg_start for ans
  by unfold_locales (erule (1) pg_step_inv, auto simp: pg_mount_inv)

lemma pg_turn_step: "pg_turn l l' \<Longrightarrow> pg_step ans l l'"
  by (induction rule: pg_turn.induct) (auto simp: footer_of_def intro: pg_step.intros)

lemma pg_reload_step: "pg_query l0 = pg_query l \<Longrightarrow> pg_step ans l (pg_load_as (pg_query l0) l)"
  using pg_step.reload [of ans l] by (simp add: pg_load_def)

lemmas pg_page_steps = pg_turn_step pg_reload_step pg_step.set_filter pg_step.update_filter pg_step.answer

text \<open>
  What a page built around a list promises: it starts with the list just mounted, and whatever happens on
  it either leaves the list alone or is a step of the list. Then every state of the page has a
  reachable list.
\<close>

locale list_page =
  fixes lst :: "'s \<Rightarrow> ('f, 'a) paged"
    and start :: "'s \<Rightarrow> bool"
    and step :: "('f \<times> int \<times> int \<Rightarrow> 'a list_answer) \<Rightarrow> 's \<Rightarrow> 's \<Rightarrow> bool"
  assumes start_mounts: "start s \<Longrightarrow> pg_start (lst s)"
    and step_list: "step ans s s' \<Longrightarrow> lst s' = lst s \<or> pg_step ans (lst s) (lst s')"
begin

sublocale in_list: simulation lst start "step ans" pg_start "pg_step ans" for ans
  by unfold_locales (fact start_mounts step_list)+

lemma rows_current:
  "(step ans)\<^sup>*\<^sup>* s0 s \<Longrightarrow> start s0 \<Longrightarrow> pg_pending (lst s) = [] \<Longrightarrow>
     \<not> pg_loading (lst s) \<and> (pg_items (lst s), pg_meta (lst s)) = ans (pg_query (lst s))"
  using paged_list.always [OF in_list.run_reachable [of ans s0 s]] by (simp add: pg_inv_def)

end

subsection \<open>Pages of rows\<close>

lemma paginate_rows:
  "0 < n \<Longrightarrow> n \<le> 100 \<Longrightarrow> 1 \<le> p \<Longrightarrow> fst (paginate rows p n) = take n (drop ((p - 1) * n) rows)"
  by (auto simp: paginate_def Let_def min_def)

lemma paginate_meta:
  "0 < n \<Longrightarrow> n \<le> 100 \<Longrightarrow>
   snd (paginate rows p n) = Some \<lparr>meta_page = int p, meta_per_page = int n, meta_total = int (length rows),
      meta_total_pages = max 1 (int ((length rows + n - 1) div n))\<rparr>"
  by (simp add: paginate_def Let_def)

lemma ceil_div_le_iff:
  fixes k n l :: nat
  assumes "0 < n"
  shows "(l + n - 1) div n \<le> k \<longleftrightarrow> l \<le> k * n"
proof -
  have "(l + n - 1) div n \<le> k \<longleftrightarrow> (l + n - 1) div n < Suc k" by auto
  also have "\<dots> \<longleftrightarrow> l + n - 1 < Suc k * n" using assms by (rule div_less_iff_less_mult)
  also have "\<dots> \<longleftrightarrow> l \<le> k * n" using assms by auto
  finally show ?thesis .
qed

text \<open>The first k pages together are the first k * n rows.\<close>

lemma concat_pages:
  assumes "0 < n" and "n \<le> 100"
  shows "concat (map (\<lambda>p. fst (paginate rows p n)) [1..<Suc k]) = take (k * n) rows"
proof (induction k)
  case (Suc k)
  have "concat (map (\<lambda>p. fst (paginate rows p n)) [1..<Suc (Suc k)])
      = take (k * n) rows @ fst (paginate rows (Suc k) n)"
    using Suc by simp
  also have "\<dots> = take (k * n) rows @ take n (drop (k * n) rows)"
    using assms paginate_rows [of n "Suc k" rows] by simp
  also have "\<dots> = take (Suc k * n) rows" by (simp flip: take_add add: add.commute)
  finally show ?case .
qed simp

lemma TablePagination_Some:
  "pv_total (TablePagination (Some m) p n) = meta_total m"
  "pv_totalPages (TablePagination (Some m) p n) = max 1 (meta_total_pages m)"
  "pv_from (TablePagination (Some m) p n) = (if meta_total m = 0 then 0 else (p - 1) * n + 1)"
  "pv_to (TablePagination (Some m) p n) = min (p * n) (meta_total m)"
  "pv_previous (TablePagination (Some m) p n) = (if p \<le> 1 then None else Some (p - 1))"
  "pv_next (TablePagination (Some m) p n) = (if p \<ge> max 1 (meta_total_pages m) then None else Some (p + 1))"
  by (simp_all add: TablePagination_def Let_def)

subsection \<open>The request of a list\<close>

lemma map_of_kept:
  "distinct (map fst ps) \<Longrightarrow>
   map_of (map (\<lambda>(k, v). (k, pval_string v)) (filter (\<lambda>(k, v). pval_kept v) ps)) k =
     Option.bind (map_of ps k) (\<lambda>v. if pval_kept v then Some (pval_string v) else None)"
  by (induction ps) (force simp: map_of_eq_None_iff)+

text \<open>
  What a page promises about its list request: a path without a query of its own, and a parameter
  object with distinct keys that carries both counters. The laws give that the server reads back
  the counters and the filters from the address.
\<close>

locale list_source =
  fixes path :: string
    and params :: "'f \<Rightarrow> int \<Rightarrow> int \<Rightarrow> pval obj"
  assumes path_plain: "CHR ''?'' \<notin> set path"
    and params_wf: "obj_wf (params f p n)"
    and page_param: "obj_get (params f p n) ''page'' = Some (PNum p)"
    and per_page_param: "obj_get (params f p n) ''per_page'' = Some (PNum n)"
begin

definition list_url :: "'f \<times> int \<times> int \<Rightarrow> string" where
  "list_url q = (case q of (f, p, n) \<Rightarrow> listPage_url path (params f p n))"

lemma decodes: "\<exists>rest. list_url (f, p, n) = path @ rest \<and> map_of (parse_query rest) = wire_params (params f p n)"
proof -
  let ?ps = "params f p n"
  obtain rest where rest: "listPage_url path ?ps = path @ rest"
    "parse_query rest = map (\<lambda>(k, v). (k, pval_string v)) (filter (\<lambda>(k, v). pval_kept v) (obj_entries ?ps))"
    using listPage_url_decodes [OF path_plain params_wf] by blast
  have "distinct (map fst (obj_entries ?ps))" by (rule distinct_entries [OF params_wf])
  then have "map_of (parse_query rest) = wire_params ?ps"
    by (auto simp: rest(2) map_of_kept wire_params_def obj_get_entries [OF params_wf])
  with rest(1) show ?thesis by (auto simp: list_url_def)
qed

lemma counters_on_the_wire:
  "wire_params (params f p n) ''page'' = Some (int_str p) \<and> wire_params (params f p n) ''per_page'' = Some (int_str n)"
  by (simp add: wire_params_def page_param per_page_param pval_kept_def)

end

text \<open>Both contracts together: what an idle page shows is the server's answer to what its controls say.\<close>

locale served_page = list_page lst start step + list_source path params
  for lst :: "'s \<Rightarrow> ('f, 'a) paged"
    and start :: "'s \<Rightarrow> bool"
    and step :: "('f \<times> int \<times> int \<Rightarrow> 'a list_answer) \<Rightarrow> 's \<Rightarrow> 's \<Rightarrow> bool"
    and path :: string
    and params :: "'f \<Rightarrow> int \<Rightarrow> int \<Rightarrow> pval obj"
begin

lemma served_decodes: "served path params serve (f, p, n) = serve (wire_params (params f p n))"
  using decodes [of f p n] by (auto simp: served_def list_url_def)

lemma shows_served:
  assumes "(step (served path params serve))\<^sup>*\<^sup>* s0 s" and "start s0" and "pg_pending (lst s) = []"
  shows "(pg_items (lst s), pg_meta (lst s)) = serve (wire_params (params (pg_filters (lst s)) (pg_page (lst s)) (pg_perPage (lst s))))"
  using rows_current [OF assms] by (simp add: pg_query_def served_decodes)

lemma counters_sound:
  "(step ans)\<^sup>*\<^sup>* s0 s \<Longrightarrow> start s0 \<Longrightarrow> 1 \<le> pg_page (lst s) \<and> pg_perPage (lst s) \<in> set rows_per_page"
  using paged_list.always [OF in_list.run_reachable [of ans s0 s]] by (simp add: pg_inv_def)

end

subsection \<open>Delivering what is outstanding\<close>

definition pg_drain :: "('f \<times> int \<times> int \<Rightarrow> 'a list_answer) \<Rightarrow> ('f, 'a) paged \<Rightarrow> ('f, 'a) paged" where
  "pg_drain ans s = fold (\<lambda>q s. pg_answer 0 (Inr (ans q)) s) (pg_pending s) s"

lemma pg_answer_fields [simp]:
  "pg_filters (pg_answer k r s) = pg_filters s" "pg_page (pg_answer k r s) = pg_page s"
  "pg_perPage (pg_answer k r s) = pg_perPage s" "\<not> pg_loading (pg_answer k r s)"
  "pg_pending (pg_answer k r s) = take k (pg_pending s) @ drop (Suc k) (pg_pending s)"
  "pg_items (pg_answer k (Inr a) s) = fst a" "pg_meta (pg_answer k (Inr a) s) = snd a"
  "pg_items (pg_answer k (Inl e) s) = pg_items s" "pg_meta (pg_answer k (Inl e) s) = pg_meta s"
  by (auto simp: pg_answer_def Let_def split: sum.splits prod.splits)

lemma pg_drain_fold:
  "pg_pending s = qs \<Longrightarrow> qs \<noteq> [] \<Longrightarrow>
     let s' = fold (\<lambda>q s. pg_answer 0 (Inr (ans q)) s) qs s
     in pg_pending s' = [] \<and> \<not> pg_loading s' \<and> (pg_items s', pg_meta s') = ans (last qs) \<and> pg_query s' = pg_query s"
proof (induction qs arbitrary: s)
  case (Cons q qs)
  show ?case
  proof (cases qs)
    case Nil
    with Cons.prems show ?thesis by (simp add: Let_def pg_query_def)
  next
    case (Cons q' qs')
    let ?s = "pg_answer 0 (Inr (ans q)) s"
    have "pg_pending ?s = qs" using Cons.prems by simp
    from Cons.IH [OF this] Cons show ?thesis by (simp add: Let_def pg_query_def)
  qed
qed simp

lemma pg_drain_last:
  assumes "pg_pending s \<noteq> []"
  shows "pg_pending (pg_drain ans s) = []" "\<not> pg_loading (pg_drain ans s)"
    "(pg_items (pg_drain ans s), pg_meta (pg_drain ans s)) = ans (last (pg_pending s))"
    "pg_query (pg_drain ans s) = pg_query s"
  using pg_drain_fold [OF refl assms, of ans] by (simp_all add: pg_drain_def Let_def)

section \<open>Properties\<close>



text \<open>
  Changing a filter leads back to page one: whatever page was shown, the counter is one
  afterwards, one or two requests have been added, and once all outstanding requests are answered in
  order the rows are the answer to page one of the new filter.
\<close>

theorem filter_change_shows_first_page:
  assumes "f \<noteq> pg_filters s"
  shows "pg_filters (pg_set_filter f s) = f \<and> pg_page (pg_set_filter f s) = 1
     \<and> (\<exists>extra. pg_pending (pg_set_filter f s) = pg_pending s @ extra \<and> length extra \<in> {1, 2}
           \<and> last extra = (f, 1, pg_perPage s))
     \<and> (pg_items (pg_drain ans (pg_set_filter f s)), pg_meta (pg_drain ans (pg_set_filter f s)))
         = ans (f, 1, pg_perPage s)
     \<and> \<not> pg_loading (pg_drain ans (pg_set_filter f s))"
proof -
  have ne: "pg_pending (pg_set_filter f s) \<noteq> []" and last: "last (pg_pending (pg_set_filter f s)) = (f, 1, pg_perPage s)"
    using assms by (simp_all add: pg_set_filter_def Let_def pg_query_def)
  show ?thesis
    using assms pg_drain_last [OF ne, of ans] last by (auto simp: pg_set_filter_def Let_def pg_query_def)
qed

theorem filter_change_shows_first_page_witness:
  "pg_page (pg_set_filter ''b'' (pg_set_page 3 (pg_mount ''a'' :: (string, nat) paged))) = 1"
  using filter_change_shows_first_page [of "''b''" "pg_set_page 3 (pg_mount ''a'' :: (string, nat) paged)"]
  by (simp add: pg_set_page_def pg_mount_def)

text \<open>
  Property C21. Answers are not matched to requests: if the answer for the old filter is the last to
  arrive, or a handler that captured the old filter reloads the list after the change, the table
  ends idle with the rows of the old filter under the new one.
\<close>

theorem late_answer_shows_stale_rows:
  fixes ans :: "'f \<times> int \<times> int \<Rightarrow> 'a list_answer"
  assumes "g \<noteq> f"
  defines "late \<equiv> pg_answer 0 (Inr (ans (f, 1, 25))) (pg_answer 1 (Inr (ans (g, 1, 25))) (pg_set_filter g (pg_mount f)))"
    and "captured \<equiv> pg_drain ans (pg_load_as (pg_query (pg_mount f :: ('f, 'a) paged)) (pg_set_filter g (pg_mount f)))"
  shows "pg_filters late = g \<and> pg_pending late = [] \<and> \<not> pg_loading late \<and> pg_items late = fst (ans (f, 1, 25))
     \<and> pg_filters captured = g \<and> pg_pending captured = [] \<and> \<not> pg_loading captured
     \<and> pg_items captured = fst (ans (f, 1, 25))"
proof -
  let ?s = "pg_set_filter g (pg_mount f) :: ('f, 'a) paged"
  let ?c = "pg_load_as (pg_query (pg_mount f :: ('f, 'a) paged)) ?s"
  have p: "pg_pending ?s = [(f, 1, 25), (g, 1, 25)]" "pg_query ?s = (g, 1, 25)"
    using assms(1) by (simp_all add: pg_set_filter_def Let_def pg_query_def pg_mount_def)
  have c: "pg_pending ?c = [(f, 1, 25), (g, 1, 25), (f, 1, 25)]" "pg_query ?c = (g, 1, 25)"
    using p by (simp_all add: pg_load_as_def pg_query_def pg_mount_def)
  have "pg_pending ?c \<noteq> []" using c by simp
  from pg_drain_last [OF this, of ans] c show ?thesis
    using p by (auto simp: late_def captured_def pg_query_def dest: arg_cong [where f = fst])
qed

theorem late_answer_shows_stale_rows_witness:
  "pg_items (pg_answer 0 (Inr ([1], None)) (pg_answer 1 (Inr ([2 :: nat], None)) (pg_set_filter ''b'' (pg_mount ''a'')))) = [1]"
  using late_answer_shows_stale_rows [of "''b''" "''a''" "\<lambda>(f, p, n). (if f = ''a'' then [1 :: nat] else [2], None)"]
  by simp

text \<open>
  Property C22. The footer and the server's paging agree: on a page that exists, the range
  \<^verbatim>\<open>from-to of total\<close> names exactly the rows shown, by their position in the whole list; the
  next button is enabled exactly when rows remain and leads to the page that starts right after;
  the previous button is enabled exactly when rows come before; and going through all pages shows
  every row once, in order.
\<close>

theorem footer_describes_rows:
  assumes "rows \<noteq> []" and "int n \<in> set rows_per_page" and "1 \<le> p"
    and "int p \<le> pv_totalPages (TablePagination (snd (paginate rows p n)) (int p) (int n))"
  defines "v \<equiv> TablePagination (snd (paginate rows p n)) (int p) (int n)"
  shows "fst (paginate rows p n) = drop (nat (pv_from v) - 1) (take (nat (pv_to v)) rows)
     \<and> 1 \<le> pv_from v \<and> pv_from v \<le> pv_to v \<and> pv_to v \<le> pv_total v \<and> pv_total v = int (length rows)
     \<and> pv_next v = (if pv_to v < pv_total v then Some (int p + 1) else None)
     \<and> pv_previous v = (if 1 < pv_from v then Some (int p - 1) else None)
     \<and> pv_from (TablePagination (snd (paginate rows (Suc p) n)) (int (Suc p)) (int n)) = int p * int n + 1
     \<and> concat (map (\<lambda>i. fst (paginate rows i n)) [1..<Suc (nat (pv_totalPages v))]) = rows"
proof -
  have n: "0 < n" "n \<le> 100" using assms(2) by (auto simp: rows_per_page_def)
  let ?k = "(length rows + n - 1) div n"
  have k1: "1 \<le> ?k" using ceil_div_le_iff [OF n(1), of "length rows" 0] assms(1) by (simp add: not_less_eq_eq)
  have pages: "pv_totalPages v = int ?k"
    using k1 by (simp add: v_def TablePagination_Some paginate_meta n)
  have pk: "p \<le> ?k" using assms(4) pages by (simp add: v_def)
  have full: "length rows \<le> ?k * n" using ceil_div_le_iff [OF n(1), of "length rows" ?k] by simp
  have start: "(p - 1) * n < length rows"
    using ceil_div_le_iff [OF n(1), of "length rows" "p - 1"] pk assms(3) by auto
  have last: "length rows \<le> p * n \<longleftrightarrow> ?k \<le> p" using ceil_div_le_iff [OF n(1), of "length rows" p] by simp
  have frm: "pv_from v = int ((p - 1) * n) + 1" and tot: "pv_total v = int (length rows)"
    and upto: "pv_to v = int (min (p * n) (length rows))"
    using assms(1,3) n by (simp_all add: v_def TablePagination_Some paginate_meta of_nat_diff of_nat_min)
  have pn: "p * n = (p - 1) * n + n" using assms(3) by (cases p) simp_all
  have rows: "fst (paginate rows p n) = drop ((p - 1) * n) (take (min (p * n) (length rows)) rows)"
    using n assms(3) pn by (simp add: paginate_rows take_drop min_def add.commute)
  have nx: "pv_next v = (if pv_to v < pv_total v then Some (int p + 1) else None)"
    using k1 last by (auto simp: upto tot) (auto simp: v_def TablePagination_Some paginate_meta n)
  have pr: "pv_previous v = (if 1 < pv_from v then Some (int p - 1) else None)"
    using n assms(3) by (cases "p = 1") (auto simp: frm, auto simp: v_def TablePagination_Some paginate_meta)
  have nf: "pv_from (TablePagination (snd (paginate rows (Suc p) n)) (int (Suc p)) (int n)) = int p * int n + 1"
    using assms(1) n by (simp add: TablePagination_Some paginate_meta)
  have cc: "concat (map (\<lambda>i. fst (paginate rows i n)) [1..<Suc (nat (pv_totalPages v))]) = rows"
    using concat_pages [OF n, of rows ?k] full by (simp add: pages)
  have off: "nat (pv_from v) - 1 = (p - 1) * n" "nat (pv_to v) = min (p * n) (length rows)"
    unfolding frm upto by (simp_all only: nat_int Suc_eq_plus1 flip: of_nat_Suc)
  have rng: "1 \<le> pv_from v \<and> pv_from v \<le> pv_to v \<and> pv_to v \<le> pv_total v"
  proof -
    have "(p - 1) * n + 1 \<le> min (p * n) (length rows)" using start pn n by simp
    then show ?thesis unfolding frm upto tot by linarith
  qed
  show ?thesis
    unfolding off using rows rng tot nx pr nf cc by (intro conjI) simp_all
qed

theorem footer_describes_rows_witness:
  "fst (paginate [5, 6, 7 :: nat] 1 10) = [5, 6, 7]"
  using footer_describes_rows [of "[5, 6, 7 :: nat]" 10 1]
  by (simp add: rows_per_page_def paginate_def TablePagination_Some)

end
