(* ===== verification/Refresh_Flight.thy ===== *)
theory Refresh_Flight
  imports Api_Client
begin

text \<open>
  Overlapping calls of \<^verbatim>\<open>apiRequest\<close> and the module variable
  \<^verbatim>\<open>refreshRequest\<close> of \<^verbatim>\<open>src/notification-admin-ui/src/api/client.ts\<close> they
  share: calls that meet a 401 while a refresh is pending wait for the same promise instead of
  starting another refresh. The theory is a transition system whose steps are the events the browser
  can deliver: a call starts, a call's answer arrives, the pending refresh is answered, and the
  \<^verbatim>\<open>login\<close> and \<^verbatim>\<open>logout\<close> of the session (the storage part of the functions in
  \<^verbatim>\<open>src/notification-admin-ui/src/auth/AuthContext.tsx\<close>). Two counters record the refresh
  requests sent and answered.
\<close>

text \<open>
  A call: its request is out (\<^verbatim>\<open>Sent\<close>), it awaits the shared refresh with the 401 it received
  (\<^verbatim>\<open>Waiting\<close>), or it has settled.
\<close>

datatype call = Sent string | Waiting string response | Settled "json outcome"

record net_state =
  browser_of :: browser
  refreshRequest :: "string option"
  calls :: "call list"
  refreshes_sent :: nat
  refreshes_answered :: nat

fun is_waiting :: "call \<Rightarrow> bool" where
  "is_waiting (Waiting _ _) = True"
| "is_waiting _ = False"

definition start_call :: "string \<Rightarrow> net_state \<Rightarrow> net_state" where
  "start_call path s = s\<lparr>calls := calls s @ [Sent path]\<rparr>"

text \<open>
  \<^verbatim>\<open>refreshAccessToken\<close> called by one of several calls: without a refresh token it answers
  false at once; otherwise the call joins the pending request, which is created if there is none.
\<close>

definition await_refresh :: "nat \<Rightarrow> string \<Rightarrow> response \<Rightarrow> net_state \<Rightarrow> net_state" where
  "await_refresh i path r s =
    (case usable (refresh_token (store (browser_of s))) of
       None \<Rightarrow> s\<lparr>browser_of := clearAuthAndRedirect (browser_of s),
                calls := (calls s)[i := Settled (settle r)]\<rparr>
     | Some tok \<Rightarrow>
         let s1 = (if refreshRequest s = None
                   then s\<lparr>refreshRequest := Some tok, refreshes_sent := Suc (refreshes_sent s)\<rparr>
                   else s)
         in s1\<lparr>calls := (calls s1)[i := Waiting path r]\<rparr>)"

definition on_reply :: "nat \<Rightarrow> string \<Rightarrow> net_reply \<Rightarrow> net_state \<Rightarrow> net_state" where
  "on_reply i path reply s =
    (case reply of
       NetFail m \<Rightarrow> s\<lparr>calls := (calls s)[i := Settled (Inl (OtherError m))]\<rparr>
     | Reply r \<Rightarrow>
         if resp_status r = 401 \<and> shouldRefresh path then await_refresh i path r s
         else s\<lparr>calls := (calls s)[i := Settled (settle r)]\<rparr>)"

text \<open>
  The refresh is answered: the promise settles, the variable is reset by \<^verbatim>\<open>finally\<close>, then
  every waiting call goes on, sending its request again or logging the browser out.
\<close>

fun resume_call :: "bool \<Rightarrow> call \<Rightarrow> call" where
  "resume_call True (Waiting path r) = Sent path"
| "resume_call False (Waiting path r) = Settled (settle r)"
| "resume_call ok c = c"

definition on_refresh :: "net_reply \<Rightarrow> net_state \<Rightarrow> net_state" where
  "on_refresh reply s =
    (let (ok, st) = apply_refresh reply (store (browser_of s));
         b = (browser_of s)\<lparr>store := st\<rparr>;
         waiters = length (filter is_waiting (calls s))
     in s\<lparr>browser_of := (if ok then b else (clearAuthAndRedirect ^^ waiters) b),
          refreshRequest := None,
          calls := map (resume_call ok) (calls s),
          refreshes_answered := Suc (refreshes_answered s)\<rparr>)"

definition session_logout :: "net_state \<Rightarrow> net_state" where
  "session_logout s = s\<lparr>browser_of := (browser_of s)\<lparr>store := empty_storage\<rparr>\<rparr>"

definition session_login :: "string \<Rightarrow> string \<Rightarrow> json \<Rightarrow> net_state \<Rightarrow> net_state" where
  "session_login a t u s = s\<lparr>browser_of := (browser_of s)\<lparr>store :=
     \<lparr>access_token = Some a, refresh_token = Some t, stored_user = Some (SlotJson u)\<rparr>\<rparr>\<rparr>"

inductive net_step :: "net_state \<Rightarrow> net_state \<Rightarrow> bool" where
  start: "net_step s (start_call path s)"
| reply: "i < length (calls s) \<Longrightarrow> calls s ! i = Sent path \<Longrightarrow> net_step s (on_reply i path r s)"
| refreshed: "refreshRequest s = Some tok \<Longrightarrow> net_step s (on_refresh r s)"
| logout: "net_step s (session_logout s)"
| login: "net_step s (session_login a t u s)"

inductive_cases net_stepE: "net_step s s'"

definition idle_state :: "browser \<Rightarrow> net_state" where
  "idle_state b = \<lparr>browser_of = b, refreshRequest = None, calls = [],
                   refreshes_sent = 0, refreshes_answered = 0\<rparr>"

abbreviation net_reachable :: "net_state \<Rightarrow> bool" where
  "net_reachable \<equiv> reachable (\<lambda>s. \<exists>b. s = idle_state b) net_step"

text \<open>
  The invariant: a refresh is pending exactly when some call waits for it, and the requests sent are
  the ones answered plus the pending one.
\<close>

definition flight_inv :: "net_state \<Rightarrow> bool" where
  "flight_inv s \<longleftrightarrow>
     (refreshRequest s \<noteq> None \<longleftrightarrow> list_ex is_waiting (calls s)) \<and>
     refreshes_sent s = refreshes_answered s + (if refreshRequest s = None then 0 else 1)"

section \<open>Lemmas\<close>

lemma list_ex_update:
  "i < length xs \<Longrightarrow> \<not> P (xs ! i) \<Longrightarrow> list_ex P (xs[i := x]) \<longleftrightarrow> P x \<or> list_ex P xs"
  by (induction xs arbitrary: i) (auto split: nat.splits)

lemma resume_not_waiting [simp]: "\<not> is_waiting (resume_call ok c)"
  by (cases "(ok, c)" rule: resume_call.cases) auto

lemma resume_none_waiting [simp]: "\<not> list_ex is_waiting (map (resume_call ok) cs)"
  by (auto simp: list_ex_iff)

lemma flight_inv_reply:
  assumes "flight_inv s" "i < length (calls s)" "calls s ! i = Sent path"
  shows "flight_inv (on_reply i path r s)"
proof -
  have "list_ex is_waiting ((calls s)[i := c]) \<longleftrightarrow> is_waiting c \<or> list_ex is_waiting (calls s)" for c
    using list_ex_update [of i "calls s" is_waiting c] assms(2,3) by simp
  with assms(1) show ?thesis
    by (auto simp: flight_inv_def on_reply_def await_refresh_def Let_def
             split: net_reply.splits option.splits)
qed

lemma flight_inv_refresh: "flight_inv s \<Longrightarrow> refreshRequest s = Some tok \<Longrightarrow> flight_inv (on_refresh r s)"
  by (auto simp: flight_inv_def on_refresh_def Let_def split: prod.splits)

lemma net_step_inv: "net_step s s' \<Longrightarrow> flight_inv s \<Longrightarrow> flight_inv s'"
proof (induction rule: net_step.induct)
  case (start s path)
  then show ?case by (simp add: flight_inv_def start_call_def)
next
  case (reply i s path r)
  then show ?case by (simp add: flight_inv_reply)
next
  case (refreshed s tok r)
  then show ?case by (simp add: flight_inv_refresh)
qed (simp_all add: flight_inv_def session_logout_def session_login_def)

interpretation flight: step_invariant net_step flight_inv "\<lambda>s. \<exists>b. s = idle_state b"
  by unfold_locales (erule (1) net_step_inv, auto simp: flight_inv_def idle_state_def)

lemma idle_reachable: "net_reachable (idle_state b)"
  by (rule reachable.init) blast

lemma clear_power_store: "0 < n \<Longrightarrow> store ((clearAuthAndRedirect ^^ n) b) = empty_storage"
  by (cases n) auto

section \<open>Properties\<close>

text \<open>
  Property C5. In every reachable state at most one refresh request is in flight: the refreshes sent
  exceed the refreshes answered by at most one, by exactly one when some call waits for a refresh and
  by none otherwise.
\<close>

theorem single_refresh_in_flight:
  assumes "net_reachable s"
  shows "refreshes_sent s = refreshes_answered s + (if list_ex is_waiting (calls s) then 1 else 0)"
  using flight.always [OF assms] by (auto simp: flight_inv_def)

theorem single_refresh_in_flight_witness:
  "refreshes_sent (idle_state demo_browser) = 0"
  using single_refresh_in_flight [OF idle_reachable [of demo_browser]]
  by (simp add: idle_state_def)

text \<open>
  A burst of 401 answers costs one refresh: when any number of pending calls (at least
  one) receive a 401 one after the other, with a refresh token in storage and no refresh pending,
  exactly one refresh request is sent and all those calls wait for it.
\<close>

fun burst :: "response \<Rightarrow> nat list \<Rightarrow> net_state \<Rightarrow> net_state" where
  "burst r [] s = s"
| "burst r (i # is) s =
     burst r is (case calls s ! i of Sent path \<Rightarrow> on_reply i path (Reply r) s | _ \<Rightarrow> s)"

lemma burst_pending:
  assumes "usable (refresh_token (store (browser_of s))) = Some tok" "refreshRequest s = Some tok'"
    "resp_status r = 401" "distinct is"
    "\<forall>i \<in> set is. i < length (calls s) \<and> (\<exists>p. calls s ! i = Sent p \<and> shouldRefresh p)"
  shows "refreshes_sent (burst r is s) = refreshes_sent s
     \<and> length (calls (burst r is s)) = length (calls s)
     \<and> (\<forall>i < length (calls s). if i \<in> set is then is_waiting (calls (burst r is s) ! i)
                               else calls (burst r is s) ! i = calls s ! i)"
  using assms
proof (induction "is" arbitrary: s)
  case (Cons i "is")
  obtain p where p: "i < length (calls s)" "calls s ! i = Sent p" "shouldRefresh p" using Cons.prems(5) by auto
  let ?s = "s\<lparr>calls := (calls s)[i := Waiting p r]\<rparr>"
  have first: "on_reply i p (Reply r) s = ?s"
    using Cons.prems(1-3) p by (simp add: on_reply_def await_refresh_def)
  have "\<forall>j \<in> set is. j < length (calls ?s) \<and> (\<exists>p. calls ?s ! j = Sent p \<and> shouldRefresh p)"
    using Cons.prems(4,5) by (auto simp: nth_list_update)
  with Cons.IH [of ?s] Cons.prems show ?case
    by (auto simp: p first nth_list_update)
qed simp

theorem burst_shares_one_refresh:
  assumes "usable (refresh_token (store (browser_of s))) = Some tok" and "refreshRequest s = None"
    and "resp_status r = 401" and "distinct (i # is)"
    and "\<forall>j \<in> set (i # is). j < length (calls s) \<and> (\<exists>p. calls s ! j = Sent p \<and> shouldRefresh p)"
  shows "refreshes_sent (burst r (i # is) s) = Suc (refreshes_sent s)
     \<and> (\<forall>j \<in> set (i # is). is_waiting (calls (burst r (i # is) s) ! j))"
proof -
  obtain p where p: "i < length (calls s)" "calls s ! i = Sent p" "shouldRefresh p" using assms(5) by auto
  let ?s = "s\<lparr>refreshRequest := Some tok, refreshes_sent := Suc (refreshes_sent s),
              calls := (calls s)[i := Waiting p r]\<rparr>"
  have first: "on_reply i p (Reply r) s = ?s"
    using assms(1-3) p by (simp add: on_reply_def await_refresh_def)
  have "\<forall>j \<in> set is. j < length (calls ?s) \<and> (\<exists>p. calls ?s ! j = Sent p \<and> shouldRefresh p)"
    using assms(4,5) by (auto simp: nth_list_update)
  with burst_pending [of ?s tok tok r "is"] assms p show ?thesis
    by (auto simp: first nth_list_update)
qed

definition burst_demo :: net_state where
  "burst_demo = (idle_state demo_browser)\<lparr>calls := [Sent ''/a'', Sent ''/b'']\<rparr>"

theorem burst_shares_one_refresh_witness:
  "refreshes_sent (burst unauthorized_response [0, 1] burst_demo) = 1"
proof -
  have "refreshes_sent (burst unauthorized_response [0, 1] burst_demo) = Suc (refreshes_sent burst_demo)"
    using burst_shares_one_refresh [of burst_demo "''r1''" unauthorized_response 0 "[1]"]
    by (simp add: burst_demo_def idle_state_def demo_simps)
  then show ?thesis by (simp add: burst_demo_def idle_state_def)
qed

text \<open>
  The answer to a refresh leaves no call behind: every waiting call is sent again when
  the refresh is granted, and settles with its own 401 (with the storage emptied) when it is not;
  calls that were not waiting are untouched.
\<close>

theorem refresh_resumes_every_waiter:
  assumes "net_reachable s" and "refreshRequest s = Some tok"
  shows "\<not> list_ex is_waiting (calls (on_refresh reply s))
     \<and> calls (on_refresh reply s) = map (resume_call (fst (apply_refresh reply (store (browser_of s))))) (calls s)
     \<and> (\<not> fst (apply_refresh reply (store (browser_of s))) \<longrightarrow> store (browser_of (on_refresh reply s)) = empty_storage)"
proof -
  have "list_ex is_waiting (calls s)" using flight.always [OF assms(1)] assms(2) by (simp add: flight_inv_def)
  then have "0 < length (filter is_waiting (calls s))"
    by (auto simp: list_ex_iff filter_empty_conv)
  then show ?thesis by (auto simp: on_refresh_def Let_def clear_power_store split: prod.splits)
qed

definition waiting_demo :: net_state where
  "waiting_demo = on_reply 0 ''/a'' (Reply unauthorized_response) (start_call ''/a'' (idle_state demo_browser))"

lemma waiting_demo_eq:
  "waiting_demo = \<lparr>browser_of = demo_browser, refreshRequest = Some ''r1'',
     calls = [Waiting ''/a'' unauthorized_response], refreshes_sent = 1, refreshes_answered = 0\<rparr>"
  by (simp add: waiting_demo_def on_reply_def await_refresh_def start_call_def idle_state_def demo_simps)

lemma waiting_demo_reachable: "net_reachable waiting_demo"
proof -
  have "net_reachable (start_call ''/a'' (idle_state demo_browser))"
    by (rule reachable.step [OF idle_reachable net_step.start])
  then show ?thesis
    unfolding waiting_demo_def
    by (rule reachable.step) (rule net_step.reply, simp_all add: start_call_def idle_state_def)
qed

theorem refresh_resumes_every_waiter_witness:
  "calls (on_refresh (Reply (ok_response token_pair)) waiting_demo) = [Sent ''/a'']"
  using refresh_resumes_every_waiter [OF waiting_demo_reachable, of "''r1''" "Reply (ok_response token_pair)"]
  by (simp add: waiting_demo_eq apply_refresh_def demo_simps)


end
