(* ===== verification/Auth.thy ===== *)
theory Auth
  imports Refresh_Flight
begin

text \<open>
  The session of the dashboard, \<^verbatim>\<open>src/notification-admin-ui/src/auth/AuthContext.tsx\<close>: the
  permission check \<^verbatim>\<open>can\<close> with its table from granular to broad permissions, the state of
  \<^verbatim>\<open>AuthProvider\<close> next to the storage it mirrors, \<^verbatim>\<open>login\<close>, \<^verbatim>\<open>logout\<close>,
  the logout event and the \<^verbatim>\<open>/auth/me\<close> effect. The permission check of the server,
  \<^verbatim>\<open>HasPermission\<close> in \<^verbatim>\<open>src/notification-core-api/internal/auth/auth.go\<close>, is modelled
  beside it so that the two can be compared.
\<close>

section \<open>Principals and permissions\<close>

text \<open>
  \<^verbatim>\<open>permissions\<close> is \<^const>\<open>None\<close> when the server sends null for an empty slice, which the
  optional chaining of the check allows.
\<close>

record principal =
  user_id :: string
  tenant_id :: "string option"
  email :: string
  is_platform_admin :: bool
  permissions :: "string list option"

definition GRANULAR_TO_BROAD :: "string obj" where
  "GRANULAR_TO_BROAD =
    [(''users.view'', ''users.manage''),
     (''users.create'', ''users.manage''),
     (''users.update'', ''users.manage''),
     (''users.delete'', ''users.manage''),
     (''users.reset_password'', ''users.manage''),
     (''users.assign_roles'', ''users.manage''),
     (''users.assign_permissions'', ''users.manage''),
     (''features.view'', ''features.manage''),
     (''features.update'', ''features.manage''),
     (''channels.view'', ''channels.manage''),
     (''channels.update'', ''channels.manage''),
     (''queue_controls.view'', ''channels.manage''),
     (''queue_controls.update'', ''channels.manage''),
     (''providers.view'', ''providers.manage''),
     (''providers.create'', ''providers.manage''),
     (''providers.update'', ''providers.manage''),
     (''providers.delete'', ''providers.manage''),
     (''providers.test'', ''providers.manage''),
     (''groups.view'', ''groups.manage''),
     (''groups.create'', ''groups.manage''),
     (''groups.update'', ''groups.manage''),
     (''groups.delete'', ''groups.manage''),
     (''groups.members.manage'', ''groups.manage''),
     (''settings.view'', ''settings.manage''),
     (''settings.update'', ''settings.manage''),
     (''api_keys.view'', ''api_keys.manage''),
     (''api_keys.create'', ''api_keys.manage''),
     (''api_keys.revoke'', ''api_keys.manage''),
     (''integration.view'', ''api_keys.view''),
     (''integration.test'', ''notifications.send''),
     (''integration.view_api_docs'', ''integration.view''),
     (''campaigns.view'', ''campaigns.manage''),
     (''campaigns.create'', ''campaigns.manage''),
     (''campaigns.update'', ''campaigns.manage''),
     (''campaigns.approve'', ''campaigns.manage''),
     (''campaigns.send'', ''campaigns.manage''),
     (''campaigns.schedule'', ''campaigns.manage''),
     (''campaigns.cancel'', ''campaigns.manage''),
     (''templates.view'', ''templates.manage''),
     (''templates.create'', ''templates.manage''),
     (''templates.update'', ''templates.manage''),
     (''templates.delete'', ''templates.manage''),
     (''contacts.view'', ''contacts.manage''),
     (''contacts.create'', ''contacts.manage''),
     (''contacts.update'', ''contacts.manage''),
     (''contacts.delete'', ''contacts.manage''),
     (''notifications.view'', ''notifications.manage''),
     (''notifications.create'', ''notifications.manage''),
     (''notifications.send'', ''notifications.manage''),
     (''notifications.bulk_send'', ''notifications.manage''),
     (''notifications.retry'', ''notifications.manage''),
     (''notifications.cancel'', ''notifications.manage''),
     (''tenants.view'', ''tenants.manage''),
     (''tenants.create'', ''tenants.manage''),
     (''tenants.update'', ''tenants.manage''),
     (''tenants.delete'', ''tenants.manage''),
     (''audit_logs.view'', ''audit_logs.manage'')]"

definition has :: "string list option \<Rightarrow> string \<Rightarrow> bool" where
  "has ps p = (case ps of None \<Rightarrow> False | Some xs \<Rightarrow> List.member xs p)"

definition hasPermission :: "principal option \<Rightarrow> string \<Rightarrow> bool" where
  "hasPermission user permission =
    (case user of
       None \<Rightarrow> False
     | Some u \<Rightarrow>
         if is_platform_admin u then True
         else if has (permissions u) permission then True
         else (case obj_get GRANULAR_TO_BROAD permission of
                 Some broad \<Rightarrow> has (permissions u) broad
               | None \<Rightarrow> False))"

text \<open>The server's table and check.\<close>

definition granularToBroad :: "string obj" where
  "granularToBroad =
    [(''users.view'', ''users.manage''),
     (''users.create'', ''users.manage''),
     (''users.update'', ''users.manage''),
     (''users.delete'', ''users.manage''),
     (''users.reset_password'', ''users.manage''),
     (''users.assign_roles'', ''users.manage''),
     (''users.assign_permissions'', ''users.manage''),
     (''features.view'', ''features.manage''),
     (''features.update'', ''features.manage''),
     (''channels.view'', ''channels.manage''),
     (''channels.update'', ''channels.manage''),
     (''queue_controls.view'', ''channels.manage''),
     (''queue_controls.update'', ''channels.manage''),
     (''providers.view'', ''providers.manage''),
     (''providers.create'', ''providers.manage''),
     (''providers.update'', ''providers.manage''),
     (''providers.delete'', ''providers.manage''),
     (''providers.test'', ''providers.manage''),
     (''groups.view'', ''groups.manage''),
     (''groups.create'', ''groups.manage''),
     (''groups.update'', ''groups.manage''),
     (''groups.delete'', ''groups.manage''),
     (''groups.members.manage'', ''groups.manage''),
     (''settings.view'', ''settings.manage''),
     (''settings.update'', ''settings.manage''),
     (''api_keys.view'', ''api_keys.manage''),
     (''api_keys.create'', ''api_keys.manage''),
     (''api_keys.revoke'', ''api_keys.manage''),
     (''integration.view'', ''api_keys.view''),
     (''integration.test'', ''notifications.send''),
     (''integration.view_api_docs'', ''integration.view''),
     (''campaigns.view'', ''campaigns.manage''),
     (''campaigns.create'', ''campaigns.manage''),
     (''campaigns.update'', ''campaigns.manage''),
     (''campaigns.approve'', ''campaigns.manage''),
     (''campaigns.send'', ''campaigns.manage''),
     (''campaigns.schedule'', ''campaigns.manage''),
     (''campaigns.cancel'', ''campaigns.manage''),
     (''templates.view'', ''templates.manage''),
     (''templates.create'', ''templates.manage''),
     (''templates.update'', ''templates.manage''),
     (''templates.delete'', ''templates.manage''),
     (''contacts.view'', ''contacts.manage''),
     (''contacts.create'', ''contacts.manage''),
     (''contacts.update'', ''contacts.manage''),
     (''contacts.delete'', ''contacts.manage''),
     (''notifications.view'', ''notifications.manage''),
     (''notifications.create'', ''notifications.manage''),
     (''notifications.send'', ''notifications.manage''),
     (''notifications.bulk_send'', ''notifications.manage''),
     (''notifications.retry'', ''notifications.manage''),
     (''notifications.cancel'', ''notifications.manage''),
     (''tenants.view'', ''tenants.manage''),
     (''tenants.create'', ''tenants.manage''),
     (''tenants.update'', ''tenants.manage''),
     (''tenants.delete'', ''tenants.manage'')]"

definition HasPermission :: "principal \<Rightarrow> string \<Rightarrow> bool" where
  "HasPermission p permission =
    (if is_platform_admin p then True
     else if has (permissions p) permission then True
     else (case obj_get granularToBroad permission of
             Some broad \<Rightarrow> has (permissions p) broad
           | None \<Rightarrow> False))"

section \<open>AuthProvider\<close>

text \<open>
  How the typed code reads a parsed user. A value of another shape than the wire type
  \<^verbatim>\<open>Principal\<close> is read as the missing fields.
\<close>

definition json_strings :: "json option \<Rightarrow> string list option" where
  "json_strings v = (case v of
       Some (JArr vs) \<Rightarrow> Some (concat (map (\<lambda>j. case j of JStr s \<Rightarrow> [s] | _ \<Rightarrow> []) vs))
     | _ \<Rightarrow> None)"

definition json_text :: "json option \<Rightarrow> string option" where
  "json_text v = (case v of Some (JStr s) \<Rightarrow> Some s | _ \<Rightarrow> None)"

definition principal_of :: "json \<Rightarrow> principal" where
  "principal_of j =
    \<lparr>user_id = or_opt (json_text (jprop j ''user_id'')) [],
     tenant_id = json_text (jprop j ''tenant_id''),
     email = or_opt (json_text (jprop j ''email'')) [],
     is_platform_admin = truthy_opt (jprop j ''is_platform_admin''),
     permissions = json_strings (jprop j ''permissions'')\<rparr>"

text \<open>
  The React state of the provider beside the browser it lives in. Only the user is parsed, so only
  the user is kept as a value; the state keeps the value, the check reads it as a principal.
\<close>

record auth_state =
  auth_browser :: browser
  auth_token :: "string option"
  auth_user :: "json option"

text \<open>
  Mounting the provider reads both keys. \<^verbatim>\<open>JSON.parse\<close> of a slot that holds the text
  \<^verbatim>\<open>undefined\<close> throws, which is \<^const>\<open>None\<close> here.
\<close>

definition mount_provider :: "browser \<Rightarrow> auth_state option" where
  "mount_provider b =
    (case stored_user (store b) of
       None \<Rightarrow> Some \<lparr>auth_browser = b, auth_token = access_token (store b), auth_user = None\<rparr>
     | Some (SlotJson u) \<Rightarrow>
         Some \<lparr>auth_browser = b, auth_token = access_token (store b),
               auth_user = (if u = JNull then None else Some u)\<rparr>
     | Some SlotUndefined \<Rightarrow> None)"

definition json_slot :: "json option \<Rightarrow> slot" where
  "json_slot v = (case v of None \<Rightarrow> SlotUndefined | Some j \<Rightarrow> SlotJson j)"

definition syncLogout :: "auth_state \<Rightarrow> auth_state" where
  "syncLogout s = s\<lparr>auth_token := None, auth_user := None\<rparr>"

definition logout :: "auth_state \<Rightarrow> auth_state" where
  "logout s = s\<lparr>auth_browser := (auth_browser s)\<lparr>store := empty_storage\<rparr>,
               auth_token := None, auth_user := None\<rparr>"

text \<open>
  The continuation of \<^verbatim>\<open>login\<close> once its request has settled: an error is passed on, a
  success is written to storage and state. A property the answer lacks is stored as the text
  \<^verbatim>\<open>undefined\<close>.
\<close>

definition login_done :: "json outcome \<Rightarrow> auth_state \<Rightarrow> js_error option \<times> auth_state" where
  "login_done res s =
    (case res of
       Inl err \<Rightarrow> (Some err, s)
     | Inr data \<Rightarrow>
         (None,
          s\<lparr>auth_browser := (auth_browser s)\<lparr>store :=
               \<lparr>access_token = Some (js_string_opt (jprop data ''access_token'')),
                refresh_token = Some (js_string_opt (jprop data ''refresh_token'')),
                stored_user = Some (json_slot (jprop data ''user''))\<rparr>\<rparr>,
            auth_token := json_text (jprop data ''access_token''),
            auth_user := jprop data ''user''\<rparr>))"

definition login_options :: "string \<Rightarrow> string \<Rightarrow> options" where
  "login_options mail password = \<lparr>opt_method = ''POST'', opt_headers = [],
     opt_body = Some (JObj [(''email'', JStr mail), (''password'', JStr password)])\<rparr>"

definition login ::
    "'e server \<Rightarrow> string \<Rightarrow> nat \<Rightarrow> string \<Rightarrow> string \<Rightarrow> auth_state \<Rightarrow> 'e \<Rightarrow>
       (js_error option \<times> auth_state \<times> 'e) option" where
  "login srv base n mail password s e =
    (case apiRequest srv base n login_path (login_options mail password) (auth_browser s) e of
       None \<Rightarrow> None
     | Some (res, b, e') \<Rightarrow>
         (case login_done res (s\<lparr>auth_browser := b\<rparr>) of (err, s') \<Rightarrow> Some (err, s', e')))"

text \<open>
  The effect that runs when the token changes: nothing without a token; otherwise the answer to
  \<^verbatim>\<open>/auth/me\<close> replaces the user, and a failure logs out.
\<close>

definition me_path :: string where "me_path = ''/admin/api/v1/auth/me''"

definition me_done :: "json outcome \<Rightarrow> auth_state \<Rightarrow> auth_state" where
  "me_done res s =
    (case res of
       Inl _ \<Rightarrow> logout s
     | Inr data \<Rightarrow>
         s\<lparr>auth_user := jprop data ''user'',
           auth_browser := (auth_browser s)\<lparr>store := (store (auth_browser s))
              \<lparr>stored_user := Some (json_slot (jprop data ''user''))\<rparr>\<rparr>\<rparr>)"

definition can :: "auth_state \<Rightarrow> string \<Rightarrow> bool" where
  "can s permission = hasPermission (map_option principal_of (auth_user s)) permission"

section \<open>Lemmas\<close>

lemma has_simps [simp]: "has None p = False" "has (Some xs) p \<longleftrightarrow> p \<in> set xs"
  by (simp_all add: has_def)

lemma hasPermission_simps:
  "hasPermission None p = False"
  "hasPermission (Some u) p \<longleftrightarrow> is_platform_admin u \<or> has (permissions u) p \<or>
     (\<exists>b. obj_get GRANULAR_TO_BROAD p = Some b \<and> has (permissions u) b)"
  by (auto simp: hasPermission_def split: option.splits)

lemma HasPermission_iff:
  "HasPermission u p \<longleftrightarrow> is_platform_admin u \<or> has (permissions u) p \<or>
     (\<exists>b. obj_get granularToBroad p = Some b \<and> has (permissions u) b)"
  by (auto simp: HasPermission_def split: option.splits)

text \<open>The two tables differ in one entry.\<close>

lemma tables_append: "GRANULAR_TO_BROAD = granularToBroad @ [(''audit_logs.view'', ''audit_logs.manage'')]"
  by (simp add: GRANULAR_TO_BROAD_def granularToBroad_def)

lemma granularToBroad_audit: "obj_get granularToBroad ''audit_logs.view'' = None"
  by (simp add: granularToBroad_def)

lemma obj_get_append: "obj_get (xs @ ys) k = (case obj_get xs k of None \<Rightarrow> obj_get ys k | Some v \<Rightarrow> Some v)"
  by (induction xs) auto

lemma GRANULAR_TO_BROAD_get:
  "obj_get GRANULAR_TO_BROAD p =
     (if p = ''audit_logs.view'' then Some ''audit_logs.manage'' else obj_get granularToBroad p)"
  using granularToBroad_audit by (auto simp: tables_append obj_get_append split: option.splits)

lemma GRANULAR_TO_BROAD_wf: "obj_wf GRANULAR_TO_BROAD"
  unfolding obj_wf_def GRANULAR_TO_BROAD_def by (simp only: list.map fst_conv) code_simp

lemma login_path_no_refresh: "\<not> shouldRefresh login_path"
  unfolding shouldRefresh_def login_path_def by code_simp

lemma apiRequest_no_refresh:
  "\<not> shouldRefresh path \<Longrightarrow>
   apiRequest srv base (Suc n) path opts b e =
     (case srv e (build_request base path opts (store b)) of
        (NetFail m, e1) \<Rightarrow> Some (Inl (OtherError m), b, e1)
      | (Reply r, e1) \<Rightarrow> Some (settle r, b, e1))"
  by (simp split: prod.splits net_reply.splits)

section \<open>Properties\<close>

text \<open>
  Property C12. The check in the dashboard and the check on the server agree on every principal and
  every permission but one: a user who holds \<^verbatim>\<open>audit_logs.manage\<close> without
  \<^verbatim>\<open>audit_logs.view\<close> passes the check for \<^verbatim>\<open>audit_logs.view\<close> in the dashboard and
  fails it on the server. In particular the dashboard never hides what the server would allow.
\<close>

theorem dashboard_and_server_permissions:
  "hasPermission (Some u) p \<longleftrightarrow>
     HasPermission u p \<or> (p = ''audit_logs.view'' \<and> has (permissions u) ''audit_logs.manage'')"
  by (auto simp: hasPermission_simps HasPermission_iff GRANULAR_TO_BROAD_get granularToBroad_audit)

text \<open>
  Broad permissions grant their granular ones and nothing else does: for a tenant user,
  a permission check succeeds exactly when the user holds the permission itself or the one broad
  permission the table names for it; holding more permissions never revokes one.
\<close>

theorem hasPermission_sound_complete:
  assumes "\<not> is_platform_admin u" and "permissions u = Some ps"
  shows "(hasPermission (Some u) p \<longleftrightarrow> p \<in> set ps \<or> (\<exists>b \<in> set ps. (p, b) \<in> set GRANULAR_TO_BROAD))
     \<and> (hasPermission (Some u) p \<longrightarrow> hasPermission (Some (u\<lparr>permissions := Some (ps @ qs)\<rparr>)) p)"
proof -
  have "obj_get GRANULAR_TO_BROAD p = Some b \<longleftrightarrow> (p, b) \<in> set GRANULAR_TO_BROAD" for b
    using GRANULAR_TO_BROAD_wf by (simp add: obj_get_def obj_wf_def)
  with assms show ?thesis by (auto simp: hasPermission_simps)
qed

definition demo_user :: principal where
  "demo_user = \<lparr>user_id = ''u1'', tenant_id = Some ''t1'', email = ''a@b.c'', is_platform_admin = False,
                permissions = Some [''users.manage'']\<rparr>"

theorem hasPermission_sound_complete_witness:
  "hasPermission (Some demo_user) ''users.create''"
proof -
  have "(''users.create'', ''users.manage'') \<in> set GRANULAR_TO_BROAD"
    by (simp add: GRANULAR_TO_BROAD_def)
  then show ?thesis
    using hasPermission_sound_complete [of demo_user "[''users.manage'']" "''users.create''" "[]"]
    by (simp add: demo_user_def)
qed

text \<open>
  Property C13. A session survives a reload: after a login whose answer carries the two tokens and a
  user, mounting the provider again on the same browser gives back the very state the login produced;
  after a logout it gives back the logged-out state, with no token and no user.
\<close>

theorem session_survives_reload:
  assumes "jprop data ''access_token'' = Some (JStr a)" and "jprop data ''refresh_token'' = Some (JStr t)"
    and "jprop data ''user'' = Some u" and "u \<noteq> JNull"
  shows "mount_provider (auth_browser (snd (login_done (Inr data) s))) = Some (snd (login_done (Inr data) s))
     \<and> auth_token (snd (login_done (Inr data) s)) = Some a
     \<and> mount_provider (auth_browser (logout (snd (login_done (Inr data) s)))) =
         Some (logout (snd (login_done (Inr data) s)))
     \<and> auth_token (logout s) = None \<and> \<not> can (logout s) p"
  using assms
  by (simp add: login_done_def mount_provider_def logout_def json_slot_def json_text_def
        empty_storage_def can_def hasPermission_simps)

definition demo_login :: json where
  "demo_login = JObj [(''access_token'', JStr ''a''), (''refresh_token'', JStr ''r''),
                      (''user'', JObj [(''email'', JStr ''a@b.c'')])]"

definition demo_session :: auth_state where
  "demo_session = \<lparr>auth_browser = demo_browser, auth_token = None, auth_user = None\<rparr>"

theorem session_survives_reload_witness:
  "mount_provider (auth_browser (snd (login_done (Inr demo_login) demo_session)))
     = Some (snd (login_done (Inr demo_login) demo_session))"
  using session_survives_reload [of demo_login "''a''" "''r''" "JObj [(''email'', JStr ''a@b.c'')]" demo_session]
  by (simp add: demo_login_def)

text \<open>
  A failed login changes nothing: one round of \<^verbatim>\<open>login\<close> always settles, it never
  refreshes or clears a session that exists in another tab of the same browser, and when it reports
  an error the storage, the location and the provider's state are those from before.
\<close>

theorem login_failure_keeps_session:
  "\<exists>err s' e'. login srv base (Suc n) mail password s e = Some (err, s', e')
     \<and> (err \<noteq> None \<longrightarrow> s' = s)"
  by (cases "srv e (build_request base login_path (login_options mail password) (store (auth_browser s)))";
      cases "fst (srv e (build_request base login_path (login_options mail password) (store (auth_browser s))))")
     (auto simp: login_def apiRequest_no_refresh login_path_no_refresh login_done_def split: sum.splits)

theorem login_failure_keeps_session_witness:
  "\<exists>err s' e'. login (\<lambda>e rq. (Reply unauthorized_response, e)) [] 1 ''a@b.c'' ''x'' demo_session ()
     = Some (err, s', e') \<and> (err \<noteq> None \<longrightarrow> s' = demo_session)"
  using login_failure_keeps_session [of "\<lambda>e rq. (Reply unauthorized_response, e)" "[]" 0 "''a@b.c''" "''x''" demo_session "()"]
  by simp

end
