(* ===== verification/Send_Notification.thy ===== *)
theory Send_Notification
  imports Template_Text Paged_List Auth
begin

text \<open>
  The page that composes and queues a notification,
  \<^verbatim>\<open>src/notification-admin-ui/src/pages/notifications/SendNotificationPage.tsx\<close>: its state, the
  effects that keep channels, variables and event in step with the chosen tenant and template, the
  validation of the form, the request it sends and what it shows.

  An effect runs after a render in which one of its dependencies changed; \<^verbatim>\<open>send_effects\<close> takes the
  three kinds of change as flags and each handler says which of them it causes. A response replaces an
  array by a fresh one, which counts as a change even if the contents are equal.
\<close>

section \<open>Data\<close>

record send_tenant =
  st_id :: string
  st_name :: string
  st_slug :: string

record send_contact =
  sc_id :: string
  sc_name :: string
  sc_email :: string
  sc_phone :: string

record send_group =
  sg_id :: string
  sg_name :: string

record send_template =
  tm_id :: string
  tm_key :: string
  tm_channel :: string
  tm_subject :: "string option"
  tm_body :: "string option"

record send_channel =
  ch_channel :: string
  ch_enabled :: bool

datatype preview_mode = PreviewText | PreviewMarkdown | PreviewHtml

record email_options =
  from_name :: string
  from_email :: string
  reply_to :: string
  preheader :: string

record sms_options =
  sender_id :: string
  unicode :: bool
  callback_url :: string

record fcm_options =
  fcm_title :: string
  image_url :: string
  click_action :: string
  collapse_key :: string

record websocket_options =
  event_name :: string
  room :: string

record in_app_options =
  ia_title :: string
  ia_category :: string
  ia_expires_at :: string

record channel_options =
  co_email :: email_options
  co_sms :: sms_options
  co_fcm :: fcm_options
  co_websocket :: websocket_options
  co_in_app :: in_app_options

definition emptyChannelOptions :: channel_options where
  "emptyChannelOptions =
    \<lparr>co_email = \<lparr>from_name = [], from_email = [], reply_to = [], preheader = []\<rparr>,
     co_sms = \<lparr>sender_id = [], unicode = False, callback_url = []\<rparr>,
     co_fcm = \<lparr>fcm_title = [], image_url = [], click_action = [], collapse_key = []\<rparr>,
     co_websocket = \<lparr>event_name = [], room = []\<rparr>,
     co_in_app = \<lparr>ia_title = [], ia_category = [], ia_expires_at = []\<rparr>\<rparr>"

datatype recipient_mode =
    RContact | RGroup | RDirectEmail | RDirectPhone | RFcmToken | RFcmTopic | RWebsocketUser | RInAppUser

fun recipient_mode_value :: "recipient_mode \<Rightarrow> string" where
  "recipient_mode_value RContact = ''contact''"
| "recipient_mode_value RGroup = ''group''"
| "recipient_mode_value RDirectEmail = ''direct_email''"
| "recipient_mode_value RDirectPhone = ''direct_phone''"
| "recipient_mode_value RFcmToken = ''fcm_token''"
| "recipient_mode_value RFcmTopic = ''fcm_topic''"
| "recipient_mode_value RWebsocketUser = ''websocket_user''"
| "recipient_mode_value RInAppUser = ''in_app_user''"

definition RECIPIENT_MODES :: "(recipient_mode \<times> string) list" where
  "RECIPIENT_MODES =
    [(RContact, ''Contact''),
     (RGroup, ''Contact Group''),
     (RDirectEmail, ''Direct Email''),
     (RDirectPhone, ''Direct Phone/SMS''),
     (RFcmToken, ''FCM Token''),
     (RFcmTopic, ''FCM Topic''),
     (RWebsocketUser, ''WebSocket User''),
     (RInAppUser, ''In-App User'')]"

section \<open>State\<close>

record send_page =
  sp_isPlatform :: bool
  sp_myTenantId :: string
  sp_tenants :: "send_tenant list"
  sp_tenantId :: string
  sp_contacts :: "send_contact list"
  sp_groups :: "send_group list"
  sp_templates :: "send_template list"
  sp_availableChannels :: "string list"
  sp_mode :: recipient_mode
  sp_recipientValue :: string
  sp_contactId :: string
  sp_groupId :: string
  sp_event :: string
  sp_selectedChannels :: "string list"
  sp_templateKey :: string
  sp_templateValues :: "string obj"
  sp_previewMode :: preview_mode
  sp_priority :: int
  sp_sendAt :: string
  sp_error :: string
  sp_fieldErrors :: "string obj"
  sp_channelOptions :: channel_options
  sp_sending :: bool
  sp_loadingTenant :: bool

definition effectiveTenant :: "send_page \<Rightarrow> string" where
  "effectiveTenant s = or_str (sp_tenantId s) (sp_myTenantId s)"

definition selectedTemplate :: "send_page \<Rightarrow> send_template option" where
  "selectedTemplate s = find (\<lambda>t. tm_key t = sp_templateKey s) (sp_templates s)"

definition template_subject :: "send_template option \<Rightarrow> string" where
  "template_subject t = (case t of Some t \<Rightarrow> or_opt (tm_subject t) [] | None \<Rightarrow> [])"

definition template_body :: "send_template option \<Rightarrow> string" where
  "template_body t = (case t of Some t \<Rightarrow> or_opt (tm_body t) [] | None \<Rightarrow> [])"

definition templateVariables :: "send_page \<Rightarrow> string list" where
  "templateVariables s = template_variables (template_subject (selectedTemplate s)) (template_body (selectedTemplate s))"

definition renderedSubject :: "send_page \<Rightarrow> string" where
  "renderedSubject s = renderTemplate (template_subject (selectedTemplate s)) (sp_templateValues s)"

definition renderedBody :: "send_page \<Rightarrow> string" where
  "renderedBody s = renderTemplate (template_body (selectedTemplate s)) (sp_templateValues s)"

section \<open>Effects\<close>

text \<open>Channels that are no longer available are dropped from the selection.\<close>

definition effect_channels :: "send_page \<Rightarrow> send_page" where
  "effect_channels s =
    s\<lparr>sp_selectedChannels := filter (\<lambda>ch. List.member (sp_availableChannels s) ch) (sp_selectedChannels s)\<rparr>"

text \<open>The values follow the variables of the template; a value entered before is kept.\<close>

definition effect_values :: "send_page \<Rightarrow> send_page" where
  "effect_values s =
    s\<lparr>sp_templateValues :=
       fold (\<lambda>key next. obj_set key (or_opt (obj_get (sp_templateValues s) key) []) next) (templateVariables s) []\<rparr>"

text \<open>The channel of the template joins the selection, and its key is the default event.\<close>

definition effect_template :: "send_page \<Rightarrow> send_page" where
  "effect_template s =
    (case selectedTemplate s of
       None \<Rightarrow> s
     | Some t \<Rightarrow>
         let s1 = (if tm_channel t \<noteq> [] \<and> List.member (sp_availableChannels s) (tm_channel t)
                     \<and> \<not> List.member (sp_selectedChannels s) (tm_channel t)
                   then s\<lparr>sp_selectedChannels := sp_selectedChannels s @ [tm_channel t]\<rparr> else s)
         in if sp_event s = [] then s1\<lparr>sp_event := tm_key t\<rparr> else s1)"

definition send_effects :: "bool \<Rightarrow> bool \<Rightarrow> bool \<Rightarrow> send_page \<Rightarrow> send_page" where
  "send_effects channels_changed template_changed event_changed s =
    (let s1 = (if channels_changed then effect_channels s else s);
         s2 = (if template_changed then effect_values s1 else s1)
     in if channels_changed \<or> template_changed \<or> event_changed then effect_template s2 else s2)"

section \<open>Loading\<close>

definition tenant_calls :: "string \<Rightarrow> api_call list" where
  "tenant_calls tenant =
    map api_get
      [''/admin/api/v1/contacts?tenant_id='' @ tenant,
       ''/admin/api/v1/groups?tenant_id='' @ tenant,
       ''/admin/api/v1/templates?tenant_id='' @ tenant,
       ''/admin/api/v1/channels?tenant_id='' @ tenant]"

text \<open>The effect on the tenant: nothing without one, otherwise four lists are requested together.\<close>

definition effect_tenant :: "send_page \<Rightarrow> send_page \<times> api_call list" where
  "effect_tenant s =
    (if effectiveTenant s = [] then (s, [])
     else (s\<lparr>sp_loadingTenant := True\<rparr>, tenant_calls (effectiveTenant s)))"

definition tenants_call :: "send_page \<Rightarrow> api_call list" where
  "tenants_call s = (if sp_isPlatform s then [api_get ''/admin/api/v1/tenants''] else [])"

definition send_init :: "principal option \<Rightarrow> send_page" where
  "send_init user =
    (let platform = (case user of Some u \<Rightarrow> is_platform_admin u | None \<Rightarrow> False);
         mine = (case user of Some u \<Rightarrow> (case tenant_id u of Some t \<Rightarrow> t | None \<Rightarrow> []) | None \<Rightarrow> [])
     in \<lparr>sp_isPlatform = platform, sp_myTenantId = mine, sp_tenants = [],
         sp_tenantId = (if platform then [] else mine),
         sp_contacts = [], sp_groups = [], sp_templates = [], sp_availableChannels = [],
         sp_mode = RDirectEmail, sp_recipientValue = [], sp_contactId = [], sp_groupId = [], sp_event = [],
         sp_selectedChannels = [''email''], sp_templateKey = [], sp_templateValues = [],
         sp_previewMode = PreviewText, sp_priority = 5, sp_sendAt = [], sp_error = [], sp_fieldErrors = [],
         sp_channelOptions = emptyChannelOptions, sp_sending = False, sp_loadingTenant = False\<rparr>)"

text \<open>The first render: every effect runs once, in the order of the source.\<close>

definition send_mount :: "principal option \<Rightarrow> send_page \<times> api_call list" where
  "send_mount user =
    (let s0 = send_init user;
         (s1, cs) = effect_tenant s0
     in (send_effects True True True s1, tenants_call s0 @ cs))"

text \<open>A change of the tenant requests the tenant list again, and the data of the tenant if it is another one.\<close>

definition set_tenant :: "string \<Rightarrow> send_page \<Rightarrow> send_page \<times> api_call list" where
  "set_tenant v s =
    (let s1 = s\<lparr>sp_tenantId := v\<rparr>
     in if v = sp_tenantId s then (s1, [])
        else if effectiveTenant s1 = effectiveTenant s then (s1, tenants_call s1)
        else case effect_tenant s1 of (s2, cs) \<Rightarrow> (s2, tenants_call s1 @ cs))"

text \<open>
  The tenant list arrives: the first tenant is chosen unless one was chosen when the request was sent;
  \<^verbatim>\<open>captured\<close> is the tenant of the render whose effect sent it.
\<close>

definition tenants_loaded ::
    "string \<Rightarrow> send_tenant list outcome \<Rightarrow> send_page \<Rightarrow> send_page \<times> api_call list" where
  "tenants_loaded captured res s =
    (case res of
       Inl _ \<Rightarrow> (s, [])
     | Inr ts \<Rightarrow>
         let s1 = s\<lparr>sp_tenants := ts\<rparr>
         in if ts \<noteq> [] \<and> captured = [] then set_tenant (st_id (hd ts)) s1 else (s1, []))"

definition contacts_loaded :: "send_contact list outcome \<Rightarrow> send_page \<Rightarrow> send_page" where
  "contacts_loaded res s = (case res of Inr xs \<Rightarrow> s\<lparr>sp_contacts := xs\<rparr> | Inl _ \<Rightarrow> s)"

definition groups_loaded :: "send_group list outcome \<Rightarrow> send_page \<Rightarrow> send_page" where
  "groups_loaded res s = (case res of Inr xs \<Rightarrow> s\<lparr>sp_groups := xs\<rparr> | Inl _ \<Rightarrow> s)"

definition templates_loaded :: "send_template list outcome \<Rightarrow> send_page \<Rightarrow> send_page" where
  "templates_loaded res s =
    (case res of
       Inr xs \<Rightarrow>
         let s1 = s\<lparr>sp_templates := xs\<rparr>
         in send_effects False (selectedTemplate s \<noteq> None \<or> selectedTemplate s1 \<noteq> None) False s1
     | Inl _ \<Rightarrow> s)"

definition channels_loaded :: "send_channel list outcome \<Rightarrow> send_page \<Rightarrow> send_page" where
  "channels_loaded res s =
    (let chans = (case res of
                    Inr xs \<Rightarrow> uniq (map ch_channel (filter ch_enabled xs))
                  | Inl _ \<Rightarrow> [])
     in send_effects True False False (s\<lparr>sp_availableChannels := chans\<rparr>))"

definition tenant_data_settled :: "send_page \<Rightarrow> send_page" where
  "tenant_data_settled s = s\<lparr>sp_loadingTenant := False\<rparr>"

section \<open>Editing\<close>

definition clearFieldError :: "string \<Rightarrow> send_page \<Rightarrow> send_page" where
  "clearFieldError name s =
    (if or_opt (obj_get (sp_fieldErrors s) name) [] = [] then s
     else s\<lparr>sp_fieldErrors := obj_delete name (sp_fieldErrors s)\<rparr>)"

definition choose_tenant :: "string \<Rightarrow> send_page \<Rightarrow> send_page \<times> api_call list" where
  "choose_tenant v s = (case set_tenant v s of (s1, cs) \<Rightarrow> (clearFieldError ''tenant'' s1, cs))"

definition choose_mode :: "recipient_mode \<Rightarrow> send_page \<Rightarrow> send_page" where
  "choose_mode m s = clearFieldError ''recipient'' (s\<lparr>sp_mode := m\<rparr>)"

definition choose_contact :: "string \<Rightarrow> send_page \<Rightarrow> send_page" where
  "choose_contact v s = clearFieldError ''recipient'' (s\<lparr>sp_contactId := v\<rparr>)"

definition choose_group :: "string \<Rightarrow> send_page \<Rightarrow> send_page" where
  "choose_group v s = clearFieldError ''recipient'' (s\<lparr>sp_groupId := v\<rparr>)"

definition enter_recipient :: "string \<Rightarrow> send_page \<Rightarrow> send_page" where
  "enter_recipient v s = clearFieldError ''recipient'' (s\<lparr>sp_recipientValue := v\<rparr>)"

definition choose_template :: "string \<Rightarrow> send_page \<Rightarrow> send_page" where
  "choose_template v s =
    (let s1 = clearFieldError ''template'' (s\<lparr>sp_templateKey := v\<rparr>)
     in send_effects False (selectedTemplate s1 \<noteq> selectedTemplate s) False s1)"

definition toggleChannel :: "string \<Rightarrow> send_page \<Rightarrow> send_page" where
  "toggleChannel ch s =
    clearFieldError ''channels'' (s\<lparr>sp_selectedChannels := toggle_list ch (sp_selectedChannels s)\<rparr>)"

text \<open>The button above the channels selects all of them, or none when all are selected.\<close>

definition select_all_channels :: "send_page \<Rightarrow> send_page" where
  "select_all_channels s =
    (if sp_availableChannels s = [] then s
     else s\<lparr>sp_selectedChannels :=
            (if length (sp_selectedChannels s) = length (sp_availableChannels s) then [] else sp_availableChannels s)\<rparr>)"

definition enter_event :: "string \<Rightarrow> send_page \<Rightarrow> send_page" where
  "enter_event v s = send_effects False False (v \<noteq> sp_event s) (clearFieldError ''event'' (s\<lparr>sp_event := v\<rparr>))"

definition enter_value :: "string \<Rightarrow> string \<Rightarrow> send_page \<Rightarrow> send_page" where
  "enter_value key v s =
    clearFieldError (''var.'' @ key) (s\<lparr>sp_templateValues := obj_set key v (sp_templateValues s)\<rparr>)"

text \<open>The fields of the channel configuration; a sender name is kept in capitals.\<close>

datatype option_edit =
    EditFromName string | EditFromEmail string | EditReplyTo string | EditPreheader string
  | EditSenderId string | EditCallbackUrl string | EditUnicode bool
  | EditFcmTitle string | EditImageUrl string | EditClickAction string | EditCollapseKey string
  | EditEventName string | EditRoom string | EditInboxTitle string | EditExpiresAt string

fun update_options :: "option_edit \<Rightarrow> channel_options \<Rightarrow> channel_options" where
  "update_options (EditFromName v) o1 = o1\<lparr>co_email := (co_email o1)\<lparr>from_name := v\<rparr>\<rparr>"
| "update_options (EditFromEmail v) o1 = o1\<lparr>co_email := (co_email o1)\<lparr>from_email := v\<rparr>\<rparr>"
| "update_options (EditReplyTo v) o1 = o1\<lparr>co_email := (co_email o1)\<lparr>reply_to := v\<rparr>\<rparr>"
| "update_options (EditPreheader v) o1 = o1\<lparr>co_email := (co_email o1)\<lparr>preheader := v\<rparr>\<rparr>"
| "update_options (EditSenderId v) o1 = o1\<lparr>co_sms := (co_sms o1)\<lparr>sender_id := to_upper v\<rparr>\<rparr>"
| "update_options (EditCallbackUrl v) o1 = o1\<lparr>co_sms := (co_sms o1)\<lparr>callback_url := v\<rparr>\<rparr>"
| "update_options (EditUnicode v) o1 = o1\<lparr>co_sms := (co_sms o1)\<lparr>unicode := v\<rparr>\<rparr>"
| "update_options (EditFcmTitle v) o1 = o1\<lparr>co_fcm := (co_fcm o1)\<lparr>fcm_title := v\<rparr>\<rparr>"
| "update_options (EditImageUrl v) o1 = o1\<lparr>co_fcm := (co_fcm o1)\<lparr>image_url := v\<rparr>\<rparr>"
| "update_options (EditClickAction v) o1 = o1\<lparr>co_fcm := (co_fcm o1)\<lparr>click_action := v\<rparr>\<rparr>"
| "update_options (EditCollapseKey v) o1 = o1\<lparr>co_fcm := (co_fcm o1)\<lparr>collapse_key := v\<rparr>\<rparr>"
| "update_options (EditEventName v) o1 = o1\<lparr>co_websocket := (co_websocket o1)\<lparr>event_name := v\<rparr>\<rparr>"
| "update_options (EditRoom v) o1 = o1\<lparr>co_websocket := (co_websocket o1)\<lparr>room := v\<rparr>\<rparr>"
| "update_options (EditInboxTitle v) o1 = o1\<lparr>co_in_app := (co_in_app o1)\<lparr>ia_title := v\<rparr>\<rparr>"
| "update_options (EditExpiresAt v) o1 = o1\<lparr>co_in_app := (co_in_app o1)\<lparr>ia_expires_at := v\<rparr>\<rparr>"

definition edit_options :: "option_edit \<Rightarrow> send_page \<Rightarrow> send_page" where
  "edit_options ed s = s\<lparr>sp_channelOptions := update_options ed (sp_channelOptions s)\<rparr>"

text \<open>Which groups of fields the channel configuration shows.\<close>

definition ChannelConfiguration :: "string list \<Rightarrow> channel_options \<Rightarrow> (string \<times> (string \<times> string) list) list" where
  "ChannelConfiguration selected opts =
    (let has_ch = List.member selected;
         e = co_email opts; m = co_sms opts; f = co_fcm opts; w = co_websocket opts; a = co_in_app opts
     in (if has_ch ''email'' then
           [(''Email headers'', [(''From name'', from_name e), (''From email'', from_email e),
                               (''Reply-to'', reply_to e), (''Preheader'', preheader e)])] else [])
      @ (if has_ch ''sms'' then
           [(''SMS controls'', [(''Sender ID'', sender_id m), (''Callback URL'', callback_url m),
                              (''Unicode content'', if unicode m then ''on'' else [])])] else [])
      @ (if has_ch ''fcm'' then
           [(''Push notification'', [(''Push title override'', fcm_title f), (''Image URL'', image_url f),
                                   (''Click action'', click_action f), (''Collapse key'', collapse_key f)])] else [])
      @ (if has_ch ''websocket'' \<or> has_ch ''in_app'' then
           [(''Realtime and in-app'',
              (if has_ch ''websocket'' then [(''Socket event'', event_name w), (''Room/channel'', room w)] else [])
              @ (if has_ch ''in_app'' then [(''Inbox title'', ia_title a), (''Expires at'', ia_expires_at a)] else []))] else []))"

section \<open>Validation and submission\<close>

definition email_opts_json :: "email_options \<Rightarrow> json" where
  "email_opts_json e = str_obj [(''from_name'', from_name e), (''from_email'', from_email e),
                               (''reply_to'', reply_to e), (''preheader'', preheader e)]"

definition sms_opts_json :: "sms_options \<Rightarrow> json" where
  "sms_opts_json m = JObj [(''sender_id'', JStr (sender_id m)), (''unicode'', JBool (unicode m)),
                          (''callback_url'', JStr (callback_url m))]"

definition fcm_opts_json :: "fcm_options \<Rightarrow> json" where
  "fcm_opts_json f = str_obj [(''title'', fcm_title f), (''image_url'', image_url f),
                             (''click_action'', click_action f), (''collapse_key'', collapse_key f)]"

definition websocket_opts_json :: "websocket_options \<Rightarrow> json" where
  "websocket_opts_json w = str_obj [(''event_name'', event_name w), (''room'', room w)]"

definition in_app_opts_json :: "in_app_options \<Rightarrow> json" where
  "in_app_opts_json a = str_obj [(''title'', ia_title a), (''category'', ia_category a), (''expires_at'', ia_expires_at a)]"

definition activeChannelOptions :: "send_page \<Rightarrow> json obj" where
  "activeChannelOptions s =
    (let sel = List.member (sp_selectedChannels s); opts = sp_channelOptions s
     in (if sel ''email'' then [(''email'', email_opts_json (co_email opts))] else [])
      @ (if sel ''sms'' then [(''sms'', sms_opts_json (co_sms opts))] else [])
      @ (if sel ''fcm'' then [(''fcm'', fcm_opts_json (co_fcm opts))] else [])
      @ (if sel ''websocket'' then [(''websocket'', websocket_opts_json (co_websocket opts))] else [])
      @ (if sel ''in_app'' then [(''in_app'', in_app_opts_json (co_in_app opts))] else []))"

definition add_error :: "bool \<Rightarrow> string \<Rightarrow> string \<Rightarrow> string obj \<Rightarrow> string obj" where
  "add_error bad key msg errs = (if bad then obj_set key msg errs else errs)"

definition value_missing :: "send_page \<Rightarrow> string \<Rightarrow> bool" where
  "value_missing s key \<longleftrightarrow> (case obj_get (sp_templateValues s) key of None \<Rightarrow> True | Some v \<Rightarrow> trim v = [])"

definition form_errors :: "send_page \<Rightarrow> string obj" where
  "form_errors s =
    (let sel = List.member (sp_selectedChannels s);
         e = co_email (sp_channelOptions s);
         e1 = add_error (sp_isPlatform s \<and> sp_tenantId s = []) ''tenant'' ''Select a tenant before sending.'' [];
         e2 = add_error (trim (sp_event s) = []) ''event'' ''Event is required.'' e1;
         e3 = add_error (sp_selectedChannels s = []) ''channels'' ''Select at least one delivery channel.'' e2;
         e4 = add_error (sp_mode s = RContact \<and> sp_contactId s = []) ''recipient'' ''Select a contact.'' e3;
         e5 = add_error (sp_mode s = RGroup \<and> sp_groupId s = []) ''recipient'' ''Select a group.'' e4;
         e6 = add_error (sp_mode s \<noteq> RContact \<and> sp_mode s \<noteq> RGroup \<and> trim (sp_recipientValue s) = [])
                ''recipient'' ''Enter a recipient value.'' e5;
         e7 = add_error (selectedTemplate s = None) ''template''
                ''Select a template to preview and send client-ready content.'' e6;
         e8 = fold (\<lambda>key. add_error (value_missing s key) (''var.'' @ key) (key @ '' is required.''))
                (templateVariables s) e7;
         e9 = add_error (sel ''email'' \<and> from_email e \<noteq> [] \<and> \<not> valid_email (from_email e))
                ''email_from'' ''Enter a valid sender email.'' e8;
         e10 = add_error (sel ''email'' \<and> reply_to e \<noteq> [] \<and> \<not> valid_email (reply_to e))
                ''email_reply'' ''Enter a valid reply-to email.'' e9
     in add_error (sel ''sms'' \<and> length (sender_id (co_sms (sp_channelOptions s))) > 11)
          ''sms_sender'' ''Sender ID should be 11 characters or fewer.'' e10)"

definition validateForm :: "send_page \<Rightarrow> bool \<times> send_page" where
  "validateForm s = (form_errors s = [], s\<lparr>sp_fieldErrors := form_errors s\<rparr>)"

definition buildTarget :: "send_page \<Rightarrow> json" where
  "buildTarget s =
    (let single = (\<lambda>key. JObj [(''type'', JStr (recipient_mode_value (sp_mode s))),
                               (''recipient'', str_obj [(key, sp_recipientValue s)])])
     in case sp_mode s of
          RContact \<Rightarrow>
            let c = find (\<lambda>x. sc_id x = sp_contactId s) (sp_contacts s)
            in JObj [(''type'', JStr ''contact''), (''id'', JStr (sp_contactId s)),
                     (''recipient'', str_obj [(''email'', case c of Some x \<Rightarrow> sc_email x | None \<Rightarrow> []),
                                            (''phone'', case c of Some x \<Rightarrow> sc_phone x | None \<Rightarrow> [])])]
        | RGroup \<Rightarrow> JObj [(''type'', JStr ''group''), (''id'', JStr (sp_groupId s)), (''recipient'', JObj [])]
        | RDirectEmail \<Rightarrow> single ''email''
        | RDirectPhone \<Rightarrow> single ''phone''
        | RFcmToken \<Rightarrow> single ''fcm_token''
        | RFcmTopic \<Rightarrow> single ''fcm_topic''
        | RWebsocketUser \<Rightarrow> single ''external_user_id''
        | RInAppUser \<Rightarrow> single ''external_user_id'')"

definition send_data :: "send_page \<Rightarrow> json obj" where
  "send_data s = obj_set ''channel_options'' (JObj (activeChannelOptions s))
                   (map (\<lambda>(k, v). (k, JStr v)) (sp_templateValues s))"

definition send_body :: "send_page \<Rightarrow> json obj" where
  "send_body s =
    (let b = [(''event'', JStr (sp_event s)),
              (''channels'', JArr (map JStr (sp_selectedChannels s))),
              (''template'', JStr (sp_templateKey s)),
              (''target'', buildTarget s),
              (''data'', JObj (send_data s)),
              (''priority'', JNum (sp_priority s))];
         b1 = (if trim (sp_sendAt s) \<noteq> []
               then b @ [(''schedule'', str_obj [(''type'', ''scheduled''), (''send_at'', sp_sendAt s)])] else b)
     in if sp_isPlatform s then b1 @ [(''tenant_id'', JStr (sp_tenantId s))] else b1)"

definition submit_start :: "send_page \<Rightarrow> send_page \<times> api_call option" where
  "submit_start s =
    (case validateForm (s\<lparr>sp_error := []\<rparr>) of
       (ok, s1) \<Rightarrow>
         if \<not> ok then (s1, None)
         else (s1\<lparr>sp_sending := True\<rparr>,
               Some (api_send ''POST'' ''/admin/api/v1/notifications/send'' (JObj (send_body s1)))))"

text \<open>The answer carries the identifier of the notification.\<close>

definition submit_done :: "string outcome \<Rightarrow> send_page \<Rightarrow> send_page \<times> toast_call list" where
  "submit_done res s =
    (let (s1, ts) =
       (case res of
          Inr notification_id \<Rightarrow> (s, [(TSuccess, ''Notification queued'', Some notification_id)])
        | Inl err \<Rightarrow>
            (case err of
               ApiError status code detail \<Rightarrow>
                 if status = 400 \<or> status = 422 then (s\<lparr>sp_error := detail\<rparr>, [])
                 else (s, [(TError, ''Unable to queue notification'', Some (getErrorMessage err ''Send failed''))])
             | _ \<Rightarrow> (s, [(TError, ''Unable to queue notification'', Some (getErrorMessage err ''Send failed''))])))
     in (s1\<lparr>sp_sending := False\<rparr>, ts))"

section \<open>View\<close>

definition recipient_label :: "recipient_mode \<Rightarrow> string" where
  "recipient_label m =
    (case m of
       RDirectEmail \<Rightarrow> ''Email Address'' | RDirectPhone \<Rightarrow> ''Phone Number'' | RFcmToken \<Rightarrow> ''FCM Token''
     | RFcmTopic \<Rightarrow> ''FCM Topic'' | RWebsocketUser \<Rightarrow> ''WebSocket User ID'' | _ \<Rightarrow> ''In-App User ID'')"

definition recipient_placeholder :: "recipient_mode \<Rightarrow> string" where
  "recipient_placeholder m =
    (case m of
       RDirectEmail \<Rightarrow> ''user@example.com'' | RDirectPhone \<Rightarrow> ''+12025551212'' | RFcmTopic \<Rightarrow> ''global_alerts''
     | _ \<Rightarrow> ''user_id'')"

definition plain_option :: "string \<Rightarrow> string \<Rightarrow> select_option" where
  "plain_option v l = \<lparr>so_value = v, so_label = l, so_disabled = False\<rparr>"

definition recipient_field :: "send_page \<Rightarrow> string \<times> select_option list" where
  "recipient_field s =
    (case sp_mode s of
       RContact \<Rightarrow> (''Contact'', map (\<lambda>c. plain_option (sc_id c)
                     (sc_name c @ '' ('' @ or_str (sc_email c) (sc_phone c) @ '')'')) (sp_contacts s))
     | RGroup \<Rightarrow> (''Group'', map (\<lambda>g. plain_option (sg_id g) (sg_name g)) (sp_groups s))
     | m \<Rightarrow> (recipient_label m, []))"

definition template_select_options :: "send_page \<Rightarrow> select_option list" where
  "template_select_options s =
    plain_option [] ''No template (event only)'' #
    map (\<lambda>t. plain_option (tm_key t)
           (or_str (case tm_subject t of Some x \<Rightarrow> trim x | None \<Rightarrow> []) (tm_key t)
            @ '' ('' @ or_str (tm_channel t) ''template'' @ '': '' @ tm_key t @ '')''))
      (sp_templates s)"

definition channel_switches :: "send_page \<Rightarrow> (string \<times> bool) list" where
  "channel_switches s =
    map (\<lambda>ch. (replace_first_char CHR ''_'' CHR '' '' ch, List.member (sp_selectedChannels s) ch)) (sp_availableChannels s)"

definition template_preview :: "send_page \<Rightarrow> (string \<times> string) option" where
  "template_preview s =
    (if selectedTemplate s = None then None
     else Some (renderedSubject s,
       case sp_previewMode s of
         PreviewHtml \<Rightarrow> or_str (renderedBody s) ''<p></p>''
       | PreviewMarkdown \<Rightarrow> or_str (renderMarkdownLite (renderedBody s)) ''No body content''
       | PreviewText \<Rightarrow> or_str (renderedBody s) ''No body content''))"

record send_view =
  sv_counts :: "int \<times> int \<times> int"
  sv_tenant_options :: "select_option list option"
  sv_loading :: bool
  sv_recipient :: "(string \<times> select_option list) option"
  sv_templates :: "select_option list"
  sv_select_all :: string
  sv_channels :: "(string \<times> bool) list"
  sv_configuration :: "(string \<times> (string \<times> string) list) list"
  sv_variables :: "(string \<times> string \<times> string) list"
  sv_preview :: "(string \<times> string) option"
  sv_button :: "(bool \<times> string) option"

definition SendNotificationPage :: "principal option \<Rightarrow> send_page \<Rightarrow> send_view" where
  "SendNotificationPage user s =
    (let details = (effectiveTenant s \<noteq> [] \<and> \<not> sp_loadingTenant s)
     in \<lparr>sv_counts = (int (length (sp_selectedChannels s)), int (length (templateVariables s)), sp_priority s),
         sv_tenant_options =
           (if sp_isPlatform s
            then Some (map (\<lambda>t. plain_option (st_id t) (st_name t @ '' ('' @ st_slug t @ '')'')) (sp_tenants s))
            else None),
         sv_loading = sp_loadingTenant s,
         sv_recipient = (if details then Some (recipient_field s) else None),
         sv_templates = (if details then template_select_options s else []),
         sv_select_all = (if length (sp_selectedChannels s) = length (sp_availableChannels s) then ''Clear all'' else ''Select all''),
         sv_channels = (if details then channel_switches s else []),
         sv_configuration = (if details then ChannelConfiguration (sp_selectedChannels s) (sp_channelOptions s) else []),
         sv_variables =
           (if selectedTemplate s = None then []
            else map (\<lambda>key. (key, or_opt (obj_get (sp_templateValues s) key) [],
                             or_opt (obj_get (sp_fieldErrors s) (''var.'' @ key)) [])) (templateVariables s)),
         sv_preview = template_preview s,
         sv_button = (if hasPermission user ''notifications.send''
                      then Some (\<not> sp_sending s, if sp_sending s then ''Sending...'' else ''Queue Notification'') else None)\<rparr>)"

section \<open>The page under a user and a server\<close>

inductive send_step :: "send_page \<Rightarrow> send_page \<Rightarrow> bool" where
  tenant: "send_step s (fst (choose_tenant v s))"
| tenants: "send_step s (fst (tenants_loaded captured res s))"
| contacts: "send_step s (contacts_loaded res1 s)"
| groups: "send_step s (groups_loaded res2 s)"
| templates: "send_step s (templates_loaded res3 s)"
| channels: "send_step s (channels_loaded res4 s)"
| settled: "send_step s (tenant_data_settled s)"
| mode: "send_step s (choose_mode m s)"
| contact: "send_step s (choose_contact v s)"
| group: "send_step s (choose_group v s)"
| recipient: "send_step s (enter_recipient v s)"
| template: "send_step s (choose_template v s)"
| toggle: "ch \<in> set (sp_availableChannels s) \<Longrightarrow> send_step s (toggleChannel ch s)"
| all: "send_step s (select_all_channels s)"
| event: "send_step s (enter_event v s)"
| val: "key \<in> set (templateVariables s) \<Longrightarrow> send_step s (enter_value key v s)"
| options: "send_step s (edit_options ed s)"
| preview: "send_step s (s\<lparr>sp_previewMode := pm\<rparr>)"
| priority: "send_step s (s\<lparr>sp_priority := n\<rparr>)"
| schedule: "send_step s (s\<lparr>sp_sendAt := v\<rparr>)"
| submit: "send_step s (fst (submit_start s))"
| finished: "send_step s (fst (submit_done res5 s))"

abbreviation send_reachable :: "principal option \<Rightarrow> send_page \<Rightarrow> bool" where
  "send_reachable user \<equiv> reachable (\<lambda>s. s = fst (send_mount user)) send_step"

section \<open>Lemmas\<close>

lemma add_error_simps [simp]:
  "add_error True k m es = obj_set k m es" "add_error False k m es = es"
  by (simp_all add: add_error_def)

lemma add_error_Nil [simp]: "add_error bad k m es = [] \<longleftrightarrow> \<not> bad \<and> es = []"
  by (simp add: add_error_def)

lemma fold_add_error_Nil:
  "fold (\<lambda>key. add_error (bad key) (k key) (m key)) keys es = [] \<longleftrightarrow> es = [] \<and> (\<forall>key \<in> set keys. \<not> bad key)"
  by (induction keys arbitrary: es) auto

lemma form_errors_Nil:
  "form_errors s = [] \<longleftrightarrow>
     \<not> (sp_isPlatform s \<and> sp_tenantId s = []) \<and> trim (sp_event s) \<noteq> [] \<and> sp_selectedChannels s \<noteq> []
     \<and> (case sp_mode s of RContact \<Rightarrow> sp_contactId s \<noteq> [] | RGroup \<Rightarrow> sp_groupId s \<noteq> []
        | _ \<Rightarrow> trim (sp_recipientValue s) \<noteq> [])
     \<and> selectedTemplate s \<noteq> None
     \<and> (\<forall>key \<in> set (templateVariables s). \<not> value_missing s key)
     \<and> (''email'' \<in> set (sp_selectedChannels s) \<longrightarrow>
          (\<forall>a \<in> {from_email (co_email (sp_channelOptions s)), reply_to (co_email (sp_channelOptions s))}. a \<noteq> [] \<longrightarrow> valid_email a))
     \<and> (''sms'' \<in> set (sp_selectedChannels s) \<longrightarrow> length (sender_id (co_sms (sp_channelOptions s))) \<le> 11)"
  unfolding form_errors_def Let_def add_error_Nil fold_add_error_Nil List.member_iff
  by (cases "sp_mode s") (simp_all add: not_less imp_conjL, blast+)

lemma ignores_errors [simp]:
  "selectedTemplate (s\<lparr>sp_error := e\<rparr>) = selectedTemplate s"
  "selectedTemplate (s\<lparr>sp_fieldErrors := f\<rparr>) = selectedTemplate s"
  "templateVariables (s\<lparr>sp_error := e\<rparr>) = templateVariables s"
  "templateVariables (s\<lparr>sp_fieldErrors := f\<rparr>) = templateVariables s"
  "value_missing (s\<lparr>sp_error := e\<rparr>) = value_missing s"
  "form_errors (s\<lparr>sp_error := e\<rparr>) = form_errors s"
  "buildTarget (s\<lparr>sp_error := e\<rparr>) = buildTarget s"
  "buildTarget (s\<lparr>sp_fieldErrors := f\<rparr>) = buildTarget s"
  "send_data (s\<lparr>sp_error := e\<rparr>) = send_data s"
  "send_data (s\<lparr>sp_fieldErrors := f\<rparr>) = send_data s"
  by (simp_all add: selectedTemplate_def templateVariables_def value_missing_def fun_eq_iff form_errors_def buildTarget_def
      send_data_def activeChannelOptions_def split: recipient_mode.split)

lemma send_body_ignores [simp]:
  "send_body (s\<lparr>sp_error := e\<rparr>) = send_body s"
  "send_body (s\<lparr>sp_fieldErrors := f\<rparr>) = send_body s"
  by (simp_all add: send_body_def Let_def)

lemma submit_start_cases:
  "submit_start s =
     (if form_errors s = []
      then (s\<lparr>sp_error := [], sp_fieldErrors := [], sp_sending := True\<rparr>,
            Some (api_send ''POST'' ''/admin/api/v1/notifications/send'' (JObj (send_body s))))
      else (s\<lparr>sp_error := [], sp_fieldErrors := form_errors s\<rparr>, None))"
  by (simp add: submit_start_def validateForm_def)

lemma obj_get_map: "obj_get (map (\<lambda>(k, v). (k, f v)) ob) k = map_option f (obj_get ob k)"
  by (induction ob) auto

lemma send_data_get:
  "obj_get (send_data s) k =
     (if k = ''channel_options'' then Some (JObj (activeChannelOptions s)) else map_option JStr (obj_get (sp_templateValues s) k))"
  by (simp add: send_data_def obj_get_map)

subsection \<open>The invariant of the page\<close>

definition channels_ok :: "send_page \<Rightarrow> bool" where
  "channels_ok s \<longleftrightarrow> set (sp_selectedChannels s) \<subseteq> set (sp_availableChannels s)
     \<and> distinct (sp_selectedChannels s) \<and> distinct (sp_availableChannels s)"

definition values_ok :: "send_page \<Rightarrow> bool" where
  "values_ok s \<longleftrightarrow> map fst (sp_templateValues s) = templateVariables s"

definition event_ok :: "send_page \<Rightarrow> bool" where
  "event_ok s \<longleftrightarrow> (\<forall>t. selectedTemplate s = Some t \<longrightarrow> tm_key t \<noteq> [] \<longrightarrow> sp_event s \<noteq> [])"

definition send_inv :: "send_page \<Rightarrow> bool" where
  "send_inv s \<longleftrightarrow> channels_ok s \<and> values_ok s \<and> event_ok s"

lemma send_inv_same:
  assumes "sp_selectedChannels s' = sp_selectedChannels s" "sp_availableChannels s' = sp_availableChannels s"
    "sp_templates s' = sp_templates s" "sp_templateKey s' = sp_templateKey s"
    "sp_templateValues s' = sp_templateValues s" "sp_event s' = sp_event s"
  shows "send_inv s' = send_inv s"
  using assms by (simp add: send_inv_def channels_ok_def values_ok_def event_ok_def templateVariables_def selectedTemplate_def)

lemma clearFieldError_fields [simp]:
  "sp_selectedChannels (clearFieldError n s) = sp_selectedChannels s" "sp_availableChannels (clearFieldError n s) = sp_availableChannels s"
  "sp_templates (clearFieldError n s) = sp_templates s" "sp_templateKey (clearFieldError n s) = sp_templateKey s"
  "sp_templateValues (clearFieldError n s) = sp_templateValues s" "sp_event (clearFieldError n s) = sp_event s"
  "selectedTemplate (clearFieldError n s) = selectedTemplate s" "templateVariables (clearFieldError n s) = templateVariables s"
  by (simp_all add: clearFieldError_def)

lemma effect_template_fields [simp]:
  "sp_availableChannels (effect_template s) = sp_availableChannels s" "sp_templates (effect_template s) = sp_templates s"
  "sp_templateKey (effect_template s) = sp_templateKey s" "sp_templateValues (effect_template s) = sp_templateValues s"
  by (simp_all add: effect_template_def Let_def split: option.splits)

lemma effect_template_selected [simp]:
  "selectedTemplate (effect_template s) = selectedTemplate s" "templateVariables (effect_template s) = templateVariables s"
  by (simp_all add: selectedTemplate_def templateVariables_def)

lemma effect_template_channels: "channels_ok s \<Longrightarrow> channels_ok (effect_template s)"
  by (auto simp: channels_ok_def effect_template_def Let_def List.member_iff split: option.splits)

lemma effect_template_values: "values_ok s \<Longrightarrow> values_ok (effect_template s)"
  by (simp add: values_ok_def)

lemma effect_template_event: "event_ok (effect_template s)"
proof -
  have "sp_event (effect_template s) \<noteq> []" if "selectedTemplate s = Some t" "tm_key t \<noteq> []" for t
    using that by (simp add: effect_template_def Let_def)
  then show ?thesis by (simp add: event_ok_def)
qed

lemma effect_channels_fields [simp]:
  "selectedTemplate (effect_channels s) = selectedTemplate s" "templateVariables (effect_channels s) = templateVariables s"
  "sp_templateValues (effect_channels s) = sp_templateValues s" "sp_availableChannels (effect_channels s) = sp_availableChannels s"
  by (simp_all add: effect_channels_def selectedTemplate_def templateVariables_def)

lemma effect_channels_ok:
  "distinct (sp_selectedChannels s) \<Longrightarrow> distinct (sp_availableChannels s) \<Longrightarrow> channels_ok (effect_channels s)"
  by (auto simp: channels_ok_def effect_channels_def List.member_iff)

lemma fold_set_keys:
  "distinct ks \<Longrightarrow> set ks \<inter> fst ` set ob = {} \<Longrightarrow> map fst (fold (\<lambda>k ob. obj_set k (f k) ob) ks ob) = map fst ob @ ks"
proof (induction ks arbitrary: ob)
  case (Cons k ks)
  have "obj_set k (f k) ob = ob @ [(k, f k)]" if "k \<notin> fst ` set ob"
    using that by (induction ob) auto
  with Cons show ?case by (auto simp: image_Un)
qed simp

lemma distinct_templateVariables [simp]: "distinct (templateVariables s)"
  by (simp add: templateVariables_def template_variables_def)

lemma effect_values_fields [simp]:
  "selectedTemplate (effect_values s) = selectedTemplate s" "templateVariables (effect_values s) = templateVariables s"
  "channels_ok (effect_values s) = channels_ok s"
  by (simp_all add: effect_values_def selectedTemplate_def templateVariables_def channels_ok_def)

lemma effect_values_ok: "values_ok (effect_values s)"
proof -
  have "map fst (sp_templateValues (effect_values s)) = templateVariables s"
    using fold_set_keys [of "templateVariables s" "[]"] by (simp add: effect_values_def)
  then show ?thesis by (simp add: values_ok_def)
qed

lemma send_effects_inv:
  assumes "distinct (sp_selectedChannels s)" "distinct (sp_availableChannels s)"
    and "c \<or> channels_ok s" and "t \<or> values_ok s" and "c \<or> t \<or> e \<or> event_ok s"
  shows "send_inv (send_effects c t e s)"
proof -
  let ?s1 = "if c then effect_channels s else s"
  let ?s2 = "if t then effect_values ?s1 else ?s1"
  have "channels_ok ?s1" using assms(1-3) effect_channels_ok by auto
  then have c2: "channels_ok ?s2" by simp
  have v2: "values_ok ?s2" using assms(4) effect_values_ok by (auto simp: values_ok_def)
  show ?thesis
  proof (cases "c \<or> t \<or> e")
    case True
    then have "send_effects c t e s = effect_template ?s2" by (auto simp: send_effects_def Let_def)
    with c2 v2 show ?thesis
      by (simp add: send_inv_def effect_template_channels effect_template_values effect_template_event)
  next
    case False
    then have "send_effects c t e s = s" by (simp add: send_effects_def)
    with False c2 v2 assms(5) show ?thesis by (simp add: send_inv_def)
  qed
qed

lemma obj_set_keys: "k \<in> fst ` set ob \<Longrightarrow> map fst (obj_set k v ob) = map fst ob"
  by (induction k v ob rule: obj_set.induct) auto

lemma set_tenant_same:
  "sp_selectedChannels (fst (set_tenant v s)) = sp_selectedChannels s"
  "sp_availableChannels (fst (set_tenant v s)) = sp_availableChannels s"
  "sp_templates (fst (set_tenant v s)) = sp_templates s" "sp_templateKey (fst (set_tenant v s)) = sp_templateKey s"
  "sp_templateValues (fst (set_tenant v s)) = sp_templateValues s" "sp_event (fst (set_tenant v s)) = sp_event s"
  by (simp_all add: set_tenant_def effect_tenant_def Let_def)

lemma set_tenant_inv: "send_inv (fst (set_tenant v s)) = send_inv s"
  by (rule send_inv_same) (simp_all add: set_tenant_same)

lemma choose_tenant_inv: "send_inv (fst (choose_tenant v s)) = send_inv s"
proof -
  have "fst (choose_tenant v s) = clearFieldError ''tenant'' (fst (set_tenant v s))"
    by (simp add: choose_tenant_def split: prod.splits)
  moreover have "send_inv (clearFieldError n u) = send_inv u" for n u by (rule send_inv_same) simp_all
  ultimately show ?thesis by (simp add: set_tenant_inv)
qed

lemma tenants_loaded_inv: "send_inv (fst (tenants_loaded captured res s)) = send_inv s"
proof -
  have "send_inv (s\<lparr>sp_tenants := ts\<rparr>) = send_inv s" for ts by (rule send_inv_same) simp_all
  then show ?thesis by (simp add: tenants_loaded_def Let_def set_tenant_inv split: sum.splits)
qed

lemma templates_loaded_inv: "send_inv s \<Longrightarrow> send_inv (templates_loaded res s)"
proof (cases res)
  case (Inr xs)
  let ?s1 = "s\<lparr>sp_templates := xs\<rparr>"
  let ?t = "selectedTemplate s \<noteq> None \<or> selectedTemplate ?s1 \<noteq> None"
  assume inv: "send_inv s"
  have ch: "channels_ok ?s1" using inv by (simp add: send_inv_def channels_ok_def)
  have va: "?t \<or> values_ok ?s1"
    using inv by (cases "selectedTemplate s"; cases "selectedTemplate ?s1") (auto simp: send_inv_def values_ok_def templateVariables_def)
  have ev: "?t \<or> event_ok ?s1" by (auto simp: event_ok_def)
  have "send_inv (send_effects False ?t False ?s1)"
    using ch va ev by (intro send_effects_inv) (auto simp: channels_ok_def)
  with Inr show ?thesis by (simp add: templates_loaded_def Let_def)
qed (simp add: templates_loaded_def)

lemma channels_loaded_inv: "send_inv s \<Longrightarrow> send_inv (channels_loaded res s)"
proof -
  assume inv: "send_inv s"
  have "values_ok (s\<lparr>sp_availableChannels := xs\<rparr>)" for xs
    using inv by (simp add: send_inv_def values_ok_def templateVariables_def selectedTemplate_def)
  then show ?thesis
    using inv unfolding channels_loaded_def Let_def
    by (intro send_effects_inv) (auto simp: send_inv_def channels_ok_def split: sum.splits)
qed

lemma choose_template_inv: "send_inv s \<Longrightarrow> send_inv (choose_template v s)"
proof -
  assume inv: "send_inv s"
  let ?s1 = "clearFieldError ''template'' (s\<lparr>sp_templateKey := v\<rparr>)"
  let ?t = "selectedTemplate ?s1 \<noteq> selectedTemplate s"
  have va: "?t \<or> values_ok ?s1" and ev: "?t \<or> event_ok ?s1"
    using inv by (auto simp: send_inv_def values_ok_def event_ok_def templateVariables_def)
  show ?thesis
    unfolding choose_template_def Let_def using inv va ev
    by (intro send_effects_inv) (auto simp: send_inv_def channels_ok_def)
qed

lemma enter_event_inv: "send_inv s \<Longrightarrow> send_inv (enter_event v s)"
proof -
  assume inv: "send_inv s"
  have "values_ok (s\<lparr>sp_event := v\<rparr>)" "channels_ok (s\<lparr>sp_event := v\<rparr>)" "v \<noteq> sp_event s \<or> event_ok (s\<lparr>sp_event := v\<rparr>)"
    using inv by (auto simp: send_inv_def values_ok_def channels_ok_def event_ok_def templateVariables_def selectedTemplate_def)
  then show ?thesis
    unfolding enter_event_def
    by (intro send_effects_inv) (auto simp: values_ok_def channels_ok_def event_ok_def)
qed

lemma toggleChannel_inv: "send_inv s \<Longrightarrow> ch \<in> set (sp_availableChannels s) \<Longrightarrow> send_inv (toggleChannel ch s)"
  by (auto simp: send_inv_def channels_ok_def values_ok_def event_ok_def toggleChannel_def templateVariables_def
      selectedTemplate_def toggled.members_toggle split: if_splits)

lemma select_all_inv: "send_inv s \<Longrightarrow> send_inv (select_all_channels s)"
  by (auto simp: send_inv_def channels_ok_def values_ok_def event_ok_def select_all_channels_def templateVariables_def
      selectedTemplate_def)

lemma enter_value_inv: "send_inv s \<Longrightarrow> key \<in> set (templateVariables s) \<Longrightarrow> send_inv (enter_value key v s)"
proof -
  assume inv: "send_inv s" and key: "key \<in> set (templateVariables s)"
  then have "map fst (obj_set key v (sp_templateValues s)) = templateVariables s"
    by (metis list.set_map obj_set_keys send_inv_def values_ok_def)
  then show ?thesis
    using inv by (simp add: send_inv_def channels_ok_def values_ok_def event_ok_def enter_value_def templateVariables_def selectedTemplate_def)
qed

lemma submit_inv: "send_inv (fst (submit_start s)) = send_inv s" "send_inv (fst (submit_done r s)) = send_inv s"
  by (rule send_inv_same;
      simp add: submit_start_cases submit_done_def Let_def case_prod_unfold split: sum.splits js_error.splits)+

lemma other_handlers_inv:
  "send_inv (contacts_loaded r1 s) = send_inv s" "send_inv (groups_loaded r2 s) = send_inv s"
  "send_inv (tenant_data_settled s) = send_inv s" "send_inv (choose_mode m s) = send_inv s"
  "send_inv (choose_contact v s) = send_inv s" "send_inv (choose_group v s) = send_inv s"
  "send_inv (enter_recipient v s) = send_inv s" "send_inv (edit_options ed s) = send_inv s"
  "send_inv (s\<lparr>sp_previewMode := pm\<rparr>) = send_inv s" "send_inv (s\<lparr>sp_priority := n\<rparr>) = send_inv s"
  "send_inv (s\<lparr>sp_sendAt := v\<rparr>) = send_inv s"
  by (rule send_inv_same; simp add: contacts_loaded_def groups_loaded_def tenant_data_settled_def choose_mode_def
      choose_contact_def choose_group_def enter_recipient_def edit_options_def split: sum.splits)+

lemma send_step_inv: "send_step s s' \<Longrightarrow> send_inv s \<Longrightarrow> send_inv s'"
  by (induction rule: send_step.induct)
     (simp_all add: choose_tenant_inv tenants_loaded_inv templates_loaded_inv channels_loaded_inv choose_template_inv
        toggleChannel_inv select_all_inv enter_event_inv enter_value_inv submit_inv other_handlers_inv)

lemma send_mount_inv: "send_inv (fst (send_mount user))"
proof -
  have "fst (send_mount user) = send_effects True True True (fst (effect_tenant (send_init user)))"
    by (simp add: send_mount_def Let_def split: prod.splits)
  then show ?thesis
    by (simp only:) (rule send_effects_inv, simp_all add: effect_tenant_def send_init_def Let_def)
qed

interpretation send: step_invariant send_step send_inv "\<lambda>s. s = fst (send_mount user)" for user
  by unfold_locales (erule (1) send_step_inv, simp add: send_mount_inv)

subsection \<open>Filled templates\<close>

definition filled :: "string obj \<Rightarrow> piece \<Rightarrow> string" where
  "filled values p = (case p of Lit c \<Rightarrow> [c] | Var k \<Rightarrow> the (obj_get values k))"

lemma render_filled:
  assumes "\<And>k. k \<in> keys_of t \<Longrightarrow> \<exists>v. obj_get values k = Some v \<and> v \<noteq> []"
  shows "renderTemplate t values = concat (map (filled values) (template_pieces t))"
proof -
  have "piece_text values p = filled values p" if "p \<in> set (template_pieces t)" for p
  proof (cases p)
    case (Var k)
    with that have "k \<in> keys_of t" by (simp add: keys_of_def set_piece_keys)
    from assms [OF this] Var show ?thesis by (auto simp: piece_text_def filled_def or_str_def)
  qed (simp add: piece_text_def filled_def)
  then show ?thesis by (simp add: renderTemplate_def cong: map_cong)
qed

lemma valid_values:
  assumes "form_errors s = []" and "k \<in> set (templateVariables s)"
  shows "\<exists>v. obj_get (sp_templateValues s) k = Some v \<and> trim v \<noteq> [] \<and> v \<noteq> []"
proof -
  have "\<not> value_missing s k" using assms by (simp add: form_errors_Nil)
  then obtain v where "obj_get (sp_templateValues s) k = Some v" "trim v \<noteq> []"
    by (auto simp: value_missing_def split: option.splits)
  then show ?thesis by (cases v) auto
qed

lemma part_keys:
  "keys_of (template_subject (selectedTemplate s)) \<subseteq> set (templateVariables s)"
  "keys_of (template_body (selectedTemplate s)) \<subseteq> set (templateVariables s)"
  using template_variables_parts by (simp_all add: templateVariables_def)

section \<open>Properties\<close>

text \<open>
  Property C34. The parts of the send page stay in step: in every state reachable by clicks, input and
  responses in any order, the selected channels are among the available ones and none is selected
  twice, the page holds a value for exactly the variables of the selected template, in their order,
  and the event is not empty while a template with a key is selected.
\<close>

theorem send_page_consistent:
  assumes "send_reachable user s"
  shows "set (sp_selectedChannels s) \<subseteq> set (sp_availableChannels s) \<and> distinct (sp_selectedChannels s)
     \<and> map fst (sp_templateValues s) = templateVariables s
     \<and> (\<forall>t. selectedTemplate s = Some t \<longrightarrow> tm_key t \<noteq> [] \<longrightarrow> sp_event s \<noteq> [])"
  using send.always [OF assms] by (simp add: send_inv_def channels_ok_def values_ok_def event_ok_def)

theorem send_page_consistent_witness:
  "sp_selectedChannels (select_all_channels (fst (send_mount None))) = []"
proof -
  have "send_reachable None (select_all_channels (fst (send_mount None)))"
    by (rule reachable_once, rule send_step.all) simp
  from send_page_consistent [OF this] show ?thesis
    by (simp add: select_all_channels_def send_mount_def send_init_def effect_tenant_def effectiveTenant_def
        send_effects_def effect_channels_def effect_values_def effect_template_def selectedTemplate_def Let_def)
qed


definition demo_template :: send_template where
  "demo_template = \<lparr>tm_id = ''1'', tm_key = ''hi'', tm_channel = ''email'', tm_subject = None, tm_body = Some ''Hi {{ name }}''\<rparr>"

definition demo_send :: send_page where
  "demo_send = (send_init None)\<lparr>sp_templates := [demo_template], sp_templateKey := ''hi'', sp_event := ''hi'',
     sp_availableChannels := [''email''], sp_recipientValue := ''a@b.c'', sp_templateValues := [(''name'', ''Ann'')]\<rparr>"

lemma demo_send_simps:
  "templateVariables demo_send = [''name'']" "form_errors demo_send = []"
  "renderedBody demo_send = ''Hi Ann''" "form_errors (demo_send\<lparr>sp_event := ''x''\<rparr>) = []"
  by code_simp+


text \<open>
  What passes validation is previewed in full: subject and body of the preview are the
  template with every placeholder replaced by its entered value, each of them non-blank, so that no
  placeholder of the template is left standing.
\<close>

theorem validated_preview_is_filled:
  assumes "fst (validateForm s)"
  shows "renderedSubject s = concat (map (filled (sp_templateValues s)) (template_pieces (template_subject (selectedTemplate s))))
     \<and> renderedBody s = concat (map (filled (sp_templateValues s)) (template_pieces (template_body (selectedTemplate s))))
     \<and> (\<forall>k. Var k \<in> set (template_pieces (template_subject (selectedTemplate s))) \<union> set (template_pieces (template_body (selectedTemplate s)))
          \<longrightarrow> (\<exists>v. obj_get (sp_templateValues s) k = Some v \<and> trim v \<noteq> []))"
proof -
  have fe: "form_errors s = []" using assms by (simp add: validateForm_def)
  have *: "\<exists>v. obj_get (sp_templateValues s) k = Some v \<and> trim v \<noteq> [] \<and> v \<noteq> []"
    if "k \<in> keys_of (template_subject (selectedTemplate s)) \<or> k \<in> keys_of (template_body (selectedTemplate s))" for k
    using that part_keys valid_values [OF fe] by blast
  have "renderedSubject s = concat (map (filled (sp_templateValues s)) (template_pieces (template_subject (selectedTemplate s))))"
    unfolding renderedSubject_def using * by (intro render_filled) blast
  moreover have "renderedBody s = concat (map (filled (sp_templateValues s)) (template_pieces (template_body (selectedTemplate s))))"
    unfolding renderedBody_def using * by (intro render_filled) blast
  ultimately show ?thesis
    using * by (auto simp: keys_of_def set_piece_keys)
qed

theorem validated_preview_is_filled_witness:
  "concat (map (filled (sp_templateValues demo_send)) (template_pieces (template_body (selectedTemplate demo_send)))) = ''Hi Ann''"
  using validated_preview_is_filled [of demo_send] by (simp add: demo_send_simps validateForm_def)

text \<open>
  A chosen contact outlives a change of the tenant: after another tenant is chosen and its
  data have been loaded, the contact of the former tenant is still the recipient, its absence from the
  new list is no error, and the request names its identifier under the new tenant, with empty
  addresses.
\<close>

theorem contact_survives_tenant_change:
  assumes "sp_mode s = RContact" and "\<forall>c \<in> set xs. sc_id c \<noteq> sp_contactId s" and "sp_contactId s \<noteq> []"
    and "sp_isPlatform s" and "v \<noteq> []"
  defines "s' \<equiv> contacts_loaded (Inr xs) (fst (choose_tenant v s))"
  shows "obj_get (form_errors s') ''recipient'' = None
     \<and> obj_get (send_body s') ''tenant_id'' = Some (JStr v)
     \<and> buildTarget s' = JObj [(''type'', JStr ''contact''), (''id'', JStr (sp_contactId s)),
          (''recipient'', str_obj [(''email'', []), (''phone'', [])])]"
proof -
  have f: "sp_mode s' = RContact" "sp_contactId s' = sp_contactId s" "sp_contacts s' = xs" "sp_isPlatform s'" "sp_tenantId s' = v"
    using assms(1,4) by (simp_all add: s'_def contacts_loaded_def choose_tenant_def set_tenant_def effect_tenant_def
        clearFieldError_def Let_def split: prod.splits)
  have none: "find (\<lambda>x. sc_id x = sp_contactId s) xs = None" using assms(2) by (simp add: find_None_iff)
  have err: "obj_get (add_error b k m es) ''recipient'' = obj_get es ''recipient''" if "k \<noteq> ''recipient''" for b k m es
    using that by (simp add: add_error_def)
  have vars: "obj_get (fold (\<lambda>key. add_error (bad key) (CHR ''v'' # nm key) (msg key)) keys es) ''recipient'' = obj_get es ''recipient''"
    for bad nm msg keys es by (induction keys arbitrary: es) (simp_all add: err)
  have "obj_get (form_errors s') ''recipient'' = None"
    by (simp add: form_errors_def Let_def err vars f assms(3))
  moreover have "obj_get (send_body s') ''tenant_id'' = Some (JStr v)" by (simp add: send_body_def Let_def f)
  moreover have "buildTarget s' = JObj [(''type'', JStr ''contact''), (''id'', JStr (sp_contactId s)),
          (''recipient'', str_obj [(''email'', []), (''phone'', [])])]"
    by (simp add: buildTarget_def f none)
  ultimately show ?thesis by simp
qed

theorem contact_survives_tenant_change_witness:
  "obj_get (form_errors (contacts_loaded (Inr []) (fst (choose_tenant ''t2''
      (demo_send\<lparr>sp_isPlatform := True, sp_tenantId := ''t1'', sp_mode := RContact, sp_contactId := ''c1''\<rparr>))))) ''recipient'' = None"
  using contact_survives_tenant_change
    [of "demo_send\<lparr>sp_isPlatform := True, sp_tenantId := ''t1'', sp_mode := RContact, sp_contactId := ''c1''\<rparr>" "[]" "''t2''"]
  by simp

section \<open>Two effects seen from the form\<close>

text \<open>The preselected email channel never survives the first render.\<close>

theorem preselected_channel_dropped: "sp_selectedChannels (fst (send_mount user)) = []"
proof -
  have "fst (send_mount user) = effect_template (effect_values (effect_channels (fst (effect_tenant (send_init user)))))"
    by (simp add: send_mount_def send_effects_def Let_def split: prod.splits)
  moreover have "sp_selectedChannels (effect_channels (fst (effect_tenant (send_init user)))) = []"
    and "sp_templates (effect_channels (fst (effect_tenant (send_init user)))) = []"
    by (simp_all add: effect_channels_def effect_tenant_def send_init_def Let_def)
  ultimately show ?thesis by (simp add: effect_template_def effect_values_def selectedTemplate_def)
qed

text \<open>Editing the event selects the channel of the template again after it was switched off.\<close>

theorem event_edit_reselects_channel:
  assumes "selectedTemplate s = Some t" and "tm_channel t \<noteq> []" and "tm_channel t \<in> set (sp_availableChannels s)"
    and "v \<noteq> sp_event s"
  shows "tm_channel t \<in> set (sp_selectedChannels (enter_event v s))"
proof -
  have "selectedTemplate (clearFieldError ''event'' (s\<lparr>sp_event := v\<rparr>)) = Some t"
    using assms(1) by (simp add: selectedTemplate_def)
  then show ?thesis
    using assms(2-4) by (auto simp: enter_event_def send_effects_def effect_template_def Let_def List.member_iff)
qed

end
