(* ===== verification/Providers.thy ===== *)
theory Providers
  imports Paged_List Auth
begin

text \<open>
  The provider page \<^verbatim>\<open>src/notification-admin-ui/src/pages/providers/ProvidersPage.tsx\<close>: the
  platform catalogue of provider types, the provider settings of a tenant with their form, the
  configuration fields per provider, and the configuration object a form produces. How the server
  stores an update, from \<^verbatim>\<open>UpdateProviderConfig\<close> of
  \<^verbatim>\<open>src/notification-core-api/internal/http/handlers/handlers.go\<close>, stands beside it.

  The page runs in one of two modes that never change for a user, so the catalogue and the settings are
  two lists of which only one is ever loaded. The text \<^verbatim>\<open>JSON.stringify(config)\<close> that travels inside a
  body is represented by the object, as a whole body is.
\<close>

section \<open>Data\<close>

record provider_type =
  pt_provider :: string
  pt_channel :: string
  pt_description :: string
  pt_tenant_count :: int
  pt_enabled :: bool

record tenant_provider =
  tp_id :: string
  tp_channel :: string
  tp_provider :: string
  tp_is_default :: bool
  tp_status :: string
  tp_tenant_name :: "string option"

record tenant_channel =
  tc_id :: string
  tc_channel :: string
  tc_enabled :: bool

datatype field_type = FText | FNumber | FPassword | FTextarea | FSelect

record config_field =
  fd_key :: string
  fd_label :: string
  fd_type :: field_type
  fd_required :: bool
  fd_sensitive :: bool
  fd_placeholder :: "string option"
  fd_options :: "string list"

record config_schema =
  sch_title :: string
  sch_docs :: "string option"
  sch_fields :: "config_field list"

definition fld :: "string \<Rightarrow> string \<Rightarrow> field_type \<Rightarrow> bool \<Rightarrow> bool \<Rightarrow> string option \<Rightarrow> string list \<Rightarrow> config_field" where
  "fld key label ty required sensitive placeholder opts =
    \<lparr>fd_key = key, fd_label = label, fd_type = ty, fd_required = required, fd_sensitive = sensitive,
     fd_placeholder = placeholder, fd_options = opts\<rparr>"

definition schema :: "string \<Rightarrow> string option \<Rightarrow> config_field list \<Rightarrow> config_schema" where
  "schema title docs fs = \<lparr>sch_title = title, sch_docs = docs, sch_fields = fs\<rparr>"

definition DEFAULT_PROVIDER_SCHEMAS :: "config_schema obj" where
  "DEFAULT_PROVIDER_SCHEMAS =
    [(''mock_email'', schema ''Mock email'' None []),
     (''mock_sms'', schema ''Mock SMS'' None []),
     (''mock_fcm'', schema ''Mock FCM'' None []),
     (''websocket'', schema ''Internal WebSocket'' None []),
     (''in_app'', schema ''In-app inbox'' None []),
     (''database_inbox'', schema ''Database inbox'' None []),
     (''smtp'', schema ''SMTP'' (Some ''Uses the platform SMTP adapter.'')
        [fld ''host'' ''SMTP host'' FText True False (Some ''smtp.example.com'') [],
         fld ''port'' ''Port'' FNumber True False (Some ''587'') [],
         fld ''username'' ''Username'' FText False False (Some ''smtp-user'') [],
         fld ''password'' ''Password'' FPassword False True None [],
         fld ''from'' ''From address'' FText True False (Some ''notifications@example.com'') []]),
     (''sendgrid'', schema ''SendGrid'' (Some ''SendGrid Mail Send API uses Bearer API-key authentication.'')
        [fld ''api_key'' ''API key'' FPassword True True (Some ''SG.xxxxx'') [],
         fld ''from'' ''Verified sender email'' FText True False (Some ''notifications@example.com'') [],
         fld ''from_name'' ''Sender name'' FText False False (Some ''Notifications'') [],
         fld ''base_url'' ''Base URL'' FText False False (Some ''https://api.sendgrid.com'') []]),
     (''mailgun'', schema ''Mailgun'' (Some ''Mailgun messages API sends through /v3/{domain_name}/messages using API key credentials.'')
        [fld ''api_key'' ''API key or domain sending key'' FPassword True True None [],
         fld ''domain'' ''Sending domain'' FText True False (Some ''mg.example.com'') [],
         fld ''region'' ''Region'' FSelect True False None [''US'', ''EU''],
         fld ''from'' ''From address'' FText True False (Some ''Notifications <notifications@example.com>'') []]),
     (''postmark'', schema ''Postmark'' (Some ''Postmark authenticates with X-Postmark-Server-Token.'')
        [fld ''server_token'' ''Server token'' FPassword True True None [],
         fld ''from'' ''From address'' FText True False (Some ''sender@example.com'') [],
         fld ''message_stream'' ''Message stream'' FText False False (Some ''outbound'') []]),
     (''brevo'', schema ''Brevo'' (Some ''Brevo transactional email uses api-key header and /v3/smtp/email.'')
        [fld ''api_key'' ''API key'' FPassword True True None [],
         fld ''sender_email'' ''Sender email'' FText True False (Some ''hello@example.com'') [],
         fld ''sender_name'' ''Sender name'' FText False False (Some ''Notifications'') [],
         fld ''template_id'' ''Default template ID'' FNumber False False None []]),
     (''resend'', schema ''Resend'' (Some ''Resend send email API uses Bearer API-key authentication.'')
        [fld ''api_key'' ''API key'' FPassword True True None [],
         fld ''from'' ''From address'' FText True False (Some ''Acme <onboarding@resend.dev>'') []]),
     (''generic_http_sms'', schema ''Generic HTTP SMS'' (Some ''Uses the platform generic HTTP SMS adapter.'')
        [fld ''url'' ''Endpoint URL'' FText True False (Some ''https://sms.example.com/send'') [],
         fld ''method'' ''Method'' FSelect True False None [''POST'', ''PUT''],
         fld ''token'' ''Token'' FPassword False True None [],
         fld ''token_header'' ''Token header'' FText False False (Some ''Authorization'') [],
         fld ''phone_key'' ''Phone field key'' FText False False (Some ''phone'') [],
         fld ''message_key'' ''Message field key'' FText False False (Some ''message'') [],
         fld ''timeout_seconds'' ''Timeout seconds'' FNumber False False (Some ''30'') [],
         fld ''body_pattern'' ''Body pattern JSON'' FTextarea False False (Some ''{\"to\":\"{{phone}}\",\"message\":\"{{message}}\"}'') []]),
     (''sparrow'', schema ''Sparrow SMS'' None
        [fld ''url'' ''Endpoint URL'' FText True False (Some ''https://api.sparrowsms.com/v2/sms/'') [],
         fld ''token'' ''Token'' FPassword True True None [],
         fld ''from'' ''Identity / sender'' FText False False (Some ''YourBrand'') [],
         fld ''body_pattern'' ''Body pattern JSON'' FTextarea False False (Some ''{\"token\":\"YOUR_TOKEN\",\"from\":\"YourBrand\",\"to\":\"{{phone}}\",\"text\":\"{{message}}\"}'') []]),
     (''twilio'', schema ''Twilio SMS'' (Some ''Twilio Messages API uses Account SID, Auth Token, From, To, and Body.'')
        [fld ''account_sid'' ''Account SID'' FText True False (Some ''ACxxxxxxxxxxxxxxxxxxxxxxxxxxxxxxxx'') [],
         fld ''auth_token'' ''Auth token'' FPassword True True None [],
         fld ''from'' ''From number or messaging service SID'' FText True False (Some ''+15551234567'') [],
         fld ''status_callback'' ''Status callback URL'' FText False False (Some ''https://example.com/twilio/status'') []]),
     (''infobip'', schema ''Infobip SMS'' (Some ''Infobip SMS API uses base URL, API key, sender, destinations, and text.'')
        [fld ''base_url'' ''Base URL'' FText True False (Some ''https://xxxx.api.infobip.com'') [],
         fld ''api_key'' ''API key'' FPassword True True None [],
         fld ''from'' ''Sender'' FText True False (Some ''CompanyName'') []]),
     (''fcm'', schema ''Firebase Cloud Messaging HTTP v1'' (Some ''FCM HTTP v1 uses a Firebase service account JSON or service account path.'')
        [fld ''service_account_json'' ''Service account JSON'' FTextarea False True (Some ''{\"type\":\"service_account\",\"project_id\":\"...\"}'') [],
         fld ''service_account_path'' ''Service account path'' FText False False (Some ''/run/secrets/fcm-service-account.json'') []]),
     (''onesignal'', schema ''OneSignal'' None
        [fld ''app_id'' ''App ID'' FText True False None [],
         fld ''rest_api_key'' ''REST API key'' FPassword True True None []]),
     (''web_push_vapid'', schema ''Web Push VAPID'' None
        [fld ''subject'' ''VAPID subject'' FText True False (Some ''mailto:admin@example.com'') [],
         fld ''public_key'' ''VAPID public key'' FText True False None [],
         fld ''private_key'' ''VAPID private key'' FPassword True True None []])]"

definition PROVIDERS_BY_CHANNEL :: "string list obj" where
  "PROVIDERS_BY_CHANNEL =
    [(''email'', [''mock_email'', ''smtp'', ''sendgrid'', ''mailgun'', ''postmark'', ''brevo'', ''mailjet'', ''sparkpost'',
                ''resend'', ''mandrill'', ''ses'']),
     (''sms'', [''mock_sms'', ''generic_http_sms'', ''sparrow'', ''twilio'', ''infobip'', ''messagebird'', ''vonage'', ''plivo'',
              ''telnyx'', ''sinch'', ''aakash_sms'', ''quickconnect'', ''bangalink'', ''ncell'', ''ntc'']),
     (''fcm'', [''mock_fcm'', ''fcm'', ''onesignal'', ''expo'', ''apns'', ''hms_push'']),
     (''websocket'', [''websocket'', ''pusher'', ''ably'', ''socketio'']),
     (''in_app'', [''in_app'', ''database_inbox'']),
     (''web_push'', [''web_push_vapid'', ''onesignal_web_push'']),
     (''whatsapp'', [''whatsapp_cloud'', ''twilio_whatsapp'', ''messagebird_whatsapp''])]"

section \<open>Configuration\<close>

definition providerLabel :: "string \<Rightarrow> string" where
  "providerLabel provider =
    or_opt (map_option sch_title (obj_get DEFAULT_PROVIDER_SCHEMAS provider)) (replace_all_char CHR ''_'' CHR '' '' provider)"

text \<open>The options of the provider select for a channel, after the empty choice.\<close>

definition ProviderSelect :: "string \<Rightarrow> (string \<times> string) list" where
  "ProviderSelect channel =
    ([], ''Select provider'') #
    map (\<lambda>p. (p, providerLabel p))
      (case obj_get PROVIDERS_BY_CHANNEL channel of Some ps \<Rightarrow> ps | None \<Rightarrow> obj_keys DEFAULT_PROVIDER_SCHEMAS)"

text \<open>
  \<^verbatim>\<open>Number(value)\<close> as it is serialised, on integral numerals; a text that is no number gives
  \<^verbatim>\<open>NaN\<close>, which prints as \<^verbatim>\<open>null\<close>. Fractional and exponent numerals are outside of the model.
\<close>

definition js_number :: "string \<Rightarrow> json" where
  "js_number s =
    (let ds = (case s of c # r \<Rightarrow> if c = CHR ''-'' \<or> c = CHR ''+'' then r else s | [] \<Rightarrow> [])
     in if ds \<noteq> [] \<and> list_all is_digit_char ds
        then JNum ((if hd s = CHR ''-'' then - 1 else 1) * int (digits_value ds)) else JNull)"

definition trimmed_value :: "string obj \<Rightarrow> string \<Rightarrow> string" where
  "trimmed_value values key = (case obj_get values key of Some v \<Rightarrow> trim v | None \<Rightarrow> [])"

record custom_row =
  cr_key :: string
  cr_value :: string

definition providerConfigFromForm :: "string \<Rightarrow> string obj \<Rightarrow> custom_row list \<Rightarrow> json obj" where
  "providerConfigFromForm provider values customRows =
    (case obj_get DEFAULT_PROVIDER_SCHEMAS provider of
       Some sch \<Rightarrow>
         fold (\<lambda>field out.
                 let value = trimmed_value values (fd_key field)
                 in if value = [] then out
                    else obj_set (fd_key field) (if fd_type field = FNumber then js_number value else JStr value) out)
           (sch_fields sch) []
     | None \<Rightarrow>
         fold (\<lambda>row out.
                 let key = trim (cr_key row) in if key = [] then out else obj_set key (JStr (cr_value row)) out)
           customRows [])"

definition missingRequiredProviderFields :: "string \<Rightarrow> string obj \<Rightarrow> string list" where
  "missingRequiredProviderFields provider values =
    (case obj_get DEFAULT_PROVIDER_SCHEMAS provider of
       None \<Rightarrow> []
     | Some sch \<Rightarrow> map fd_label (filter (\<lambda>field. fd_required field \<and> trimmed_value values (fd_key field) = []) (sch_fields sch)))"

text \<open>What the editor shows: a hint, rows of free keys, or the fields with label, value and placeholder.\<close>

datatype config_editor =
    ChooseProvider
  | CustomFields "(string \<times> string) list"
  | NoCredentials string
  | SchemaFields string "string option" bool "(string \<times> bool \<times> string \<times> string) list"

definition ProviderConfigEditor :: "string \<Rightarrow> bool \<Rightarrow> string obj \<Rightarrow> custom_row list \<Rightarrow> config_editor" where
  "ProviderConfigEditor provider editing values customRows =
    (if provider = [] then ChooseProvider
     else case obj_get DEFAULT_PROVIDER_SCHEMAS provider of
            None \<Rightarrow> CustomFields (map (\<lambda>r. (cr_key r, cr_value r)) customRows)
          | Some sch \<Rightarrow>
              if sch_fields sch = [] then NoCredentials (sch_title sch)
              else SchemaFields (sch_title sch) (sch_docs sch) editing
                (map (\<lambda>f. (fd_label f, fd_required f \<and> \<not> editing, or_opt (obj_get values (fd_key f)) [],
                            (if fd_type f = FTextarea then or_opt (fd_placeholder f) []
                             else if fd_type f = FSelect then []
                             else or_opt (fd_placeholder f)
                                    (if fd_sensitive f \<and> editing then ''Leave blank to keep existing value'' else []))))
                  (sch_fields sch)))"

definition custom_set_key :: "nat \<Rightarrow> string \<Rightarrow> custom_row list \<Rightarrow> custom_row list" where
  "custom_set_key k v rows = map (\<lambda>(i, r). if i = k then r\<lparr>cr_key := v\<rparr> else r) (enumerate 0 rows)"

definition custom_set_value :: "nat \<Rightarrow> string \<Rightarrow> custom_row list \<Rightarrow> custom_row list" where
  "custom_set_value k v rows = map (\<lambda>(i, r). if i = k then r\<lparr>cr_value := v\<rparr> else r) (enumerate 0 rows)"

definition custom_remove :: "nat \<Rightarrow> custom_row list \<Rightarrow> custom_row list" where
  "custom_remove k rows = map snd (filter (\<lambda>(i, r). i \<noteq> k) (enumerate 0 rows))"

definition custom_add :: "custom_row list \<Rightarrow> custom_row list" where
  "custom_add rows = rows @ [\<lparr>cr_key = [], cr_value = []\<rparr>]"

section \<open>Page\<close>

record provider_filters =
  pf_search :: string
  pf_channel :: string
  pf_status :: string

record provider_form =
  fm_channel :: string
  fm_provider :: string
  fm_status :: string
  fm_is_default :: bool

record providers_page =
  pp_isPlatform :: bool
  pp_catalog :: "(provider_filters, provider_type) paged"
  pp_configs :: "(provider_filters, tenant_provider) paged"
  pp_channels :: "tenant_channel list"
  pp_saving :: string
  pp_editing :: "tenant_provider option"
  pp_showForm :: bool
  pp_form :: provider_form
  pp_configValues :: "string obj"
  pp_customRows :: "custom_row list"
  pp_confirm :: "provider_type confirm_state"

definition no_provider_filters :: provider_filters where
  "no_provider_filters = \<lparr>pf_search = [], pf_channel = [], pf_status = []\<rparr>"

definition blank_row :: custom_row where
  "blank_row = \<lparr>cr_key = [], cr_value = []\<rparr>"

definition providers_mount :: "principal option \<Rightarrow> providers_page" where
  "providers_mount user =
    \<lparr>pp_isPlatform = (case user of Some u \<Rightarrow> is_platform_admin u | None \<Rightarrow> False),
     pp_catalog = pg_mount no_provider_filters, pp_configs = pg_mount no_provider_filters,
     pp_channels = [], pp_saving = [], pp_editing = None, pp_showForm = False,
     pp_form = \<lparr>fm_channel = [], fm_provider = [], fm_status = ''active'', fm_is_default = False\<rparr>,
     pp_configValues = [], pp_customRows = [blank_row], pp_confirm = confirm_init\<rparr>"

text \<open>The list requests of the two modes.\<close>

definition provider_types_params :: "provider_filters \<Rightarrow> int \<Rightarrow> int \<Rightarrow> pval obj" where
  "provider_types_params f p n =
    [(''q'', PStr (pf_search f)), (''filter_channel'', PStr (pf_channel f)), (''filter_enabled'', PStr (pf_status f)),
     (''page'', PNum p), (''per_page'', PNum n)]"

definition providers_params :: "provider_filters \<Rightarrow> int \<Rightarrow> int \<Rightarrow> pval obj" where
  "providers_params f p n = [(''page'', PNum p), (''per_page'', PNum n)]"

definition providers_call :: "providers_page \<Rightarrow> provider_filters \<times> int \<times> int \<Rightarrow> api_call list" where
  "providers_call s q =
    (case q of (f, p, n) \<Rightarrow>
       if pp_isPlatform s
       then [api_get (listPage_url ''/admin/api/v1/provider-types'' (provider_types_params f p n))]
       else [api_get (listPage_url ''/admin/api/v1/providers'' (providers_params f p n)),
             api_get (listPage_url ''/admin/api/v1/channels'' [(''per_page'', PNum 100)])])"

definition catalog_loaded ::
    "nat \<Rightarrow> provider_type list_answer outcome \<Rightarrow> providers_page \<Rightarrow> providers_page \<times> toast_call list" where
  "catalog_loaded k res s =
    (s\<lparr>pp_catalog := pg_answer k res (pp_catalog s)\<rparr>,
     case res of
       Inr _ \<Rightarrow> []
     | Inl err \<Rightarrow> [(TError, ''Unable to load provider catalog'', Some (getErrorMessage err ''Load failed''))])"

text \<open>A tenant loads settings and channels together; only enabled channels are offered.\<close>

definition settings_loaded ::
    "nat \<Rightarrow> (tenant_provider list_answer \<times> tenant_channel list) outcome \<Rightarrow> providers_page \<Rightarrow> providers_page \<times> toast_call list" where
  "settings_loaded k res s =
    (case res of
       Inr (providers, chans) \<Rightarrow>
         (s\<lparr>pp_configs := pg_answer k (Inr providers) (pp_configs s), pp_channels := filter tc_enabled chans\<rparr>, [])
     | Inl err \<Rightarrow>
         (s\<lparr>pp_configs := pg_answer k (Inl err) (pp_configs s)\<rparr>,
          [(TError, ''Unable to load provider settings'', Some (getErrorMessage err ''Load failed''))]))"

definition set_provider_filters :: "provider_filters \<Rightarrow> providers_page \<Rightarrow> providers_page" where
  "set_provider_filters f s = s\<lparr>pp_catalog := pg_set_filter f (pp_catalog s)\<rparr>"

subsection \<open>Catalogue\<close>

definition toggle_start :: "provider_type \<Rightarrow> providers_page \<Rightarrow> providers_page \<times> api_call" where
  "toggle_start item s =
    (s\<lparr>pp_saving := pt_provider item\<rparr>,
     api_send ''PUT'' (''/admin/api/v1/provider-types/'' @ encodeURIComponent (pt_provider item))
       (JObj [(''enabled'', JBool (\<not> pt_enabled item))]))"

definition toggle_done :: "provider_type \<Rightarrow> unit outcome \<Rightarrow> providers_page \<Rightarrow> providers_page \<times> toast_call list" where
  "toggle_done item res s =
    (let enabled = (\<not> pt_enabled item);
         (s1, ts) =
           (case res of
              Inr _ \<Rightarrow>
                (s\<lparr>pp_catalog := (pp_catalog s)\<lparr>pg_items :=
                     map (\<lambda>p. if pt_provider p = pt_provider item then p\<lparr>pt_enabled := enabled\<rparr> else p)
                       (pg_items (pp_catalog s))\<rparr>\<rparr>,
                 [(TSuccess, if enabled then ''Provider enabled globally'' else ''Provider disabled globally'',
                   Some (replace_all_char CHR ''_'' CHR '' '' (pt_provider item)))])
            | Inl err \<Rightarrow>
                (s, [(TError, ''Unable to update provider'', Some (getErrorMessage err ''Update failed''))]))
     in (s1\<lparr>pp_saving := []\<rparr>, ts))"

text \<open>The switch of a row asks for confirmation first.\<close>

definition toggle_request :: "principal option \<Rightarrow> provider_type \<Rightarrow> providers_page \<Rightarrow> providers_page" where
  "toggle_request user item s =
    (if \<not> hasPermission user ''providers.update'' then s
     else s\<lparr>pp_confirm := requestConfirm
            \<lparr>intent_title = (if pt_enabled item then ''Disable'' else ''Enable'') @ '' provider globally'',
             intent_description = Some ''Confirm global provider status change'',
             intent_body = [''Change '', replace_all_char CHR ''_'' CHR '' '' (pt_provider item), '' for every tenant?''],
             intent_confirmLabel = Some (if pt_enabled item then ''Disable globally'' else ''Enable globally''),
             intent_variant = Some (if pt_enabled item then CDanger else CPrimary),
             intent_onConfirm = item\<rparr> (pp_confirm s)\<rparr>)"

subsection \<open>Settings of a tenant\<close>

definition openProviderForm :: "tenant_provider option \<Rightarrow> providers_page \<Rightarrow> providers_page" where
  "openProviderForm item s =
    (let form = (case item of
                   Some it \<Rightarrow> \<lparr>fm_channel = tp_channel it, fm_provider = tp_provider it, fm_status = tp_status it,
                               fm_is_default = tp_is_default it\<rparr>
                 | None \<Rightarrow> \<lparr>fm_channel = (case pp_channels s of c # _ \<Rightarrow> tc_channel c | [] \<Rightarrow> []), fm_provider = [],
                           fm_status = ''active'', fm_is_default = False\<rparr>)
     in s\<lparr>pp_editing := item, pp_form := form, pp_configValues := [], pp_customRows := [blank_row], pp_showForm := True\<rparr>)"

definition close_form :: "providers_page \<Rightarrow> providers_page" where
  "close_form s = s\<lparr>pp_showForm := False\<rparr>"

text \<open>The channel cannot be changed while a stored configuration is edited.\<close>

definition form_set_channel :: "string \<Rightarrow> providers_page \<Rightarrow> providers_page" where
  "form_set_channel v s = (if pp_editing s \<noteq> None then s else s\<lparr>pp_form := (pp_form s)\<lparr>fm_channel := v\<rparr>\<rparr>)"

definition form_set_provider :: "string \<Rightarrow> providers_page \<Rightarrow> providers_page" where
  "form_set_provider v s =
    s\<lparr>pp_form := (pp_form s)\<lparr>fm_provider := v\<rparr>, pp_configValues := [], pp_customRows := [blank_row]\<rparr>"

definition form_set_status :: "string \<Rightarrow> providers_page \<Rightarrow> providers_page" where
  "form_set_status v s = s\<lparr>pp_form := (pp_form s)\<lparr>fm_status := v\<rparr>\<rparr>"

definition form_set_default :: "bool \<Rightarrow> providers_page \<Rightarrow> providers_page" where
  "form_set_default v s = s\<lparr>pp_form := (pp_form s)\<lparr>fm_is_default := v\<rparr>\<rparr>"

definition form_set_value :: "string \<Rightarrow> string \<Rightarrow> providers_page \<Rightarrow> providers_page" where
  "form_set_value key v s = s\<lparr>pp_configValues := obj_set key v (pp_configValues s)\<rparr>"

definition form_set_rows :: "custom_row list \<Rightarrow> providers_page \<Rightarrow> providers_page" where
  "form_set_rows rows s = s\<lparr>pp_customRows := rows\<rparr>"

definition save_body :: "providers_page \<Rightarrow> json" where
  "save_body s =
    (let config = providerConfigFromForm (fm_provider (pp_form s)) (pp_configValues s) (pp_customRows s)
     in JObj ([(''channel'', JStr (fm_channel (pp_form s))), (''provider'', JStr (fm_provider (pp_form s))),
               (''status'', JStr (fm_status (pp_form s))), (''is_default'', JBool (fm_is_default (pp_form s)))]
              @ (if config \<noteq> [] then [(''config_json'', JObj config)] else [])))"

definition saveTenantProvider_start :: "providers_page \<Rightarrow> providers_page \<times> toast_call list \<times> api_call option" where
  "saveTenantProvider_start s =
    (if fm_channel (pp_form s) = [] \<or> fm_provider (pp_form s) = []
     then (s, [(TError, ''Provider and channel are required'', None)], None)
     else
       let missing = missingRequiredProviderFields (fm_provider (pp_form s)) (pp_configValues s)
       in case pp_editing s of
            None \<Rightarrow>
              if missing \<noteq> [] then (s, [(TError, ''Missing provider settings'', Some (join_str '', '' missing))], None)
              else (s\<lparr>pp_saving := ''new-provider''\<rparr>, [], Some (api_send ''POST'' ''/admin/api/v1/providers'' (save_body s)))
          | Some item \<Rightarrow>
              (s\<lparr>pp_saving := or_str (tp_id item) ''new-provider''\<rparr>, [],
               Some (api_send ''PUT'' (''/admin/api/v1/providers/'' @ tp_id item) (save_body s))))"

text \<open>The continuation of a save; \<^verbatim>\<open>p0\<close> is the page as the handler captured it.\<close>

definition saveTenantProvider_saved ::
    "providers_page \<Rightarrow> unit outcome \<Rightarrow> providers_page \<Rightarrow> providers_page \<times> toast_call list \<times> api_call option" where
  "saveTenantProvider_saved p0 res s =
    (case res of
       Inr _ \<Rightarrow>
         (s\<lparr>pp_showForm := False, pp_editing := None\<rparr>,
          [(TSuccess, if pp_editing p0 \<noteq> None then ''Provider settings updated'' else ''Provider settings created'', None)],
          Some (api_get (listPage_url ''/admin/api/v1/providers''
                  (providers_params (pg_filters (pp_configs p0)) (pg_page (pp_configs p0)) (pg_perPage (pp_configs p0))))))
     | Inl err \<Rightarrow>
         (s\<lparr>pp_saving := []\<rparr>, [(TError, ''Unable to save provider settings'', Some (getErrorMessage err ''Save failed''))], None))"

definition saveTenantProvider_reloaded ::
    "tenant_provider list_answer outcome \<Rightarrow> providers_page \<Rightarrow> providers_page \<times> toast_call list" where
  "saveTenantProvider_reloaded res s =
    (let (s1, ts) =
       (case res of
          Inr (items, meta) \<Rightarrow> (s\<lparr>pp_configs := (pp_configs s)\<lparr>pg_items := items, pg_meta := meta\<rparr>\<rparr>, [])
        | Inl err \<Rightarrow> (s, [(TError, ''Unable to save provider settings'', Some (getErrorMessage err ''Save failed''))]))
     in (s1\<lparr>pp_saving := []\<rparr>, ts))"

definition setTenantProviderStatus_start :: "tenant_provider \<Rightarrow> string \<Rightarrow> providers_page \<Rightarrow> providers_page \<times> api_call" where
  "setTenantProviderStatus_start item status s =
    (s\<lparr>pp_saving := tp_id item\<rparr>,
     api_send ''PUT'' (''/admin/api/v1/providers/'' @ tp_id item) (JObj [(''status'', JStr status)]))"

definition setTenantProviderStatus_done ::
    "tenant_provider \<Rightarrow> string \<Rightarrow> unit outcome \<Rightarrow> providers_page \<Rightarrow> providers_page \<times> toast_call list" where
  "setTenantProviderStatus_done item status res s =
    (let (s1, ts) =
       (case res of
          Inr _ \<Rightarrow>
            (s\<lparr>pp_configs := (pp_configs s)\<lparr>pg_items :=
                 map (\<lambda>p. if tp_id p = tp_id item then p\<lparr>tp_status := status\<rparr> else p) (pg_items (pp_configs s))\<rparr>\<rparr>,
             [(TSuccess, if status = ''active'' then ''Provider enabled'' else ''Provider disabled'', None)])
        | Inl err \<Rightarrow> (s, [(TError, ''Unable to update provider'', Some (getErrorMessage err ''Update failed''))]))
     in (s1\<lparr>pp_saving := []\<rparr>, ts))"

text \<open>What \<^verbatim>\<open>UpdateProviderConfig\<close> of the server stores for a request: a new configuration replaces the old.\<close>

definition UpdateProviderConfig :: "json \<Rightarrow> json obj \<Rightarrow> json obj" where
  "UpdateProviderConfig req old =
    (case jprop req ''config_json'' of Some (JObj config) \<Rightarrow> config | _ \<Rightarrow> old)"

subsection \<open>View\<close>

record settings_row =
  sr_provider :: string
  sr_channel :: string
  sr_default :: string
  sr_toggle :: toggle_view
  sr_edit_enabled :: bool

definition settings_row_of :: "principal option \<Rightarrow> providers_page \<Rightarrow> tenant_provider \<Rightarrow> settings_row" where
  "settings_row_of user s item =
    (let active = (tp_status item = ''active'')
     in \<lparr>sr_provider = tp_provider item,
         sr_channel = replace_all_char CHR ''_'' CHR '' '' (tp_channel item),
         sr_default = (if tp_is_default item then ''Yes'' else ''No''),
         sr_toggle = StatusToggle active (if active then ''Enabled'' else ''Disabled'')
           (\<not> hasPermission user ''providers.update'' \<or> pp_saving s = tp_id item),
         sr_edit_enabled = hasPermission user ''providers.update''\<rparr>)"

definition catalog_row_of :: "principal option \<Rightarrow> providers_page \<Rightarrow> provider_type \<Rightarrow> string list \<times> toggle_view" where
  "catalog_row_of user s item =
    ([replace_all_char CHR ''_'' CHR '' '' (pt_provider item), pt_provider item, or_str (pt_description item) ''-'',
      replace_all_char CHR ''_'' CHR '' '' (pt_channel item),
      int_str (pt_tenant_count item) @ '' tenant'' @ (if pt_tenant_count item = 1 then [] else ''s'')],
     StatusToggle (pt_enabled item) ((if pt_enabled item then ''Disable'' else ''Enable'') @ '' '' @ pt_provider item)
       (\<not> hasPermission user ''providers.update'' \<or> pp_saving s = pt_provider item))"

record settings_view =
  sw_add :: bool
  sw_rows :: "settings_row list_content"
  sw_footer :: "pagination_view option"
  sw_form_title :: "string option"
  sw_channel_enabled :: bool
  sw_channel_options :: "string list"
  sw_provider_options :: "(string \<times> string) list"
  sw_editor :: config_editor
  sw_save :: "bool \<times> string"

text \<open>A tenant's page. Its table footer is shown only with rows.\<close>

definition tenant_view :: "principal option \<Rightarrow> providers_page \<Rightarrow> settings_view" where
  "tenant_view user s =
    \<lparr>sw_add = hasPermission user ''providers.create'',
     sw_rows = table_content ''No provider settings configured'' (settings_row_of user s) (pp_configs s),
     sw_footer = (if pg_loading (pp_configs s) \<or> pg_items (pp_configs s) = [] then None else Some (footer_of (pp_configs s))),
     sw_form_title = (if pp_showForm s
       then Some (if pp_editing s \<noteq> None then ''Update provider settings'' else ''Add provider settings'') else None),
     sw_channel_enabled = (pp_editing s = None),
     sw_channel_options = map tc_channel (pp_channels s),
     sw_provider_options = ProviderSelect (fm_channel (pp_form s)),
     sw_editor = ProviderConfigEditor (fm_provider (pp_form s)) (pp_editing s \<noteq> None) (pp_configValues s) (pp_customRows s),
     sw_save = (pp_saving s = [], if pp_saving s \<noteq> [] then ''Saving...'' else ''Save provider'')\<rparr>"

record catalog_view =
  cv_filters :: provider_filters
  cv_clear :: bool
  cv_rows :: "(string list \<times> toggle_view) list_content"
  cv_footer :: "pagination_view option"
  cv_dialog :: "dialog_view option"

definition platform_view :: "principal option \<Rightarrow> providers_page \<Rightarrow> catalog_view" where
  "platform_view user s =
    (let f = pg_filters (pp_catalog s)
     in \<lparr>cv_filters = f,
         cv_clear = (pf_search f \<noteq> [] \<or> pf_channel f \<noteq> [] \<or> pf_status f \<noteq> []),
         cv_rows = table_content ''No providers found'' (catalog_row_of user s) (pp_catalog s),
         cv_footer = (if pg_loading (pp_catalog s) then None else Some (footer_of (pp_catalog s))),
         cv_dialog = confirmDialog (pp_confirm s)\<rparr>)"

section \<open>Lemmas\<close>

interpretation provider_types: list_source "''/admin/api/v1/provider-types''" provider_types_params
  by unfold_locales (simp_all add: provider_types_params_def obj_wf_def)

interpretation tenant_providers: list_source "''/admin/api/v1/providers''" providers_params
  by unfold_locales (simp_all add: providers_params_def obj_wf_def)

lemma schema_keys_distinct:
  "obj_get DEFAULT_PROVIDER_SCHEMAS provider = Some sch \<Longrightarrow> distinct (map fd_key (sch_fields sch))"
proof -
  have "list_all (\<lambda>(k, sch). distinct (map fd_key (sch_fields sch))) DEFAULT_PROVIDER_SCHEMAS" by code_simp
  then show "obj_get DEFAULT_PROVIDER_SCHEMAS provider = Some sch \<Longrightarrow> ?thesis"
    by (auto simp: obj_get_def list_all_iff dest: map_of_SomeD)
qed

text \<open>A loop that writes a property per element unless the element is skipped.\<close>

lemma fold_fields_get:
  assumes "distinct (map key fs)"
  shows "obj_get (fold (\<lambda>f out. if skip f then out else obj_set (key f) (val f) out) fs ob) k =
     (case find (\<lambda>f. key f = k \<and> \<not> skip f) fs of Some f \<Rightarrow> Some (val f) | None \<Rightarrow> obj_get ob k)"
  using assms
proof (induction fs arbitrary: ob)
  case (Cons f fs)
  have nf: "find (\<lambda>g. key g = key f \<and> \<not> skip g) fs = None"
    using Cons.prems by (auto simp: find_None_iff image_iff)
  show ?case using Cons nf by (auto split: option.splits)
qed simp

definition field_value :: "string obj \<Rightarrow> config_field \<Rightarrow> json" where
  "field_value values f =
    (if fd_type f = FNumber then js_number (trimmed_value values (fd_key f)) else JStr (trimmed_value values (fd_key f)))"

lemma config_get:
  assumes "obj_get DEFAULT_PROVIDER_SCHEMAS provider = Some sch"
  shows "obj_get (providerConfigFromForm provider values rows) k =
     (case find (\<lambda>f. fd_key f = k \<and> trimmed_value values (fd_key f) \<noteq> []) (sch_fields sch) of
        Some f \<Rightarrow> Some (field_value values f) | None \<Rightarrow> None)"
proof -
  have "providerConfigFromForm provider values rows =
      fold (\<lambda>f out. if trimmed_value values (fd_key f) = [] then out else obj_set (fd_key f) (field_value values f) out) (sch_fields sch) []"
    using assms by (simp add: providerConfigFromForm_def field_value_def Let_def cong: if_cong)
  then show ?thesis
    using fold_fields_get [OF schema_keys_distinct [OF assms], of "\<lambda>f. trimmed_value values (fd_key f) = []" "field_value values" "[]" k]
    by (simp split: option.splits)
qed

lemma missing_Nil:
  assumes "obj_get DEFAULT_PROVIDER_SCHEMAS provider = Some sch"
  shows "missingRequiredProviderFields provider values = [] \<longleftrightarrow>
     (\<forall>f \<in> set (sch_fields sch). fd_required f \<longrightarrow> trimmed_value values (fd_key f) \<noteq> [])"
  using assms by (auto simp: missingRequiredProviderFields_def filter_empty_conv)

lemma find_field:
  "distinct (map fd_key fs) \<Longrightarrow> f \<in> set fs \<Longrightarrow> ok f \<Longrightarrow> find (\<lambda>g. fd_key g = fd_key f \<and> ok g) fs = Some f"
  by (induction fs) force+

section \<open>Properties\<close>

text \<open>
  A provider that is added comes with its settings: the form makes a request exactly when a
  channel and a provider are chosen and no required field is blank, and the configuration it sends
  has, for a provider with a schema, a property for each field that was filled in, with the trimmed
  text or the number, and no other property; so every required field is among them.
\<close>

theorem added_provider_is_configured:
  assumes "pp_editing s = None" and "obj_get DEFAULT_PROVIDER_SCHEMAS (fm_provider (pp_form s)) = Some sch"
  defines "config \<equiv> providerConfigFromForm (fm_provider (pp_form s)) (pp_configValues s) (pp_customRows s)"
  shows "((snd (snd (saveTenantProvider_start s)) \<noteq> None) =
       (fm_channel (pp_form s) \<noteq> [] \<and> fm_provider (pp_form s) \<noteq> []
        \<and> (\<forall>f \<in> set (sch_fields sch). fd_required f \<longrightarrow> trimmed_value (pp_configValues s) (fd_key f) \<noteq> [])))
     \<and> (\<forall>f \<in> set (sch_fields sch). trimmed_value (pp_configValues s) (fd_key f) \<noteq> [] \<longrightarrow>
          obj_get config (fd_key f) = Some (field_value (pp_configValues s) f))
     \<and> (\<forall>k. obj_get config k \<noteq> None \<longrightarrow> (\<exists>f \<in> set (sch_fields sch). fd_key f = k))
     \<and> (\<forall>call. snd (snd (saveTenantProvider_start s)) = Some call \<longrightarrow>
          jprop (the (call_body call)) ''config_json'' = (if config = [] then None else Some (JObj config)))"
proof (intro conjI)
  show "(snd (snd (saveTenantProvider_start s)) \<noteq> None) =
       (fm_channel (pp_form s) \<noteq> [] \<and> fm_provider (pp_form s) \<noteq> []
        \<and> (\<forall>f \<in> set (sch_fields sch). fd_required f \<longrightarrow> trimmed_value (pp_configValues s) (fd_key f) \<noteq> []))"
    using missing_Nil [OF assms(2)] assms(1) by (simp add: saveTenantProvider_start_def Let_def)
  show "\<forall>f \<in> set (sch_fields sch). trimmed_value (pp_configValues s) (fd_key f) \<noteq> [] \<longrightarrow>
       obj_get config (fd_key f) = Some (field_value (pp_configValues s) f)"
    using find_field [OF schema_keys_distinct [OF assms(2)]]
    by (simp add: config_def config_get [OF assms(2)])
  show "\<forall>k. obj_get config k \<noteq> None \<longrightarrow> (\<exists>f \<in> set (sch_fields sch). fd_key f = k)"
    by (auto simp: config_def config_get [OF assms(2)] find_Some_iff split: option.splits)
  show "\<forall>call. snd (snd (saveTenantProvider_start s)) = Some call \<longrightarrow>
       jprop (the (call_body call)) ''config_json'' = (if config = [] then None else Some (JObj config))"
    using assms(1) by (auto simp: saveTenantProvider_start_def save_body_def api_send_def config_def Let_def split: if_splits)
qed

definition demo_providers :: providers_page where
  "demo_providers = (providers_mount None)\<lparr>
     pp_form := \<lparr>fm_channel = ''email'', fm_provider = ''resend'', fm_status = ''active'', fm_is_default = False\<rparr>,
     pp_configValues := [(''api_key'', '' k ''), (''from'', ''a@b.c'')]\<rparr>"

theorem added_provider_is_configured_witness:
  "snd (snd (saveTenantProvider_start demo_providers)) \<noteq> None"
proof -
  have "obj_get DEFAULT_PROVIDER_SCHEMAS (fm_provider (pp_form demo_providers)) =
      Some (the (obj_get DEFAULT_PROVIDER_SCHEMAS ''resend''))" by code_simp
  moreover have "pp_editing demo_providers = None" by code_simp
  moreover have "list_all (\<lambda>f. fd_required f \<longrightarrow> trimmed_value (pp_configValues demo_providers) (fd_key f) \<noteq> [])
      (sch_fields (the (obj_get DEFAULT_PROVIDER_SCHEMAS ''resend'')))" by code_simp
  ultimately show ?thesis
    using added_provider_is_configured [of demo_providers "the (obj_get DEFAULT_PROVIDER_SCHEMAS ''resend'')"]
    by (simp add: list_all_iff) (simp add: demo_providers_def)
qed

text \<open>
  Property C36. Editing a provider loses what is left blank: when a stored configuration is edited and
  some field of its schema is filled in while another is left blank, the request carries a
  configuration without the blank field, and the server, which stores the configuration of a request
  in place of the old one, no longer has it, although the form announces that blank secrets are kept.
  Only a form with every field blank leaves the stored configuration alone.
\<close>

theorem edit_drops_blank_fields:
  assumes "pp_editing s = Some item" and "obj_get DEFAULT_PROVIDER_SCHEMAS (fm_provider (pp_form s)) = Some sch"
    and "f \<in> set (sch_fields sch)" and "trimmed_value (pp_configValues s) (fd_key f) = []"
  shows "((\<exists>g \<in> set (sch_fields sch). trimmed_value (pp_configValues s) (fd_key g) \<noteq> []) \<longrightarrow>
         obj_get (UpdateProviderConfig (save_body s) old) (fd_key f) = None)
     \<and> ((\<forall>g \<in> set (sch_fields sch). trimmed_value (pp_configValues s) (fd_key g) = []) \<longrightarrow>
         UpdateProviderConfig (save_body s) old = old)"
proof -
  let ?c = "providerConfigFromForm (fm_provider (pp_form s)) (pp_configValues s) (pp_customRows s)"
  have upd: "UpdateProviderConfig (save_body s) old = (if ?c = [] then old else ?c)"
    by (simp add: UpdateProviderConfig_def save_body_def Let_def)
  have none: "obj_get ?c (fd_key f) = None"
    using assms(4) by (auto simp: config_get [OF assms(2)] find_Some_iff split: option.splits)
  have "(\<exists>g \<in> set (sch_fields sch). trimmed_value (pp_configValues s) (fd_key g) \<noteq> []) \<longrightarrow>
       obj_get (UpdateProviderConfig (save_body s) old) (fd_key f) = None"
  proof
    assume "\<exists>g \<in> set (sch_fields sch). trimmed_value (pp_configValues s) (fd_key g) \<noteq> []"
    then obtain g where "g \<in> set (sch_fields sch)" "trimmed_value (pp_configValues s) (fd_key g) \<noteq> []" by blast
    then have "obj_get ?c (fd_key g) \<noteq> None"
      using find_field [OF schema_keys_distinct [OF assms(2)], of g] by (simp add: config_get [OF assms(2)])
    then have "?c \<noteq> []" by auto
    with upd none show "obj_get (UpdateProviderConfig (save_body s) old) (fd_key f) = None" by simp
  qed
  moreover have "(\<forall>g \<in> set (sch_fields sch). trimmed_value (pp_configValues s) (fd_key g) = []) \<longrightarrow>
       UpdateProviderConfig (save_body s) old = old"
  proof
    assume blank: "\<forall>g \<in> set (sch_fields sch). trimmed_value (pp_configValues s) (fd_key g) = []"
    have "obj_get ?c k = None" for k
      using blank by (auto simp: config_get [OF assms(2)] find_Some_iff split: option.splits)
    from this [of "fst (hd ?c)"] have "?c = []" by (cases ?c) auto
    with upd show "UpdateProviderConfig (save_body s) old = old" by simp
  qed  ultimately show ?thesis ..
qed

definition demo_provider :: tenant_provider where
  "demo_provider = \<lparr>tp_id = ''p1'', tp_channel = ''email'', tp_provider = ''smtp'', tp_is_default = True,
                    tp_status = ''active'', tp_tenant_name = None\<rparr>"

theorem edit_drops_blank_fields_witness:
  "obj_get (UpdateProviderConfig
       (save_body (form_set_value ''host'' ''mail'' (openProviderForm (Some demo_provider) demo_providers)))
       [(''password'', JStr ''secret'')]) ''password'' = None"
proof -
  let ?s = "form_set_value ''host'' ''mail'' (openProviderForm (Some demo_provider) demo_providers)"
  let ?sch = "the (obj_get DEFAULT_PROVIDER_SCHEMAS ''smtp'')"
  let ?f = "sch_fields ?sch ! 3"
  have e: "pp_editing ?s = Some demo_provider" by code_simp
  have sc: "obj_get DEFAULT_PROVIDER_SCHEMAS (fm_provider (pp_form ?s)) = Some ?sch" by code_simp
  have "?f = fld ''password'' ''Password'' FPassword False True None []" by code_simp
  then have k: "fd_key ?f = ''password''" by (simp add: fld_def)
  have "3 < length (sch_fields ?sch)" "0 < length (sch_fields ?sch)" by code_simp+
  then have m: "?f \<in> set (sch_fields ?sch)" "sch_fields ?sch ! 0 \<in> set (sch_fields ?sch)" by (auto intro: nth_mem)
  have b: "trimmed_value (pp_configValues ?s) (fd_key ?f) = []" unfolding k by code_simp
  have "trimmed_value (pp_configValues ?s) (fd_key (sch_fields ?sch ! 0)) \<noteq> []" by code_simp
  then show ?thesis
    using edit_drops_blank_fields [OF e sc m(1) b, of "[(''password'', JStr ''secret'')]"] m(2) unfolding k by blast
qed

end
