(* ===== verification/Roles.thy ===== *)
theory Roles
  imports Paged_List Auth
begin

text \<open>
  The role page \<^verbatim>\<open>src/notification-admin-ui/src/pages/roles/RolesPage.tsx\<close>: the three groups of
  roles a platform administrator can look at, creating, editing, viewing and deleting a role, and the
  permissions sorted into categories. A JavaScript \<^verbatim>\<open>Set\<close> is a list without repetition in the order
  of insertion.

  Loading asks for the roles and for all permissions at once; each answer is stored when it arrives, and
  the load as a whole settles when both are there or one has failed.
\<close>

section \<open>Data\<close>

record role =
  ro_id :: string
  ro_tenant_id :: string
  ro_name :: string
  ro_key :: string
  ro_scope :: string
  ro_status :: string
  ro_created_at :: string

record permission =
  pe_id :: string
  pe_key :: string
  pe_description :: string

record role_detail = role +
  ro_permissions :: "permission list option"

definition CATEGORIES :: "string list" where
  "CATEGORIES = [''users'', ''roles'', ''permissions'', ''tenants'', ''providers'', ''contacts'', ''campaigns'', ''templates'',
    ''notifications'', ''audit'', ''api_keys'', ''channels'', ''queue_controls'', ''features'', ''settings'', ''groups'']"

definition permissionCategory :: "string \<Rightarrow> string" where
  "permissionCategory key = (case find (\<lambda>cat. starts_with key cat) CATEGORIES of Some cat \<Rightarrow> cat | None \<Rightarrow> ''other'')"

datatype role_view = PlatformRoles | TenantDefaults | TenantCustom

type_synonym role_filters = "role_view \<times> string"

record roles_page =
  rp_isPlatform :: bool
  rp_list :: "(role_filters, role) paged"
  rp_allPerms :: "permission list"
  rp_error :: string
  rp_showForm :: bool
  rp_name :: string
  rp_key :: string
  rp_tenantId :: string
  rp_tenants :: "(string \<times> string \<times> string) list"
  rp_createPerms :: "string list"
  rp_saving :: bool
  rp_editingId :: "string option"
  rp_editName :: string
  rp_editPerms :: "string list"
  rp_viewingId :: "string option"
  rp_viewDetail :: "role_detail option"
  rp_confirm :: "string confirm_state"

definition roles_mount :: "bool \<Rightarrow> roles_page" where
  "roles_mount platform =
    \<lparr>rp_isPlatform = platform, rp_list = pg_mount (PlatformRoles, []), rp_allPerms = [], rp_error = [], rp_showForm = False,
     rp_name = [], rp_key = [], rp_tenantId = [], rp_tenants = [], rp_createPerms = [], rp_saving = False,
     rp_editingId = None, rp_editName = [], rp_editPerms = [], rp_viewingId = None, rp_viewDetail = None,
     rp_confirm = confirm_init\<rparr>"

section \<open>Loading\<close>

definition roles_params :: "bool \<Rightarrow> role_filters \<Rightarrow> int \<Rightarrow> int \<Rightarrow> pval obj" where
  "roles_params platform f p n =
    (case f of (view, tenant) \<Rightarrow>
      [(''filter_scope'', PStr (if platform \<and> view = PlatformRoles then ''platform'' else ''tenant'')),
       (''filter_tenant_id'', if platform \<and> view = TenantCustom then PStr tenant else PUndef),
       (''page'', PNum p), (''per_page'', PNum n)])"

definition roles_calls :: "roles_page \<Rightarrow> role_filters \<times> int \<times> int \<Rightarrow> api_call list" where
  "roles_calls s q =
    (case q of (f, p, n) \<Rightarrow>
      [api_get (listPage_url ''/admin/api/v1/roles'' (roles_params (rp_isPlatform s) f p n)),
       api_get ''/admin/api/v1/permissions''])"

text \<open>The rows kept from an answer, under the filters of the request.\<close>

definition role_rows :: "bool \<Rightarrow> role_filters \<Rightarrow> role list \<Rightarrow> role list" where
  "role_rows platform f rows =
    (case f of (view, tenant) \<Rightarrow>
       filter (\<lambda>r. \<not> platform \<or> view \<noteq> TenantCustom \<or> tenant \<noteq> [] \<or> ro_tenant_id r \<noteq> [])
         (if view = TenantDefaults then filter (\<lambda>r. ro_tenant_id r = []) rows else rows))"

definition roles_arrived :: "role_filters \<Rightarrow> role list_answer \<Rightarrow> roles_page \<Rightarrow> roles_page" where
  "roles_arrived f ans s =
    s\<lparr>rp_list := (rp_list s)\<lparr>pg_items := role_rows (rp_isPlatform s) f (fst ans), pg_meta := snd ans\<rparr>\<rparr>"

definition permissions_arrived :: "permission list \<Rightarrow> roles_page \<Rightarrow> roles_page" where
  "permissions_arrived ps s = s\<lparr>rp_allPerms := ps\<rparr>"

definition roles_settled :: "nat \<Rightarrow> js_error option \<Rightarrow> roles_page \<Rightarrow> roles_page \<times> toast_call list" where
  "roles_settled k err s =
    (s\<lparr>rp_list := (rp_list s)\<lparr>pg_loading := False,
         pg_pending := take k (pg_pending (rp_list s)) @ drop (Suc k) (pg_pending (rp_list s))\<rparr>\<rparr>,
     case err of
       None \<Rightarrow> []
     | Some e \<Rightarrow> [(TError, ''Unable to load roles'', Some (getErrorMessage e ''Load failed''))])"

text \<open>The tenant list, of which the active tenants are kept (identifier, name, slug).\<close>

definition role_tenants_loaded :: "(string \<times> string \<times> string \<times> string) list outcome \<Rightarrow> roles_page \<Rightarrow> roles_page" where
  "role_tenants_loaded res s =
    (case res of
       Inr ts \<Rightarrow> s\<lparr>rp_tenants := map (\<lambda>(i, n, g, st). (i, n, g)) (filter (\<lambda>(i, n, g, st). st = ''active'') ts)\<rparr>
     | Inl _ \<Rightarrow> s)"

definition choose_view :: "role_view \<Rightarrow> roles_page \<Rightarrow> roles_page" where
  "choose_view v s =
    s\<lparr>rp_list := pg_set_filter (v, if v = TenantCustom then snd (pg_filters (rp_list s)) else []) (rp_list s)\<rparr>"

definition choose_role_tenant :: "string \<Rightarrow> roles_page \<Rightarrow> roles_page" where
  "choose_role_tenant t s = s\<lparr>rp_list := pg_set_filter (fst (pg_filters (rp_list s)), t) (rp_list s)\<rparr>"

text \<open>\<^verbatim>\<open>load()\<close> called by a handler that captured the page \<^verbatim>\<open>p0\<close>.\<close>

definition roles_reload :: "roles_page \<Rightarrow> roles_page \<Rightarrow> roles_page" where
  "roles_reload p0 s = s\<lparr>rp_list := pg_load_as (pg_query (rp_list p0)) (rp_list s)\<rparr>"

section \<open>Creating\<close>

definition role_view_of :: "roles_page \<Rightarrow> role_view" where
  "role_view_of s = fst (pg_filters (rp_list s))"

definition createDisabled :: "roles_page \<Rightarrow> bool" where
  "createDisabled s \<longleftrightarrow> rp_saving s \<or> (rp_isPlatform s \<and> role_view_of s = TenantCustom \<and> rp_tenantId s = [])"

definition role_submit_start :: "roles_page \<Rightarrow> roles_page \<times> api_call" where
  "role_submit_start s =
    (let scope = (if rp_isPlatform s \<and> role_view_of s = PlatformRoles then ''platform'' else ''tenant'');
         tenant = (if rp_isPlatform s \<and> role_view_of s = TenantCustom then rp_tenantId s else [])
     in (s\<lparr>rp_saving := True, rp_error := []\<rparr>,
         api_send ''POST'' ''/admin/api/v1/roles''
           (str_obj ([(''name'', rp_name s), (''key'', rp_key s), (''scope'', scope)]
                     @ (if tenant \<noteq> [] then [(''tenant_id'', tenant)] else [])))))"

definition role_failed :: "string \<Rightarrow> string \<Rightarrow> js_error \<Rightarrow> roles_page \<Rightarrow> roles_page \<times> toast_call list \<times> api_call option" where
  "role_failed title fallback err s =
    (s\<lparr>rp_saving := False\<rparr>, [(TError, title, Some (getErrorMessage err fallback))], None)"

definition role_submit_finished :: "roles_page \<Rightarrow> roles_page \<Rightarrow> roles_page \<times> toast_call list \<times> api_call option" where
  "role_submit_finished p0 s =
    (roles_reload p0 (s\<lparr>rp_name := [], rp_key := [], rp_tenantId := [], rp_createPerms := [], rp_showForm := False, rp_saving := False\<rparr>),
     [(TSuccess, ''Role created'', Some (rp_name p0))], None)"

text \<open>The role exists; its permissions are set by a second request when any were chosen.\<close>

definition role_created :: "roles_page \<Rightarrow> string outcome \<Rightarrow> roles_page \<Rightarrow> roles_page \<times> toast_call list \<times> api_call option" where
  "role_created p0 res s =
    (case res of
       Inl err \<Rightarrow> role_failed ''Unable to create role'' ''Create failed'' err s
     | Inr ident \<Rightarrow>
         if rp_createPerms p0 \<noteq> []
         then (s, [], Some (api_send ''PUT'' (''/admin/api/v1/roles/'' @ ident @ ''/permissions'')
                      (JObj [(''permission_ids'', JArr (map JStr (rp_createPerms p0)))])))
         else role_submit_finished p0 s)"

definition role_created_permissions :: "roles_page \<Rightarrow> unit outcome \<Rightarrow> roles_page \<Rightarrow> roles_page \<times> toast_call list \<times> api_call option" where
  "role_created_permissions p0 res s =
    (case res of
       Inl err \<Rightarrow> role_failed ''Unable to create role'' ''Create failed'' err s
     | Inr _ \<Rightarrow> role_submit_finished p0 s)"

definition role_remove :: "string \<Rightarrow> api_call" where
  "role_remove ident = api_delete (''/admin/api/v1/roles/'' @ ident)"

definition role_removed :: "roles_page \<Rightarrow> unit outcome \<Rightarrow> roles_page \<Rightarrow> roles_page \<times> toast_call list" where
  "role_removed p0 res s =
    (case res of
       Inr _ \<Rightarrow> (roles_reload p0 s, [(TSuccess, ''Role deleted'', None)])
     | Inl err \<Rightarrow> (s, [(TError, ''Unable to delete role'', Some (getErrorMessage err ''Delete failed''))]))"

section \<open>Editing\<close>

definition startEdit :: "role \<Rightarrow> roles_page \<Rightarrow> roles_page \<times> api_call" where
  "startEdit item s =
    (s\<lparr>rp_editingId := Some (ro_id item), rp_editName := ro_name item\<rparr>, api_get (''/admin/api/v1/roles/'' @ ro_id item))"

text \<open>The answer carries the detail of the role, or none.\<close>

definition startEdit_loaded :: "role_detail option outcome \<Rightarrow> roles_page \<Rightarrow> roles_page" where
  "startEdit_loaded res s =
    (case res of
       Inr d \<Rightarrow> s\<lparr>rp_editPerms := uniq (map pe_id (case d of Some det \<Rightarrow> (case ro_permissions det of Some ps \<Rightarrow> ps | None \<Rightarrow> []) | None \<Rightarrow> []))\<rparr>
     | Inl _ \<Rightarrow> s\<lparr>rp_editPerms := []\<rparr>)"

definition saveEdit_start :: "string \<Rightarrow> roles_page \<Rightarrow> roles_page \<times> api_call" where
  "saveEdit_start ident s =
    (s\<lparr>rp_saving := True, rp_error := []\<rparr>,
     api_send ''PUT'' (''/admin/api/v1/roles/'' @ ident) (str_obj [(''name'', rp_editName s)]))"

definition saveEdit_named :: "roles_page \<Rightarrow> string \<Rightarrow> unit outcome \<Rightarrow> roles_page \<Rightarrow> roles_page \<times> toast_call list \<times> api_call option" where
  "saveEdit_named p0 ident res s =
    (case res of
       Inl err \<Rightarrow> role_failed ''Unable to update role'' ''Update failed'' err s
     | Inr _ \<Rightarrow> (s, [], Some (api_send ''PUT'' (''/admin/api/v1/roles/'' @ ident @ ''/permissions'')
                        (JObj [(''permission_ids'', JArr (map JStr (rp_editPerms p0)))]))))"

definition saveEdit_done :: "roles_page \<Rightarrow> unit outcome \<Rightarrow> roles_page \<Rightarrow> roles_page \<times> toast_call list \<times> api_call option" where
  "saveEdit_done p0 res s =
    (case res of
       Inl err \<Rightarrow> role_failed ''Unable to update role'' ''Update failed'' err s
     | Inr _ \<Rightarrow> (roles_reload p0 (s\<lparr>rp_editingId := None, rp_saving := False\<rparr>),
                [(TSuccess, ''Role updated'', Some (rp_editName p0))], None))"

definition viewRole_loaded :: "string \<Rightarrow> role_detail option outcome \<Rightarrow> roles_page \<Rightarrow> roles_page \<times> toast_call list" where
  "viewRole_loaded ident res s =
    (case res of
       Inr d \<Rightarrow> (s\<lparr>rp_viewDetail := d, rp_viewingId := Some ident\<rparr>, [])
     | Inl _ \<Rightarrow> (s, [(TError, ''Unable to load role details'', None)]))"

definition togglePerm :: "string \<Rightarrow> roles_page \<Rightarrow> roles_page" where
  "togglePerm pid s = s\<lparr>rp_editPerms := toggle_list pid (rp_editPerms s)\<rparr>"

definition toggleCreatePerm :: "string \<Rightarrow> roles_page \<Rightarrow> roles_page" where
  "toggleCreatePerm pid s = s\<lparr>rp_createPerms := toggle_list pid (rp_createPerms s)\<rparr>"

definition select_all_perms :: "roles_page \<Rightarrow> roles_page" where
  "select_all_perms s =
    s\<lparr>rp_createPerms := (if length (rp_createPerms s) = length (rp_allPerms s) then [] else uniq (map pe_id (rp_allPerms s)))\<rparr>"

section \<open>View\<close>

definition groupedPerms :: "roles_page \<Rightarrow> permission list obj" where
  "groupedPerms s = group_by_key (\<lambda>p. permissionCategory (pe_key p)) (rp_allPerms s)"

definition editingRole :: "roles_page \<Rightarrow> role option" where
  "editingRole s = find (\<lambda>item. rp_editingId s = Some (ro_id item)) (pg_items (rp_list s))"

definition tenantName :: "roles_page \<Rightarrow> string \<Rightarrow> string" where
  "tenantName s ident = (case find (\<lambda>(i, n, g). i = ident) (rp_tenants s) of Some (i, n, g) \<Rightarrow> n | None \<Rightarrow> [])"

record role_row =
  rr_cells :: "string list"
  rr_tenant :: "string option"
  rr_badge :: "badge_tone \<times> string"
  rr_manage :: bool

definition role_row_of :: "principal option \<Rightarrow> roles_page \<Rightarrow> role \<Rightarrow> role_row" where
  "role_row_of user s item =
    \<lparr>rr_cells = [ro_name item, ro_key item, ro_scope item],
     rr_tenant = (if rp_isPlatform s
       then Some (if ro_tenant_id item \<noteq> [] then or_str (tenantName s (ro_tenant_id item)) (ro_tenant_id item)
                  else if ro_scope item = ''tenant'' then ''All tenants'' else ''-'')
       else None),
     rr_badge = StatusBadge (StatusText (Some (ro_status item))),
     rr_manage = hasPermission user ''roles.manage''\<rparr>"

text \<open>The confirmation that precedes a deletion.\<close>

definition request_remove :: "role \<Rightarrow> roles_page \<Rightarrow> roles_page" where
  "request_remove item s =
    s\<lparr>rp_confirm := requestConfirm
       \<lparr>intent_title = ''Delete role'', intent_description = Some ''This action cannot be undone'',
        intent_body = [''Delete '', ro_name item, ''?''], intent_confirmLabel = Some ''Delete role'', intent_variant = Some CDanger, intent_onConfirm = ro_id item\<rparr> (rp_confirm s)\<rparr>"

definition toggle_create_form :: "roles_page \<Rightarrow> roles_page" where
  "toggle_create_form s = s\<lparr>rp_showForm := \<not> rp_showForm s, rp_editingId := None\<rparr>"

definition close_create_form :: "roles_page \<Rightarrow> roles_page" where
  "close_create_form s = s\<lparr>rp_showForm := False\<rparr>"

definition close_edit :: "roles_page \<Rightarrow> roles_page" where
  "close_edit s = s\<lparr>rp_editingId := None\<rparr>"

definition close_view :: "roles_page \<Rightarrow> roles_page" where
  "close_view s = s\<lparr>rp_viewingId := None, rp_viewDetail := None\<rparr>"

definition edit_from_view :: "roles_page \<Rightarrow> roles_page \<times> api_call option" where
  "edit_from_view s =
    (case rp_viewDetail s of
       None \<Rightarrow> (s, None)
     | Some d \<Rightarrow> (case startEdit (role.truncate d) (close_view s) of (s1, c) \<Rightarrow> (s1, Some c)))"

definition role_group_label :: "roles_page \<Rightarrow> string" where
  "role_group_label s =
    (if rp_isPlatform s
     then (case role_view_of s of PlatformRoles \<Rightarrow> ''Platform role'' | TenantDefaults \<Rightarrow> ''Default tenant role''
           | TenantCustom \<Rightarrow> ''Tenant custom role'')
     else ''Tenant custom role'')"

text \<open>The sections of checkboxes: category, then permission and whether it is ticked.\<close>

definition perm_sections :: "roles_page \<Rightarrow> string list \<Rightarrow> (string \<times> (permission \<times> bool) list) list" where
  "perm_sections s chosen =
    map (\<lambda>(cat, perms). (cat, map (\<lambda>p. (p, List.member chosen (pe_id p))) perms)) (obj_entries (groupedPerms s))"

record roles_view =
  rv_create :: "string option"
  rv_rows :: "role_row list_content"
  rv_footer :: "pagination_view option"
  rv_create_form :: "(string \<times> (string \<times> (permission \<times> bool) list) list \<times> bool \<times> string) option"
  rv_edit_form :: "(string \<times> (string \<times> (permission \<times> bool) list) list \<times> bool \<times> string) option"
  rv_details :: "(string \<times> string list) option"
  rv_dialog :: "dialog_view option"

definition RolesPage :: "principal option \<Rightarrow> roles_page \<Rightarrow> roles_view" where
  "RolesPage user s =
    \<lparr>rv_create = (if hasPermission user ''roles.manage'' then Some (if rp_showForm s then ''Cancel'' else ''Create role'') else None),
     rv_rows = table_content ''No roles found'' (role_row_of user s) (rp_list s),
     rv_footer = (if pg_loading (rp_list s) \<or> pg_items (rp_list s) = [] then None else Some (footer_of (rp_list s))),
     rv_create_form = (if rp_showForm s
       then Some (role_group_label s, perm_sections s (rp_createPerms s), \<not> createDisabled s,
                  if rp_saving s then ''Creating...'' else ''Create role'')
       else None),
     rv_edit_form = (if editingRole s \<noteq> None
       then Some (rp_editName s, perm_sections s (rp_editPerms s), \<not> rp_saving s,
                  if rp_saving s then ''Saving...'' else ''Save changes'')
       else None),
     rv_details = (case (rp_viewDetail s, rp_viewingId s) of
         (Some d, Some i) \<Rightarrow> if i \<noteq> [] then Some (ro_name d, map pe_key (case ro_permissions d of Some ps \<Rightarrow> ps | None \<Rightarrow> [])) else None
       | _ \<Rightarrow> None),
     rv_dialog = confirmDialog (rp_confirm s)\<rparr>"

section \<open>Lemmas\<close>

interpretation roles_source: list_source "''/admin/api/v1/roles''" "roles_params platform" for platform
  by unfold_locales (auto simp: roles_params_def obj_wf_def split: prod.splits)

lemma perm_sections_all:
  "mset (concat (map (\<lambda>(cat, ps). map fst ps) (perm_sections s chosen))) = mset (rp_allPerms s)"
proof -
  have "map (\<lambda>(cat, ps). map fst ps) (perm_sections s chosen) = map snd (obj_entries (groupedPerms s))"
    by (auto simp: perm_sections_def comp_def)
  then show ?thesis by (simp add: groupedPerms_def group_by_key_mset)
qed

lemma perm_sections_tick:
  "(cat, ps) \<in> set (perm_sections s chosen) \<Longrightarrow> (p, b) \<in> set ps \<Longrightarrow>
     (b \<longleftrightarrow> pe_id p \<in> set chosen) \<and> permissionCategory (pe_key p) = cat"
proof -
  assume a: "(cat, ps) \<in> set (perm_sections s chosen)" "(p, b) \<in> set ps"
  then obtain perms where m: "(cat, perms) \<in> set (groupedPerms s)" "ps = map (\<lambda>p. (p, List.member chosen (pe_id p))) perms"
    by (auto simp: perm_sections_def)
  have "obj_wf (groupedPerms s)" by (simp add: groupedPerms_def group_by_key_wf)
  with m(1) have "obj_get (groupedPerms s) cat = Some perms" by (simp add: obj_get_def obj_wf_def)
  then have "perms = filter (\<lambda>p. permissionCategory (pe_key p) = cat) (rp_allPerms s)"
    by (auto simp: groupedPerms_def group_by_key_get split: if_splits)
  with a(2) m(2) show ?thesis by (auto simp: List.member_iff)
qed

text \<open>The permissions in the second request of a save, from a page the handler captured.\<close>

definition sent_permissions :: "string \<Rightarrow> roles_page \<Rightarrow> json option" where
  "sent_permissions ident p =
    (case snd (snd (saveEdit_named p ident (Inr ()) p)) of
       Some call \<Rightarrow> Option.bind (call_body call) (\<lambda>b. jprop b ''permission_ids'')
     | None \<Rightarrow> None)"

section \<open>Properties\<close>

text \<open>
  The permission form offers everything once: the sections of the create and of the edit
  form together list every permission of the platform exactly once, each in the section of its
  category, and a box is ticked exactly for the chosen permissions; ticking a box changes the choice
  for that permission alone.
\<close>

theorem permission_form_complete:
  "mset (concat (map (\<lambda>(cat, ps). map fst ps) (perm_sections s chosen))) = mset (rp_allPerms s)
   \<and> (\<forall>(cat, ps) \<in> set (perm_sections s chosen). \<forall>(p, b) \<in> set ps.
        (b \<longleftrightarrow> pe_id p \<in> set chosen) \<and> permissionCategory (pe_key p) = cat)
   \<and> set (rp_editPerms (togglePerm pid s)) =
       (if pid \<in> set (rp_editPerms s) then set (rp_editPerms s) - {pid} else insert pid (set (rp_editPerms s)))"
  using perm_sections_all perm_sections_tick by (auto simp: togglePerm_def toggled.members_toggle)

theorem permission_form_complete_witness:
  "set (rp_editPerms (togglePerm ''p1'' (roles_mount True))) = {''p1''}"
  using permission_form_complete [of "roles_mount True" "[]" "''p1''"] by (simp add: roles_mount_def)

text \<open>
  Property C37. Saving an edited role rewrites its permissions from the form: after the detail of the
  role has been loaded, an unchanged form sends exactly the permissions the role had; but when that
  load fails, the same form sends an empty list, which removes them all, and while it is outstanding
  it sends the permissions of the role edited before.
\<close>

theorem saved_role_permissions:
  assumes "ro_permissions d = Some ps"
  shows "sent_permissions ident (startEdit_loaded (Inr (Some d)) (fst (startEdit item s))) = Some (JArr (map JStr (uniq (map pe_id ps))))
     \<and> sent_permissions ident (startEdit_loaded (Inl err) (fst (startEdit item s))) = Some (JArr [])
     \<and> sent_permissions ident (fst (startEdit item s)) = Some (JArr (map JStr (rp_editPerms s)))"
  using assms by (simp add: sent_permissions_def saveEdit_named_def startEdit_loaded_def startEdit_def api_send_def)

definition demo_role :: role where
  "demo_role = \<lparr>ro_id = ''r1'', ro_tenant_id = [], ro_name = ''Support'', ro_key = ''support'', ro_scope = ''tenant'',
                ro_status = ''active'', ro_created_at = ''2024''\<rparr>"

definition demo_detail :: role_detail where
  "demo_detail = \<lparr>ro_id = ''r1'', ro_tenant_id = [], ro_name = ''Support'', ro_key = ''support'', ro_scope = ''tenant'',
                  ro_status = ''active'', ro_created_at = ''2024'',
                  ro_permissions = Some [\<lparr>pe_id = ''p1'', pe_key = ''users.view'', pe_description = []\<rparr>]\<rparr>"

theorem saved_role_permissions_witness:
  "sent_permissions ''r1'' (startEdit_loaded (Inr (Some demo_detail)) (fst (startEdit demo_role (roles_mount True)))) = Some (JArr [JStr ''p1''])
   \<and> sent_permissions ''r1'' (startEdit_loaded (Inl NonError) (fst (startEdit demo_role (roles_mount True)))) = Some (JArr [])"
  using saved_role_permissions [of demo_detail "[\<lparr>pe_id = ''p1'', pe_key = ''users.view'', pe_description = []\<rparr>]" "''r1''" demo_role "roles_mount True" NonError]
  by (simp add: demo_detail_def uniq_def List.member_iff)

end
