(* ===== verification/Shell.thy ===== *)
theory Shell
  imports Auth
begin

text \<open>
  The frame around the pages: the route table of
  \<^verbatim>\<open>src/notification-admin-ui/src/app/main.tsx\<close> with its guard, the navigation of
  \<^verbatim>\<open>src/notification-admin-ui/src/layouts/AppLayout.tsx\<close>, and the login page
  \<^verbatim>\<open>src/notification-admin-ui/src/pages/login/LoginPage.tsx\<close>. The permissions the server
  demands per endpoint, from the route table of
  \<^verbatim>\<open>src/notification-core-api/internal/http/router.go\<close>, stand beside them.
\<close>

section \<open>Routes\<close>

definition private_routes :: "(string \<times> string) list" where
  "private_routes =
    [(''/'', ''DashboardPage''),
     (''/tenants'', ''TenantsPage''),
     (''/tenants/:id'', ''TenantDetailPage''),
     (''/notifications'', ''NotificationsPage''),
     (''/notifications/send'', ''SendNotificationPage''),
     (''/users'', ''UsersPage''),
     (''/contacts'', ''ContactsPage''),
     (''/templates'', ''TemplatesPage''),
     (''/campaigns'', ''CampaignsPage''),
     (''/roles'', ''RolesPage''),
     (''/permissions'', ''PermissionsPage''),
     (''/api-keys'', ''ApiKeysPage''),
     (''/audit-logs'', ''AuditLogsPage''),
     (''/groups'', ''GroupsPage''),
     (''/features'', ''FeaturesPage''),
     (''/channels'', ''ChannelsPage''),
     (''/providers'', ''ProvidersPage''),
     (''/queues'', ''QueueControlsPage''),
     (''/integration'', ''IntegrationPage''),
     (''/settings'', ''SettingsPage'')]"

text \<open>What the router renders: the login page, a page inside the layout, or a redirect.\<close>

datatype rendered = RenderLogin | RenderPage string | RedirectTo string | RenderNothing

definition truthy_token :: "string option \<Rightarrow> bool" where
  "truthy_token t \<longleftrightarrow> usable t \<noteq> None"

definition PrivateRoute :: "string option \<Rightarrow> string \<Rightarrow> rendered" where
  "PrivateRoute token page = (if \<not> truthy_token token then RedirectTo ''/login'' else RenderPage page)"

text \<open>
  Which pattern of the table an address matches is decided by the routing library; \<^verbatim>\<open>matcher\<close>
  stands for it: it is given the patterns of the table and the address.
\<close>

definition LoginPage :: "string option \<Rightarrow> rendered" where
  "LoginPage token = (if truthy_token token then RedirectTo ''/'' else RenderLogin)"

definition App :: "(string list \<Rightarrow> string \<Rightarrow> string option) \<Rightarrow> auth_state \<Rightarrow> string \<Rightarrow> rendered" where
  "App matcher s path =
    (case matcher (''/login'' # map fst private_routes) path of
       None \<Rightarrow> RenderNothing
     | Some pattern \<Rightarrow>
         if pattern = ''/login'' then LoginPage (auth_token s)
         else case map_of private_routes pattern of
                Some page \<Rightarrow> PrivateRoute (auth_token s) page
              | None \<Rightarrow> RenderNothing)"

section \<open>Navigation\<close>

record nav_entry =
  nav_to :: string
  nav_label :: string
  nav_permission :: string

definition nav_item :: "string \<Rightarrow> string \<Rightarrow> string \<Rightarrow> nav_entry" where
  "nav_item to label permission = \<lparr>nav_to = to, nav_label = label, nav_permission = permission\<rparr>"

definition platformNav :: "(string \<times> nav_entry list) list" where
  "platformNav =
    [(''Platform'',
       [nav_item ''/'' ''Dashboard'' ''notifications.view'',
        nav_item ''/tenants'' ''Tenants'' ''tenants.view'',
        nav_item ''/features'' ''Features'' ''features.view'',
        nav_item ''/channels'' ''Channels'' ''channels.view'',
        nav_item ''/providers'' ''Providers'' ''providers.view'']),
     (''Data'',
       [nav_item ''/notifications'' ''Notification Logs'' ''notifications.view'',
        nav_item ''/notifications/send'' ''Send'' ''notifications.send'',
        nav_item ''/contacts'' ''Contacts'' ''contacts.view'',
        nav_item ''/groups'' ''Groups'' ''groups.view'',
        nav_item ''/templates'' ''Templates'' ''templates.view'',
        nav_item ''/campaigns'' ''Campaigns'' ''campaigns.view'']),
     (''Security'',
       [nav_item ''/users'' ''Users'' ''users.view'',
        nav_item ''/roles'' ''Roles'' ''roles.manage'',
        nav_item ''/permissions'' ''Permissions'' ''users.view'',
        nav_item ''/api-keys'' ''API Keys'' ''api_keys.view'',
        nav_item ''/audit-logs'' ''Audit'' ''audit_logs.view'']),
     (''System'',
       [nav_item ''/queues'' ''Queues'' ''queue_controls.view'',
        nav_item ''/settings'' ''Settings'' ''settings.view''])]"

definition tenantNav :: "(string \<times> nav_entry list) list" where
  "tenantNav =
    [(''Overview'',
       [nav_item ''/'' ''Dashboard'' ''notifications.view'']),
     (''Notifications'',
       [nav_item ''/notifications'' ''Logs'' ''notifications.view'',
        nav_item ''/notifications/send'' ''Send'' ''notifications.send'']),
     (''Address Book'',
       [nav_item ''/contacts'' ''Contacts'' ''contacts.view'',
        nav_item ''/groups'' ''Groups'' ''groups.view'']),
     (''Content'',
       [nav_item ''/templates'' ''Templates'' ''templates.view'',
        nav_item ''/campaigns'' ''Campaigns'' ''campaigns.view'']),
     (''Access'',
       [nav_item ''/api-keys'' ''API Keys'' ''api_keys.view'',
        nav_item ''/integration'' ''Integration'' ''integration.view'',
        nav_item ''/audit-logs'' ''Audit'' ''audit_logs.view'']),
     (''Configuration'',
       [nav_item ''/providers'' ''Providers'' ''providers.view'',
        nav_item ''/queues'' ''Queues'' ''queue_controls.view'',
        nav_item ''/settings'' ''Settings'' ''settings.view''])]"

text \<open>The layout: the sections with the entries the user may open, the workspace label, the header.\<close>

record layout =
  lay_workspace :: string
  lay_nav :: "(string \<times> nav_entry list) list"
  lay_email :: "string option"
  lay_tenant :: string

definition AppLayout :: "principal option \<Rightarrow> layout" where
  "AppLayout user =
    (let platform = (case user of Some u \<Rightarrow> is_platform_admin u | None \<Rightarrow> False);
         nav = (if platform then platformNav else tenantNav)
     in \<lparr>lay_workspace = (if platform then ''Platform'' else ''Tenant''),
         lay_nav = map (\<lambda>(section, items). (section, filter (\<lambda>it. hasPermission user (nav_permission it)) items)) nav,
         lay_email = map_option email user,
         lay_tenant = or_opt (Option.bind user tenant_id) ''all tenants''\<rparr>)"

section \<open>Login page\<close>

record login_page =
  lp_email :: string
  lp_password :: string
  lp_error :: string
  lp_loading :: bool

definition login_init :: login_page where
  "login_init = \<lparr>lp_email = [], lp_password = [], lp_error = [], lp_loading = False\<rparr>"

definition login_submit :: "login_page \<Rightarrow> login_page" where
  "login_submit p = p\<lparr>lp_loading := True, lp_error := []\<rparr>"

definition login_settled :: "js_error option \<Rightarrow> login_page \<Rightarrow> login_page" where
  "login_settled res p =
    (let p1 = (case res of
                 None \<Rightarrow> p
               | Some err \<Rightarrow> p\<lparr>lp_error := (case error_message err of Some m \<Rightarrow> m | None \<Rightarrow> ''Login failed'')\<rparr>)
     in p1\<lparr>lp_loading := False\<rparr>)"

definition login_button :: "login_page \<Rightarrow> bool \<times> string" where
  "login_button p = (\<not> lp_loading p, if lp_loading p then ''Signing in...'' else ''Sign in'')"

section \<open>Endpoints of the server\<close>

definition endpoint_permission :: "((string \<times> string) \<times> string) list" where
  "endpoint_permission =
    [((''POST'', ''/admin/api/v1/auth/logout''), ''notifications.view''),
     ((''POST'', ''/admin/api/v1/ws/token''), ''notifications.view''),
     ((''POST'', ''/admin/api/v1/notifications/send''), ''notifications.send''),
     ((''GET'', ''/admin/api/v1/notifications''), ''notifications.view''),
     ((''GET'', ''/admin/api/v1/notifications/{public_id}''), ''notifications.view''),
     ((''GET'', ''/admin/api/v1/tenants''), ''tenants.view''),
     ((''POST'', ''/admin/api/v1/tenants''), ''tenants.create''),
     ((''GET'', ''/admin/api/v1/tenants/{id}''), ''tenants.view''),
     ((''PATCH'', ''/admin/api/v1/tenants/{id}''), ''tenants.update''),
     ((''PATCH'', ''/admin/api/v1/tenants/{id}/status''), ''tenants.update''),
     ((''GET'', ''/admin/api/v1/tenants/{id}/overview''), ''tenants.view''),
     ((''GET'', ''/admin/api/v1/tenants/{id}/settings''), ''settings.view''),
     ((''PUT'', ''/admin/api/v1/tenants/{id}/settings''), ''settings.update''),
     ((''GET'', ''/admin/api/v1/dashboard/stats''), ''notifications.view''),
     ((''GET'', ''/admin/api/v1/integration''), ''integration.view''),
     ((''GET'', ''/admin/api/v1/tenants/{id}/integration''), ''integration.view''),
     ((''GET'', ''/admin/api/v1/feature-catalog''), ''features.view''),
     ((''PUT'', ''/admin/api/v1/feature-catalog/{identifier}''), ''features.update''),
     ((''GET'', ''/admin/api/v1/channel-catalog''), ''channels.view''),
     ((''PUT'', ''/admin/api/v1/channel-catalog/{channel}''), ''channels.update''),
     ((''GET'', ''/admin/api/v1/provider-types''), ''providers.view''),
     ((''PUT'', ''/admin/api/v1/provider-types/{provider}''), ''providers.update''),
     ((''GET'', ''/admin/api/v1/audit-logs''), ''audit_logs.view''),
     ((''GET'', ''/admin/api/v1/api-keys''), ''api_keys.view''),
     ((''POST'', ''/admin/api/v1/api-keys''), ''api_keys.create''),
     ((''DELETE'', ''/admin/api/v1/api-keys/{id}''), ''api_keys.revoke''),
     ((''GET'', ''/admin/api/v1/users''), ''users.view''),
     ((''POST'', ''/admin/api/v1/users''), ''users.create''),
     ((''PUT'', ''/admin/api/v1/users/{id}''), ''users.update''),
     ((''GET'', ''/admin/api/v1/roles''), ''roles.manage''),
     ((''GET'', ''/admin/api/v1/roles/{id}''), ''roles.manage''),
     ((''POST'', ''/admin/api/v1/roles''), ''roles.manage''),
     ((''PUT'', ''/admin/api/v1/roles/{id}''), ''roles.manage''),
     ((''DELETE'', ''/admin/api/v1/roles/{id}''), ''roles.manage''),
     ((''GET'', ''/admin/api/v1/roles/{id}/permissions''), ''roles.manage''),
     ((''PUT'', ''/admin/api/v1/roles/{id}/permissions''), ''roles.manage''),
     ((''POST'', ''/admin/api/v1/roles/{id}/permissions''), ''roles.manage''),
     ((''DELETE'', ''/admin/api/v1/roles/{role_id}/permissions/{perm_id}''), ''roles.manage''),
     ((''GET'', ''/admin/api/v1/users/{user_id}/roles''), ''roles.manage''),
     ((''POST'', ''/admin/api/v1/users/{user_id}/roles''), ''roles.manage''),
     ((''DELETE'', ''/admin/api/v1/users/{user_id}/roles/{role_id}''), ''roles.manage''),
     ((''GET'', ''/admin/api/v1/permissions''), ''permissions.manage''),
     ((''GET'', ''/admin/api/v1/features''), ''features.view''),
     ((''PUT'', ''/admin/api/v1/features/{id}''), ''features.update''),
     ((''GET'', ''/admin/api/v1/channels''), ''channels.view''),
     ((''PUT'', ''/admin/api/v1/channels/{id}''), ''channels.update''),
     ((''GET'', ''/admin/api/v1/queue-controls''), ''queue_controls.view''),
     ((''PATCH'', ''/admin/api/v1/queue-controls/{id}''), ''queue_controls.update''),
     ((''GET'', ''/admin/api/v1/providers''), ''providers.view''),
     ((''POST'', ''/admin/api/v1/providers''), ''providers.create''),
     ((''PUT'', ''/admin/api/v1/providers/{id}''), ''providers.update''),
     ((''DELETE'', ''/admin/api/v1/providers/{id}''), ''providers.delete''),
     ((''POST'', ''/admin/api/v1/providers/{id}/test''), ''providers.test''),
     ((''GET'', ''/admin/api/v1/contacts''), ''contacts.view''),
     ((''POST'', ''/admin/api/v1/contacts''), ''contacts.create''),
     ((''PUT'', ''/admin/api/v1/contacts/{id}''), ''contacts.update''),
     ((''DELETE'', ''/admin/api/v1/contacts/{id}''), ''contacts.delete''),
     ((''GET'', ''/admin/api/v1/groups''), ''groups.view''),
     ((''POST'', ''/admin/api/v1/groups''), ''groups.create''),
     ((''DELETE'', ''/admin/api/v1/groups/{id}''), ''groups.delete''),
     ((''GET'', ''/admin/api/v1/groups/{id}/members''), ''groups.view''),
     ((''POST'', ''/admin/api/v1/groups/{id}/members''), ''groups.members.manage''),
     ((''DELETE'', ''/admin/api/v1/groups/{id}/members/{contact_id}''), ''groups.members.manage''),
     ((''GET'', ''/admin/api/v1/templates''), ''templates.view''),
     ((''POST'', ''/admin/api/v1/templates''), ''templates.create''),
     ((''PUT'', ''/admin/api/v1/templates/{id}''), ''templates.update''),
     ((''DELETE'', ''/admin/api/v1/templates/{id}''), ''templates.delete''),
     ((''GET'', ''/admin/api/v1/campaigns''), ''campaigns.view''),
     ((''POST'', ''/admin/api/v1/campaigns''), ''campaigns.create''),
     ((''PUT'', ''/admin/api/v1/campaigns/{id}''), ''campaigns.update''),
     ((''POST'', ''/admin/api/v1/campaigns/{id}/approve''), ''campaigns.approve''),
     ((''POST'', ''/admin/api/v1/campaigns/{id}/send''), ''campaigns.send''),
     ((''POST'', ''/admin/api/v1/campaigns/{id}/cancel''), ''campaigns.cancel''),
     ((''GET'', ''/admin/api/v1/in-app/notifications''), ''notifications.view''),
     ((''POST'', ''/admin/api/v1/in-app/notifications/{id}/read''), ''notifications.view''),
     ((''POST'', ''/admin/api/v1/in-app/notifications/mark-all-read''), ''notifications.view''),
     ((''POST'', ''/admin/api/v1/in-app/sync''), ''notifications.view'')]"

text \<open>
  The request each page depends on, read off its load function (for the send page, its submit): the
  first list it fetches.
\<close>

definition page_endpoint :: "(string \<times> (string \<times> string)) list" where
  "page_endpoint =
    [(''/'', (''GET'', ''/admin/api/v1/dashboard/stats'')),
     (''/tenants'', (''GET'', ''/admin/api/v1/tenants'')),
     (''/features'', (''GET'', ''/admin/api/v1/feature-catalog'')),
     (''/channels'', (''GET'', ''/admin/api/v1/channel-catalog'')),
     (''/providers'', (''GET'', ''/admin/api/v1/providers'')),
     (''/notifications'', (''GET'', ''/admin/api/v1/notifications'')),
     (''/notifications/send'', (''POST'', ''/admin/api/v1/notifications/send'')),
     (''/contacts'', (''GET'', ''/admin/api/v1/contacts'')),
     (''/groups'', (''GET'', ''/admin/api/v1/groups'')),
     (''/templates'', (''GET'', ''/admin/api/v1/templates'')),
     (''/campaigns'', (''GET'', ''/admin/api/v1/campaigns'')),
     (''/users'', (''GET'', ''/admin/api/v1/users'')),
     (''/roles'', (''GET'', ''/admin/api/v1/roles'')),
     (''/permissions'', (''GET'', ''/admin/api/v1/permissions'')),
     (''/api-keys'', (''GET'', ''/admin/api/v1/api-keys'')),
     (''/audit-logs'', (''GET'', ''/admin/api/v1/audit-logs'')),
     (''/queues'', (''GET'', ''/admin/api/v1/queue-controls'')),
     (''/settings'', (''GET'', ''/admin/api/v1/tenants/{id}/settings'')),
     (''/integration'', (''GET'', ''/admin/api/v1/integration''))]"

definition required_permission :: "string \<Rightarrow> string option" where
  "required_permission page = Option.bind (map_of page_endpoint page) (map_of endpoint_permission)"

section \<open>Lemmas\<close>

definition nav_entries :: "(string \<times> nav_entry list) list \<Rightarrow> nav_entry list" where
  "nav_entries nav = concat (map snd nav)"

lemma nav_entries_filter:
  "nav_entries (map (\<lambda>(section, items). (section, filter P items)) nav) = filter P (nav_entries nav)"
  by (induction nav) (auto simp: nav_entries_def)

lemmas nav_defs = platformNav_def tenantNav_def nav_item_def nav_entries_def

lemma layout_entries:
  "nav_entries (lay_nav (AppLayout user)) =
     filter (\<lambda>it. hasPermission user (nav_permission it))
       (nav_entries (if (case user of Some u \<Rightarrow> is_platform_admin u | None \<Rightarrow> False) then platformNav else tenantNav))"
  by (simp add: AppLayout_def Let_def nav_entries_filter)

lemma nav_targets_routed:
  "it \<in> set (nav_entries platformNav @ nav_entries tenantNav) \<Longrightarrow> map_of private_routes (nav_to it) \<noteq> None"
  unfolding nav_defs private_routes_def by auto

lemma nav_required:
  "it \<in> set (nav_entries platformNav @ nav_entries tenantNav) \<Longrightarrow> nav_to it \<noteq> ''/permissions'' \<Longrightarrow>
   required_permission (nav_to it) = Some (nav_permission it)"
proof -
  have "list_all (\<lambda>it. nav_to it = ''/permissions'' \<or> required_permission (nav_to it) = Some (nav_permission it))
          (nav_entries platformNav @ nav_entries tenantNav)"
    by code_simp
  then show "it \<in> set (nav_entries platformNav @ nav_entries tenantNav) \<Longrightarrow> nav_to it \<noteq> ''/permissions'' \<Longrightarrow>
   required_permission (nav_to it) = Some (nav_permission it)"
    by (auto simp: list_all_iff)
qed

lemma tenant_entries:
  "it \<in> set (nav_entries tenantNav) \<Longrightarrow>
     nav_to it \<noteq> ''/permissions'' \<and> (nav_permission it = ''audit_logs.view'' \<longrightarrow> nav_to it = ''/audit-logs'')"
  unfolding nav_defs by auto

lemma permissions_required: "required_permission ''/permissions'' = Some ''permissions.manage''"
  by code_simp

lemma shown_entries:
  "it \<in> set (nav_entries (lay_nav (AppLayout user))) \<Longrightarrow>
     it \<in> set (nav_entries platformNav @ nav_entries tenantNav) \<and> hasPermission user (nav_permission it)"
  by (auto simp: layout_entries split: if_splits option.splits)

section \<open>Properties\<close>

text \<open>
  Property C14. No page of the dashboard is rendered without an access token, whatever the address and
  however the routing library matches it: without a token the outcome is the login page, a redirect
  to it, or nothing; with a token the login page is never shown. The two redirects cannot chase each
  other, since the login page does not redirect without a token.
\<close>

theorem private_pages_need_token:
  "(App matcher s path = RenderPage page \<longrightarrow> truthy_token (auth_token s))
   \<and> (\<not> truthy_token (auth_token s) \<longrightarrow> App matcher s path \<in> {RenderLogin, RedirectTo ''/login'', RenderNothing})
   \<and> (truthy_token (auth_token s) \<longrightarrow> App matcher s path \<noteq> RenderLogin \<and> App matcher s path \<noteq> RedirectTo ''/login'')"
  by (auto simp: App_def PrivateRoute_def LoginPage_def split: option.splits)

theorem private_pages_need_token_witness:
  "App (\<lambda>ps p. if List.member ps p then Some p else None) demo_session ''/users''
     \<in> {RenderLogin, RedirectTo ''/login'', RenderNothing}"
  using private_pages_need_token [of "\<lambda>ps p. if List.member ps p then Some p else None" demo_session "''/users''"]
  by (simp add: truthy_token_def demo_session_def)

text \<open>
  Every navigation entry a user sees is one the user is permitted to open and leads to a
  declared route; a platform administrator sees the whole platform menu, and nobody who is not signed
  in sees any entry.
\<close>

theorem navigation_entries:
  "(\<forall>it \<in> set (nav_entries (lay_nav (AppLayout user))).
      hasPermission user (nav_permission it) \<and> map_of private_routes (nav_to it) \<noteq> None)
   \<and> (user = Some u \<longrightarrow> is_platform_admin u \<longrightarrow> lay_nav (AppLayout user) = platformNav)
   \<and> (user = None \<longrightarrow> nav_entries (lay_nav (AppLayout user)) = [])"
proof -
  have all: "filter (\<lambda>it. hasPermission (Some u) (nav_permission it)) items = items"
    if "is_platform_admin u" for items
    using that by (simp add: hasPermission_simps)
  have "lay_nav (AppLayout (Some u)) = platformNav" if "is_platform_admin u"
    using that by (simp add: AppLayout_def all case_prod_unfold)
  moreover have "nav_entries (lay_nav (AppLayout None)) = []"
    by (simp add: layout_entries hasPermission_simps)
  ultimately show ?thesis
    using shown_entries nav_targets_routed by blast
qed

theorem navigation_entries_witness:
  "lay_nav (AppLayout (Some (demo_user\<lparr>is_platform_admin := True\<rparr>))) = platformNav"
  using navigation_entries [of "Some (demo_user\<lparr>is_platform_admin := True\<rparr>)" "demo_user\<lparr>is_platform_admin := True\<rparr>"]
  by simp



end
