(* ===== verification/Users.thy ===== *)
theory Users
  imports Paged_List Shell
begin

text \<open>
  The page of accounts, \<^verbatim>\<open>src/notification-admin-ui/src/pages/users/UsersPage.tsx\<close>. Creating an account
  and editing one take two requests, of which the second assigns a role; the handlers are cut at each.
  The page writes an error text that it never shows; it is left out.
\<close>

section \<open>Data and state\<close>

record account =
  us_id :: string
  us_email :: string
  us_name :: string
  us_is_platform_admin :: bool
  us_status :: string
  us_created_at :: string
  us_roles :: "string option"
  us_tenants :: "string option"

record user_role =
  ur_id :: string
  ur_tenant_id :: "string option"
  ur_name :: string
  ur_key :: string
  ur_scope :: string

datatype account_scope = TenantScope | PlatformScope

record user_filters =
  uf_tenant :: string
  uf_scope :: account_scope

datatype user_action = ToggleUser account | RemoveUser string

record users_page =
  up_isPlatform :: bool
  up_list :: "(user_filters, account) paged"
  up_roles :: "user_role list"
  up_tenants :: tenant_choices
  up_showForm :: bool
  up_email :: string
  up_name :: string
  up_password :: string
  up_createScope :: account_scope
  up_createTenantId :: string
  up_createRoleId :: string
  up_saving :: bool
  up_editingId :: "string option"
  up_editName :: string
  up_editEmail :: string
  up_editRoleId :: string
  up_viewingId :: "string option"
  up_confirm :: "user_action confirm_state"

definition users_mount :: "bool \<Rightarrow> users_page" where
  "users_mount platform =
    \<lparr>up_isPlatform = platform, up_list = pg_mount \<lparr>uf_tenant = [], uf_scope = PlatformScope\<rparr>, up_roles = [], up_tenants = [],
     up_showForm = False, up_email = [], up_name = [], up_password = [], up_createScope = TenantScope, up_createTenantId = [],
     up_createRoleId = [], up_saving = False, up_editingId = None, up_editName = [], up_editEmail = [], up_editRoleId = [],
     up_viewingId = None, up_confirm = confirm_init\<rparr>"

section \<open>Loading\<close>

definition scope_text :: "account_scope \<Rightarrow> string" where
  "scope_text sc = (case sc of TenantScope \<Rightarrow> ''tenant'' | PlatformScope \<Rightarrow> ''platform'')"

definition user_query :: "bool \<Rightarrow> user_filters \<times> int \<times> int \<Rightarrow> query" where
  "user_query platform q =
    (case q of (f, p, n) \<Rightarrow>
      (if platform then [(''scope'', scope_text (uf_scope f))] else [])
      @ (if platform \<and> uf_scope f = TenantScope \<and> uf_tenant f \<noteq> [] then [(''tenant_id'', uf_tenant f)] else [])
      @ [(''page'', int_str p), (''per_page'', int_str n)])"

definition users_calls :: "bool \<Rightarrow> user_filters \<times> int \<times> int \<Rightarrow> api_call list" where
  "users_calls platform q =
    [api_get (''/admin/api/v1/users?'' @ query_string (user_query platform q)), api_get ''/admin/api/v1/roles'']
    @ (if platform then [api_get ''/admin/api/v1/tenants''] else [])"

text \<open>The answers take effect one by one; the load is over when all have arrived or one has failed.\<close>

definition users_arrived :: "account list_answer \<Rightarrow> users_page \<Rightarrow> users_page" where
  "users_arrived ans s = s\<lparr>up_list := (up_list s)\<lparr>pg_items := fst ans, pg_meta := snd ans\<rparr>\<rparr>"

definition user_roles_arrived :: "user_role list \<Rightarrow> users_page \<Rightarrow> users_page" where
  "user_roles_arrived rs s = s\<lparr>up_roles := rs\<rparr>"

definition user_tenants_arrived :: "tenant_choices \<Rightarrow> users_page \<Rightarrow> users_page" where
  "user_tenants_arrived ts s = s\<lparr>up_tenants := filter (\<lambda>(t, st). st = ''active'') ts\<rparr>"

definition users_settled :: "nat \<Rightarrow> js_error option \<Rightarrow> users_page \<Rightarrow> users_page \<times> toast_call list" where
  "users_settled k err s =
    (s\<lparr>up_list := (up_list s)\<lparr>pg_loading := False,
         pg_pending := take k (pg_pending (up_list s)) @ drop (Suc k) (pg_pending (up_list s))\<rparr>\<rparr>,
     case err of None \<Rightarrow> [] | Some e \<Rightarrow> [(TError, ''Unable to load users'', Some (getErrorMessage e ''Load failed''))])"

definition users_reload :: "users_page \<Rightarrow> users_page \<Rightarrow> users_page" where
  "users_reload p0 s = s\<lparr>up_list := pg_load_as (pg_query (up_list p0)) (up_list s)\<rparr>"

text \<open>The two tabs; choosing the platform tab forgets the tenant.\<close>

definition list_platform_users :: "users_page \<Rightarrow> users_page" where
  "list_platform_users s = s\<lparr>up_list := pg_set_filter \<lparr>uf_tenant = [], uf_scope = PlatformScope\<rparr> (up_list s)\<rparr>"

definition list_tenant_users :: "users_page \<Rightarrow> users_page" where
  "list_tenant_users s = s\<lparr>up_list := pg_set_filter ((pg_filters (up_list s))\<lparr>uf_scope := TenantScope\<rparr>) (up_list s)\<rparr>"

definition filter_user_tenant :: "string \<Rightarrow> users_page \<Rightarrow> users_page" where
  "filter_user_tenant t s = s\<lparr>up_list := pg_set_filter ((pg_filters (up_list s))\<lparr>uf_tenant := t\<rparr>) (up_list s)\<rparr>"

section \<open>Creating\<close>

definition choose_account_scope :: "account_scope \<Rightarrow> users_page \<Rightarrow> users_page" where
  "choose_account_scope sc s = s\<lparr>up_createScope := sc, up_createTenantId := [], up_createRoleId := []\<rparr>"

definition choose_account_tenant :: "string \<Rightarrow> users_page \<Rightarrow> users_page" where
  "choose_account_tenant t s = s\<lparr>up_createTenantId := t, up_createRoleId := []\<rparr>"

definition choose_account_role :: "string \<Rightarrow> users_page \<Rightarrow> users_page" where
  "choose_account_role r s = s\<lparr>up_createRoleId := r\<rparr>"

definition isPlatformUser :: "users_page \<Rightarrow> bool" where
  "isPlatformUser s \<longleftrightarrow> up_isPlatform s \<and> up_createScope s = PlatformScope"

definition account_tenant :: "principal option \<Rightarrow> users_page \<Rightarrow> string" where
  "account_tenant user s =
    (if up_isPlatform s then up_createTenantId s
     else case user of Some u \<Rightarrow> or_opt (tenant_id u) [] | None \<Rightarrow> [])"

definition tenant_field :: "principal option \<Rightarrow> users_page \<Rightarrow> (string \<times> json) list" where
  "tenant_field user s =
    (if \<not> isPlatformUser s \<and> account_tenant user s \<noteq> [] then [(''tenant_id'', JStr (account_tenant user s))] else [])"

definition user_submit_start :: "principal option \<Rightarrow> users_page \<Rightarrow> users_page \<times> api_call" where
  "user_submit_start user s =
    (s\<lparr>up_saving := True\<rparr>,
     api_send ''POST'' ''/admin/api/v1/users''
       (JObj ([(''email'', JStr (up_email s)), (''name'', JStr (up_name s)), (''password'', JStr (up_password s)),
               (''is_platform_admin'', JBool (isPlatformUser s))] @ tenant_field user s)))"

definition user_submit_failed :: "js_error \<Rightarrow> users_page \<Rightarrow> users_page \<times> toast_call list \<times> api_call option" where
  "user_submit_failed err s =
    (s\<lparr>up_saving := False\<rparr>, [(TError, ''Unable to create user'', Some (getErrorMessage err ''Create failed''))], None)"

definition user_submit_finished :: "users_page \<Rightarrow> users_page \<Rightarrow> users_page \<times> toast_call list \<times> api_call option" where
  "user_submit_finished p0 s =
    ((users_reload p0 (s\<lparr>up_email := [], up_name := [], up_password := [], up_createScope := TenantScope,
        up_createTenantId := [], up_createRoleId := [], up_showForm := False\<rparr>))\<lparr>up_saving := False\<rparr>,
     [(TSuccess, ''User created'', Some (up_email p0))], None)"

definition user_created ::
    "principal option \<Rightarrow> users_page \<Rightarrow> string outcome \<Rightarrow> users_page \<Rightarrow> users_page \<times> toast_call list \<times> api_call option" where
  "user_created user p0 res s =
    (case res of
       Inl err \<Rightarrow> user_submit_failed err s
     | Inr ident \<Rightarrow>
         if up_createRoleId p0 \<noteq> []
         then (s, [], Some (api_send ''POST'' (''/admin/api/v1/users/'' @ ident @ ''/roles'')
                              (JObj ((''role_id'', JStr (up_createRoleId p0)) # tenant_field user p0))))
         else user_submit_finished p0 s)"

definition user_role_assigned :: "users_page \<Rightarrow> unit outcome \<Rightarrow> users_page \<Rightarrow> users_page \<times> toast_call list \<times> api_call option" where
  "user_role_assigned p0 res s =
    (case res of Inl err \<Rightarrow> user_submit_failed err s | Inr _ \<Rightarrow> user_submit_finished p0 s)"

section \<open>Status, removal and editing\<close>

definition toggled_status :: "string \<Rightarrow> string" where
  "toggled_status st = (if st = ''active'' then ''disabled'' else ''active'')"

definition user_action_call :: "user_action \<Rightarrow> api_call" where
  "user_action_call a =
    (case a of
       ToggleUser u \<Rightarrow> api_send ''PUT'' (''/admin/api/v1/users/'' @ us_id u) (str_obj [(''status'', toggled_status (us_status u))])
     | RemoveUser i \<Rightarrow> api_delete (''/admin/api/v1/users/'' @ i))"

definition user_action_done :: "users_page \<Rightarrow> user_action \<Rightarrow> unit outcome \<Rightarrow> users_page \<Rightarrow> users_page \<times> toast_call list" where
  "user_action_done p0 a res s =
    (case res of
       Inr _ \<Rightarrow> (users_reload p0 s,
         [case a of ToggleUser u \<Rightarrow> (TSuccess, ''User '' @ toggled_status (us_status u), Some (us_email u))
                  | RemoveUser i \<Rightarrow> (TSuccess, ''User deleted'', None)])
     | Inl err \<Rightarrow> (s,
         [(TError, case a of ToggleUser u \<Rightarrow> ''Unable to update user status'' | RemoveUser i \<Rightarrow> ''Unable to delete user'', error_message err)]))"

definition start_user_edit :: "account \<Rightarrow> users_page \<Rightarrow> users_page" where
  "start_user_edit u s =
    s\<lparr>up_editingId := Some (us_id u), up_editName := us_name u, up_editEmail := us_email u, up_editRoleId := []\<rparr>"

definition save_user_start :: "string \<Rightarrow> users_page \<Rightarrow> users_page \<times> api_call" where
  "save_user_start i s =
    (s\<lparr>up_saving := True\<rparr>,
     api_send ''PUT'' (''/admin/api/v1/users/'' @ i) (str_obj [(''name'', up_editName s), (''email'', up_editEmail s)]))"

definition save_user_failed :: "js_error \<Rightarrow> users_page \<Rightarrow> users_page \<times> toast_call list \<times> api_call option" where
  "save_user_failed err s =
    (s\<lparr>up_saving := False\<rparr>, [(TError, ''Unable to update user'', Some (getErrorMessage err ''Update failed''))], None)"

definition save_user_finished :: "users_page \<Rightarrow> users_page \<Rightarrow> users_page \<times> toast_call list \<times> api_call option" where
  "save_user_finished p0 s =
    ((users_reload p0 (s\<lparr>up_editingId := None\<rparr>))\<lparr>up_saving := False\<rparr>, [(TSuccess, ''User updated'', Some (up_editEmail p0))], None)"

definition edit_role_tenant :: "users_page \<Rightarrow> (string \<times> json) list" where
  "edit_role_tenant s =
    (case find (\<lambda>r. ur_id r = up_editRoleId s) (up_roles s) of
       Some r \<Rightarrow> (case ur_tenant_id r of
                    Some t \<Rightarrow> if ur_scope r = ''tenant'' \<and> t \<noteq> [] then [(''tenant_id'', JStr t)] else []
                  | None \<Rightarrow> [])
     | None \<Rightarrow> [])"

definition save_user_updated ::
    "users_page \<Rightarrow> string \<Rightarrow> unit outcome \<Rightarrow> users_page \<Rightarrow> users_page \<times> toast_call list \<times> api_call option" where
  "save_user_updated p0 i res s =
    (case res of
       Inl err \<Rightarrow> save_user_failed err s
     | Inr _ \<Rightarrow>
         if up_editRoleId p0 \<noteq> [] \<and> up_isPlatform p0
         then (s, [], Some (api_send ''POST'' (''/admin/api/v1/users/'' @ i @ ''/roles'')
                              (JObj ((''role_id'', JStr (up_editRoleId p0)) # edit_role_tenant p0))))
         else save_user_finished p0 s)"

definition save_user_done :: "users_page \<Rightarrow> unit outcome \<Rightarrow> users_page \<Rightarrow> users_page \<times> toast_call list \<times> api_call option" where
  "save_user_done p0 res s =
    (case res of Inl err \<Rightarrow> save_user_failed err s | Inr _ \<Rightarrow> save_user_finished p0 s)"

definition close_user_edit :: "users_page \<Rightarrow> users_page" where
  "close_user_edit s = s\<lparr>up_editingId := None\<rparr>"

definition view_user :: "string option \<Rightarrow> users_page \<Rightarrow> users_page" where
  "view_user i s = s\<lparr>up_viewingId := i\<rparr>"

definition toggle_user_form :: "users_page \<Rightarrow> users_page" where
  "toggle_user_form s = s\<lparr>up_showForm := \<not> up_showForm s\<rparr>"

definition close_user_form :: "users_page \<Rightarrow> users_page" where
  "close_user_form s = s\<lparr>up_showForm := False\<rparr>"

definition request_user_toggle :: "account \<Rightarrow> users_page \<Rightarrow> users_page" where
  "request_user_toggle u s =
    s\<lparr>up_confirm := requestConfirm
       \<lparr>intent_title = (if us_status u = ''active'' then ''Disable'' else ''Enable'') @ '' user'',
        intent_description = Some ''Confirm user status change'',
        intent_body = [''Change '', us_email u, '' to '', (if us_status u = ''active'' then ''disabled'' else ''enabled''), ''?''],
        intent_confirmLabel = Some (if us_status u = ''active'' then ''Disable'' else ''Enable''),
        intent_variant = Some (if us_status u = ''active'' then CDanger else CPrimary),
        intent_onConfirm = ToggleUser u\<rparr> (up_confirm s)\<rparr>"

definition request_user_removal :: "account \<Rightarrow> users_page \<Rightarrow> users_page" where
  "request_user_removal u s =
    s\<lparr>up_confirm := requestConfirm
       \<lparr>intent_title = ''Delete user'', intent_description = Some ''This action cannot be undone'',
        intent_body = [''Delete '', us_email u, ''?''], intent_confirmLabel = Some ''Delete user'', intent_variant = Some CDanger, intent_onConfirm = RemoveUser (us_id u)\<rparr> (up_confirm s)\<rparr>"

section \<open>What is shown\<close>

definition editingUser :: "users_page \<Rightarrow> account option" where
  "editingUser s = find (\<lambda>u. up_editingId s = Some (us_id u)) (pg_items (up_list s))"

definition viewingUser :: "users_page \<Rightarrow> account option" where
  "viewingUser s = find (\<lambda>u. up_viewingId s = Some (us_id u)) (pg_items (up_list s))"

definition has_tenant :: "user_role \<Rightarrow> bool" where
  "has_tenant r \<longleftrightarrow> ur_tenant_id r \<notin> {None, Some []}"

definition editRoleOptions :: "users_page \<Rightarrow> select_option list" where
  "editRoleOptions s =
    map (\<lambda>r. \<lparr>so_value = ur_id r, so_label = ur_name r @ '' ('' @ ur_scope r @ '')'', so_disabled = False\<rparr>)
      (filter (\<lambda>r. if (case editingUser s of None \<Rightarrow> True | Some u \<Rightarrow> us_is_platform_admin u)
                   then ur_scope r = ''platform'' else ur_scope r = ''tenant'' \<and> has_tenant r) (up_roles s))"

definition createRoles :: "users_page \<Rightarrow> user_role list" where
  "createRoles s =
    (if up_createScope s = PlatformScope then filter (\<lambda>r. ur_scope r = ''platform'') (up_roles s)
     else filter (\<lambda>r. ur_scope r = ''tenant'' \<and>
            (\<not> up_isPlatform s \<or> \<not> has_tenant r \<or> ur_tenant_id r = Some (up_createTenantId s))) (up_roles s))"

definition createRoleOptions :: "users_page \<Rightarrow> select_option list" where
  "createRoleOptions s =
    map (\<lambda>r. \<lparr>so_value = ur_id r, so_label = ur_name r @ '' ('' @ ur_key r @ '')'', so_disabled = False\<rparr>) (createRoles s)"

definition createRoleRequired :: "users_page \<Rightarrow> bool" where
  "createRoleRequired s \<longleftrightarrow> up_createScope s = PlatformScope \<or> \<not> up_isPlatform s \<or> up_createTenantId s \<noteq> []"

definition userCreateDisabled :: "users_page \<Rightarrow> bool" where
  "userCreateDisabled s \<longleftrightarrow>
     up_saving s \<or> ((up_isPlatform s \<and> up_createScope s = TenantScope) \<and> up_createTenantId s = [])
     \<or> (createRoleRequired s \<and> up_createRoleId s = [])"

definition user_role_text :: "account \<Rightarrow> string" where
  "user_role_text u = or_opt (us_roles u) (if us_is_platform_admin u then ''Platform user'' else ''Tenant user'')"

record user_row =
  uw_cells :: "string list"
  uw_status :: "toggle_view + badge_tone \<times> string"
  uw_tenants :: "string option"
  uw_edit :: bool
  uw_delete :: bool

definition user_row_of :: "principal option \<Rightarrow> users_page \<Rightarrow> account \<Rightarrow> user_row" where
  "user_row_of user s u =
    \<lparr>uw_cells = [us_name u, us_email u, user_role_text u],
     uw_status = (if hasPermission user ''users.update''
       then Inl (StatusToggle (us_status u = ''active'')
                   ((if us_status u = ''active'' then ''Disable '' else ''Enable '') @ us_email u) False)
       else Inr (StatusBadge (StatusText (Some (us_status u))))),
     uw_tenants = (if up_isPlatform s then Some (or_opt (us_tenants u) ''-'') else None),
     uw_edit = hasPermission user ''users.update'', uw_delete = hasPermission user ''users.delete''\<rparr>"

definition user_details :: "users_page \<Rightarrow> account \<Rightarrow> (string \<times> string) list" where
  "user_details s u =
    [(''Name'', us_name u), (''Email'', us_email u), (''Role'', user_role_text u), (''Status'', us_status u), (''Created'', us_created_at u)]
    @ (if up_isPlatform s then [(''Tenants'', or_opt (us_tenants u) ''-'')] else [])"

text \<open>The form for a new account: whether it can be sent, its button, the tenant select and the role select.\<close>

record user_form_view =
  ufv_enabled :: bool
  ufv_button :: string
  ufv_scope :: "account_scope option"
  ufv_tenants :: "select_option list option"
  ufv_roles :: "string \<times> select_option list"

definition user_form :: "users_page \<Rightarrow> user_form_view" where
  "user_form s =
    \<lparr>ufv_enabled = (\<not> userCreateDisabled s), ufv_button = (if up_saving s then ''Creating...'' else ''Create user''),
     ufv_scope = (if up_isPlatform s then Some (up_createScope s) else None),
     ufv_tenants = (if up_isPlatform s \<and> up_createScope s = TenantScope
       then Some (map (\<lambda>(t, st). \<lparr>so_value = to_id t,
              so_label = to_name t @ '' ('' @ (case to_slug t of Some sl \<Rightarrow> sl | None \<Rightarrow> ''undefined'') @ '')'', so_disabled = False\<rparr>) (up_tenants s))
       else None),
     ufv_roles = (if up_createScope s = TenantScope \<and> up_isPlatform s \<and> up_createTenantId s = [] then ''Select tenant first'' else ''Select role'',
                  createRoleOptions s)\<rparr>"

record users_view =
  uv_create :: "string option"
  uv_tabs :: "(account_scope \<times> bool) option"
  uv_rows :: "user_row list_content"
  uv_footer :: "pagination_view option"
  uv_form :: "user_form_view option"
  uv_edit :: "(string \<times> bool \<times> string \<times> select_option list option) option"
  uv_details :: "((string \<times> string) list \<times> bool) option"
  uv_confirm :: "dialog_view option"

definition UsersPage :: "principal option \<Rightarrow> users_page \<Rightarrow> users_view" where
  "UsersPage user s =
    \<lparr>uv_create = (if hasPermission user ''users.create'' then Some (if up_showForm s then ''Cancel'' else ''Add user'') else None),
     uv_tabs = (if up_isPlatform s
       then Some (uf_scope (pg_filters (up_list s)), uf_scope (pg_filters (up_list s)) = TenantScope) else None),
     uv_rows = table_content ''No users found'' (user_row_of user s) (up_list s),
     uv_footer = (if pg_loading (up_list s) \<or> pg_items (up_list s) = [] then None else Some (footer_of (up_list s))),
     uv_form = (if up_showForm s then Some (user_form s) else None),
     uv_edit = map_option (\<lambda>u. (''Update '' @ us_name u @ [CHR 0x27] @ ''s account and role assignment.'', \<not> up_saving s,
        if up_saving s then ''Saving...'' else ''Save changes'',
        if up_isPlatform s then Some (\<lparr>so_value = [], so_label = ''No role change'', so_disabled = False\<rparr> # editRoleOptions s) else None))
        (editingUser s),
     uv_details = map_option (\<lambda>u. (user_details s u, hasPermission user ''users.update'')) (viewingUser s),
     uv_confirm = confirmDialog (up_confirm s)\<rparr>"

section \<open>The page under a user and a server\<close>

text \<open>
  The server's roles are \<^verbatim>\<open>R\<close>; it answers the list requests by \<^verbatim>\<open>ans\<close> in their order, together with the
  roles or, to a user who may not read them, with a refusal. Only offered values can be chosen. A
  handler that reloads the list finds the filters it captured still in place.
\<close>

inductive users_step ::
    "user_role list \<Rightarrow> (user_filters \<times> int \<times> int \<Rightarrow> account list_answer) \<Rightarrow> users_page \<Rightarrow> users_page \<Rightarrow> bool" for R ans where
  platform_tab: "users_step R ans s (list_platform_users s)"
| tenant_tab: "users_step R ans s (list_tenant_users s)"
| tenant_filter: "users_step R ans s (filter_user_tenant t s)"
| turn: "pg_turn (up_list s) l \<Longrightarrow> users_step R ans s (s\<lparr>up_list := l\<rparr>)"
| answered: "pg_pending (up_list s) = q # qs \<Longrightarrow>
    users_step R ans s (fst (users_settled 0 None (user_roles_arrived R (users_arrived (ans q) s))))"
| refused: "pg_pending (up_list s) = q # qs \<Longrightarrow> users_step R ans s (fst (users_settled 0 (Some err) (users_arrived (ans q) s)))"
| tenants: "users_step R ans s (user_tenants_arrived ts s)"
| scope: "up_isPlatform s \<Longrightarrow> users_step R ans s (choose_account_scope sc s)"
| tenant: "up_isPlatform s \<Longrightarrow> up_createScope s = TenantScope \<Longrightarrow> users_step R ans s (choose_account_tenant t s)"
| role: "r \<in> so_value ` set (createRoleOptions s) \<Longrightarrow> users_step R ans s (choose_account_role r s)"
| typed: "users_step R ans s (s\<lparr>up_email := e, up_name := n, up_password := p\<rparr>)"
| submit: "users_step R ans s (fst (user_submit_start user s))"
| created: "pg_query (up_list p0) = pg_query (up_list s) \<Longrightarrow> users_step R ans s (fst (user_created user p0 i s))"
| assigned: "pg_query (up_list p0) = pg_query (up_list s) \<Longrightarrow> users_step R ans s (fst (user_role_assigned p0 res s))"
| request: "s' \<in> {request_user_toggle u s, request_user_removal u s} \<Longrightarrow> users_step R ans s s'"
| confirm: "confirm_start (up_confirm s) = (Some a, c) \<Longrightarrow> users_step R ans s (s\<lparr>up_confirm := c\<rparr>)"
| performed: "pg_query (up_list p0) = pg_query (up_list s) \<Longrightarrow>
    users_step R ans s ((fst (user_action_done p0 a res s))\<lparr>up_confirm := confirm_finish True (up_confirm s)\<rparr>)"
| cancel: "users_step R ans s (s\<lparr>up_confirm := confirm_close (up_confirm s)\<rparr>)"
| edit: "users_step R ans s (start_user_edit u s)"
| edited: "users_step R ans s (s\<lparr>up_editName := n, up_editEmail := e, up_editRoleId := r\<rparr>)"
| save: "users_step R ans s (fst (save_user_start i s))"
| updated: "pg_query (up_list p0) = pg_query (up_list s) \<Longrightarrow> users_step R ans s (fst (save_user_updated p0 i res s))"
| saved: "pg_query (up_list p0) = pg_query (up_list s) \<Longrightarrow> users_step R ans s (fst (save_user_done p0 res s))"
| dialogs: "s' \<in> {close_user_edit s, view_user v s, toggle_user_form s, close_user_form s} \<Longrightarrow> users_step R ans s s'"

section \<open>Lemmas\<close>

lemmas user_handler_defs =
  list_platform_users_def list_tenant_users_def filter_user_tenant_def users_settled_def user_roles_arrived_def users_arrived_def
  user_tenants_arrived_def choose_account_scope_def choose_account_tenant_def choose_account_role_def user_submit_start_def
  user_created_def user_submit_failed_def user_submit_finished_def user_role_assigned_def users_reload_def request_user_toggle_def
  request_user_removal_def user_action_done_def start_user_edit_def save_user_start_def save_user_updated_def save_user_failed_def
  save_user_finished_def save_user_done_def close_user_edit_def view_user_def toggle_user_form_def close_user_form_def

text \<open>An answered or refused load acts on the list as one answer.\<close>

lemma users_answer_list:
  "up_list (fst (users_settled k err (users_arrived a s))) = pg_answer k (Inr a) (up_list s)"
  "up_list (fst (users_settled k err (user_roles_arrived R (users_arrived a s)))) = pg_answer k (Inr a) (up_list s)"
  by (cases a; simp add: users_settled_def user_roles_arrived_def users_arrived_def pg_answer_def)+

interpretation users_list: list_page up_list "\<lambda>s. \<exists>platform. s = users_mount platform" "users_step R" for R
proof unfold_locales
  fix ans s s'
  assume "users_step R ans s s'"
  then show "up_list s' = up_list s \<or> pg_step ans (up_list s) (up_list s')"
  proof cases
    case (answered q qs)
    then show ?thesis by (simp only: users_answer_list) (blast intro: pg_step.answer)
  next
    case (refused q qs err)
    then show ?thesis by (simp only: users_answer_list) (blast intro: pg_step.answer)
  qed (auto simp: user_handler_defs split: sum.splits intro: pg_page_steps)
qed (auto simp: users_mount_def)

definition users_inv :: "user_role list \<Rightarrow> users_page \<Rightarrow> bool" where
  "users_inv R s \<longleftrightarrow>
     (up_roles s = [] \<or> up_roles s = R)
     \<and> (up_createRoleId s = [] \<or> up_createRoleId s \<in> ur_id ` set (createRoles s))
     \<and> (up_createScope s = PlatformScope \<longrightarrow> up_isPlatform s \<and> up_createTenantId s = [])"

lemma createRoles_cong:
  "up_roles s' = up_roles s \<Longrightarrow> up_createScope s' = up_createScope s \<Longrightarrow> up_isPlatform s' = up_isPlatform s \<Longrightarrow>
   up_createTenantId s' = up_createTenantId s \<Longrightarrow> createRoles s' = createRoles s"
  by (simp add: createRoles_def)

lemma users_inv_cong:
  "users_inv R s \<Longrightarrow> up_roles s' = up_roles s \<Longrightarrow> up_createScope s' = up_createScope s \<Longrightarrow> up_isPlatform s' = up_isPlatform s \<Longrightarrow>
   up_createTenantId s' = up_createTenantId s \<Longrightarrow> up_createRoleId s' = up_createRoleId s \<Longrightarrow> users_inv R s'"
  using createRoles_cong [of s' s] by (simp add: users_inv_def)

lemma users_inv_reset:
  "up_roles s = [] \<or> up_roles s = R \<Longrightarrow> up_createRoleId s = [] \<Longrightarrow>
   up_createScope s = PlatformScope \<Longrightarrow> up_isPlatform s \<Longrightarrow> up_createTenantId s = [] \<Longrightarrow> users_inv R s"
  "up_roles s = [] \<or> up_roles s = R \<Longrightarrow> up_createRoleId s = [] \<Longrightarrow> up_createScope s = TenantScope \<Longrightarrow> users_inv R s"
  by (simp_all add: users_inv_def)

lemma users_inv_roles:
  assumes "users_inv R s"
  shows "users_inv R (user_roles_arrived R s)"
proof (cases "up_roles s = R")
  case True
  then have "user_roles_arrived R s = s" by (simp add: user_roles_arrived_def)
  with assms show ?thesis by simp
next
  case False
  with assms have "up_roles s = []" by (simp add: users_inv_def)
  with assms show ?thesis by (auto simp: users_inv_def user_roles_arrived_def createRoles_def)
qed

lemma users_step_inv:
  assumes "users_step R ans s s'" and inv: "users_inv R s"
  shows "users_inv R s'"
  using assms(1)
proof cases
  case (answered q qs)
  have "users_inv R (users_arrived (ans q) s)"
    using inv by (rule users_inv_cong) (simp_all add: users_arrived_def)
  from users_inv_roles [OF this] have "users_inv R (user_roles_arrived R (users_arrived (ans q) s))" .
  then show ?thesis unfolding answered by (rule users_inv_cong) (simp_all add: users_settled_def)
next
  case (scope sc)
  with inv show ?thesis
    by (cases sc) (auto simp: choose_account_scope_def users_inv_def intro!: users_inv_reset)
next
  case (tenant t)
  with inv show ?thesis by (auto simp: choose_account_tenant_def users_inv_def)
next
  case (role r)
  with inv show ?thesis
    by (auto simp: choose_account_role_def users_inv_def createRoleOptions_def createRoles_def)
next
  case (created p0 user i)
  then show ?thesis
    using inv by (cases i) (auto simp: user_handler_defs users_inv_def createRoles_def split: if_splits)
next
  case (assigned p0 res)
  then show ?thesis
    using inv by (cases res) (auto simp: user_handler_defs users_inv_def createRoles_def)
qed (rule users_inv_cong [OF inv]; auto simp: user_handler_defs split: sum.splits if_splits)+

interpretation accounts: step_invariant "users_step R ans" "users_inv R" "\<lambda>s. \<exists>platform. s = users_mount platform" for R ans
  by unfold_locales (erule (1) users_step_inv, auto simp: users_inv_def users_mount_def)

lemma users_reachable_inv:
  "(users_step R ans)\<^sup>*\<^sup>* (users_mount platform) s \<Longrightarrow> users_inv R s"
  by (rule accounts.always_run) blast+

lemma users_step_platform: "users_step R ans s s' \<Longrightarrow> up_isPlatform s' = up_isPlatform s"
  by (induction rule: users_step.induct) (auto simp: user_handler_defs split: sum.splits if_splits)

interpretation account_scope: step_invariant "users_step R ans" "\<lambda>s. up_isPlatform s = platform" "\<lambda>s. s = users_mount platform" for R ans platform
  by unfold_locales (auto simp: users_mount_def dest: users_step_platform)

lemma users_reachable_platform:
  "(users_step R ans)\<^sup>*\<^sup>* (users_mount platform) s \<Longrightarrow> up_isPlatform s = platform"
  by (rule account_scope.always_run) simp_all

lemma user_role_endpoints:
  "map_of endpoint_permission (''POST'', ''/admin/api/v1/users'') = Some ''users.create''"
  "map_of endpoint_permission (''GET'', ''/admin/api/v1/roles'') = Some ''roles.manage''"
  "map_of endpoint_permission (''POST'', ''/admin/api/v1/users/{user_id}/roles'') = Some ''roles.manage''"
  by code_simp+

section \<open>Properties\<close>

text \<open>
  Property C30. The account that is requested fits its role: in every reachable state of the page in which
  the create button is enabled, the chosen role is one of the server's roles; for an administrator of
  the platform it is a platform role and no tenant is sent, else it is a tenant role, and when a
  platform administrator fills the form a tenant is sent and a role that belongs to a tenant belongs
  to that one. The request that follows assigns exactly this role under the same tenant.
\<close>

theorem user_form_consistent:
  assumes "(users_step R ans)\<^sup>*\<^sup>* (users_mount platform) s" and "\<not> userCreateDisabled s"
  shows "(\<exists>r \<in> set R. ur_id r = up_createRoleId s
      \<and> (if isPlatformUser s then ur_scope r = ''platform'' \<and> tenant_field user s = []
         else ur_scope r = ''tenant'' \<and> (platform \<longrightarrow> up_createTenantId s \<noteq> []
            \<and> tenant_field user s = [(''tenant_id'', JStr (up_createTenantId s))]
            \<and> (has_tenant r \<longrightarrow> ur_tenant_id r = Some (up_createTenantId s)))))
    \<and> snd (snd (user_created user s (Inr i) s'))
        = Some (api_send ''POST'' (''/admin/api/v1/users/'' @ i @ ''/roles'')
                  (JObj ((''role_id'', JStr (up_createRoleId s)) # tenant_field user s)))"
proof -
  have plat: "up_isPlatform s = platform" by (rule users_reachable_platform [OF assms(1)])
  have inv: "users_inv R s" by (rule users_reachable_inv [OF assms(1)])
  have role: "up_createRoleId s \<noteq> []" and tenant: "platform \<Longrightarrow> \<not> isPlatformUser s \<Longrightarrow> up_createTenantId s \<noteq> []"
    using assms(2) plat by (auto simp: userCreateDisabled_def createRoleRequired_def isPlatformUser_def)
      (cases "up_createScope s"; simp)+
  then obtain r where r: "r \<in> set (createRoles s)" "ur_id r = up_createRoleId s"
    using inv by (auto simp: users_inv_def)
  then have "r \<in> set R" using inv by (auto simp: users_inv_def createRoles_def split: if_splits)
  moreover have "if isPlatformUser s then ur_scope r = ''platform'' \<and> tenant_field user s = []
      else ur_scope r = ''tenant'' \<and> (platform \<longrightarrow> up_createTenantId s \<noteq> []
            \<and> tenant_field user s = [(''tenant_id'', JStr (up_createTenantId s))]
            \<and> (has_tenant r \<longrightarrow> ur_tenant_id r = Some (up_createTenantId s)))"
    using r(1) inv plat tenant
    by (auto simp: createRoles_def isPlatformUser_def tenant_field_def account_tenant_def users_inv_def split: if_splits)
  ultimately show ?thesis using r(2) role by (auto simp: user_created_def)
qed

definition demo_user_role :: user_role where
  "demo_user_role = \<lparr>ur_id = ''r1'', ur_tenant_id = None, ur_name = ''Ops'', ur_key = ''ops'', ur_scope = ''tenant''\<rparr>"

theorem user_form_consistent_witness:
  "\<exists>r \<in> set [demo_user_role]. ur_id r = ''r1'' \<and> ur_scope r = ''tenant''"
proof -
  let ?ans = "\<lambda>q. ([], None) :: account list_answer"
  let ?m = "users_mount False"
  let ?s = "fst (users_settled 0 None (user_roles_arrived [demo_user_role] (users_arrived ([], None) ?m)))"
  have p: "pg_pending (up_list ?m) = [(\<lparr>uf_tenant = [], uf_scope = PlatformScope\<rparr>, 1, 25)]"
    by (simp add: users_mount_def pg_mount_def pg_query_def)
  have 1: "users_step [demo_user_role] ?ans ?m ?s"
    using users_step.answered [OF p, of "[demo_user_role]" ?ans] by simp
  have "''r1'' \<in> so_value ` set (createRoleOptions ?s)"
    by (simp add: createRoleOptions_def createRoles_def users_settled_def user_roles_arrived_def users_arrived_def
        users_mount_def demo_user_role_def)
  then have 2: "users_step [demo_user_role] ?ans ?s (choose_account_role ''r1'' ?s)" by (rule users_step.role)
  have "(users_step [demo_user_role] ?ans)\<^sup>*\<^sup>* ?m (choose_account_role ''r1'' ?s)"
    by (rule rtranclp.rtrancl_into_rtrancl [OF r_into_rtranclp]) (use 1 2 in simp_all)
  moreover have "\<not> userCreateDisabled (choose_account_role ''r1'' ?s)" "\<not> isPlatformUser (choose_account_role ''r1'' ?s)"
    "up_createRoleId (choose_account_role ''r1'' ?s) = ''r1''"
    by (simp_all add: userCreateDisabled_def isPlatformUser_def choose_account_role_def users_settled_def
        user_roles_arrived_def users_arrived_def users_mount_def)
  ultimately show ?thesis using user_form_consistent [of "[demo_user_role]" ?ans False] by force
qed

text \<open>
  Creating an account depends on the right to manage roles: a tenant's administrator to whom
  the server refuses the roles can never press the create button, although \<^verbatim>\<open>users.create\<close> is all
  the button asks for and all the server requires of the request itself. And the two requests are not
  one: when the account was created but its role could not be assigned, the page reports that the
  account could not be created, leaves the list as it is and keeps the form, whose button sends the
  same account again.
\<close>

theorem account_creation_needs_roles:
  "((users_step [] ans)\<^sup>*\<^sup>* (users_mount False) s \<longrightarrow> userCreateDisabled s)
   \<and> map_of endpoint_permission (''POST'', ''/admin/api/v1/users'') = Some ''users.create''
   \<and> map_of endpoint_permission (''GET'', ''/admin/api/v1/roles'') = Some ''roles.manage''
   \<and> map_of endpoint_permission (''POST'', ''/admin/api/v1/users/{user_id}/roles'') = Some ''roles.manage''
   \<and> (up_createRoleId p \<noteq> [] \<longrightarrow>
       (let s1 = fst (user_submit_start user p); s2 = fst (user_created user p (Inr i) s1);
            s3 = user_role_assigned p (Inl err) s2
        in up_list (fst s3) = up_list p \<and> up_showForm (fst s3) = up_showForm p
           \<and> fst (snd s3) = [(TError, ''Unable to create user'', Some (getErrorMessage err ''Create failed''))]
           \<and> snd (user_submit_start user (fst s3)) = snd (user_submit_start user p)))"
proof (intro conjI impI)
  assume "(users_step [] ans)\<^sup>*\<^sup>* (users_mount False) s"
  from users_reachable_inv [OF this] users_reachable_platform [OF this] show "userCreateDisabled s"
    by (auto simp: users_inv_def createRoles_def userCreateDisabled_def createRoleRequired_def)
next
  assume "up_createRoleId p \<noteq> []"
  then show "let s1 = fst (user_submit_start user p); s2 = fst (user_created user p (Inr i) s1);
            s3 = user_role_assigned p (Inl err) s2
        in up_list (fst s3) = up_list p \<and> up_showForm (fst s3) = up_showForm p
           \<and> fst (snd s3) = [(TError, ''Unable to create user'', Some (getErrorMessage err ''Create failed''))]
           \<and> snd (user_submit_start user (fst s3)) = snd (user_submit_start user p)"
    by (simp add: user_submit_start_def user_created_def user_role_assigned_def user_submit_failed_def tenant_field_def
        account_tenant_def isPlatformUser_def)
qed (rule user_role_endpoints)+

theorem account_creation_needs_roles_witness: "userCreateDisabled (users_mount False)"
  using account_creation_needs_roles [of "\<lambda>q. ([], None)" "users_mount False"] by simp

end
