(* ===== verification/Settings.thy ===== *)
theory Settings
  imports Paged_List Auth
begin

text \<open>
  The settings of a tenant, \<^verbatim>\<open>src/notification-admin-ui/src/pages/settings/SettingsPage.tsx\<close>, and beside it
  how the server stores them, \<^verbatim>\<open>GetTenantSettings\<close> and \<^verbatim>\<open>UpdateTenantSettings\<close> of
  \<^verbatim>\<open>src/notification-core-api/internal/http/handlers/handlers.go\<close>. Printing and parsing the JSON text of the
  metadata are arguments of the functions that use them.
\<close>

section \<open>State\<close>

record settings_fields =
  sv_timezone :: string
  sv_country :: string
  sv_default_sender :: string
  sv_default_sms :: string
  sv_branding_logo :: string
  sv_metadata :: string

record settings_page =
  se_isPlatform :: bool
  se_tenants :: "tenant_option list"
  se_selected :: string
  se_fields :: settings_fields
  se_loading :: bool
  se_saving :: bool
  se_error :: string

definition settings_call :: "string \<Rightarrow> api_call" where
  "settings_call t = api_get (''/admin/api/v1/tenants/'' @ t @ ''/settings'')"

text \<open>The effect of a change of the selected tenant.\<close>

definition settings_effect :: "settings_page \<Rightarrow> settings_page \<times> api_call option" where
  "settings_effect s =
    (if se_selected s = [] then (s\<lparr>se_loading := False\<rparr>, None)
     else (s\<lparr>se_loading := True\<rparr>, Some (settings_call (se_selected s))))"

definition settings_mount :: "principal option \<Rightarrow> settings_page \<times> api_call option" where
  "settings_mount user =
    (let platform = (case user of Some u \<Rightarrow> is_platform_admin u | None \<Rightarrow> False);
         mine = (case user of Some u \<Rightarrow> (case tenant_id u of Some t \<Rightarrow> t | None \<Rightarrow> []) | None \<Rightarrow> [])
     in settings_effect
        \<lparr>se_isPlatform = platform, se_tenants = [], se_selected = (if platform then [] else mine),
         se_fields = \<lparr>sv_timezone = [], sv_country = [], sv_default_sender = [], sv_default_sms = [], sv_branding_logo = [], sv_metadata = []\<rparr>,
         se_loading = True, se_saving = False, se_error = []\<rparr>)"

definition select_settings_tenant :: "string \<Rightarrow> settings_page \<Rightarrow> settings_page \<times> api_call option" where
  "select_settings_tenant t s = (if t = se_selected s then (s, None) else settings_effect (s\<lparr>se_selected := t\<rparr>))"

text \<open>The tenants arrive; the first is selected when none was when the request was sent.\<close>

definition settings_tenants_loaded ::
    "string \<Rightarrow> tenant_option list outcome \<Rightarrow> settings_page \<Rightarrow> settings_page \<times> api_call option" where
  "settings_tenants_loaded captured res s =
    (case res of
       Inl _ \<Rightarrow> (s, None)
     | Inr ts \<Rightarrow>
         let s1 = s\<lparr>se_tenants := ts\<rparr>
         in case ts of [] \<Rightarrow> (s1, None)
            | t # _ \<Rightarrow> if captured = [] then select_settings_tenant (to_id t) s1 else (s1, None))"

section \<open>Loading and saving\<close>

record settings_answer =
  sa_texts :: "string obj"
  sa_metadata :: "json option"

definition tenant_settings_loaded ::
    "(json \<Rightarrow> string) \<Rightarrow> settings_answer outcome \<Rightarrow> settings_page \<Rightarrow> settings_page \<times> toast_call list" where
  "tenant_settings_loaded pretty res s =
    (case res of
       Inr d \<Rightarrow>
         (s\<lparr>se_fields :=
              \<lparr>sv_timezone = or_opt (obj_get (sa_texts d) ''timezone'') [], sv_country = or_opt (obj_get (sa_texts d) ''country'') [],
               sv_default_sender = or_opt (obj_get (sa_texts d) ''default_sender'') [],
               sv_default_sms = or_opt (obj_get (sa_texts d) ''default_sms'') [],
               sv_branding_logo = or_opt (obj_get (sa_texts d) ''branding_logo'') [],
               sv_metadata = (case sa_metadata d of Some m \<Rightarrow> if truthy m then pretty m else [] | None \<Rightarrow> [])\<rparr>,
            se_loading := False\<rparr>, [])
     | Inl err \<Rightarrow> (s\<lparr>se_loading := False\<rparr>, [(TError, ''Unable to load settings'', Some (getErrorMessage err ''Load failed''))]))"

definition edit_settings :: "(settings_fields \<Rightarrow> settings_fields) \<Rightarrow> settings_page \<Rightarrow> settings_page" where
  "edit_settings e s = s\<lparr>se_fields := e (se_fields s)\<rparr>"

definition null_or :: "string \<Rightarrow> json" where
  "null_or v = (if v = [] then JNull else JStr v)"

definition settings_body :: "(string \<Rightarrow> json option) \<Rightarrow> settings_fields \<Rightarrow> json option" where
  "settings_body parse f =
    (let base = [(''timezone'', null_or (sv_timezone f)), (''country'', null_or (sv_country f)),
                 (''default_sender'', null_or (sv_default_sender f)), (''default_sms'', null_or (sv_default_sms f)),
                 (''branding_logo'', null_or (sv_branding_logo f))]
     in if trim (sv_metadata f) = [] then Some (JObj base)
        else map_option (\<lambda>m. JObj (base @ [(''metadata'', m)])) (parse (sv_metadata f)))"

definition save_settings_start :: "(string \<Rightarrow> json option) \<Rightarrow> settings_page \<Rightarrow> settings_page \<times> api_call option" where
  "save_settings_start parse s =
    (if se_selected s = [] then (s, None)
     else case settings_body parse (se_fields s) of
            None \<Rightarrow> (s\<lparr>se_error := ''Invalid JSON in metadata'', se_saving := False\<rparr>, None)
          | Some b \<Rightarrow> (s\<lparr>se_saving := True, se_error := []\<rparr>,
                      Some (api_send ''PUT'' (''/admin/api/v1/tenants/'' @ se_selected s @ ''/settings'') b)))"

definition save_settings_done :: "unit outcome \<Rightarrow> settings_page \<Rightarrow> settings_page \<times> toast_call list" where
  "save_settings_done res s =
    (s\<lparr>se_saving := False\<rparr>,
     case res of
       Inr _ \<Rightarrow> [(TSuccess, ''Settings saved'', None)]
     | Inl err \<Rightarrow> [(TError, ''Unable to save settings'', Some (getErrorMessage err ''Save failed''))])"

section \<open>What is shown\<close>

definition timezones :: "string list" where
  "timezones = [[], ''America/New_York'', ''America/Chicago'', ''America/Denver'', ''America/Los_Angeles'', ''Europe/London'',
     ''Europe/Berlin'', ''Asia/Shanghai'', ''Asia/Tokyo'', ''Asia/Kolkata'', ''Australia/Sydney'', ''Pacific/Auckland'']"

datatype settings_content = SettingsLoading | SettingsForm settings_fields "select_option list" bool

record tenant_settings_view =
  sw_save :: "(bool \<times> string) option"
  sw_error :: string
  sw_tenants :: "select_option list option"
  sw_content :: settings_content

text \<open>Without a tenant only a note is shown, here \<^const>\<open>None\<close>; the flag of the form tells whether the metadata is shown.\<close>

definition SettingsPage :: "principal option \<Rightarrow> settings_page \<Rightarrow> tenant_settings_view option" where
  "SettingsPage user s =
    (if se_selected s = [] then None
     else Some
      \<lparr>sw_save = (if hasPermission user ''settings.update'' then Some (\<not> se_saving s, if se_saving s then ''Saving...'' else ''Save'') else None),
       sw_error = se_error s,
       sw_tenants = (if se_isPlatform s
         then Some (map (\<lambda>t. \<lparr>so_value = to_id t,
                so_label = to_name t @ '' ('' @ (case to_slug t of Some sl \<Rightarrow> sl | None \<Rightarrow> ''undefined'') @ '')'', so_disabled = False\<rparr>) (se_tenants s))
         else None),
       sw_content = (if se_loading s then SettingsLoading
         else SettingsForm (se_fields s) (map (\<lambda>v. \<lparr>so_value = v, so_label = or_str v ''Default (UTC)'', so_disabled = False\<rparr>) timezones) (se_isPlatform s))\<rparr>)"

section \<open>The server\<close>

definition setting_keys :: "string list" where
  "setting_keys = [''timezone'', ''country'', ''default_sender'', ''default_sms'', ''branding_logo'']"

text \<open>The stored configuration is an object; a field of the request that is null leaves it alone.\<close>

definition UpdateTenantSettings :: "json \<Rightarrow> json obj \<Rightarrow> json obj" where
  "UpdateTenantSettings body existing =
    (let texts = fold (\<lambda>k ob. case jprop body k of Some (JStr v) \<Rightarrow> obj_set k (JStr v) ob | _ \<Rightarrow> ob) setting_keys existing
     in case jprop body ''metadata'' of
          Some (JObj m) \<Rightarrow> obj_set ''metadata'' (JObj m) texts
        | Some JNull \<Rightarrow> obj_set ''metadata'' JNull texts
        | _ \<Rightarrow> texts)"

definition GetTenantSettings :: "json obj \<Rightarrow> settings_answer" where
  "GetTenantSettings cfg =
    \<lparr>sa_texts = concat (map (\<lambda>k. case obj_get cfg k of Some (JStr v) \<Rightarrow> [(k, v)] | _ \<Rightarrow> []) setting_keys),
     sa_metadata = obj_get cfg ''metadata''\<rparr>"

definition field_of :: "string \<Rightarrow> settings_fields \<Rightarrow> string" where
  "field_of k f =
    (if k = ''timezone'' then sv_timezone f else if k = ''country'' then sv_country f
     else if k = ''default_sender'' then sv_default_sender f else if k = ''default_sms'' then sv_default_sms f else sv_branding_logo f)"

section \<open>Lemmas\<close>

lemma settings_body_get:
  assumes "settings_body parse f = Some b" and "k \<in> set setting_keys"
  shows "jprop b k = Some (null_or (field_of k f))"
proof -
  obtain rest where b: "b = JObj ([(''timezone'', null_or (sv_timezone f)), (''country'', null_or (sv_country f)),
      (''default_sender'', null_or (sv_default_sender f)), (''default_sms'', null_or (sv_default_sms f)),
      (''branding_logo'', null_or (sv_branding_logo f))] @ rest)"
    using assms(1) by (cases "trim (sv_metadata f) = []") (auto simp: settings_body_def Let_def)
  from assms(2) show ?thesis
    unfolding setting_keys_def set_simps insert_iff empty_iff
    by (elim disjE) (simp_all add: b field_of_def)
qed

lemma update_texts_get:
  "obj_get (fold (\<lambda>k ob. case jprop body k of Some (JStr v) \<Rightarrow> obj_set k (JStr v) ob | _ \<Rightarrow> ob) ks existing) k =
     (case jprop body k of Some (JStr v) \<Rightarrow> if k \<in> set ks then Some (JStr v) else obj_get existing k | _ \<Rightarrow> obj_get existing k)"
  by (induction ks arbitrary: existing) (auto split: option.splits json.splits)

lemma updated_setting:
  assumes "settings_body parse f = Some b" and "k \<in> set setting_keys"
  shows "obj_get (UpdateTenantSettings b cfg) k = (if field_of k f = [] then obj_get cfg k else Some (JStr (field_of k f)))"
proof -
  have "k \<noteq> ''metadata''" using assms(2) by (auto simp: setting_keys_def)
  then show ?thesis
    using settings_body_get [OF assms] assms(2)
    by (auto simp: UpdateTenantSettings_def Let_def update_texts_get null_or_def split: option.splits json.splits)
qed

lemma answer_text_get:
  assumes "k \<in> set setting_keys"
  shows "obj_get (sa_texts (GetTenantSettings cfg)) k = (case obj_get cfg k of Some (JStr v) \<Rightarrow> Some v | _ \<Rightarrow> None)"
proof -
  have "obj_get (concat (map (\<lambda>k. case obj_get cfg k of Some (JStr v) \<Rightarrow> [(k, v)] | _ \<Rightarrow> []) ks)) k =
      (if k \<in> set ks then (case obj_get cfg k of Some (JStr v) \<Rightarrow> Some v | _ \<Rightarrow> None) else None)" for ks
    by (induction ks) (auto split: option.splits json.splits)
  with assms show ?thesis by (simp add: GetTenantSettings_def)
qed

lemma loaded_field:
  assumes "k \<in> set setting_keys"
  shows "field_of k (se_fields (fst (tenant_settings_loaded pretty (Inr d) s))) = or_opt (obj_get (sa_texts d) k) []"
  using assms unfolding setting_keys_def set_simps insert_iff empty_iff
  by (elim disjE) (simp_all add: tenant_settings_loaded_def field_of_def)

section \<open>Properties\<close>

text \<open>
  Property C29. What saving the settings stores: a setting with a text in the form is stored as this text,
  and loading the settings again shows it; saving the form as it was loaded changes none of the five
  settings. A setting that was cleared in the form is sent as null, which the server takes as no change:
  the old value stays and is shown again.
\<close>

theorem saved_settings_reappear:
  assumes "k \<in> set setting_keys" and "settings_body parse (se_fields s) = Some b"
  shows "field_of k (se_fields (fst (tenant_settings_loaded pretty (Inr (GetTenantSettings (UpdateTenantSettings b cfg))) s')))
        = (if field_of k (se_fields s) \<noteq> [] then field_of k (se_fields s)
           else field_of k (se_fields (fst (tenant_settings_loaded pretty (Inr (GetTenantSettings cfg)) s'))))
    \<and> (se_fields s = se_fields (fst (tenant_settings_loaded pretty (Inr (GetTenantSettings cfg)) s'')) \<longrightarrow>
        obj_get (UpdateTenantSettings b cfg) k = obj_get cfg k)
    \<and> (field_of k (se_fields s) = [] \<longrightarrow> jprop b k = Some JNull \<and> obj_get (UpdateTenantSettings b cfg) k = obj_get cfg k)"
proof (intro conjI impI)
  note up = updated_setting [OF assms(2,1), of cfg]
  show "field_of k (se_fields (fst (tenant_settings_loaded pretty (Inr (GetTenantSettings (UpdateTenantSettings b cfg))) s')))
        = (if field_of k (se_fields s) \<noteq> [] then field_of k (se_fields s)
           else field_of k (se_fields (fst (tenant_settings_loaded pretty (Inr (GetTenantSettings cfg)) s'))))"
    using assms(1) up by (simp add: loaded_field answer_text_get)
  assume "se_fields s = se_fields (fst (tenant_settings_loaded pretty (Inr (GetTenantSettings cfg)) s''))"
  then have "field_of k (se_fields s) = or_opt (obj_get (sa_texts (GetTenantSettings cfg)) k) []"
    using loaded_field [OF assms(1)] by simp
  then show "obj_get (UpdateTenantSettings b cfg) k = obj_get cfg k"
    using up assms(1) by (auto simp: answer_text_get split: option.splits json.splits if_splits)
next
  assume "field_of k (se_fields s) = []"
  then show "jprop b k = Some JNull" "obj_get (UpdateTenantSettings b cfg) k = obj_get cfg k"
    using settings_body_get [OF assms(2,1)] updated_setting [OF assms(2,1), of cfg] by (simp_all add: null_or_def)
qed

definition demo_settings :: settings_fields where
  "demo_settings = \<lparr>sv_timezone = [], sv_country = ''NP'', sv_default_sender = [], sv_default_sms = [], sv_branding_logo = [], sv_metadata = []\<rparr>"

theorem saved_settings_reappear_witness:
  "\<exists>b. settings_body (\<lambda>t. None) demo_settings = Some b
     \<and> jprop b ''timezone'' = Some JNull
     \<and> obj_get (UpdateTenantSettings b [(''timezone'', JStr ''UTC'')]) ''timezone'' = Some (JStr ''UTC'')"
proof -
  obtain b where b: "settings_body (\<lambda>t. None) demo_settings = Some b"
    by (simp add: settings_body_def demo_settings_def Let_def)
  let ?s = "(fst (settings_mount None))\<lparr>se_fields := demo_settings\<rparr>"
  have "settings_body (\<lambda>t. None) (se_fields ?s) = Some b" using b by simp
  from saved_settings_reappear [OF _ this, of "''timezone''" "\<lambda>j. []" "[(''timezone'', JStr ''UTC'')]"] b
  show ?thesis by (auto simp: setting_keys_def field_of_def demo_settings_def)
qed

text \<open>
  Settings can be saved under the wrong tenant: right after another tenant is selected, and
  for good when its settings cannot be loaded, the fields still hold the settings of the former tenant,
  the save button is enabled, and pressing it sends them to the newly selected tenant.
\<close>

theorem settings_follow_selection_late:
  assumes "t \<noteq> se_selected s" and "t \<noteq> []" and "\<not> se_saving s" and "hasPermission user ''settings.update''"
    and "settings_body parse (se_fields s) = Some b"
  shows "\<forall>s' \<in> {fst (select_settings_tenant t s), fst (tenant_settings_loaded pretty (Inl err) (fst (select_settings_tenant t s)))}.
      se_fields s' = se_fields s
      \<and> map_option sw_save (SettingsPage user s') = Some (Some (True, ''Save''))
      \<and> snd (save_settings_start parse s') = Some (api_send ''PUT'' (''/admin/api/v1/tenants/'' @ t @ ''/settings'') b)"
  using assms
  by (simp add: select_settings_tenant_def settings_effect_def tenant_settings_loaded_def SettingsPage_def save_settings_start_def)

theorem settings_follow_selection_late_witness:
  "snd (save_settings_start (\<lambda>t. None) (fst (select_settings_tenant ''t2''
      ((fst (settings_mount None))\<lparr>se_selected := ''t1'', se_fields := demo_settings\<rparr>)))) \<noteq> None"
proof -
  let ?u = "Some (demo_user\<lparr>is_platform_admin := True\<rparr>)"
  let ?s = "(fst (settings_mount None))\<lparr>se_selected := ''t1'', se_fields := demo_settings\<rparr>"
  obtain b where "settings_body (\<lambda>t. None) (se_fields ?s) = Some b"
    by (simp add: settings_body_def demo_settings_def Let_def)
  from settings_follow_selection_late [of "''t2''" ?s ?u, OF _ _ _ _ this] show ?thesis
    by (simp add: hasPermission_simps settings_mount_def settings_effect_def Let_def)
qed

end
