(* ===== verification/Catalogs.thy ===== *)
theory Catalogs
  imports Paged_List Auth Complex_Main
begin

text \<open>
  The global catalogs of features and of channels,
  \<^verbatim>\<open>src/notification-admin-ui/src/pages/features/FeaturesPage.tsx\<close> and
  \<^verbatim>\<open>src/notification-admin-ui/src/pages/channels/ChannelsPage.tsx\<close>, and the start page with its counters,
  \<^verbatim>\<open>src/notification-admin-ui/src/pages/dashboard/DashboardPage.tsx\<close>. Percentages are exact rationals;
  printing the success rate with one decimal is an argument.
\<close>

section \<open>Feature catalog\<close>

record feature_item =
  fi_identifier :: string
  fi_name :: string
  fi_description :: string
  fi_category :: string
  fi_tenant_count :: int
  fi_status :: "string option"
  fi_enabled :: bool

record feature_filters =
  ff_search :: string
  ff_category :: string

record features_page =
  fp_list :: "(feature_filters, feature_item) paged"
  fp_confirm :: "feature_item confirm_state"

definition features_mount :: features_page where
  "features_mount = \<lparr>fp_list = pg_mount \<lparr>ff_search = [], ff_category = []\<rparr>, fp_confirm = confirm_init\<rparr>"

definition features_params :: "feature_filters \<Rightarrow> int \<Rightarrow> int \<Rightarrow> pval obj" where
  "features_params f p n =
    [(''q'', PStr (ff_search f)), (''filter_category'', PStr (ff_category f)), (''page'', PNum p), (''per_page'', PNum n)]"

definition features_answer :: "nat \<Rightarrow> feature_item list_answer outcome \<Rightarrow> features_page \<Rightarrow> features_page \<times> toast_call list" where
  "features_answer k res s =
    (s\<lparr>fp_list := pg_answer k res (fp_list s)\<rparr>,
     case res of Inr _ \<Rightarrow> [] | Inl err \<Rightarrow> [(TError, ''Unable to load feature catalog'', Some (getErrorMessage err ''Load failed''))])"

definition features_set_filter :: "feature_filters \<Rightarrow> features_page \<Rightarrow> features_page" where
  "features_set_filter f s = s\<lparr>fp_list := pg_set_filter f (fp_list s)\<rparr>"

definition feature_categories :: "features_page \<Rightarrow> string list" where
  "feature_categories s = uniq (map fi_category (pg_items (fp_list s)))"

definition toggleFeature_call :: "feature_item \<Rightarrow> api_call" where
  "toggleFeature_call item =
    api_send ''PUT'' (''/admin/api/v1/feature-catalog/'' @ encodeURIComponent (fi_identifier item)) (JObj [(''enabled'', JBool (\<not> fi_enabled item))])"

definition toggleFeature_done :: "feature_item \<Rightarrow> unit outcome \<Rightarrow> features_page \<Rightarrow> features_page \<times> toast_call list" where
  "toggleFeature_done item res s =
    (case res of
       Inr _ \<Rightarrow>
         (let enabled = (\<not> fi_enabled item)
          in (s\<lparr>fp_list := (fp_list s)\<lparr>pg_items := map (\<lambda>x. if fi_identifier x = fi_identifier item
                 then x\<lparr>fi_enabled := enabled, fi_status := Some (if enabled then ''active'' else ''disabled'')\<rparr> else x) (pg_items (fp_list s))\<rparr>\<rparr>,
              [(TSuccess, if enabled then ''Feature enabled'' else ''Feature disabled'', Some (fi_name item))]))
     | Inl err \<Rightarrow> (s, [(TError, ''Unable to update feature'', Some (getErrorMessage err ''Update failed''))]))"

definition request_feature_toggle :: "feature_item \<Rightarrow> features_page \<Rightarrow> features_page" where
  "request_feature_toggle item s =
    s\<lparr>fp_confirm := requestConfirm
       \<lparr>intent_title = (if fi_enabled item then ''Disable'' else ''Enable'') @ '' feature'',
        intent_description = Some ''Confirm feature catalog status change'',
        intent_body = [''Change '', fi_name item, '' to '', (if fi_enabled item then ''disabled'' else ''enabled''), ''?''],
        intent_confirmLabel = Some (if fi_enabled item then ''Disable'' else ''Enable''),
        intent_variant = Some (if fi_enabled item then CDanger else CPrimary), intent_onConfirm = item\<rparr> (fp_confirm s)\<rparr>"

definition adoption :: "int \<Rightarrow> string" where
  "adoption n = int_str n @ '' tenant'' @ (if n = 1 then [] else ''s'')"

definition feature_row_of :: "principal option \<Rightarrow> feature_item \<Rightarrow> string list \<times> toggle_view" where
  "feature_row_of user item =
    ([fi_name item, fi_identifier item, fi_description item, fi_category item, adoption (fi_tenant_count item)],
     StatusToggle (fi_enabled item) ((if fi_enabled item then ''Disable '' else ''Enable '') @ fi_name item)
       (\<not> hasPermission user ''features.update''))"

record features_view =
  fv_categories :: "string list"
  fv_total :: string
  fv_rows :: "(string list \<times> toggle_view) list_content"
  fv_footer :: "pagination_view option"
  fv_confirm :: "dialog_view option"

definition FeaturesPage :: "principal option \<Rightarrow> features_page \<Rightarrow> features_view" where
  "FeaturesPage user s =
    \<lparr>fv_categories = feature_categories s,
     fv_total = int_str (case pg_meta (fp_list s) of Some m \<Rightarrow> meta_total m | None \<Rightarrow> int (length (pg_items (fp_list s)))) @ '' platform capabilities'',
     fv_rows = table_content ''No matching features'' (feature_row_of user) (fp_list s),
     fv_footer = (if pg_loading (fp_list s) then None else Some (footer_of (fp_list s))),
     fv_confirm = confirmDialog (fp_confirm s)\<rparr>"

section \<open>Channel catalog\<close>

record channel_item =
  ci_channel :: string
  ci_description :: string
  ci_tenant_count :: int
  ci_enabled :: bool

record channel_filters =
  cf_search :: string
  cf_status :: string

definition CHANNEL_MODES :: "string obj" where
  "CHANNEL_MODES =
    [(''email'', ''one_way/two_way''), (''sms'', ''one_way/two_way''), (''fcm'', ''one_way''), (''websocket'', ''two_way''),
     (''in_app'', ''two_way''), (''whatsapp'', ''two_way''), (''web_push'', ''one_way'')]"

record channels_page =
  hp_list :: "(channel_filters, channel_item) paged"
  hp_saving :: string
  hp_confirm :: "channel_item confirm_state"

definition channels_mount :: channels_page where
  "channels_mount = \<lparr>hp_list = pg_mount \<lparr>cf_search = [], cf_status = []\<rparr>, hp_saving = [], hp_confirm = confirm_init\<rparr>"

definition channels_params :: "channel_filters \<Rightarrow> int \<Rightarrow> int \<Rightarrow> pval obj" where
  "channels_params f p n =
    [(''q'', PStr (cf_search f)), (''filter_enabled'', PStr (cf_status f)), (''page'', PNum p), (''per_page'', PNum n)]"

definition channels_answer :: "nat \<Rightarrow> channel_item list_answer outcome \<Rightarrow> channels_page \<Rightarrow> channels_page \<times> toast_call list" where
  "channels_answer k res s =
    (s\<lparr>hp_list := pg_answer k res (hp_list s)\<rparr>,
     case res of Inr _ \<Rightarrow> [] | Inl err \<Rightarrow> [(TError, ''Unable to load channel catalog'', Some (getErrorMessage err ''Load failed''))])"

definition channels_set_filter :: "channel_filters \<Rightarrow> channels_page \<Rightarrow> channels_page" where
  "channels_set_filter f s = s\<lparr>hp_list := pg_set_filter f (hp_list s)\<rparr>"

definition channel_label :: "string \<Rightarrow> string" where
  "channel_label c = replace_first_char CHR ''_'' CHR '' '' c"

definition toggle_channel_start :: "channel_item \<Rightarrow> channels_page \<Rightarrow> channels_page \<times> api_call" where
  "toggle_channel_start item s =
    (s\<lparr>hp_saving := ci_channel item\<rparr>,
     api_send ''PUT'' (''/admin/api/v1/channel-catalog/'' @ ci_channel item) (JObj [(''enabled'', JBool (\<not> ci_enabled item))]))"

definition toggle_channel_done :: "channel_item \<Rightarrow> unit outcome \<Rightarrow> channels_page \<Rightarrow> channels_page \<times> toast_call list" where
  "toggle_channel_done item res s =
    (case res of
       Inr _ \<Rightarrow>
         (s\<lparr>hp_list := (hp_list s)\<lparr>pg_items := map (\<lambda>x. if ci_channel x = ci_channel item then x\<lparr>ci_enabled := \<not> ci_enabled x\<rparr> else x)
              (pg_items (hp_list s))\<rparr>, hp_saving := []\<rparr>,
          [(TSuccess, if ci_enabled item then ''Channel disabled globally'' else ''Channel enabled globally'', Some (channel_label (ci_channel item)))])
     | Inl err \<Rightarrow> (s\<lparr>hp_saving := []\<rparr>, [(TError, ''Unable to update channel'', Some (getErrorMessage err ''Update failed''))]))"

definition request_channel_toggle :: "principal option \<Rightarrow> channel_item \<Rightarrow> channels_page \<Rightarrow> channels_page" where
  "request_channel_toggle user item s =
    (if \<not> hasPermission user ''channels.update'' then s
     else s\<lparr>hp_confirm := requestConfirm
       \<lparr>intent_title = (if ci_enabled item then ''Disable'' else ''Enable'') @ '' channel globally'',
        intent_description = Some ''Confirm global channel status change'',
        intent_body = [''Change '', replace_first_char CHR ''_'' CHR '' '' (ci_channel item), '' for every tenant?''],
        intent_confirmLabel = Some (if ci_enabled item then ''Disable globally'' else ''Enable globally''),
        intent_variant = Some (if ci_enabled item then CDanger else CPrimary), intent_onConfirm = item\<rparr> (hp_confirm s)\<rparr>)"

definition channel_row_of :: "principal option \<Rightarrow> channels_page \<Rightarrow> channel_item \<Rightarrow> string list \<times> toggle_view" where
  "channel_row_of user s item =
    ([channel_label (ci_channel item), ci_channel item, or_str (ci_description item) ''-'',
      or_opt (obj_get CHANNEL_MODES (ci_channel item)) ''-'', adoption (ci_tenant_count item)],
     StatusToggle (ci_enabled item) ((if ci_enabled item then ''Disable '' else ''Enable '') @ ci_channel item)
       (\<not> hasPermission user ''channels.update'' \<or> hp_saving s = ci_channel item))"

record channels_view =
  hv_clear :: bool
  hv_rows :: "(string list \<times> toggle_view) list_content"
  hv_footer :: "pagination_view option"
  hv_confirm :: "dialog_view option"

definition ChannelsPage :: "principal option \<Rightarrow> channels_page \<Rightarrow> channels_view" where
  "ChannelsPage user s =
    \<lparr>hv_clear = (cf_search (pg_filters (hp_list s)) \<noteq> [] \<or> cf_status (pg_filters (hp_list s)) \<noteq> []),
     hv_rows = table_content ''No channels found'' (channel_row_of user s) (hp_list s),
     hv_footer = (if pg_loading (hp_list s) then None else Some (footer_of (hp_list s))),
     hv_confirm = confirmDialog (hp_confirm s)\<rparr>"

section \<open>Start page\<close>

record 'r dashboard_stats =
  ds_queued :: int
  ds_sent_today :: int
  ds_failed :: int
  ds_retry_count :: int
  ds_dead_letter_count :: int
  ds_active_campaigns :: int
  ds_ws_connections :: int
  ds_success_rate :: 'r
  ds_channels :: "(string \<times> int) list"

record 'r dashboard_page =
  db_stats :: "'r dashboard_stats option"
  db_loading :: bool
  db_error :: "string option"

definition dashboard_mount :: "'r dashboard_page \<times> api_call" where
  "dashboard_mount = (\<lparr>db_stats = None, db_loading = True, db_error = None\<rparr>, api_get ''/admin/api/v1/dashboard/stats'')"

definition dashboard_loaded :: "'r dashboard_stats outcome \<Rightarrow> 'r dashboard_page \<Rightarrow> 'r dashboard_page" where
  "dashboard_loaded res s =
    (case res of Inr d \<Rightarrow> s\<lparr>db_stats := Some d\<rparr> | Inl err \<Rightarrow> s\<lparr>db_error := error_message err\<rparr>)\<lparr>db_loading := False\<rparr>"

definition primaryCards :: "('r \<Rightarrow> string) \<Rightarrow> 'r dashboard_stats option \<Rightarrow> (string \<times> string) list" where
  "primaryCards fixed stats =
    (let num = (\<lambda>f. case stats of Some d \<Rightarrow> int_str (f d) | None \<Rightarrow> ''-'')
     in [(''Queued'', num ds_queued), (''Sent today'', num ds_sent_today), (''Failed'', num ds_failed),
         (''Success rate'', case stats of Some d \<Rightarrow> fixed (ds_success_rate d) @ ''%'' | None \<Rightarrow> ''-''),
         (''Retries'', num ds_retry_count), (''Dead letter'', num ds_dead_letter_count),
         (''Active campaigns'', num ds_active_campaigns), (''WS connections'', num ds_ws_connections)])"

definition maxChannel :: "'r dashboard_stats \<Rightarrow> int" where
  "maxChannel d = foldl max 1 (map snd (ds_channels d))"

definition bar_width :: "'r dashboard_stats \<Rightarrow> int \<Rightarrow> rat" where
  "bar_width d n = max 4 (of_int n / of_int (maxChannel d) * 100)"

definition outcome_total :: "'r dashboard_stats \<Rightarrow> int" where
  "outcome_total d = ds_sent_today d + ds_failed d + ds_queued d"

text \<open>The two stops of the ring: sent, then failed, the rest queued; no ring without deliveries.\<close>

definition ring_stops :: "'r dashboard_stats \<Rightarrow> (rat \<times> rat) option" where
  "ring_stops d =
    (if outcome_total d = 0 then None
     else Some (of_int (ds_sent_today d) / of_int (outcome_total d) * 100,
                of_int (ds_sent_today d + ds_failed d) / of_int (outcome_total d) * 100))"

record dashboard_view =
  dbv_error :: string
  dbv_cards :: "(string \<times> string) list"
  dbv_bars :: "(string \<times> rat \<times> string) list option"
  dbv_ring :: "((rat \<times> rat) option \<times> string) option"

definition DashboardPage :: "('r \<Rightarrow> string) \<Rightarrow> 'r dashboard_page \<Rightarrow> dashboard_view option" where
  "DashboardPage fixed s =
    (if db_loading s then None
     else Some
      \<lparr>dbv_error = or_opt (db_error s) [], dbv_cards = primaryCards fixed (db_stats s),
       dbv_bars = map_option (\<lambda>d. map (\<lambda>(c, n). (replace_first_char CHR ''_'' CHR '' '' c, bar_width d n, int_str n)) (ds_channels d)) (db_stats s),
       dbv_ring = map_option (\<lambda>d. (ring_stops d, int_str (outcome_total d))) (db_stats s)\<rparr>)"

section \<open>Lemmas\<close>

interpretation features_source: list_source "''/admin/api/v1/feature-catalog''" features_params
  by unfold_locales (simp_all add: features_params_def obj_wf_def)

interpretation channels_source: list_source "''/admin/api/v1/channel-catalog''" channels_params
  by unfold_locales (simp_all add: channels_params_def obj_wf_def)

lemma filter_updated:
  "(\<And>x. k (g x) = k x) \<Longrightarrow> filter (\<lambda>x. k x \<noteq> a) (map (\<lambda>x. if k x = a then g x else x) xs) = filter (\<lambda>x. k x \<noteq> a) xs"
  by (induction xs) auto

lemma foldl_max_ge: "(m :: int) \<le> foldl max m xs \<and> (\<forall>x \<in> set xs. x \<le> foldl max m xs)"
  by (induction xs arbitrary: m) (simp, metis foldl_Cons max.bounded_iff max.cobounded2 set_ConsD)

lemma maxChannel_bounds: "1 \<le> maxChannel d" "(c, n) \<in> set (ds_channels d) \<Longrightarrow> n \<le> maxChannel d"
  using foldl_max_ge [of 1 "map snd (ds_channels d)"] by (auto simp: maxChannel_def)

lemma fraction_percent:
  fixes a b :: int
  assumes "0 \<le> a" and "a \<le> b" and "0 < b"
  shows "0 \<le> (of_int a / of_int b * 100 :: rat) \<and> (of_int a / of_int b * 100 :: rat) \<le> 100"
proof -
  have "(0 :: rat) \<le> of_int a / of_int b" "of_int a / of_int b \<le> (1 :: rat)"
    using assms by (simp_all add: divide_le_eq_1)
  moreover have "0 \<le> q \<Longrightarrow> q \<le> 1 \<Longrightarrow> 0 \<le> q * 100 \<and> q * 100 \<le> 100" for q :: rat by simp
  ultimately show ?thesis by blast
qed

lemma fraction_mono:
  fixes a b c :: int
  assumes "a \<le> b" and "0 < c"
  shows "(of_int a / of_int c * 100 :: rat) \<le> of_int b / of_int c * 100"
  using assms by (simp add: divide_right_mono)

section \<open>Properties\<close>

text \<open>
  A confirmed switch in the catalogs: in the feature catalog every row of the feature ends up
  in the state that was sent to the server, whatever the list showed by then, and no other row changes.
  In the channel catalog the rows are inverted instead: the row agrees with what was sent as long as
  it still shows the state that was switched, but if the list was loaded again in between and already
  shows the new state, it ends up showing the opposite of what the server has.
\<close>

theorem catalog_switch_shown:
  "(\<forall>x \<in> set (pg_items (fp_list (fst (toggleFeature_done item (Inr ()) s)))).
       fi_identifier x = fi_identifier item \<longrightarrow>
       call_body (toggleFeature_call item) = Some (JObj [(''enabled'', JBool (fi_enabled x))]))
   \<and> filter (\<lambda>x. fi_identifier x \<noteq> fi_identifier item) (pg_items (fp_list (fst (toggleFeature_done item (Inr ()) s))))
       = filter (\<lambda>x. fi_identifier x \<noteq> fi_identifier item) (pg_items (fp_list s))
   \<and> (x \<in> set (pg_items (hp_list c)) \<and> ci_channel x = ci_channel i \<longrightarrow>
       (\<exists>x' \<in> set (pg_items (hp_list (fst (toggle_channel_done i (Inr ()) c)))). ci_channel x' = ci_channel i
          \<and> (call_body (snd (toggle_channel_start i c)) = Some (JObj [(''enabled'', JBool (ci_enabled x'))]) \<longleftrightarrow> ci_enabled x = ci_enabled i)))"
proof (intro conjI impI)
  show "\<forall>x \<in> set (pg_items (fp_list (fst (toggleFeature_done item (Inr ()) s)))).
       fi_identifier x = fi_identifier item \<longrightarrow>
       call_body (toggleFeature_call item) = Some (JObj [(''enabled'', JBool (fi_enabled x))])"
    by (auto simp: toggleFeature_done_def toggleFeature_call_def api_send_def Let_def)
  show "filter (\<lambda>x. fi_identifier x \<noteq> fi_identifier item) (pg_items (fp_list (fst (toggleFeature_done item (Inr ()) s))))
       = filter (\<lambda>x. fi_identifier x \<noteq> fi_identifier item) (pg_items (fp_list s))"
    by (simp add: toggleFeature_done_def Let_def filter_updated)
next
  assume "x \<in> set (pg_items (hp_list c)) \<and> ci_channel x = ci_channel i"
  then show "\<exists>x' \<in> set (pg_items (hp_list (fst (toggle_channel_done i (Inr ()) c)))). ci_channel x' = ci_channel i
          \<and> (call_body (snd (toggle_channel_start i c)) = Some (JObj [(''enabled'', JBool (ci_enabled x'))]) \<longleftrightarrow> ci_enabled x = ci_enabled i)"
    by (intro bexI [of _ "x\<lparr>ci_enabled := \<not> ci_enabled x\<rparr>"])
      (auto simp: toggle_channel_done_def toggle_channel_start_def api_send_def)
qed

definition demo_feature :: feature_item where
  "demo_feature = \<lparr>fi_identifier = ''sms'', fi_name = ''SMS'', fi_description = [], fi_category = [], fi_tenant_count = 1, fi_status = None, fi_enabled = True\<rparr>"

definition demo_channel :: channel_item where
  "demo_channel = \<lparr>ci_channel = ''sms'', ci_description = [], ci_tenant_count = 1, ci_enabled = True\<rparr>"

theorem catalog_switch_shown_witness:
  "\<exists>x' \<in> set (pg_items (hp_list (fst (toggle_channel_done demo_channel (Inr ()) (channels_mount\<lparr>hp_list := (hp_list channels_mount)
        \<lparr>pg_items := [demo_channel\<lparr>ci_enabled := False\<rparr>]\<rparr>\<rparr>))))). ci_channel x' = ''sms''
     \<and> call_body (snd (toggle_channel_start demo_channel channels_mount)) \<noteq> Some (JObj [(''enabled'', JBool (ci_enabled x'))])"
  using catalog_switch_shown [of demo_feature features_mount "demo_channel\<lparr>ci_enabled := False\<rparr>"
      "channels_mount\<lparr>hp_list := (hp_list channels_mount)\<lparr>pg_items := [demo_channel\<lparr>ci_enabled := False\<rparr>]\<rparr>\<rparr>" demo_channel]
  by (simp add: demo_channel_def toggle_channel_start_def)

text \<open>
  The charts of the start page stay in their frames: with counters that are not negative
  every channel bar is between four and a hundred percent wide, the bar of the largest counter is full,
  and the stops of the outcome ring are ordered percentages.
\<close>

theorem dashboard_charts_bounded:
  assumes "\<forall>(c, n) \<in> set (ds_channels d). 0 \<le> n" and "0 \<le> ds_sent_today d" and "0 \<le> ds_failed d" and "0 \<le> ds_queued d"
  shows "(\<forall>(c, n) \<in> set (ds_channels d). 4 \<le> bar_width d n \<and> bar_width d n \<le> 100
            \<and> (maxChannel d = n \<longrightarrow> bar_width d n = 100))
     \<and> (\<forall>a b. ring_stops d = Some (a, b) \<longrightarrow> 0 \<le> a \<and> a \<le> b \<and> b \<le> 100)
     \<and> (ring_stops d = None \<longleftrightarrow> ds_sent_today d = 0 \<and> ds_failed d = 0 \<and> ds_queued d = 0)"
proof (intro conjI)
  show "\<forall>(c, n) \<in> set (ds_channels d). 4 \<le> bar_width d n \<and> bar_width d n \<le> 100 \<and> (maxChannel d = n \<longrightarrow> bar_width d n = 100)"
  proof (intro ballI, clarify)
    fix c n assume n: "(c, n) \<in> set (ds_channels d)"
    have m: "1 \<le> maxChannel d" by (rule maxChannel_bounds)
    have "0 \<le> n" "n \<le> maxChannel d" using assms(1) n maxChannel_bounds(2) [OF n] by auto
    from fraction_percent [OF this] m
    show "4 \<le> bar_width d n \<and> bar_width d n \<le> 100 \<and> (maxChannel d = n \<longrightarrow> bar_width d n = 100)"
      by (auto simp: bar_width_def)
  qed
  show "\<forall>a b. ring_stops d = Some (a, b) \<longrightarrow> 0 \<le> a \<and> a \<le> b \<and> b \<le> 100"
  proof (intro allI impI)
    fix a b assume r: "ring_stops d = Some (a, b)"
    then have t: "0 < outcome_total d" using assms(2-4) by (auto simp: ring_stops_def outcome_total_def split: if_splits)
    have "ds_sent_today d \<le> ds_sent_today d + ds_failed d" "ds_sent_today d + ds_failed d \<le> outcome_total d"
      "0 \<le> ds_sent_today d + ds_failed d"
      using assms(2-4) by (simp_all add: outcome_total_def)
    then show "0 \<le> a \<and> a \<le> b \<and> b \<le> 100"
      using r t assms(2) fraction_percent [of "ds_sent_today d" "outcome_total d"]
        fraction_percent [of "ds_sent_today d + ds_failed d" "outcome_total d"]
        fraction_mono [of "ds_sent_today d" "ds_sent_today d + ds_failed d" "outcome_total d"]
      by (auto simp: ring_stops_def split: if_splits)
  qed
  show "ring_stops d = None \<longleftrightarrow> ds_sent_today d = 0 \<and> ds_failed d = 0 \<and> ds_queued d = 0"
    using assms(2-4) by (auto simp: ring_stops_def outcome_total_def)
qed

theorem dashboard_charts_bounded_witness:
  "4 \<le> bar_width \<lparr>ds_queued = 1, ds_sent_today = 2, ds_failed = 3, ds_retry_count = 0, ds_dead_letter_count = 0, ds_active_campaigns = 0,
      ds_ws_connections = 0, ds_success_rate = (), ds_channels = [(''sms'', 1), (''email'', 90)]\<rparr> 1"
  using dashboard_charts_bounded [of "\<lparr>ds_queued = 1, ds_sent_today = 2, ds_failed = 3, ds_retry_count = 0, ds_dead_letter_count = 0,
      ds_active_campaigns = 0, ds_ws_connections = 0, ds_success_rate = (), ds_channels = [(''sms'', 1), (''email'', 90)]\<rparr>"]
  by simp

end
