(* ===== verification/Tenants.thy ===== *)
theory Tenants
  imports Paged_List Auth
begin

text \<open>
  The list of tenants with the provisioning form,
  \<^verbatim>\<open>src/notification-admin-ui/src/pages/tenants/TenantsPage.tsx\<close>, and beside it what the server does with
  the form, \<^verbatim>\<open>applyTenantProvisioning\<close> of
  \<^verbatim>\<open>src/notification-core-api/internal/http/handlers/handlers.go\<close>. The body of the request and the structure
  the server decodes from it are one record. Dates stay as they came.
\<close>

section \<open>Data and state\<close>

record tenant =
  tn_id :: string
  tn_name :: string
  tn_slug :: string
  tn_status :: string
  tn_created_at :: string

record catalog_feature =
  fe_identifier :: string
  fe_name :: string
  fe_category :: string

record catalog_channel =
  cc_channel :: string
  cc_description :: string
  cc_enabled :: bool

record catalog_provider =
  cpv_provider :: string
  cpv_channel :: string
  cpv_enabled :: "bool option"

record starter_template =
  st_key :: string
  st_channel :: string
  st_subject :: string
  st_body :: string

record provision_form =
  pf_name :: string
  pf_slug :: string
  pf_timezone :: string
  pf_country :: string
  pf_default_sender :: string
  pf_default_sms :: string
  pf_features :: "string list"
  pf_channels :: "string list"
  pf_providers :: "string obj"
  pf_templates :: "starter_template list"

definition emptyProvision :: provision_form where
  "emptyProvision =
    \<lparr>pf_name = [], pf_slug = [], pf_timezone = [], pf_country = [], pf_default_sender = [], pf_default_sms = [],
     pf_features = [], pf_channels = [], pf_providers = [], pf_templates = []\<rparr>"

record tenant_filter =
  tf_search :: string
  tf_status :: string

record tenants_page =
  tp_list :: "(tenant_filter, tenant) paged"
  tp_error :: string
  tp_showCreate :: bool
  tp_createErr :: string
  tp_editId :: "string option"
  tp_form :: provision_form
  tp_features :: "catalog_feature list"
  tp_channels :: "catalog_channel list"
  tp_providerTypes :: "catalog_provider list"
  tp_saving :: bool
  tp_confirm :: "tenant confirm_state"

definition tenants_mount :: tenants_page where
  "tenants_mount =
    \<lparr>tp_list = pg_mount \<lparr>tf_search = [], tf_status = []\<rparr>, tp_error = [], tp_showCreate = False, tp_createErr = [],
     tp_editId = None, tp_form = emptyProvision, tp_features = [], tp_channels = [], tp_providerTypes = [], tp_saving = False,
     tp_confirm = confirm_init\<rparr>"

section \<open>Loading\<close>

definition tenants_params :: "tenant_filter \<Rightarrow> int \<Rightarrow> int \<Rightarrow> pval obj" where
  "tenants_params f p n =
    [(''q'', PStr (tf_search f)), (''filter_status'', PStr (tf_status f)), (''page'', PNum p), (''per_page'', PNum n)]"

definition message_text :: "js_error \<Rightarrow> string" where
  "message_text err = (case error_message err of Some m \<Rightarrow> m | None \<Rightarrow> [])"

definition tenants_answer :: "nat \<Rightarrow> tenant list_answer outcome \<Rightarrow> tenants_page \<Rightarrow> tenants_page" where
  "tenants_answer k res s =
    (let s1 = s\<lparr>tp_list := pg_answer k res (tp_list s)\<rparr>
     in case res of Inr _ \<Rightarrow> s1 | Inl err \<Rightarrow> s1\<lparr>tp_error := message_text err\<rparr>)"

definition tenants_reload :: "tenants_page \<Rightarrow> tenants_page \<Rightarrow> tenants_page" where
  "tenants_reload p0 s = s\<lparr>tp_list := pg_load_as (pg_query (tp_list p0)) (tp_list s)\<rparr>"

definition tenants_set_filter :: "tenant_filter \<Rightarrow> tenants_page \<Rightarrow> tenants_page" where
  "tenants_set_filter f s = s\<lparr>tp_list := pg_set_filter f (tp_list s)\<rparr>"

text \<open>The three catalogs are fetched once; of channels and provider types the enabled ones are kept.\<close>

definition catalog_features_loaded :: "catalog_feature list outcome \<Rightarrow> tenants_page \<Rightarrow> tenants_page" where
  "catalog_features_loaded res s = (case res of Inr fs \<Rightarrow> s\<lparr>tp_features := fs\<rparr> | Inl _ \<Rightarrow> s)"

definition catalog_channels_loaded :: "catalog_channel list outcome \<Rightarrow> tenants_page \<Rightarrow> tenants_page" where
  "catalog_channels_loaded res s = (case res of Inr cs \<Rightarrow> s\<lparr>tp_channels := filter cc_enabled cs\<rparr> | Inl _ \<Rightarrow> s)"

definition provider_types_loaded :: "catalog_provider list outcome \<Rightarrow> tenants_page \<Rightarrow> tenants_page" where
  "provider_types_loaded res s =
    (case res of Inr ps \<Rightarrow> s\<lparr>tp_providerTypes := filter (\<lambda>p. cpv_enabled p \<noteq> Some False) ps\<rparr> | Inl _ \<Rightarrow> s)"

section \<open>The request\<close>

record channel_setup =
  cs_channel :: string
  cs_enabled :: bool
  cs_direction :: string
  cs_rate_limit :: int
  cs_daily_quota :: int

record provider_setup =
  ps_channel :: string
  ps_provider :: string
  ps_is_default :: bool

record provisioning =
  pv_name :: string
  pv_slug :: string
  pv_settings :: "string obj"
  pv_features :: "string list"
  pv_channels :: "channel_setup list"
  pv_providers :: "provider_setup list"
  pv_templates :: "starter_template list"

definition payload :: "tenants_page \<Rightarrow> provisioning" where
  "payload s =
    (let form = tp_form s
     in \<lparr>pv_name = pf_name form, pv_slug = pf_slug form,
         pv_settings = [(''timezone'', pf_timezone form), (''country'', pf_country form),
                        (''default_sender'', pf_default_sender form), (''default_sms'', pf_default_sms form)],
         pv_features = pf_features form,
         pv_channels = map (\<lambda>c. \<lparr>cs_channel = cc_channel c, cs_enabled = List.member (pf_channels form) (cc_channel c),
             cs_direction = (if cc_channel c = ''websocket'' \<or> cc_channel c = ''in_app'' then ''two_way'' else ''one_way''),
             cs_rate_limit = 10, cs_daily_quota = 10000\<rparr>) (tp_channels s),
         pv_providers = map (\<lambda>c. \<lparr>ps_channel = c, ps_provider = or_opt (obj_get (pf_providers form) c) [], ps_is_default = True\<rparr>)
           (filter (\<lambda>c. or_opt (obj_get (pf_providers form) c) [] \<noteq> []) (pf_channels form)),
         pv_templates = pf_templates form\<rparr>)"

definition provisioning_json :: "provisioning \<Rightarrow> json" where
  "provisioning_json r =
    JObj [(''name'', JStr (pv_name r)), (''slug'', JStr (pv_slug r)), (''settings'', str_obj (pv_settings r)),
          (''features'', JArr (map JStr (pv_features r))),
          (''channels'', JArr (map (\<lambda>c. JObj [(''channel'', JStr (cs_channel c)), (''enabled'', JBool (cs_enabled c)),
              (''direction'', JStr (cs_direction c)), (''rate_limit_per_second'', JNum (cs_rate_limit c)),
              (''daily_quota'', JNum (cs_daily_quota c))]) (pv_channels r))),
          (''providers'', JArr (map (\<lambda>p. JObj [(''channel'', JStr (ps_channel p)), (''provider'', JStr (ps_provider p)),
              (''is_default'', JBool (ps_is_default p))]) (pv_providers r))),
          (''templates'', JArr (map (\<lambda>t. str_obj [(''template_key'', st_key t), (''channel'', st_channel t),
              (''subject'', st_subject t), (''body'', st_body t)]) (pv_templates r)))]"

definition handleCreate_start :: "tenants_page \<Rightarrow> tenants_page \<times> api_call" where
  "handleCreate_start s =
    (s\<lparr>tp_createErr := [], tp_saving := True\<rparr>, api_send ''POST'' ''/admin/api/v1/tenants'' (provisioning_json (payload s)))"

definition handleCreate_done :: "tenants_page \<Rightarrow> unit outcome \<Rightarrow> tenants_page \<Rightarrow> tenants_page \<times> toast_call list" where
  "handleCreate_done p0 res s =
    (case res of
       Inr _ \<Rightarrow> ((tenants_reload p0 (s\<lparr>tp_showCreate := False, tp_form := emptyProvision\<rparr>))\<lparr>tp_saving := False\<rparr>,
                [(TSuccess, ''Tenant created'', Some (pf_name (tp_form p0)))])
     | Inl err \<Rightarrow> (s\<lparr>tp_createErr := message_text err, tp_saving := False\<rparr>, [(TError, ''Unable to create tenant'', error_message err)]))"

definition handleEdit_start :: "string \<Rightarrow> tenants_page \<Rightarrow> tenants_page \<times> api_call" where
  "handleEdit_start i s =
    (s\<lparr>tp_saving := True\<rparr>, api_send ''PATCH'' (''/admin/api/v1/tenants/'' @ i) (provisioning_json (payload s)))"

definition handleEdit_done :: "tenants_page \<Rightarrow> unit outcome \<Rightarrow> tenants_page \<Rightarrow> tenants_page \<times> toast_call list" where
  "handleEdit_done p0 res s =
    (case res of
       Inr _ \<Rightarrow> ((tenants_reload p0 (s\<lparr>tp_editId := None\<rparr>))\<lparr>tp_saving := False\<rparr>,
                [(TSuccess, ''Tenant updated'', Some (pf_name (tp_form p0)))])
     | Inl err \<Rightarrow> (s\<lparr>tp_createErr := message_text err, tp_saving := False\<rparr>, [(TError, ''Unable to update tenant'', error_message err)]))"

section \<open>Opening a tenant for editing\<close>

text \<open>What the page reads of the overview, the settings and the templates of a tenant.\<close>

record provider_state =
  pr_channel :: string
  pr_provider :: string
  pr_is_default :: bool
  pr_status :: string

record tenant_answers =
  ta_features :: "(string \<times> bool) list"
  ta_channels :: "(string \<times> bool) list"
  ta_providers :: "provider_state list"
  ta_settings :: "string obj"
  ta_templates :: "(string \<times> string \<times> string option \<times> string option) list"

definition openEdit_start :: "tenant \<Rightarrow> tenants_page \<Rightarrow> tenants_page \<times> api_call list" where
  "openEdit_start item s =
    (s\<lparr>tp_editId := Some (tn_id item), tp_form := emptyProvision\<lparr>pf_name := tn_name item, pf_slug := tn_slug item\<rparr>\<rparr>,
     [api_get (''/admin/api/v1/tenants/'' @ tn_id item @ ''/overview''),
      api_get (''/admin/api/v1/tenants/'' @ tn_id item @ ''/settings''),
      api_get (''/admin/api/v1/templates?tenant_id='' @ tn_id item)])"

definition edit_form :: "tenant \<Rightarrow> tenant_answers \<Rightarrow> provision_form" where
  "edit_form item a =
    \<lparr>pf_name = tn_name item, pf_slug = tn_slug item,
     pf_timezone = or_opt (obj_get (ta_settings a) ''timezone'') [], pf_country = or_opt (obj_get (ta_settings a) ''country'') [],
     pf_default_sender = or_opt (obj_get (ta_settings a) ''default_sender'') [],
     pf_default_sms = or_opt (obj_get (ta_settings a) ''default_sms'') [],
     pf_features = map fst (filter snd (ta_features a)),
     pf_channels = map fst (filter snd (ta_channels a)),
     pf_providers = fold (\<lambda>p. obj_set (pr_channel p) (pr_provider p))
       (filter (\<lambda>p. pr_is_default p \<and> pr_status p = ''active'') (ta_providers a)) [],
     pf_templates = map (\<lambda>(k, c, subj, body). \<lparr>st_key = k, st_channel = c, st_subject = or_opt subj [], st_body = or_opt body []\<rparr>)
       (ta_templates a)\<rparr>"

definition openEdit_loaded :: "tenant \<Rightarrow> tenant_answers outcome \<Rightarrow> tenants_page \<Rightarrow> tenants_page \<times> toast_call list" where
  "openEdit_loaded item res s =
    (case res of
       Inr a \<Rightarrow> (s\<lparr>tp_createErr := [], tp_form := edit_form item a\<rparr>, [])
     | Inl err \<Rightarrow> (s\<lparr>tp_createErr := message_text err\<rparr>, [(TError, ''Unable to load tenant'', error_message err)]))"

section \<open>Status and dialogs\<close>

definition toggleStatus_call :: "tenant \<Rightarrow> api_call" where
  "toggleStatus_call item =
    api_send ''PATCH'' (''/admin/api/v1/tenants/'' @ tn_id item @ ''/status'')
      (str_obj [(''status'', if tn_status item = ''active'' then ''disabled'' else ''active'')])"

definition toggleStatus_done :: "tenants_page \<Rightarrow> tenant \<Rightarrow> unit outcome \<Rightarrow> tenants_page \<Rightarrow> tenants_page \<times> toast_call list" where
  "toggleStatus_done p0 item res s =
    (case res of
       Inr _ \<Rightarrow> (tenants_reload p0 s,
         [(TSuccess, ''Tenant '' @ (if tn_status item = ''active'' then ''disabled'' else ''active''), Some (tn_name item))])
     | Inl err \<Rightarrow> (s\<lparr>tp_error := message_text err\<rparr>, [(TError, ''Unable to update tenant status'', error_message err)]))"

definition request_tenant_toggle :: "tenant \<Rightarrow> tenants_page \<Rightarrow> tenants_page" where
  "request_tenant_toggle item s =
    s\<lparr>tp_confirm := requestConfirm
       \<lparr>intent_title = (if tn_status item = ''active'' then ''Disable'' else ''Enable'') @ '' tenant'',
        intent_description = Some ''Confirm tenant status change'',
        intent_body = [''Change '', tn_name item, '' to '', (if tn_status item = ''active'' then ''disabled'' else ''enabled''), ''?''],
        intent_confirmLabel = Some (if tn_status item = ''active'' then ''Disable'' else ''Enable''),
        intent_variant = Some (if tn_status item = ''active'' then CDanger else CPrimary),
        intent_onConfirm = item\<rparr> (tp_confirm s)\<rparr>"

definition open_create_tenant :: "tenants_page \<Rightarrow> tenants_page" where
  "open_create_tenant s = s\<lparr>tp_form := emptyProvision, tp_createErr := [], tp_showCreate := True\<rparr>"

definition close_create_tenant :: "tenants_page \<Rightarrow> tenants_page" where
  "close_create_tenant s = s\<lparr>tp_showCreate := False\<rparr>"

definition close_edit_tenant :: "tenants_page \<Rightarrow> tenants_page" where
  "close_edit_tenant s = s\<lparr>tp_editId := None\<rparr>"

section \<open>The provisioning form\<close>

definition toggle_feature :: "string \<Rightarrow> provision_form \<Rightarrow> provision_form" where
  "toggle_feature v f = f\<lparr>pf_features := toggle_list v (pf_features f)\<rparr>"

definition toggle_channel :: "string \<Rightarrow> provision_form \<Rightarrow> provision_form" where
  "toggle_channel v f = f\<lparr>pf_channels := toggle_list v (pf_channels f)\<rparr>"

definition choose_default_provider :: "string \<Rightarrow> string \<Rightarrow> provision_form \<Rightarrow> provision_form" where
  "choose_default_provider c v f = f\<lparr>pf_providers := obj_set c v (pf_providers f)\<rparr>"

definition updateTemplate :: "nat \<Rightarrow> (starter_template \<Rightarrow> starter_template) \<Rightarrow> provision_form \<Rightarrow> provision_form" where
  "updateTemplate i patch f =
    f\<lparr>pf_templates := map (\<lambda>(t, j). if j = i then patch t else t) (zip (pf_templates f) [0..<length (pf_templates f)])\<rparr>"

definition add_template :: "provision_form \<Rightarrow> provision_form" where
  "add_template f =
    f\<lparr>pf_templates := pf_templates f @
       [\<lparr>st_key = [], st_channel = (case pf_channels f of [] \<Rightarrow> ''email'' | c # _ \<Rightarrow> or_str c ''email''), st_subject = [], st_body = []\<rparr>]\<rparr>"

definition remove_template :: "nat \<Rightarrow> provision_form \<Rightarrow> provision_form" where
  "remove_template i f =
    f\<lparr>pf_templates := map fst (filter (\<lambda>(t, j). j \<noteq> i) (zip (pf_templates f) [0..<length (pf_templates f)]))\<rparr>"

definition spaced :: "string \<Rightarrow> string" where
  "spaced v = replace_all_char CHR ''_'' CHR '' '' v"

text \<open>A channel of the form: its texts, whether it is on, and if so the provider select.\<close>

record channel_choice =
  ch_label :: string
  ch_note :: string
  ch_on :: bool
  ch_provider :: "(string \<times> string \<times> select_option list) option"

definition channel_providers :: "string \<Rightarrow> catalog_provider list \<Rightarrow> catalog_provider list" where
  "channel_providers c pts = filter (\<lambda>p. cpv_channel p = c \<or> (c = ''in_app'' \<and> cpv_channel p = ''websocket'')) pts"

definition channel_choice_of :: "provision_form \<Rightarrow> catalog_provider list \<Rightarrow> catalog_channel \<Rightarrow> channel_choice" where
  "channel_choice_of form pts c =
    (let providers = channel_providers (cc_channel c) pts; enabled = List.member (pf_channels form) (cc_channel c)
     in \<lparr>ch_label = spaced (cc_channel c), ch_note = or_str (cc_description c) ''Tenant delivery channel'', ch_on = enabled,
         ch_provider = (if enabled
           then Some (or_opt (obj_get (pf_providers form) (cc_channel c)) [],
                      if providers \<noteq> [] then ''Select default provider'' else ''No provider types available'',
                      map (\<lambda>p. \<lparr>so_value = cpv_provider p, so_label = spaced (cpv_provider p), so_disabled = False\<rparr>) providers)
           else None)\<rparr>)"

record provision_view =
  pw_title :: string
  pw_error :: string
  pw_stats :: "(string \<times> nat) list"
  pw_features :: "(string \<times> string \<times> bool) list"
  pw_channels :: "channel_choice list"
  pw_templates :: "(starter_template \<times> select_option list) list"
  pw_save :: "bool \<times> string"

definition TenantProvisionModal :: "string \<Rightarrow> tenants_page \<Rightarrow> provision_view" where
  "TenantProvisionModal title s =
    (let form = tp_form s
     in \<lparr>pw_title = title, pw_error = tp_createErr s,
         pw_stats = [(''Capabilities'', length (pf_features form)), (''Channels'', length (pf_channels form)),
                     (''Templates'', length (pf_templates form))],
         pw_features = map (\<lambda>f. (fe_name f, fe_category f, List.member (pf_features form) (fe_identifier f))) (tp_features s),
         pw_channels = map (channel_choice_of form (tp_providerTypes s)) (tp_channels s),
         pw_templates = map (\<lambda>t. (t, map (\<lambda>c. \<lparr>so_value = c, so_label = spaced c, so_disabled = False\<rparr>)
             (if pf_channels form \<noteq> [] then pf_channels form else map cc_channel (tp_channels s)))) (pf_templates form),
         pw_save = (\<not> (tp_saving s \<or> pf_name form = [] \<or> pf_slug form = []),
                    if tp_saving s then ''Saving...'' else if starts_with title ''Create'' then ''Create tenant'' else ''Save changes'')\<rparr>)"

section \<open>What is shown\<close>

record tenant_row =
  tw_initials :: string
  tw_name :: string
  tw_short_id :: string
  tw_slug :: string
  tw_status :: "toggle_view + badge_tone \<times> string"
  tw_edit :: bool

definition tenant_row_of :: "bool \<Rightarrow> tenant \<Rightarrow> tenant_row" where
  "tenant_row_of platform item =
    \<lparr>tw_initials = to_upper (take 2 (tn_name item)), tw_name = tn_name item, tw_short_id = take 8 (tn_id item), tw_slug = tn_slug item,
     tw_status = (if platform
       then Inl (StatusToggle (tn_status item = ''active'')
                   ((if tn_status item = ''active'' then ''Disable '' else ''Enable '') @ tn_name item) False)
       else Inr (StatusBadge (StatusText (Some (tn_status item))))),
     tw_edit = platform\<rparr>"

definition editingTenant :: "tenants_page \<Rightarrow> tenant option" where
  "editingTenant s = find (\<lambda>t. tp_editId s = Some (tn_id t)) (pg_items (tp_list s))"

record tenants_view =
  tnv_create :: bool
  tnv_error :: string
  tnv_clear :: bool
  tnv_rows :: "tenant_row list_content"
  tnv_footer :: "pagination_view option"
  tnv_createForm :: "provision_view option"
  tnv_editForm :: "provision_view option"
  tnv_confirm :: "dialog_view option"

text \<open>Without the right to see tenants the page redirects to the start page, here \<^const>\<open>None\<close>.\<close>

definition TenantsPage :: "principal option \<Rightarrow> tenants_page \<Rightarrow> tenants_view option" where
  "TenantsPage user s =
    (if \<not> hasPermission user ''tenants.view'' then None
     else let platform = (case user of Some u \<Rightarrow> is_platform_admin u | None \<Rightarrow> False); f = pg_filters (tp_list s)
     in Some \<lparr>tnv_create = platform, tnv_error = tp_error s, tnv_clear = (tf_search f \<noteq> [] \<or> tf_status f \<noteq> []),
         tnv_rows = table_content ''No tenants found'' (tenant_row_of platform) (tp_list s),
         tnv_footer = (if pg_loading (tp_list s) \<or> pg_items (tp_list s) = [] then None else Some (footer_of (tp_list s))),
         tnv_createForm = (if tp_showCreate s then Some (TenantProvisionModal ''Create tenant'' s) else None),
         tnv_editForm = map_option (\<lambda>t. TenantProvisionModal ''Edit tenant'' s) (editingTenant s),
         tnv_confirm = confirmDialog (tp_confirm s)\<rparr>)"

section \<open>What the server stores\<close>

record stored_channel =
  wc_enabled :: bool
  wc_direction :: string
  wc_rate_limit :: int
  wc_daily_quota :: int

record stored_provider =
  wp_channel :: string
  wp_provider :: string
  wp_config :: string
  wp_is_default :: bool
  wp_status :: string

record tenant_config =
  tc_settings :: "string obj"
  tc_features :: "bool obj"
  tc_channels :: "stored_channel obj"
  tc_providers :: "stored_provider list"
  tc_templates :: "starter_template list"

fun upsert_template :: "starter_template \<Rightarrow> starter_template list \<Rightarrow> starter_template list" where
  "upsert_template t [] = [t]"
| "upsert_template t (u # us) =
    (if st_key u = st_key t \<and> st_channel u = st_channel t then t # us else u # upsert_template t us)"

definition applyTenantProvisioning :: "string list \<Rightarrow> provisioning \<Rightarrow> tenant_config \<Rightarrow> tenant_config" where
  "applyTenantProvisioning catalog req cfg =
    \<lparr>tc_settings = pv_settings req,
     tc_features = fold (\<lambda>i. obj_set i (List.member (pv_features req) i)) catalog (tc_features cfg),
     tc_channels = fold (\<lambda>c. obj_set (cs_channel c)
         \<lparr>wc_enabled = cs_enabled c, wc_direction = or_str (cs_direction c) ''one_way'',
          wc_rate_limit = (if cs_rate_limit c < 1 then 10 else cs_rate_limit c),
          wc_daily_quota = (if cs_daily_quota c < 1 then 10000 else cs_daily_quota c)\<rparr>) (pv_channels req) (tc_channels cfg),
     tc_providers = map (\<lambda>p. \<lparr>wp_channel = ps_channel p, wp_provider = ps_provider p, wp_config = ''{}'',
         wp_is_default = ps_is_default p, wp_status = ''active''\<rparr>) (pv_providers req),
     tc_templates = fold upsert_template
         (filter (\<lambda>t. st_key t \<noteq> [] \<and> st_channel t \<noteq> [] \<and> st_body t \<noteq> []) (pv_templates req)) []\<rparr>"

text \<open>What the overview and settings requests report of a stored tenant, up to the order of the rows.\<close>

definition describes :: "tenant_config \<Rightarrow> tenant_answers \<Rightarrow> bool" where
  "describes cfg a \<longleftrightarrow>
     set (ta_features a) = set (tc_features cfg)
     \<and> set (ta_channels a) = (\<lambda>(c, x). (c, wc_enabled x)) ` set (tc_channels cfg)
     \<and> set (ta_providers a) = (\<lambda>p. \<lparr>pr_channel = wp_channel p, pr_provider = wp_provider p, pr_is_default = wp_is_default p,
                                    pr_status = wp_status p\<rparr>) ` set (tc_providers cfg)
     \<and> (\<forall>k \<in> {''timezone'', ''country'', ''default_sender'', ''default_sms''}. obj_get (ta_settings a) k = obj_get (tc_settings cfg) k)"

section \<open>The page under a user and a server\<close>

inductive tenants_step ::
    "(tenant_filter \<times> int \<times> int \<Rightarrow> tenant list_answer) \<Rightarrow> tenants_page \<Rightarrow> tenants_page \<Rightarrow> bool" for ans where
  filter: "tenants_step ans s (tenants_set_filter f s)"
| turn: "pg_turn (tp_list s) l \<Longrightarrow> tenants_step ans s (s\<lparr>tp_list := l\<rparr>)"
| rows: "pg_pending (tp_list s) = q # qs \<Longrightarrow> tenants_step ans s (tenants_answer 0 (Inr (ans q)) s)"
| catalogs: "s' \<in> {catalog_features_loaded fs s, catalog_channels_loaded cs s, provider_types_loaded ps s} \<Longrightarrow> tenants_step ans s s'"
| create: "s' \<in> {open_create_tenant s, close_create_tenant s, close_edit_tenant s} \<Longrightarrow> tenants_step ans s s'"
| form: "tenants_step ans s (s\<lparr>tp_form := f\<rparr>)"
| save: "s' \<in> {fst (handleCreate_start s), fst (handleEdit_start i s)} \<Longrightarrow> tenants_step ans s s'"
| saved: "pg_query (tp_list p0) = pg_query (tp_list s) \<Longrightarrow> s' \<in> {fst (handleCreate_done p0 res s), fst (handleEdit_done p0 res s)} \<Longrightarrow>
    tenants_step ans s s'"
| edit: "tenants_step ans s (fst (openEdit_start item s))"
| loaded: "tenants_step ans s (fst (openEdit_loaded item a s))"
| request: "tenants_step ans s (request_tenant_toggle item s)"
| confirm: "confirm_start (tp_confirm s) = (Some i, c) \<Longrightarrow> tenants_step ans s (s\<lparr>tp_confirm := c\<rparr>)"
| performed: "pg_query (tp_list p0) = pg_query (tp_list s) \<Longrightarrow>
    tenants_step ans s ((fst (toggleStatus_done p0 item res s))\<lparr>tp_confirm := confirm_finish True (tp_confirm s)\<rparr>)"
| cancel: "tenants_step ans s (s\<lparr>tp_confirm := confirm_close (tp_confirm s)\<rparr>)"

section \<open>Lemmas\<close>

lemmas tenant_handler_defs =
  tenants_set_filter_def tenants_answer_def catalog_features_loaded_def catalog_channels_loaded_def provider_types_loaded_def
  open_create_tenant_def close_create_tenant_def close_edit_tenant_def handleCreate_start_def handleEdit_start_def
  handleCreate_done_def handleEdit_done_def tenants_reload_def openEdit_start_def openEdit_loaded_def request_tenant_toggle_def
  toggleStatus_done_def

interpretation tenants_source: list_source "''/admin/api/v1/tenants''" tenants_params
  by unfold_locales (simp_all add: tenants_params_def obj_wf_def)

interpretation tenants_list: list_page tp_list "\<lambda>s. s = tenants_mount" tenants_step
proof unfold_locales
  fix ans s s'
  assume "tenants_step ans s s'"
  then show "tp_list s' = tp_list s \<or> pg_step ans (tp_list s) (tp_list s')"
    by cases (auto simp: tenant_handler_defs split: sum.splits intro: pg_page_steps)
qed (auto simp: tenants_mount_def)

interpretation tenants_served: served_page tp_list "\<lambda>s. s = tenants_mount" tenants_step "''/admin/api/v1/tenants''" tenants_params ..

lemma applied_features:
  "obj_get (tc_features (applyTenantProvisioning cat req cfg)) f =
     (if f \<in> set cat then Some (f \<in> set (pv_features req)) else obj_get (tc_features cfg) f)"
  using obj_get_fold_set [of "\<lambda>x. x" "List.member (pv_features req)" cat "tc_features cfg" f]
  by (simp add: applyTenantProvisioning_def List.member_iff)

definition fresh_channel :: "string list \<Rightarrow> string \<Rightarrow> stored_channel" where
  "fresh_channel on c =
    \<lparr>wc_enabled = List.member on c, wc_direction = (if c = ''websocket'' \<or> c = ''in_app'' then ''two_way'' else ''one_way''),
     wc_rate_limit = 10, wc_daily_quota = 10000\<rparr>"

lemma applied_channels:
  "obj_get (tc_channels (applyTenantProvisioning cat (payload s) cfg)) c =
     (if c \<in> cc_channel ` set (tp_channels s) then Some (fresh_channel (pf_channels (tp_form s)) c) else obj_get (tc_channels cfg) c)"
proof -
  have "tc_channels (applyTenantProvisioning cat (payload s) cfg)
      = fold (\<lambda>x. obj_set (cc_channel x) (fresh_channel (pf_channels (tp_form s)) (cc_channel x))) (tp_channels s) (tc_channels cfg)"
    by (simp add: applyTenantProvisioning_def payload_def Let_def fold_map comp_def fresh_channel_def)
      (rule fold_cong; auto simp: or_str_def)
  then show ?thesis by (simp only: obj_get_fold_set)
qed

lemma enabled_keys:
  "obj_wf ob \<Longrightarrow> k \<in> fst ` set (filter snd ob) \<longleftrightarrow> obj_get ob k = Some True"
  by (induction ob) (force simp: obj_wf_def)+

lemma described_features:
  "describes cfg a \<Longrightarrow> obj_wf (tc_features cfg) \<Longrightarrow>
     f \<in> set (pf_features (edit_form item a)) \<longleftrightarrow> obj_get (tc_features cfg) f = Some True"
  using enabled_keys [of "tc_features cfg" f] by (auto simp: edit_form_def describes_def)

lemma described_channels:
  assumes "describes cfg a" and "obj_wf (tc_channels cfg)"
  shows "c \<in> set (pf_channels (edit_form item a)) \<longleftrightarrow> (\<exists>x. obj_get (tc_channels cfg) c = Some x \<and> wc_enabled x)"
proof -
  have get: "obj_get (tc_channels cfg) c = Some x \<longleftrightarrow> (c, x) \<in> set (tc_channels cfg)" for x
    using assms(2) by (simp add: obj_get_def obj_wf_def)
  have "c \<in> set (pf_channels (edit_form item a)) \<longleftrightarrow> (c, True) \<in> set (ta_channels a)"
    by (auto simp: edit_form_def image_iff)
  also have "\<dots> \<longleftrightarrow> (\<exists>x. (c, x) \<in> set (tc_channels cfg) \<and> wc_enabled x)"
    using assms(1) by (simp add: describes_def image_iff Bex_def case_prod_beta)
  finally show ?thesis by (simp add: get)
qed

section \<open>Properties\<close>

text \<open>
  Property C28. Saving a tenant that was opened for editing and left unchanged keeps which features and
  which channels of the catalogs are on, but not what belongs to them: every channel gets the default
  limits again, every provider that is kept loses its stored configuration, and of the settings only
  the four of the form remain. When the tenant could not be loaded, the form can be saved all the same,
  and saving it switches every feature and channel off and removes the providers and the templates.
\<close>

theorem tenant_edit_resets_configuration:
  fixes item :: tenant and s :: tenants_page and err :: js_error
  assumes "describes cfg a" and "obj_wf (tc_features cfg)" and "obj_wf (tc_channels cfg)"
  defines "opened \<equiv> fst (openEdit_loaded item (Inr a) (fst (openEdit_start item s)))"
    and "failed \<equiv> fst (openEdit_loaded item (Inl err) (fst (openEdit_start item s)))"
  shows "(\<forall>f \<in> set cat. obj_get (tc_features (applyTenantProvisioning cat (payload opened) cfg)) f
            = Some (obj_get (tc_features cfg) f = Some True))
    \<and> (\<forall>c \<in> cc_channel ` set (tp_channels s). \<exists>x. obj_get (tc_channels (applyTenantProvisioning cat (payload opened) cfg)) c = Some x
          \<and> (wc_enabled x \<longleftrightarrow> (\<exists>y. obj_get (tc_channels cfg) c = Some y \<and> wc_enabled y))
          \<and> wc_rate_limit x = 10 \<and> wc_daily_quota x = 10000)
    \<and> (\<forall>p \<in> set (tc_providers (applyTenantProvisioning cat (payload opened) cfg)). wp_config p = ''{}'')
    \<and> map fst (tc_settings (applyTenantProvisioning cat (payload opened) cfg)) = [''timezone'', ''country'', ''default_sender'', ''default_sms'']
    \<and> (tn_name item \<noteq> [] \<and> tn_slug item \<noteq> [] \<and> \<not> tp_saving s \<longrightarrow> fst (pw_save (TenantProvisionModal ''Edit tenant'' failed)))
    \<and> (\<forall>f \<in> set cat. obj_get (tc_features (applyTenantProvisioning cat (payload failed) cfg)) f = Some False)
    \<and> (\<forall>c \<in> cc_channel ` set (tp_channels s). map_option wc_enabled (obj_get (tc_channels (applyTenantProvisioning cat (payload failed) cfg)) c) = Some False)
    \<and> tc_providers (applyTenantProvisioning cat (payload failed) cfg) = []
    \<and> tc_templates (applyTenantProvisioning cat (payload failed) cfg) = []"
proof -
  have o: "tp_form opened = edit_form item a" "tp_channels opened = tp_channels s"
    by (simp_all add: opened_def openEdit_loaded_def openEdit_start_def)
  have f: "tp_form failed = emptyProvision\<lparr>pf_name := tn_name item, pf_slug := tn_slug item\<rparr>"
    "tp_channels failed = tp_channels s" "tp_saving failed = tp_saving s"
    by (simp_all add: failed_def openEdit_loaded_def openEdit_start_def)
  have pf: "pv_features (payload t) = pf_features (tp_form t)" "pv_templates (payload t) = pf_templates (tp_form t)" for t
    by (simp_all add: payload_def Let_def)
  have feat: "obj_get (tc_features (applyTenantProvisioning cat (payload opened) cfg)) x = Some (obj_get (tc_features cfg) x = Some True)"
    if "x \<in> set cat" for x
    using that described_features [OF assms(1,2)] by (simp add: applied_features pf o)
  have chan: "obj_get (tc_channels (applyTenantProvisioning cat (payload opened) cfg)) c = Some (fresh_channel (pf_channels (edit_form item a)) c)"
    if "c \<in> cc_channel ` set (tp_channels s)" for c
    using that by (simp add: applied_channels o)
  have failed_chan: "obj_get (tc_channels (applyTenantProvisioning cat (payload failed) cfg)) c = Some (fresh_channel [] c)"
    if "c \<in> cc_channel ` set (tp_channels s)" for c
    using that by (simp add: applied_channels f emptyProvision_def)
  show ?thesis
    using feat chan failed_chan described_channels [OF assms(1,3)]
    by (auto simp: fresh_channel_def List.member_iff applied_features pf f emptyProvision_def TenantProvisionModal_def Let_def)
      (auto simp: applyTenantProvisioning_def payload_def Let_def f emptyProvision_def)
qed

definition demo_tenant :: tenant where
  "demo_tenant = \<lparr>tn_id = ''t1'', tn_name = ''Acme'', tn_slug = ''acme'', tn_status = ''active'', tn_created_at = []\<rparr>"

theorem tenant_edit_resets_configuration_witness:
  "\<exists>x. obj_get (tc_channels (applyTenantProvisioning [] (payload (fst (openEdit_loaded demo_tenant
        (Inr \<lparr>ta_features = [], ta_channels = [(''sms'', True)], ta_providers = [], ta_settings = [], ta_templates = []\<rparr>)
        (fst (openEdit_start demo_tenant (tenants_mount\<lparr>tp_channels := [\<lparr>cc_channel = ''sms'', cc_description = [], cc_enabled = True\<rparr>]\<rparr>))))))
      \<lparr>tc_settings = [], tc_features = [], tc_channels = [(''sms'', \<lparr>wc_enabled = True, wc_direction = ''one_way'', wc_rate_limit = 500, wc_daily_quota = 9\<rparr>)],
       tc_providers = [], tc_templates = []\<rparr>)) ''sms'' = Some x \<and> wc_enabled x \<and> wc_rate_limit x = 10"
  using tenant_edit_resets_configuration
    [where cfg = "\<lparr>tc_settings = [], tc_features = [], tc_channels = [(''sms'', \<lparr>wc_enabled = True, wc_direction = ''one_way'', wc_rate_limit = 500, wc_daily_quota = 9\<rparr>)],
       tc_providers = [], tc_templates = []\<rparr>"
       and a = "\<lparr>ta_features = [], ta_channels = [(''sms'', True)], ta_providers = [], ta_settings = [], ta_templates = []\<rparr>"
       and cat = "[]" and item = demo_tenant and s = "tenants_mount\<lparr>tp_channels := [\<lparr>cc_channel = ''sms'', cc_description = [], cc_enabled = True\<rparr>]\<rparr>"]
  by (auto simp: describes_def obj_wf_def)

end
