(* ===== verification/Audit_Logs.thy ===== *)
theory Audit_Logs
  imports Paged_List Auth
begin

text \<open>
  Two read-only list pages whose rows are shown in groups: the audit log with the events of a session,
  \<^verbatim>\<open>src/notification-admin-ui/src/pages/audit-logs/AuditLogsPage.tsx\<close>, and the permissions,
  \<^verbatim>\<open>src/notification-admin-ui/src/pages/permissions/PermissionsPage.tsx\<close>. The roles of a permission may
  arrive as text; parsing JSON and decoding base 64 are arguments of the functions that use them.
\<close>

section \<open>Audit log\<close>

record audit_log =
  al_id :: string
  al_action :: string
  al_actor_type :: string
  al_resource_type :: string
  al_resource_id :: string
  al_ip_address :: string
  al_request_id :: "string option"
  al_session_id :: "string option"
  al_created_at :: string
  al_tenant_name :: "string option"

record audit_page =
  au_isPlatform :: bool
  au_list :: "(search_filter, audit_log) paged"
  au_selectedSession :: string
  au_selectedLogs :: "audit_log list"
  au_sessionLoading :: bool
  au_tenants :: tenant_choices

definition audit_mount :: "bool \<Rightarrow> audit_page" where
  "audit_mount platform =
    \<lparr>au_isPlatform = platform, au_list = pg_mount \<lparr>sf_tenant = [], sf_search = []\<rparr>, au_selectedSession = [],
     au_selectedLogs = [], au_sessionLoading = False, au_tenants = []\<rparr>"

definition audit_answer :: "nat \<Rightarrow> audit_log list_answer outcome \<Rightarrow> audit_page \<Rightarrow> audit_page \<times> toast_call list" where
  "audit_answer k res s =
    (s\<lparr>au_list := pg_answer k res (au_list s)\<rparr>,
     case res of Inr _ \<Rightarrow> [] | Inl err \<Rightarrow> [(TError, ''Unable to load audit logs'', Some (getErrorMessage err ''Load failed''))])"

definition audit_tenants_loaded :: "tenant_choices outcome \<Rightarrow> audit_page \<Rightarrow> audit_page" where
  "audit_tenants_loaded res s = s\<lparr>au_tenants := tenants_or res (au_tenants s)\<rparr>"

definition audit_set_filter :: "search_filter \<Rightarrow> audit_page \<Rightarrow> audit_page" where
  "audit_set_filter f s = s\<lparr>au_list := pg_set_filter f (au_list s)\<rparr>"

text \<open>The key a row is grouped under.\<close>

definition session_key :: "audit_log \<Rightarrow> string" where
  "session_key item = or_opt (al_session_id item) ''No session''"

definition sessions :: "audit_page \<Rightarrow> audit_log list obj" where
  "sessions s = obj_entries (group_by_key session_key (pg_items (au_list s)))"

definition viewSession_params :: "string \<Rightarrow> string \<Rightarrow> pval obj" where
  "viewSession_params tenant sessionID = [(''tenant_id'', PStr tenant), (''q'', PStr sessionID), (''per_page'', PNum 100)]"

definition viewSession_start :: "string \<Rightarrow> audit_page \<Rightarrow> audit_page \<times> api_call" where
  "viewSession_start sessionID s =
    (s\<lparr>au_selectedSession := sessionID, au_sessionLoading := True\<rparr>,
     api_get (listPage_url ''/admin/api/v1/audit-logs'' (viewSession_params (sf_tenant (pg_filters (au_list s))) sessionID)))"

definition viewSession_done :: "string \<Rightarrow> audit_log list outcome \<Rightarrow> audit_page \<Rightarrow> audit_page \<times> toast_call list" where
  "viewSession_done sessionID res s =
    (case res of
       Inr rows \<Rightarrow> (s\<lparr>au_selectedLogs := filter (\<lambda>item. session_key item = sessionID) rows, au_sessionLoading := False\<rparr>, [])
     | Inl err \<Rightarrow> (s\<lparr>au_selectedLogs := [], au_sessionLoading := False\<rparr>,
                  [(TError, ''Unable to load audit session'', Some (getErrorMessage err ''Load failed''))]))"

definition close_session :: "audit_page \<Rightarrow> audit_page" where
  "close_session s = s\<lparr>au_selectedSession := [], au_selectedLogs := []\<rparr>"

definition audit_tenant_cell :: "audit_page \<Rightarrow> audit_log \<Rightarrow> string list" where
  "audit_tenant_cell s item = (if au_isPlatform s then [or_opt (al_tenant_name item) ''-''] else [])"

definition audit_cells :: "audit_page \<Rightarrow> audit_log \<Rightarrow> string list" where
  "audit_cells s item =
    [al_action item, al_actor_type item, al_resource_type item, or_str (al_resource_id item) ''-'',
     or_str (al_ip_address item) ''-'', al_created_at item] @ audit_tenant_cell s item"

definition session_cells :: "audit_page \<Rightarrow> audit_log \<Rightarrow> string list" where
  "session_cells s item =
    [al_action item, al_actor_type item, al_resource_type item, or_str (al_resource_id item) ''-'',
     or_opt (al_request_id item) ''-'', or_str (al_ip_address item) ''-'', al_created_at item] @ audit_tenant_cell s item"

text \<open>A section of the page: session, number of events, rows. The dialog: session and its rows or a note.\<close>

record audit_view =
  av_clear :: bool
  av_sections :: "(string \<times> nat \<times> string list list) list_content"
  av_footer :: "pagination_view option"
  av_session :: "(string \<times> string list list_content) option"

definition AuditLogsPage :: "audit_page \<Rightarrow> audit_view" where
  "AuditLogsPage s =
    (let f = pg_filters (au_list s)
     in \<lparr>av_clear = (sf_search f \<noteq> [] \<or> sf_tenant f \<noteq> []),
         av_sections =
           (if pg_loading (au_list s) then ListLoading
            else if pg_items (au_list s) = [] then ListEmpty ''No audit logs found''
            else ListRows (map (\<lambda>(sid, logs). (sid, length logs, map (audit_cells s) logs)) (sessions s))),
         av_footer = (if pg_loading (au_list s) \<or> pg_items (au_list s) = [] then None else Some (footer_of (au_list s))),
         av_session = (if au_selectedSession s = [] then None
           else Some (au_selectedSession s,
             if au_sessionLoading s then ListLoading
             else if au_selectedLogs s = [] then ListEmpty ''No audit events found for this session''
             else ListRows (map (session_cells s) (au_selectedLogs s))))\<rparr>)"

text \<open>
  The server's side of a search, the list middleware of
  \<^verbatim>\<open>src/notification-core-api/internal/http/middleware/middleware.go\<close>: the rows whose JSON text contains the
  trimmed query, ignoring case, cut into pages. The text of a row is an argument.
\<close>

definition search_rows :: "('a \<Rightarrow> string) \<Rightarrow> string \<Rightarrow> 'a list \<Rightarrow> 'a list" where
  "search_rows rtext q rows = filter (\<lambda>r. trim q = [] \<or> str_includes (to_lower (rtext r)) (to_lower (trim q))) rows"

section \<open>Permissions\<close>

record permission_row =
  pe_id :: string
  pe_key :: string
  pe_description :: string
  pe_roles :: "json option"

definition with_roles :: "(string \<Rightarrow> json option) \<Rightarrow> (string \<Rightarrow> string option) \<Rightarrow> permission_row \<Rightarrow> permission_row" where
  "with_roles parse atob p =
    (case pe_roles p of
       Some (JArr rs) \<Rightarrow> p
     | Some (JStr rtext) \<Rightarrow>
         (case parse rtext of
            Some j \<Rightarrow> p\<lparr>pe_roles := Some j\<rparr>
          | None \<Rightarrow>
              (case atob rtext of
                 Some decoded \<Rightarrow>
                   (case parse decoded of Some j \<Rightarrow> p\<lparr>pe_roles := Some j\<rparr> | None \<Rightarrow> p\<lparr>pe_roles := Some (JArr [])\<rparr>)
               | None \<Rightarrow> p\<lparr>pe_roles := Some (JArr [])\<rparr>))
     | _ \<Rightarrow> p\<lparr>pe_roles := Some (JArr [])\<rparr>)"

record permissions_page =
  pq_list :: "(unit, permission_row) paged"
  pq_error :: string

definition permissions_mount :: permissions_page where
  "permissions_mount = \<lparr>pq_list = pg_mount (), pq_error = []\<rparr>"

definition permissions_params :: "unit \<Rightarrow> int \<Rightarrow> int \<Rightarrow> pval obj" where
  "permissions_params f p n = [(''page'', PNum p), (''per_page'', PNum n)]"

definition permissions_answer ::
    "(string \<Rightarrow> json option) \<Rightarrow> (string \<Rightarrow> string option) \<Rightarrow> nat \<Rightarrow> permission_row list_answer outcome \<Rightarrow> permissions_page \<Rightarrow> permissions_page" where
  "permissions_answer parse atob k res s =
    (case res of
       Inr (rows, meta) \<Rightarrow> s\<lparr>pq_list := pg_answer k (Inr (map (with_roles parse atob) rows, meta)) (pq_list s)\<rparr>
     | Inl err \<Rightarrow> s\<lparr>pq_list := pg_answer k (Inl err) (pq_list s),
                   pq_error := (case error_message err of Some m \<Rightarrow> m | None \<Rightarrow> [])\<rparr>)"

definition permission_key_category :: "permission_row \<Rightarrow> string" where
  "permission_key_category p = or_str (hd (split_on CHR ''.'' (pe_key p))) ''other''"

definition permission_categories :: "permission_row list \<Rightarrow> permission_row list obj" where
  "permission_categories items = obj_entries (group_by_key permission_key_category items)"

text \<open>The names shown for the roles; a value other than a list of roles has no length and shows a dash.\<close>

definition role_names :: "permission_row \<Rightarrow> string list" where
  "role_names p =
    (case pe_roles p of
       Some (JArr (r # rs)) \<Rightarrow> map (\<lambda>r. case jprop r ''name'' of Some (JStr n) \<Rightarrow> n | Some (JNum n) \<Rightarrow> int_str n | _ \<Rightarrow> []) (r # rs)
     | _ \<Rightarrow> [''-''])"

definition PermissionsPage ::
    "permissions_page \<Rightarrow> string \<times> (string \<times> (string \<times> string \<times> string list) list) list_content \<times> pagination_view option" where
  "PermissionsPage s =
    (pq_error s,
     (if pg_loading (pq_list s) then ListLoading
      else if pg_items (pq_list s) = [] then ListEmpty ''No permissions found''
      else ListRows (map (\<lambda>(cat, perms). (replace_all_char CHR ''_'' CHR '' '' cat,
             map (\<lambda>p. (pe_key p, pe_description p, role_names p)) perms)) (permission_categories (pg_items (pq_list s))))),
     if pg_loading (pq_list s) then None else Some (footer_of (pq_list s)))"

section \<open>The pages under a user and a server\<close>

inductive audit_step ::
    "(search_filter \<times> int \<times> int \<Rightarrow> audit_log list_answer) \<Rightarrow> audit_page \<Rightarrow> audit_page \<Rightarrow> bool" for ans where
  filter: "audit_step ans s (audit_set_filter f s)"
| turn: "pg_turn (au_list s) l \<Longrightarrow> audit_step ans s (s\<lparr>au_list := l\<rparr>)"
| rows: "pg_pending (au_list s) = q # qs \<Longrightarrow> audit_step ans s (fst (audit_answer 0 (Inr (ans q)) s))"
| tenants: "audit_step ans s (audit_tenants_loaded ts s)"
| view: "audit_step ans s (fst (viewSession_start i s))"
| viewed: "audit_step ans s (fst (viewSession_done i res s))"
| close: "audit_step ans s (close_session s)"

section \<open>Lemmas\<close>

interpretation audit_source: list_source "''/admin/api/v1/audit-logs''" search_params
  by unfold_locales (simp_all add: search_params_def obj_wf_def)

interpretation permissions_source: list_source "''/admin/api/v1/permissions''" permissions_params
  by unfold_locales (simp_all add: permissions_params_def obj_wf_def)

interpretation audit_list: list_page au_list "\<lambda>s. \<exists>platform. s = audit_mount platform" audit_step
proof unfold_locales
  fix ans s s'
  assume "audit_step ans s s'"
  then show "au_list s' = au_list s \<or> pg_step ans (au_list s) (au_list s')"
    by cases (auto simp: audit_set_filter_def audit_answer_def audit_tenants_loaded_def viewSession_start_def
        viewSession_done_def close_session_def split: sum.splits intro: pg_page_steps)
qed (auto simp: audit_mount_def)

interpretation audit_served: served_page au_list "\<lambda>s. \<exists>platform. s = audit_mount platform" audit_step
  "''/admin/api/v1/audit-logs''" search_params ..

text \<open>The entries of a grouping: one per key, each with the rows of that key in their order.\<close>

lemma group_entry:
  assumes "(k, xs) \<in> set (obj_entries (group_by_key key rows))"
  shows "xs = filter (\<lambda>r. key r = k) rows \<and> xs \<noteq> []"
proof -
  have "obj_get (group_by_key key rows) k = Some xs"
    using assms group_by_key_wf [of key rows] by (simp add: obj_get_def obj_wf_def)
  then show ?thesis by (auto simp: group_by_key_get filter_empty_conv split: if_splits)
qed

lemma group_entry_exists:
  assumes "r \<in> set rows"
  shows "(key r, filter (\<lambda>x. key x = key r) rows) \<in> set (obj_entries (group_by_key key rows))"
proof -
  have "obj_get (group_by_key key rows) (key r) = Some (filter (\<lambda>x. key x = key r) rows)"
    using assms by (auto simp: group_by_key_get)
  then show ?thesis by (auto simp: obj_get_def dest: map_of_SomeD)
qed

lemma distinct_group_keys: "distinct (map fst (obj_entries (group_by_key key rows)))"
  by (rule distinct_entries [OF group_by_key_wf])

lemma to_lower_append: "to_lower (a @ b) = to_lower a @ to_lower b"
  by (simp add: to_lower_def)

lemma str_includes_lower: "str_includes s p \<Longrightarrow> str_includes (to_lower s) (to_lower p)"
  unfolding str_includes_iff by (metis to_lower_append)

lemma filter_search_session:
  assumes "trim sid = sid" and "\<forall>r \<in> set rows. al_session_id r = Some sid \<longrightarrow> str_includes (rtext r) sid" and "sid \<noteq> ''No session''"
    and "sid \<noteq> []"
  shows "filter (\<lambda>r. session_key r = sid) (search_rows rtext sid rows) = filter (\<lambda>r. al_session_id r = Some sid) rows"
proof -
  have key: "session_key r = sid \<longleftrightarrow> al_session_id r = Some sid" for r
    using assms(3,4) by (cases "al_session_id r") (auto simp: session_key_def or_str_def)
  show ?thesis
    unfolding search_rows_def filter_filter
    by (rule filter_cong) (use assms(1,2) key in \<open>auto intro: str_includes_lower\<close>)
qed

section \<open>Properties\<close>

text \<open>
  Property C32. The audit log by sessions: the sections of a page hold every row of the page exactly once,
  one section per session, and a section holds the rows of its session in the order of the list. The
  dialog of a session shows exactly the events of that session, provided no more than a hundred rows
  match the search. But the events without a session, which have a section of their own, are searched
  for by the words \<^verbatim>\<open>No session\<close>: unless some row happens to contain these words the dialog says that
  there are none.
\<close>

theorem audit_sessions_complete:
  "mset (concat (map snd (sessions s))) = mset (pg_items (au_list s))
   \<and> distinct (map fst (sessions s))
   \<and> (\<forall>(k, logs) \<in> set (sessions s). logs = filter (\<lambda>r. session_key r = k) (pg_items (au_list s)) \<and> logs \<noteq> [])
   \<and> (trim sid = sid \<and> sid \<noteq> [] \<and> sid \<noteq> ''No session'' \<and> length (search_rows rtext sid rows) \<le> 100
        \<and> (\<forall>r \<in> set rows. al_session_id r = Some sid \<longrightarrow> str_includes (rtext r) sid) \<longrightarrow>
      au_selectedLogs (fst (viewSession_done sid (Inr (fst (paginate (search_rows rtext sid rows) 1 100))) s))
        = filter (\<lambda>r. al_session_id r = Some sid) rows)
   \<and> ((\<forall>r \<in> set rows. \<not> str_includes (to_lower (rtext r)) ''no session'') \<longrightarrow>
      av_session (AuditLogsPage (fst (viewSession_done ''No session'' (Inr (fst (paginate (search_rows rtext ''No session'' rows) 1 100)))
          (fst (viewSession_start ''No session'' s)))))
        = Some (''No session'', ListEmpty ''No audit events found for this session''))"
proof (intro conjI impI)
  show "mset (concat (map snd (sessions s))) = mset (pg_items (au_list s))"
    by (simp add: sessions_def group_by_key_mset)
  show "distinct (map fst (sessions s))" by (simp add: sessions_def distinct_group_keys)
  show "\<forall>(k, logs) \<in> set (sessions s). logs = filter (\<lambda>r. session_key r = k) (pg_items (au_list s)) \<and> logs \<noteq> []"
    using group_entry by (fastforce simp: sessions_def)
next
  assume a: "trim sid = sid \<and> sid \<noteq> [] \<and> sid \<noteq> ''No session'' \<and> length (search_rows rtext sid rows) \<le> 100
        \<and> (\<forall>r \<in> set rows. al_session_id r = Some sid \<longrightarrow> str_includes (rtext r) sid)"
  then have "fst (paginate (search_rows rtext sid rows) 1 100) = search_rows rtext sid rows" by (simp add: paginate_rows)
  with a show "au_selectedLogs (fst (viewSession_done sid (Inr (fst (paginate (search_rows rtext sid rows) 1 100))) s))
        = filter (\<lambda>r. al_session_id r = Some sid) rows"
    using filter_search_session [of sid rows rtext] by (simp add: viewSession_done_def)
next
  assume none: "\<forall>r \<in> set rows. \<not> str_includes (to_lower (rtext r)) ''no session''"
  have "trim ''No session'' = ''No session''" "to_lower ''No session'' = ''no session''" by code_simp+
  then have "search_rows rtext ''No session'' rows = []"
    using none by (simp add: search_rows_def filter_empty_conv)
  then show "av_session (AuditLogsPage (fst (viewSession_done ''No session'' (Inr (fst (paginate (search_rows rtext ''No session'' rows) 1 100)))
          (fst (viewSession_start ''No session'' s)))))
        = Some (''No session'', ListEmpty ''No audit events found for this session'')"
    by (simp add: viewSession_done_def viewSession_start_def AuditLogsPage_def Let_def paginate_def)
qed

definition demo_log :: audit_log where
  "demo_log = \<lparr>al_id = ''a1'', al_action = ''login'', al_actor_type = ''user'', al_resource_type = ''user'', al_resource_id = [],
     al_ip_address = [], al_request_id = None, al_session_id = Some ''s1'', al_created_at = [], al_tenant_name = None\<rparr>"

theorem audit_sessions_complete_witness:
  "au_selectedLogs (fst (viewSession_done ''s1'' (Inr (fst (paginate (search_rows (\<lambda>r. ''id s1'') ''s1'' [demo_log]) 1 100))) (audit_mount False)))
     = [demo_log]"
proof -
  have "trim ''s1'' = ''s1''" "str_includes ''id s1'' ''s1''" by code_simp+
  moreover have "length (search_rows (\<lambda>r. ''id s1'') ''s1'' [demo_log]) \<le> 100" by (simp add: search_rows_def)
  ultimately show ?thesis
    using audit_sessions_complete [of "audit_mount False" "''s1''" "\<lambda>r. ''id s1''" "[demo_log]"] by (simp add: demo_log_def)
qed

end
