(* ===== verification/Templates.thy ===== *)
theory Templates
  imports Paged_List Auth Template_Text
begin

text \<open>
  The page of message templates, \<^verbatim>\<open>src/notification-admin-ui/src/pages/templates/TemplatesPage.tsx\<close>: list,
  editor with preview, viewer and deletion. The dash of an empty tenant cell is \<^const>\<open>None\<close>, progress labels
  are written without their trailing ellipsis.
\<close>

section \<open>Data and state\<close>

record msg_template =
  mt_id :: string
  mt_tenant_id :: string
  mt_tenant_name :: "string option"
  mt_template_key :: string
  mt_channel :: string
  mt_subject :: string
  mt_body :: string
  mt_status :: string
  mt_created_at :: string

datatype template_modal = CreateTemplate | ViewTemplate msg_template | EditTemplate msg_template | DeleteTemplate msg_template

record template_form =
  tm_tenantId :: string
  tm_templateKey :: string
  tm_channel :: string
  tm_subject :: string
  tm_body :: string

datatype template_preview_mode = TextPreview | MarkdownPreview | HtmlPreview

definition emptyTemplateForm :: template_form where
  "emptyTemplateForm = \<lparr>tm_tenantId = [], tm_templateKey = [], tm_channel = ''email'', tm_subject = [], tm_body = []\<rparr>"

record template_filters =
  mf_tenant :: string
  mf_search :: string
  mf_channel :: string

record templates_page =
  mp_isPlatform :: bool
  mp_list :: "(template_filters, msg_template) paged"
  mp_tenants :: tenant_choices
  mp_error :: string
  mp_saving :: bool
  mp_modal :: "template_modal option"
  mp_form :: template_form
  mp_formPreviewMode :: template_preview_mode
  mp_viewMode :: template_preview_mode

definition templates_mount :: "bool \<Rightarrow> templates_page" where
  "templates_mount platform =
    \<lparr>mp_isPlatform = platform, mp_list = pg_mount \<lparr>mf_tenant = [], mf_search = [], mf_channel = []\<rparr>, mp_tenants = [], mp_error = [],
     mp_saving = False, mp_modal = None, mp_form = emptyTemplateForm, mp_formPreviewMode = TextPreview, mp_viewMode = TextPreview\<rparr>"

section \<open>Loading\<close>

definition templates_params :: "template_filters \<Rightarrow> int \<Rightarrow> int \<Rightarrow> pval obj" where
  "templates_params f p n =
    [(''tenant_id'', PStr (mf_tenant f)), (''q'', PStr (mf_search f)), (''filter_channel'', PStr (mf_channel f)),
     (''page'', PNum p), (''per_page'', PNum n)]"

definition templates_load :: "templates_page \<Rightarrow> templates_page \<Rightarrow> templates_page" where
  "templates_load p0 s = s\<lparr>mp_list := pg_load_as (pg_query (mp_list p0)) (mp_list s), mp_error := []\<rparr>"

definition templates_answer :: "nat \<Rightarrow> msg_template list_answer outcome \<Rightarrow> templates_page \<Rightarrow> templates_page \<times> toast_call list" where
  "templates_answer k res s =
    (s\<lparr>mp_list := pg_answer k res (mp_list s)\<rparr>,
     case res of Inr _ \<Rightarrow> [] | Inl err \<Rightarrow> [(TError, ''Unable to load templates'', Some (getErrorMessage err ''Load failed''))])"

definition template_tenants_loaded :: "tenant_choices outcome \<Rightarrow> templates_page \<Rightarrow> templates_page" where
  "template_tenants_loaded res s = s\<lparr>mp_tenants := tenants_or res (mp_tenants s)\<rparr>"

text \<open>A load caused by a change of the list clears the error line.\<close>

definition templates_relist :: "(template_filters, msg_template) paged \<Rightarrow> templates_page \<Rightarrow> templates_page" where
  "templates_relist l s = s\<lparr>mp_list := l, mp_error := (if l = mp_list s then mp_error s else [])\<rparr>"

definition templates_set_filter :: "template_filters \<Rightarrow> templates_page \<Rightarrow> templates_page" where
  "templates_set_filter f s = templates_relist (pg_set_filter f (mp_list s)) s"

section \<open>Editing\<close>

definition openCreate :: "templates_page \<Rightarrow> templates_page" where
  "openCreate s =
    s\<lparr>mp_form := emptyTemplateForm\<lparr>tm_tenantId := mf_tenant (pg_filters (mp_list s))\<rparr>, mp_error := [], mp_modal := Some CreateTemplate\<rparr>"

definition openEdit :: "msg_template \<Rightarrow> templates_page \<Rightarrow> templates_page" where
  "openEdit t s =
    s\<lparr>mp_form := \<lparr>tm_tenantId = mt_tenant_id t, tm_templateKey = mt_template_key t, tm_channel = or_str (mt_channel t) ''email'',
                  tm_subject = mt_subject t, tm_body = mt_body t\<rparr>,
      mp_error := [], mp_modal := Some (EditTemplate t)\<rparr>"

text \<open>The viewer keeps its preview mode itself and starts with the text.\<close>

definition view_template :: "msg_template \<Rightarrow> templates_page \<Rightarrow> templates_page" where
  "view_template t s = s\<lparr>mp_modal := Some (ViewTemplate t), mp_viewMode := TextPreview\<rparr>"

definition preview_view_as :: "template_preview_mode \<Rightarrow> templates_page \<Rightarrow> templates_page" where
  "preview_view_as m s = s\<lparr>mp_viewMode := m\<rparr>"

definition ask_delete_template :: "msg_template \<Rightarrow> templates_page \<Rightarrow> templates_page" where
  "ask_delete_template t s = s\<lparr>mp_modal := Some (DeleteTemplate t)\<rparr>"

definition close_template :: "templates_page \<Rightarrow> templates_page" where
  "close_template s = s\<lparr>mp_modal := None\<rparr>"

definition preview_form_as :: "template_preview_mode \<Rightarrow> templates_page \<Rightarrow> templates_page" where
  "preview_form_as m s = s\<lparr>mp_formPreviewMode := m\<rparr>"

definition template_incomplete :: "templates_page \<Rightarrow> bool" where
  "template_incomplete s \<longleftrightarrow>
     trim (tm_templateKey (mp_form s)) = [] \<or> tm_channel (mp_form s) = [] \<or> trim (tm_body (mp_form s)) = []
     \<or> (mp_isPlatform s \<and> mp_modal s = Some CreateTemplate \<and> tm_tenantId (mp_form s) = [])"

definition template_payload :: "template_form \<Rightarrow> json" where
  "template_payload f =
    str_obj [(''tenant_id'', tm_tenantId f), (''template_key'', trim (tm_templateKey f)), (''channel'', tm_channel f),
             (''subject'', trim (tm_subject f)), (''body'', tm_body f)]"

definition saveTemplate_start :: "templates_page \<Rightarrow> templates_page \<times> api_call option" where
  "saveTemplate_start s =
    (if template_incomplete s then (s\<lparr>mp_error := ''Complete all required fields before saving.''\<rparr>, None)
     else (s\<lparr>mp_saving := True, mp_error := []\<rparr>,
           Some (case mp_modal s of
                   Some (EditTemplate t) \<Rightarrow> api_send ''PUT'' (''/admin/api/v1/templates/'' @ mt_id t) (template_payload (mp_form s))
                 | _ \<Rightarrow> api_send ''POST'' ''/admin/api/v1/templates'' (template_payload (mp_form s)))))"

definition saveTemplate_done :: "templates_page \<Rightarrow> unit outcome \<Rightarrow> templates_page \<Rightarrow> templates_page \<times> toast_call list" where
  "saveTemplate_done p0 res s =
    (case res of
       Inr _ \<Rightarrow>
         ((templates_load p0 (s\<lparr>mp_modal := None\<rparr>))\<lparr>mp_saving := False\<rparr>,
          [(TSuccess, case mp_modal p0 of Some (EditTemplate _) \<Rightarrow> ''Template updated'' | _ \<Rightarrow> ''Template created'',
            Some (tm_templateKey (mp_form p0)))])
     | Inl err \<Rightarrow>
         (let msg = getErrorMessage err ''Unable to save template.''
          in (s\<lparr>mp_error := msg, mp_saving := False\<rparr>, [(TError, ''Unable to save template'', Some msg)])))"

definition removeTemplate_start :: "msg_template \<Rightarrow> templates_page \<Rightarrow> templates_page \<times> api_call" where
  "removeTemplate_start t s = (s\<lparr>mp_saving := True, mp_error := []\<rparr>, api_delete (''/admin/api/v1/templates/'' @ mt_id t))"

definition removeTemplate_done :: "templates_page \<Rightarrow> msg_template \<Rightarrow> unit outcome \<Rightarrow> templates_page \<Rightarrow> templates_page \<times> toast_call list" where
  "removeTemplate_done p0 t res s =
    (case res of
       Inr _ \<Rightarrow> ((templates_load p0 (s\<lparr>mp_modal := None\<rparr>))\<lparr>mp_saving := False\<rparr>, [(TSuccess, ''Template deleted'', Some (mt_template_key t))])
     | Inl err \<Rightarrow>
         (let msg = getErrorMessage err ''Unable to delete template.''
          in (s\<lparr>mp_error := msg, mp_saving := False\<rparr>, [(TError, ''Unable to delete template'', Some msg)])))"

section \<open>What is shown\<close>

text \<open>The preview: the subject, and the body as a document of its own, as text without marks, or as it is.\<close>

datatype preview_body = PreviewDocument string | PreviewText string

definition TemplatePreviewPanel :: "string \<Rightarrow> string \<Rightarrow> template_preview_mode \<Rightarrow> string option \<times> preview_body" where
  "TemplatePreviewPanel subject body mode =
    (if subject = [] then None else Some subject,
     case mode of
       HtmlPreview \<Rightarrow> PreviewDocument (or_str body ''<p></p>'')
     | MarkdownPreview \<Rightarrow> PreviewText (or_str (renderMarkdownLite body) ''No body content'')
     | TextPreview \<Rightarrow> PreviewText (or_str body ''No body content''))"

definition template_channel_options :: "select_option list" where
  "template_channel_options =
    [\<lparr>so_value = ''email'', so_label = ''Email'', so_disabled = False\<rparr>, \<lparr>so_value = ''sms'', so_label = ''SMS'', so_disabled = False\<rparr>,
     \<lparr>so_value = ''fcm'', so_label = ''FCM push'', so_disabled = False\<rparr>]"

record template_row =
  mr_key :: string
  mr_tenant :: "string option option"
  mr_channel :: string
  mr_subject :: string
  mr_status :: string
  mr_edit :: bool
  mr_delete :: bool

definition template_row_of :: "principal option \<Rightarrow> templates_page \<Rightarrow> msg_template \<Rightarrow> template_row" where
  "template_row_of user s t =
    \<lparr>mr_key = mt_template_key t, mr_tenant = (if mp_isPlatform s then Some (or_dash (or_opt (mt_tenant_name t) [])) else None),
     mr_channel = mt_channel t, mr_subject = or_str (mt_subject t) ''No subject'', mr_status = mt_status t,
     mr_edit = hasPermission user ''templates.update'', mr_delete = hasPermission user ''templates.delete''\<rparr>"

record template_form_view =
  tfv_title :: string
  tfv_error :: string
  tfv_tenants :: "select_option list option"
  tfv_subject_hint :: string
  tfv_preview :: "string option \<times> preview_body"
  tfv_save :: "bool \<times> string"

definition template_form_of :: "templates_page \<Rightarrow> bool \<Rightarrow> template_form_view" where
  "template_form_of s creating =
    \<lparr>tfv_title = (if creating then ''Create notification template'' else ''Edit notification template''), tfv_error = mp_error s,
     tfv_tenants = (if mp_isPlatform s \<and> creating
       then Some (map (\<lambda>(t, st). \<lparr>so_value = to_id t, so_label = to_name t, so_disabled = False\<rparr>) (filter (\<lambda>(t, st). st = ''active'') (mp_tenants s)))
       else None),
     tfv_subject_hint = (if tm_channel (mp_form s) = ''email'' then ''Email subject line. Variables are supported.'' else ''Optional for this channel.''),
     tfv_preview = TemplatePreviewPanel (tm_subject (mp_form s)) (tm_body (mp_form s)) (mp_formPreviewMode s),
     tfv_save = (\<not> mp_saving s, if mp_saving s then ''Saving'' else if creating then ''Create template'' else ''Save changes'')\<rparr>"

datatype template_dialog =
    TemplateForm template_form_view
  | TemplateView "(string \<times> string) list" "string option \<times> preview_body" bool
  | TemplateDelete string string bool string

definition TemplatePreview :: "templates_page \<Rightarrow> msg_template \<Rightarrow> bool \<Rightarrow> template_dialog" where
  "TemplatePreview s t editable =
    TemplateView [(''Channel'', mt_channel t), (''Tenant'', or_opt (mt_tenant_name t) ''Current tenant''), (''Status'', mt_status t)]
      (TemplatePreviewPanel (mt_subject t) (mt_body t) (mp_viewMode s)) editable"

definition template_dialog_of :: "principal option \<Rightarrow> templates_page \<Rightarrow> template_dialog option" where
  "template_dialog_of user s =
    (case mp_modal s of
       None \<Rightarrow> None
     | Some CreateTemplate \<Rightarrow> Some (TemplateForm (template_form_of s True))
     | Some (EditTemplate t) \<Rightarrow> Some (TemplateForm (template_form_of s False))
     | Some (ViewTemplate t) \<Rightarrow>
         Some (TemplatePreview s t (hasPermission user ''templates.update''))
     | Some (DeleteTemplate t) \<Rightarrow>
         Some (TemplateDelete (mt_template_key t) (mp_error s) (\<not> mp_saving s) (if mp_saving s then ''Deleting'' else ''Delete template'')))"

record templates_view =
  mv_create :: bool
  mv_clear :: bool
  mv_rows :: "template_row list_content"
  mv_footer :: "pagination_view option"
  mv_dialog :: "template_dialog option"

definition TemplatesPage :: "principal option \<Rightarrow> templates_page \<Rightarrow> templates_view" where
  "TemplatesPage user s =
    (let f = pg_filters (mp_list s)
     in \<lparr>mv_create = hasPermission user ''templates.create'', mv_clear = (mf_search f \<noteq> [] \<or> mf_channel f \<noteq> [] \<or> mf_tenant f \<noteq> []),
         mv_rows = table_content ''No templates found'' (template_row_of user s) (mp_list s),
         mv_footer = (if pg_loading (mp_list s) then None else Some (footer_of (mp_list s))),
         mv_dialog = template_dialog_of user s\<rparr>)"

text \<open>
  What the server asks of a template, \<^verbatim>\<open>UpdateTemplate\<close> of
  \<^verbatim>\<open>src/notification-core-api/internal/http/handlers/crud.go\<close>, and the row it stores.
\<close>

definition UpdateTemplate :: "json \<Rightarrow> msg_template \<Rightarrow> msg_template option" where
  "UpdateTemplate body t =
    (let text = (\<lambda>k. case jprop body k of Some (JStr v) \<Rightarrow> v | _ \<Rightarrow> [])
     in if text ''template_key'' = [] \<or> text ''channel'' = [] \<or> text ''body'' = [] then None
        else Some (t\<lparr>mt_template_key := text ''template_key'', mt_channel := text ''channel'', mt_subject := text ''subject'',
                     mt_body := text ''body''\<rparr>))"

section \<open>The page under a user and a server\<close>

inductive templates_step ::
    "(template_filters \<times> int \<times> int \<Rightarrow> msg_template list_answer) \<Rightarrow> templates_page \<Rightarrow> templates_page \<Rightarrow> bool" for ans where
  filter: "templates_step ans s (templates_set_filter f s)"
| turn: "pg_turn (mp_list s) l \<Longrightarrow> templates_step ans s (templates_relist l s)"
| rows: "pg_pending (mp_list s) = q # qs \<Longrightarrow> templates_step ans s (fst (templates_answer 0 (Inr (ans q)) s))"
| tenants: "templates_step ans s (template_tenants_loaded ts s)"
| open_dialog: "s' \<in> {openCreate s, openEdit t s, view_template t s, ask_delete_template t s, close_template s} \<Longrightarrow> templates_step ans s s'"
| typed: "templates_step ans s (s\<lparr>mp_form := f\<rparr>)"
| mode: "s' \<in> {preview_form_as m s, preview_view_as m s} \<Longrightarrow> templates_step ans s s'"
| save: "templates_step ans s (fst (saveTemplate_start s))"
| saved: "pg_query (mp_list p0) = pg_query (mp_list s) \<Longrightarrow> templates_step ans s (fst (saveTemplate_done p0 res s))"
| remove: "templates_step ans s (fst (removeTemplate_start t s))"
| removed: "pg_query (mp_list p0) = pg_query (mp_list s) \<Longrightarrow> templates_step ans s (fst (removeTemplate_done p0 t res s))"

section \<open>Lemmas\<close>

interpretation templates_source: list_source "''/admin/api/v1/templates''" templates_params
  by unfold_locales (simp_all add: templates_params_def obj_wf_def)

lemmas template_handler_defs =
  templates_set_filter_def templates_relist_def templates_answer_def template_tenants_loaded_def openCreate_def openEdit_def
  view_template_def ask_delete_template_def close_template_def preview_form_as_def preview_view_as_def saveTemplate_start_def saveTemplate_done_def
  removeTemplate_start_def removeTemplate_done_def templates_load_def

interpretation templates_list: list_page mp_list "\<lambda>s. \<exists>platform. s = templates_mount platform" templates_step
proof unfold_locales
  fix ans s s'
  assume "templates_step ans s s'"
  then show "mp_list s' = mp_list s \<or> pg_step ans (mp_list s) (mp_list s')"
    by cases (auto simp: template_handler_defs Let_def split: sum.splits intro: pg_page_steps)
qed (auto simp: templates_mount_def)

interpretation templates_served: served_page mp_list "\<lambda>s. \<exists>platform. s = templates_mount platform" templates_step
  "''/admin/api/v1/templates''" templates_params ..

lemma template_payload_get:
  "jprop (template_payload f) ''template_key'' = Some (JStr (trim (tm_templateKey f)))"
  "jprop (template_payload f) ''channel'' = Some (JStr (tm_channel f))"
  "jprop (template_payload f) ''subject'' = Some (JStr (trim (tm_subject f)))"
  "jprop (template_payload f) ''body'' = Some (JStr (tm_body f))"
  by (simp_all add: template_payload_def)

lemma updated_by_payload:
  "UpdateTemplate (template_payload f) t =
     (if trim (tm_templateKey f) = [] \<or> tm_channel f = [] \<or> tm_body f = [] then None
      else Some (t\<lparr>mt_template_key := trim (tm_templateKey f), mt_channel := tm_channel f, mt_subject := trim (tm_subject f), mt_body := tm_body f\<rparr>))"
  by (simp add: UpdateTemplate_def template_payload_get Let_def)

section \<open>Properties\<close>


definition demo_msg_template :: msg_template where
  "demo_msg_template = \<lparr>mt_id = ''m1'', mt_tenant_id = ''t1'', mt_tenant_name = None, mt_template_key = ''k'', mt_channel = ''sms'',
     mt_subject = [], mt_body = ''b'', mt_status = ''active'', mt_created_at = []\<rparr>"


end
