(* ===== verification/Integration.thy ===== *)
theory Integration
  imports Paged_List
begin

text \<open>
  The integration guide, \<^verbatim>\<open>src/notification-admin-ui/src/pages/integration/IntegrationGuide.tsx\<close> with its page
  \<^verbatim>\<open>IntegrationPage.tsx\<close>: loading, the texts of the examples, copying, and what is shown. Texts of several
  lines are joined by line feeds; the dot between the two limits of a channel is a plain one.
\<close>

section \<open>Data and state\<close>

record guide_summary =
  gs_status :: string
  gs_completion_percent :: int
  gs_active_credentials :: int
  gs_enabled_channels :: int
  gs_rate_limit_per_second :: int
  gs_daily_quota :: int
  gs_recommended_next_action :: string

record guide_step =
  gt_id :: string
  gt_label :: string
  gt_complete :: bool
  gt_description :: string
  gt_action_path :: string

record guide_channel =
  gc_channel :: string
  gc_rate_limit_per_second :: int
  gc_daily_quota :: int

record guide_error =
  ge_notification_id :: string
  ge_status :: string
  ge_failure_code :: string
  ge_suggested_action :: string

record guide_data =
  gi_tenant_id :: string
  gi_tenant_name :: string
  gi_tenant_slug :: string
  gi_api_base_url :: string
  gi_api_version :: string
  gi_auth_header :: string
  gi_summary :: guide_summary
  gi_checklist :: "guide_step list"
  gi_channels :: "guide_channel list"
  gi_recent_errors :: "guide_error list"

record guide_page =
  ig_data :: "guide_data option"
  ig_loading :: bool
  ig_error :: string
  ig_tab :: string
  ig_copied :: string

definition guide_mount :: "string \<Rightarrow> guide_page \<times> api_call" where
  "guide_mount endpoint = (\<lparr>ig_data = None, ig_loading = True, ig_error = [], ig_tab = ''curl'', ig_copied = []\<rparr>, api_get endpoint)"

definition guide_loaded :: "guide_data outcome \<Rightarrow> guide_page \<Rightarrow> guide_page" where
  "guide_loaded res s =
    (case res of
       Inr d \<Rightarrow> s\<lparr>ig_data := Some d, ig_error := []\<rparr>
     | Inl err \<Rightarrow> s\<lparr>ig_error := getErrorMessage err ''Unable to load integration guide''\<rparr>)\<lparr>ig_loading := False\<rparr>"

text \<open>A new endpoint loads again and keeps what was loaded before.\<close>

definition guide_endpoint_changed :: "string \<Rightarrow> guide_page \<Rightarrow> guide_page \<times> api_call" where
  "guide_endpoint_changed endpoint s = (s\<lparr>ig_loading := True\<rparr>, api_get endpoint)"

definition choose_example :: "string \<Rightarrow> guide_page \<Rightarrow> guide_page" where
  "choose_example t s = s\<lparr>ig_tab := t\<rparr>"

text \<open>After the text is on the clipboard the mark is set, and a timer clears it.\<close>

definition mark_copied :: "string \<Rightarrow> guide_page \<Rightarrow> guide_page" where
  "mark_copied i s = s\<lparr>ig_copied := i\<rparr>"

section \<open>The examples\<close>

definition lines_of :: "string list \<Rightarrow> string" where
  "lines_of ls = join_str [CHR 10] ls"

definition quote :: string where
  "quote = [CHR 0x27]"

definition example_url :: "guide_data \<Rightarrow> string" where
  "example_url d = gi_api_base_url d @ ''/notifications''"

definition example_payload :: "string \<Rightarrow> string" where
  \<open>example_payload slug = lines_of
    [''{'', ''  "event": "integration.test",'', ''  "channels": ["email"],'', ''  "template": "welcome",'', ''  "target": {'',
     ''    "type": "single",'', ''    "recipient": {'', ''      "email": "developer@example.com"'', ''    }'', ''  },'', ''  "data": {'',
     ''    "customer_name": "Developer",'', ''    "message": "Hello from '' @ slug @ ''"'', ''  },'', ''  "priority": 5,'',
     ''  "schedule": { "type": "instant" },'', ''  "idempotency_key": "integration-test-001"'', ''}'']\<close>

definition phpArrayPayload :: "string \<Rightarrow> string" where
  \<open>phpArrayPayload slug = lines_of
    [''['', ''  \'event\' => \'integration.test\','', ''  \'channels\' => [\'email\'],'', ''  \'template\' => \'welcome\','',
     ''  \'target\' => [\'type\' => \'single\', \'recipient\' => [\'email\' => \'developer@example.com\']],'',
     ''  \'data\' => [\'customer_name\' => \'Developer\', \'message\' => \'Hello from '' @ slug @ ''\'],'',
     ''  \'priority\' => 5,'', ''  \'schedule\' => [\'type\' => \'instant\'],'', ''  \'idempotency_key\' => \'integration-test-001\','', '']'']\<close>

definition pythonPayload :: "string \<Rightarrow> string" where
  \<open>pythonPayload slug = lines_of
    [''{'', ''    \'event\': \'integration.test\','', ''    \'channels\': [\'email\'],'', ''    \'template\': \'welcome\','',
     ''    \'target\': {\'type\': \'single\', \'recipient\': {\'email\': \'developer@example.com\'}},'',
     ''    \'data\': {\'customer_name\': \'Developer\', \'message\': \'Hello from '' @ slug @ ''\'},'',
     ''    \'priority\': 5,'', ''    \'schedule\': {\'type\': \'instant\'},'', ''    \'idempotency_key\': \'integration-test-001\','', ''}'']\<close>

definition curl_example :: "string \<Rightarrow> string \<Rightarrow> string" where
  \<open>curl_example url payload = lines_of
    [''curl --request POST '' @ quote @ url @ ''\' '' @ [CHR 0x5C], ''  --header \'Authorization: Bearer YOUR_API_KEY\' '' @ [CHR 0x5C],
     ''  --header \'Content-Type: application/json\' '' @ [CHR 0x5C], ''  --data '' @ quote @ payload @ quote]\<close>

definition js_example :: "string \<Rightarrow> string \<Rightarrow> string" where
  \<open>js_example url payload = lines_of
    [''const response = await fetch('' @ quote @ url @ ''\', {'', ''  method: \'POST\','', ''  headers: {'',
     ''    Authorization: \'Bearer YOUR_API_KEY\','', ''    \'Content-Type\': \'application/json'' @ quote, ''  },'',
     ''  body: JSON.stringify('' @ payload @ '')'', ''});'', ''const body = await response.json();'',
     ''if (!response.ok) throw new Error(body.error || \'Notification failed\');'', ''console.log(body.notification_id);'']\<close>

definition node_example :: "string \<Rightarrow> string \<Rightarrow> string" where
  \<open>node_example url payload = lines_of
    [''import fetch from \'node-fetch\';'', [], ''const controller = new AbortController();'',
     ''setTimeout(() => controller.abort(), 10000);'', [], ''const response = await fetch('' @ quote @ url @ ''\', {'', ''  method: \'POST\','',
     ''  signal: controller.signal,'', ''  headers: { Authorization: \'Bearer YOUR_API_KEY\', \'Content-Type\': \'application/json\' },'',
     ''  body: JSON.stringify('' @ payload @ '')'', ''});'', ''console.log(response.status, await response.json());'']\<close>

definition php_example :: "string \<Rightarrow> string \<Rightarrow> string" where
  \<open>php_example url slug = lines_of
    [''<?php'', ''$payload = '' @ phpArrayPayload slug @ '';'', ''$ch = curl_init('' @ quote @ url @ ''\');'', ''curl_setopt_array($ch, ['',
     ''  CURLOPT_POST => true,'', ''  CURLOPT_HTTPHEADER => [\'Authorization: Bearer YOUR_API_KEY\', \'Content-Type: application/json\'],'',
     ''  CURLOPT_POSTFIELDS => json_encode($payload),'', ''  CURLOPT_RETURNTRANSFER => true,'', ''  CURLOPT_TIMEOUT => 10,'', '']);'',
     ''$body = curl_exec($ch);'', ''$status = curl_getinfo($ch, CURLINFO_HTTP_CODE);'', ''curl_close($ch);'', ''echo $status . PHP_EOL . $body;'']\<close>

definition laravel_example :: "string \<Rightarrow> string \<Rightarrow> string" where
  \<open>laravel_example url slug = lines_of
    [''use Illuminate'' @ [CHR 0x5C] @ ''Support'' @ [CHR 0x5C] @ ''Facades'' @ [CHR 0x5C] @ ''Http;'', [], ''$response = Http::timeout(10)'',
     ''    ->withToken(\'YOUR_API_KEY\')'', ''    ->post('' @ quote @ url @ ''\', '' @ phpArrayPayload slug @ '');'', [],
     ''if ($response->failed()) {'', ''    throw new RuntimeException($response->body());'', ''}'', [],
     ''$notificationId = $response->json(\'notification_id\');'']\<close>

definition python_example :: "string \<Rightarrow> string \<Rightarrow> string" where
  \<open>python_example url slug = lines_of
    [''import requests'', [], ''payload = '' @ pythonPayload slug, ''response = requests.post('', ''    '' @ quote @ url @ ''\','',
     ''    headers={\'Authorization\': \'Bearer YOUR_API_KEY\', \'Content-Type\': \'application/json\'},'', ''    json=payload,'',
     ''    timeout=10,'', '')'', ''response.raise_for_status()'', ''print(response.json()[\'notification_id\'])'']\<close>

definition go_example :: "string \<Rightarrow> string \<Rightarrow> string" where
  \<open>go_example url payload = lines_of
    [''package main'', [], ''import ('', ''  "bytes"'', ''  "context"'', ''  "fmt"'', ''  "net/http"'', ''  "time"'', '')'', [], ''func main() {'',
     ''  body := []byte('' @ [CHR 0x60] @ payload @ [CHR 0x60] @ '')'',
     ''  ctx, cancel := context.WithTimeout(context.Background(), 10*time.Second)'', ''  defer cancel()'',
     ''  req, _ := http.NewRequestWithContext(ctx, http.MethodPost, "'' @ url @ ''", bytes.NewReader(body))'',
     ''  req.Header.Set("Authorization", "Bearer YOUR_API_KEY")'', ''  req.Header.Set("Content-Type", "application/json")'',
     ''  resp, err := http.DefaultClient.Do(req)'', ''  if err != nil { panic(err) }'', ''  defer resp.Body.Close()'',
     ''  fmt.Println(resp.Status)'', ''}'']\<close>

definition buildExamples :: "guide_data \<Rightarrow> string obj" where
  "buildExamples d =
    (let url = example_url d; slug = gi_tenant_slug d; payload = example_payload slug
     in [(''curl'', curl_example url payload), (''JavaScript'', js_example url payload), (''Node'', node_example url payload),
         (''PHP'', php_example url slug), (''Laravel'', laravel_example url slug), (''Python'', python_example url slug),
         (''Go'', go_example url payload)])"

definition examples :: "guide_page \<Rightarrow> string obj" where
  "examples s = (case ig_data s of Some d \<Rightarrow> buildExamples d | None \<Rightarrow> [])"

text \<open>The text the copy button puts on the clipboard.\<close>

definition copy_example :: "guide_page \<Rightarrow> string \<times> string" where
  "copy_example s = (ig_tab s, or_opt (obj_get (examples s) (ig_tab s)) [])"

section \<open>What is shown\<close>

record guide_content =
  gw_heading :: string
  gw_tenant_id :: string
  gw_next_action :: string
  gw_status :: "badge_tone \<times> string"
  gw_metrics :: "(string \<times> string) list"
  gw_environment :: "(string \<times> string \<times> string option) list"
  gw_progress :: string
  gw_steps :: "(bool \<times> string \<times> string \<times> string) list"
  gw_cards :: "(string \<times> string option) list"
  gw_tabs :: "string list"
  gw_example :: "string option \<times> string"
  gw_channels :: "(string \<times> string) list"
  gw_errors :: "(string \<times> (badge_tone \<times> string) \<times> string) list"

text \<open>A line of the environment: its copy button, where it has one, says whether the value was just copied.\<close>

definition Info :: "string \<Rightarrow> string \<Rightarrow> bool option \<Rightarrow> string \<times> string \<times> string option" where
  "Info label value copied = (label, or_str value ''-'', map_option (\<lambda>c. if c then ''Copied'' else ''Copy'') copied)"

datatype guide_view = GuideNote string | GuideContent guide_content

definition IntegrationGuide :: "string option \<Rightarrow> guide_page \<Rightarrow> guide_view" where
  "IntegrationGuide platformTenantId s =
    (if ig_loading s then GuideNote ''Loading integration guide...''
     else if ig_error s \<noteq> [] then GuideNote (ig_error s)
     else case ig_data s of
       None \<Rightarrow> GuideNote ''No integration data found''
     | Some d \<Rightarrow> GuideContent
        \<lparr>gw_heading = gi_tenant_name d @ '' integration'', gw_tenant_id = gi_tenant_id d,
         gw_next_action = gs_recommended_next_action (gi_summary d), gw_status = StatusBadge (StatusText (Some (gs_status (gi_summary d)))),
         gw_metrics = [(''Completion'', int_str (gs_completion_percent (gi_summary d)) @ ''%''),
           (''Active credentials'', int_str (gs_active_credentials (gi_summary d))), (''Enabled channels'', int_str (gs_enabled_channels (gi_summary d))),
           (''Requests/sec across enabled channels'', int_str (gs_rate_limit_per_second (gi_summary d))),
           (''Daily quota across enabled channels'', int_str (gs_daily_quota (gi_summary d)))],
         gw_environment = [Info ''API base URL'' (gi_api_base_url d) (Some (ig_copied s = ''api-base'')),
           Info ''Version'' (gi_api_version d) None, Info ''Auth'' (gi_auth_header d) None],
         gw_progress = int_str (int (length (filter gt_complete (gi_checklist d)))) @ ''/'' @ int_str (int (length (gi_checklist d))) @ '' complete'',
         gw_steps = map (\<lambda>i. (gt_complete i, gt_label i, gt_description i, gt_action_path i)) (gi_checklist d),
         gw_cards = [(''1. Create credentials'', Some (case platformTenantId of
              Some t \<Rightarrow> if t \<noteq> [] then ''/tenants/'' @ t else ''/api-keys'' | None \<Rightarrow> ''/api-keys'')),
            (''2. Authenticate'', None), (''3. Send and inspect'', Some ''/notifications'')],
         gw_tabs = obj_keys (examples s),
         gw_example = (obj_get (examples s) (ig_tab s), if ig_copied s = ig_tab s then ''Copied'' else ''Copy''),
         gw_channels = map (\<lambda>c. (replace_all_char CHR ''_'' CHR '' '' (gc_channel c),
            int_str (gc_rate_limit_per_second c) @ ''/s . '' @ int_str (gc_daily_quota c) @ ''/day'')) (gi_channels d),
         gw_errors = map (\<lambda>e. (ge_notification_id e, StatusBadge (StatusText (Some (ge_status e))),
            ge_failure_code e @ '': '' @ ge_suggested_action e)) (gi_recent_errors d)\<rparr>)"

definition IntegrationPage :: "guide_page \<times> api_call" where
  "IntegrationPage = guide_mount ''/admin/api/v1/integration''"

section \<open>The guide under a user\<close>

inductive guide_turn :: "guide_page \<Rightarrow> guide_page \<Rightarrow> bool" where
  loaded: "guide_turn s (guide_loaded res s)"
| tab: "IntegrationGuide p s = GuideContent c \<Longrightarrow> t \<in> set (gw_tabs c) \<Longrightarrow> guide_turn s (choose_example t s)"
| copied: "guide_turn s (mark_copied i s)"
| endpoint: "guide_turn s (fst (guide_endpoint_changed e s))"

section \<open>Lemmas\<close>

lemma str_includes_append: "str_includes a p \<Longrightarrow> str_includes (a @ b) p" "str_includes b p \<Longrightarrow> str_includes (a @ b) p"
  by (auto simp: str_includes_iff) (metis append.assoc)+

lemma str_includes_join: "l \<in> set ls \<Longrightarrow> str_includes l p \<Longrightarrow> str_includes (join_str sep ls) p"
  by (induction sep ls rule: join_str.induct) (auto intro: str_includes_append)

lemma starts_with_simps [simp]:
  "starts_with (p @ v) p" "starts_with s []" "\<not> starts_with [] (a # p)" "starts_with (b # s) (a # p) \<longleftrightarrow> b = a \<and> starts_with s p"
  by (auto simp: starts_with_def)

lemma str_includes_line: "n < length ls \<Longrightarrow> str_includes (ls ! n) p \<Longrightarrow> str_includes (lines_of ls) p"
  by (auto simp: lines_of_def intro: str_includes_join [OF nth_mem])

definition greeting :: "string \<Rightarrow> string" where
  "greeting slug = ''Hello from '' @ slug"

lemma payload_names_tenant [simp]:
  "str_includes (example_payload slug) (greeting slug)"
  "str_includes (phpArrayPayload slug) (greeting slug)"
  "str_includes (pythonPayload slug) (greeting slug)"
  unfolding greeting_def example_payload_def phpArrayPayload_def pythonPayload_def
    apply (rule str_includes_line [of 12]; simp)
   apply (rule str_includes_line [of 5]; simp)
  apply (rule str_includes_line [of 5]; simp)
  done

lemma str_includes_prefix [simp]: "str_includes (p @ v) p" "str_includes p p"
  unfolding str_includes_iff by (metis append_Nil append_Nil2)+

text \<open>What every example has: the address, the placeholder of the key, and the greeting of the tenant.\<close>

definition usable_example :: "guide_data \<Rightarrow> string \<Rightarrow> bool" where
  "usable_example d t \<longleftrightarrow> str_includes t (example_url d) \<and> str_includes t ''YOUR_API_KEY'' \<and> str_includes t (greeting (gi_tenant_slug d))"

lemma curl_example_usable:
  "str_includes (curl_example url payload) url" "str_includes (curl_example url payload) ''YOUR_API_KEY''"
  "str_includes (payload) p \<Longrightarrow> str_includes (curl_example url payload) p"
  unfolding curl_example_def
    apply (rule str_includes_line [of 0]; simp add: str_includes_append)
   apply (rule str_includes_line [of 1]; simp add: str_includes_append)
  apply (rule str_includes_line [of 3]; simp add: str_includes_append)
  done

lemma js_example_usable:
  "str_includes (js_example url payload) url" "str_includes (js_example url payload) ''YOUR_API_KEY''"
  "str_includes (payload) p \<Longrightarrow> str_includes (js_example url payload) p"
  unfolding js_example_def
    apply (rule str_includes_line [of 0]; simp add: str_includes_append)
   apply (rule str_includes_line [of 3]; simp add: str_includes_append)
  apply (rule str_includes_line [of 6]; simp add: str_includes_append)
  done

lemma node_example_usable:
  "str_includes (node_example url payload) url" "str_includes (node_example url payload) ''YOUR_API_KEY''"
  "str_includes (payload) p \<Longrightarrow> str_includes (node_example url payload) p"
  unfolding node_example_def
    apply (rule str_includes_line [of 5]; simp add: str_includes_append)
   apply (rule str_includes_line [of 8]; simp add: str_includes_append)
  apply (rule str_includes_line [of 9]; simp add: str_includes_append)
  done

lemma php_example_usable:
  "str_includes (php_example url slug) url" "str_includes (php_example url slug) ''YOUR_API_KEY''"
  "str_includes (phpArrayPayload slug) p \<Longrightarrow> str_includes (php_example url slug) p"
  unfolding php_example_def
    apply (rule str_includes_line [of 2]; simp add: str_includes_append)
   apply (rule str_includes_line [of 5]; simp add: str_includes_append)
  apply (rule str_includes_line [of 1]; simp add: str_includes_append)
  done

lemma laravel_example_usable:
  "str_includes (laravel_example url slug) url" "str_includes (laravel_example url slug) ''YOUR_API_KEY''"
  "str_includes (phpArrayPayload slug) p \<Longrightarrow> str_includes (laravel_example url slug) p"
  unfolding laravel_example_def
    apply (rule str_includes_line [of 4]; simp add: str_includes_append)
   apply (rule str_includes_line [of 3]; simp add: str_includes_append)
  apply (rule str_includes_line [of 4]; simp add: str_includes_append)
  done

lemma python_example_usable:
  "str_includes (python_example url slug) url" "str_includes (python_example url slug) ''YOUR_API_KEY''"
  "str_includes (pythonPayload slug) p \<Longrightarrow> str_includes (python_example url slug) p"
  unfolding python_example_def
    apply (rule str_includes_line [of 4]; simp add: str_includes_append)
   apply (rule str_includes_line [of 5]; simp add: str_includes_append)
  apply (rule str_includes_line [of 2]; simp add: str_includes_append)
  done

lemma go_example_usable:
  "str_includes (go_example url payload) url" "str_includes (go_example url payload) ''YOUR_API_KEY''"
  "str_includes (payload) p \<Longrightarrow> str_includes (go_example url payload) p"
  unfolding go_example_def
    apply (rule str_includes_line [of 14]; simp add: str_includes_append)
   apply (rule str_includes_line [of 15]; simp add: str_includes_append)
  apply (rule str_includes_line [of 11]; simp add: str_includes_append)
  done

lemmas example_usable = curl_example_usable js_example_usable node_example_usable php_example_usable laravel_example_usable
  python_example_usable go_example_usable

lemma buildExamples_usable: "(k, t) \<in> set (buildExamples d) \<Longrightarrow> usable_example d t"
  by (auto simp: buildExamples_def Let_def usable_example_def example_usable)


text \<open>The shown tab is one of the examples, from the first one on, whatever is loaded, chosen or copied.\<close>

definition guide_tabs :: "string list" where
  "guide_tabs = [''curl'', ''JavaScript'', ''Node'', ''PHP'', ''Laravel'', ''Python'', ''Go'']"

lemma buildExamples_keys: "fst ` set (buildExamples d) = set guide_tabs" "obj_get (buildExamples d) k = None \<longleftrightarrow> k \<notin> set guide_tabs"
  by (auto simp: buildExamples_def Let_def guide_tabs_def obj_get_def)

lemma set_examples_keys: "set (obj_keys (examples s)) \<subseteq> set guide_tabs"
  using buildExamples_keys(1) by (force simp: obj_keys_def examples_def split: option.splits)

lemma guide_view_cases:
  "IntegrationGuide p s = GuideContent c \<Longrightarrow>
     \<exists>d. ig_data s = Some d \<and> gw_tabs c = obj_keys (buildExamples d) \<and> fst (gw_example c) = obj_get (buildExamples d) (ig_tab s)"
  by (auto simp: IntegrationGuide_def examples_def split: if_splits option.splits)

lemma guide_turn_tab: "guide_turn s s' \<Longrightarrow> ig_tab s \<in> set guide_tabs \<Longrightarrow> ig_tab s' \<in> set guide_tabs"
proof (induction rule: guide_turn.induct)
  case (tab p s c t)
  then show ?case using guide_view_cases [OF tab.hyps(1)] set_examples_keys [of s]
    by (auto simp: choose_example_def examples_def)
qed (auto simp: guide_loaded_def mark_copied_def guide_endpoint_changed_def split: sum.splits)

interpretation guide: step_invariant guide_turn "\<lambda>s. ig_tab s \<in> set guide_tabs" "\<lambda>s. \<exists>e. s = fst (guide_mount e)"
  by unfold_locales (erule (1) guide_turn_tab, auto simp: guide_mount_def guide_tabs_def)

lemma guide_reachable_tab: "guide_turn\<^sup>*\<^sup>* (fst (guide_mount e)) s \<Longrightarrow> ig_tab s \<in> set guide_tabs"
  by (rule guide.always_run) blast+

lemma obj_get_in_set: "obj_get ob k = Some v \<Longrightarrow> (k, v) \<in> set ob"
  by (auto simp: obj_get_def dest: map_of_SomeD)

text \<open>
  Whatever happened on the guide before, when its content is shown then the chosen tab is one of the
  shown ones, an example is shown for it, the copy button copies exactly that text, and the text has the
  address of this tenant's API, the placeholder for the key, and the greeting with the tenant's slug.
\<close>

theorem integration_examples_usable:
  assumes "guide_turn\<^sup>*\<^sup>* (fst (guide_mount e)) s" and "IntegrationGuide p s = GuideContent c"
  shows "\<exists>d t. ig_data s = Some d \<and> ig_tab s \<in> set (gw_tabs c) \<and> fst (gw_example c) = Some t \<and> copy_example s = (ig_tab s, t) \<and>
    usable_example d t"
proof -
  obtain d where d: "ig_data s = Some d" "gw_tabs c = obj_keys (buildExamples d)" "fst (gw_example c) = obj_get (buildExamples d) (ig_tab s)"
    using guide_view_cases [OF assms(2)] by blast
  moreover obtain t where t: "obj_get (buildExamples d) (ig_tab s) = Some t"
    using guide_reachable_tab [OF assms(1)] buildExamples_keys(2) by fastforce
  ultimately show ?thesis
    using buildExamples_usable [OF obj_get_in_set [OF t]] buildExamples_keys(1) [of d] guide_reachable_tab [OF assms(1)]
    by (auto simp: copy_example_def examples_def obj_keys_def or_str_def)
qed

definition sample_guide :: guide_data where
  "sample_guide = \<lparr>gi_tenant_id = ''t1'', gi_tenant_name = ''Acme'', gi_tenant_slug = ''acme'', gi_api_base_url = ''https://n.example/api/v1'',
     gi_api_version = ''v1'', gi_auth_header = ''Authorization'',
     gi_summary = \<lparr>gs_status = ''active'', gs_completion_percent = 50, gs_active_credentials = 1, gs_enabled_channels = 1,
       gs_rate_limit_per_second = 10, gs_daily_quota = 1000, gs_recommended_next_action = ''Create a template''\<rparr>,
     gi_checklist = [], gi_channels = [], gi_recent_errors = []\<rparr>"

theorem integration_examples_usable_witness:
  "\<exists>d t. ig_data (guide_loaded (Inr sample_guide) (fst IntegrationPage)) = Some d \<and> copy_example (guide_loaded (Inr sample_guide) (fst IntegrationPage)) = (''curl'', t) \<and>
     usable_example d t"
proof -
  let ?s = "guide_loaded (Inr sample_guide) (fst IntegrationPage)"
  have "guide_turn\<^sup>*\<^sup>* (fst (guide_mount ''/admin/api/v1/integration'')) ?s"
    unfolding IntegrationPage_def by (rule r_into_rtranclp) (rule guide_turn.loaded)
  moreover obtain c where "IntegrationGuide None ?s = GuideContent c"
    by (simp add: IntegrationGuide_def IntegrationPage_def guide_loaded_def guide_mount_def)
  ultimately show ?thesis
    using integration_examples_usable [of _ ?s None c] by (fastforce simp: IntegrationPage_def guide_loaded_def guide_mount_def)
qed

end
