(* ===== verification/Tenant_Detail.thy ===== *)
theory Tenant_Detail
  imports Tenants Audit_Logs Templates Integration
begin

text \<open>
  The workspace of one tenant, \<^verbatim>\<open>src/notification-admin-ui/src/pages/tenants/TenantDetailPage.tsx\<close>: overview,
  switches for capabilities, channels and providers, the lists of the tenant, its audit log and the
  preview of its templates; beside it the statements the server runs for the three switches,
  \<^verbatim>\<open>UpdateFeature\<close>, \<^verbatim>\<open>UpdateChannel\<close> and \<^verbatim>\<open>UpdateProviderConfig\<close> of
  \<^verbatim>\<open>src/notification-core-api/internal/http/handlers/handlers.go\<close>. The tenant in the address does not
  change while the page is open. Rows of the plain tables are objects of texts and numbers. Dates stay
  as they came, dots between two parts of a line are plain.
\<close>

section \<open>Data and state\<close>

record ov_feature =
  ofe_id :: string
  ofe_identifier :: string
  ofe_feature_key :: string
  ofe_name :: string
  ofe_description :: string
  ofe_category :: string
  ofe_enabled :: bool

record ov_channel =
  och_id :: string
  och_channel :: string
  och_enabled :: bool
  och_direction :: string
  och_rate_limit :: int
  och_daily_quota :: int

record ov_provider =
  opr_id :: string
  opr_channel :: string
  opr_provider :: string
  opr_is_default :: bool
  opr_status :: string

record ov_counts =
  oc_users :: int
  oc_contacts :: int
  oc_templates :: int
  oc_campaigns :: int
  oc_api_keys :: int

record overview =
  ov_tenant :: tenant
  ov_features :: "ov_feature list"
  ov_channels :: "ov_channel list"
  ov_providers :: "ov_provider list"
  ov_counts :: ov_counts

record tenant_template =
  tt_id :: string
  tt_tenant_id :: string
  tt_template_key :: string
  tt_channel :: string
  tt_subject :: string
  tt_body :: "string option"
  tt_status :: string

datatype cell_value = CText string | CNum int

type_synonym sub_row = "cell_value obj"

text \<open>What a confirmed switch does: which item, and the value it is set to.\<close>

datatype switch_action = SwitchFeature string bool | SwitchChannel string bool | SwitchProvider string bool

record tenant_detail =
  td_id :: string
  td_isPlatform :: bool
  td_overview :: "overview option"
  td_loading :: bool
  td_error :: string
  td_tab :: string
  td_contacts :: "sub_row list"
  td_groups :: "sub_row list"
  td_templates :: "tenant_template list"
  td_campaigns :: "sub_row list"
  td_apiKeys :: "sub_row list"
  td_auditLogs :: "audit_log list"
  td_subLoading :: bool
  td_previewTemplate :: "tenant_template option"
  td_previewMode :: template_preview_mode
  td_selectedAuditSession :: string
  td_selectedAuditLogs :: "audit_log list"
  td_auditSessionLoading :: bool
  td_confirm :: "switch_action confirm_state"

definition tenant_detail_mount :: "string \<Rightarrow> principal option \<Rightarrow> tenant_detail \<times> api_call" where
  "tenant_detail_mount ident user =
    (\<lparr>td_id = ident, td_isPlatform = (case user of Some u \<Rightarrow> is_platform_admin u | None \<Rightarrow> False), td_overview = None, td_loading = True,
      td_error = [], td_tab = ''overview'', td_contacts = [], td_groups = [], td_templates = [], td_campaigns = [], td_apiKeys = [],
      td_auditLogs = [], td_subLoading = False, td_previewTemplate = None, td_previewMode = TextPreview, td_selectedAuditSession = [],
      td_selectedAuditLogs = [], td_auditSessionLoading = False, td_confirm = confirm_init\<rparr>,
     api_get (''/admin/api/v1/tenants/'' @ ident @ ''/overview''))"

definition overview_loaded :: "overview outcome \<Rightarrow> tenant_detail \<Rightarrow> tenant_detail" where
  "overview_loaded res s =
    (case res of
       Inr o1 \<Rightarrow> s\<lparr>td_overview := Some o1, td_error := []\<rparr>
     | Inl err \<Rightarrow> s\<lparr>td_error := getErrorMessage err ''Unable to load tenant detail''\<rparr>)\<lparr>td_loading := False\<rparr>"

section \<open>The lists of the tenant\<close>

definition row_of_tenant :: "string \<Rightarrow> sub_row \<Rightarrow> bool" where
  "row_of_tenant tenantId row \<longleftrightarrow> obj_get row ''tenant_id'' = Some (CText tenantId)"

text \<open>The request of a tab; the tabs that show the overview have none.\<close>

definition sub_call :: "string \<Rightarrow> string \<Rightarrow> api_call option" where
  "sub_call tabName tenantId =
    (if tabName \<in> {''contacts'', ''groups'', ''templates'', ''campaigns''}
     then Some (api_get (''/admin/api/v1/'' @ tabName @ ''?tenant_id='' @ tenantId))
     else if tabName = ''api-keys'' then Some (api_get ''/admin/api/v1/api-keys'')
     else if tabName = ''audit''
     then Some (api_get (listPage_url ''/admin/api/v1/audit-logs'' [(''tenant_id'', PStr tenantId), (''per_page'', PNum 100)]))
     else None)"

definition set_tab :: "string \<Rightarrow> tenant_detail \<Rightarrow> tenant_detail \<times> api_call option" where
  "set_tab t s =
    (if t = td_tab s then (s, None)
     else if t \<in> {''overview'', ''integration'', ''features'', ''channels'', ''providers''} then (s\<lparr>td_tab := t\<rparr>, None)
     else (s\<lparr>td_tab := t, td_subLoading := True\<rparr>, sub_call t (td_id s)))"

text \<open>The answer of a list request, by the tab it was made for.\<close>

datatype sub_answer =
    ContactRows "sub_row list" | GroupRows "sub_row list" | TemplateRows "tenant_template list" | CampaignRows "sub_row list"
  | KeyRows "sub_row list" | AuditRows "audit_log list"

definition sub_rows :: "string \<Rightarrow> sub_answer \<Rightarrow> tenant_detail \<Rightarrow> tenant_detail" where
  "sub_rows tenantId a s =
    (case a of
       ContactRows rs \<Rightarrow> s\<lparr>td_contacts := filter (row_of_tenant tenantId) rs\<rparr>
     | GroupRows rs \<Rightarrow> s\<lparr>td_groups := filter (row_of_tenant tenantId) rs\<rparr>
     | TemplateRows ts \<Rightarrow> s\<lparr>td_templates := filter (\<lambda>t. tt_tenant_id t = tenantId) ts\<rparr>
     | CampaignRows rs \<Rightarrow> s\<lparr>td_campaigns := filter (row_of_tenant tenantId) rs\<rparr>
     | KeyRows rs \<Rightarrow> s\<lparr>td_apiKeys := filter (row_of_tenant tenantId) rs\<rparr>
     | AuditRows rs \<Rightarrow> s\<lparr>td_auditLogs := rs\<rparr>)"

definition loadSubData_done :: "string \<Rightarrow> sub_answer outcome \<Rightarrow> tenant_detail \<Rightarrow> tenant_detail \<times> toast_call list" where
  "loadSubData_done tenantId res s =
    (case res of
       Inr a \<Rightarrow> ((sub_rows tenantId a s)\<lparr>td_subLoading := False\<rparr>, [])
     | Inl err \<Rightarrow> (s\<lparr>td_subLoading := False\<rparr>, [(TError, ''Unable to load tenant data'', Some (getErrorMessage err ''Request failed''))]))"

section \<open>Switches\<close>

definition switch_call :: "switch_action \<Rightarrow> api_call" where
  "switch_call a =
    (case a of
       SwitchFeature i b \<Rightarrow> api_send ''PUT'' (''/admin/api/v1/features/'' @ i) (JObj [(''enabled'', JBool b)])
     | SwitchChannel i b \<Rightarrow> api_send ''PUT'' (''/admin/api/v1/channels/'' @ i) (JObj [(''enabled'', JBool b)])
     | SwitchProvider i b \<Rightarrow>
         api_send ''PUT'' (''/admin/api/v1/providers/'' @ i) (JObj [(''status'', JStr (if b then ''active'' else ''disabled''))]))"

definition set_feature :: "string \<Rightarrow> bool \<Rightarrow> ov_feature list \<Rightarrow> ov_feature list" where
  "set_feature i b fs = map (\<lambda>f. if ofe_id f = i then f\<lparr>ofe_enabled := b\<rparr> else f) fs"

definition set_channel :: "string \<Rightarrow> bool \<Rightarrow> ov_channel list \<Rightarrow> ov_channel list" where
  "set_channel i b cs = map (\<lambda>c. if och_id c = i then c\<lparr>och_enabled := b\<rparr> else c) cs"

definition set_provider :: "string \<Rightarrow> bool \<Rightarrow> ov_provider list \<Rightarrow> ov_provider list" where
  "set_provider i b ps = map (\<lambda>p. if opr_id p = i then p\<lparr>opr_status := if b then ''active'' else ''disabled''\<rparr> else p) ps"

definition toggleTenantFeature_done :: "string \<Rightarrow> bool \<Rightarrow> unit outcome \<Rightarrow> tenant_detail \<Rightarrow> tenant_detail \<times> toast_call list" where
  "toggleTenantFeature_done i enabled res s =
    (case res of
       Inr _ \<Rightarrow> (s\<lparr>td_overview := map_option (\<lambda>prev. prev\<lparr>ov_features := set_feature i enabled (ov_features prev)\<rparr>) (td_overview s)\<rparr>,
                [(TSuccess, if enabled then ''Capability enabled'' else ''Capability disabled'', None)])
     | Inl err \<Rightarrow> (s, [(TError, ''Unable to update capability'', Some (getErrorMessage err ''Request failed''))]))"

definition toggleChannelFn_done :: "string \<Rightarrow> bool \<Rightarrow> unit outcome \<Rightarrow> tenant_detail \<Rightarrow> tenant_detail \<times> toast_call list" where
  "toggleChannelFn_done i enabled res s =
    (case res of
       Inr _ \<Rightarrow> (s\<lparr>td_overview := map_option (\<lambda>prev. prev\<lparr>ov_channels := set_channel i enabled (ov_channels prev)\<rparr>) (td_overview s)\<rparr>,
                [(TSuccess, if enabled then ''Channel enabled'' else ''Channel disabled'', None)])
     | Inl err \<Rightarrow> (s, [(TError, ''Unable to update channel'', Some (getErrorMessage err ''Request failed''))]))"

definition toggleProviderFn_done :: "string \<Rightarrow> bool \<Rightarrow> unit outcome \<Rightarrow> tenant_detail \<Rightarrow> tenant_detail \<times> toast_call list" where
  "toggleProviderFn_done i active res s =
    (case res of
       Inr _ \<Rightarrow> (s\<lparr>td_overview := map_option (\<lambda>prev. prev\<lparr>ov_providers := set_provider i active (ov_providers prev)\<rparr>) (td_overview s)\<rparr>,
                [(TSuccess, if active then ''Provider enabled'' else ''Provider disabled'', None)])
     | Inl err \<Rightarrow> (s, [(TError, ''Unable to update provider'', Some (getErrorMessage err ''Request failed''))]))"

definition switch_done :: "switch_action \<Rightarrow> unit outcome \<Rightarrow> tenant_detail \<Rightarrow> tenant_detail \<times> toast_call list" where
  "switch_done a res s =
    (case a of
       SwitchFeature i b \<Rightarrow> toggleTenantFeature_done i b res s
     | SwitchChannel i b \<Rightarrow> toggleChannelFn_done i b res s
     | SwitchProvider i b \<Rightarrow> toggleProviderFn_done i b res s)"

definition confirmToggle :: "string \<Rightarrow> string \<Rightarrow> bool \<Rightarrow> switch_action \<Rightarrow> tenant_detail \<Rightarrow> tenant_detail" where
  "confirmToggle kind name active act s =
    s\<lparr>td_confirm := requestConfirm
       \<lparr>intent_title = (if active then ''Enable'' else ''Disable'') @ '' '' @ kind, intent_description = Some ''Confirm status change'',
        intent_body = [''Change '', name, '' to '', (if active then ''enabled'' else ''disabled''), ''?''],
        intent_confirmLabel = Some (if active then ''Enable'' else ''Disable''), intent_variant = Some (if active then CPrimary else CDanger),
        intent_onConfirm = act\<rparr> (td_confirm s)\<rparr>"

section \<open>Audit sessions and previews\<close>

definition viewAuditSession_start :: "string \<Rightarrow> tenant_detail \<Rightarrow> tenant_detail \<times> api_call" where
  "viewAuditSession_start sessionID s =
    (s\<lparr>td_selectedAuditSession := sessionID, td_auditSessionLoading := True\<rparr>,
     api_get (listPage_url ''/admin/api/v1/audit-logs'' (viewSession_params (td_id s) sessionID)))"

definition viewAuditSession_done :: "string \<Rightarrow> audit_log list outcome \<Rightarrow> tenant_detail \<Rightarrow> tenant_detail \<times> toast_call list" where
  "viewAuditSession_done sessionID res s =
    (case res of
       Inr rows \<Rightarrow> (s\<lparr>td_selectedAuditLogs := filter (\<lambda>item. session_key item = sessionID) rows, td_auditSessionLoading := False\<rparr>, [])
     | Inl err \<Rightarrow> (s\<lparr>td_selectedAuditLogs := [], td_auditSessionLoading := False\<rparr>,
                  [(TError, ''Unable to load audit session'', Some (getErrorMessage err ''Request failed''))]))"

definition close_audit_session :: "tenant_detail \<Rightarrow> tenant_detail" where
  "close_audit_session s = s\<lparr>td_selectedAuditSession := [], td_selectedAuditLogs := []\<rparr>"

text \<open>The mode belongs to the preview and starts anew with each one.\<close>

definition open_preview :: "tenant_template \<Rightarrow> tenant_detail \<Rightarrow> tenant_detail" where
  "open_preview t s = s\<lparr>td_previewTemplate := Some t, td_previewMode := TextPreview\<rparr>"

definition set_preview_mode :: "template_preview_mode \<Rightarrow> tenant_detail \<Rightarrow> tenant_detail" where
  "set_preview_mode m s = s\<lparr>td_previewMode := m\<rparr>"

definition close_preview :: "tenant_detail \<Rightarrow> tenant_detail" where
  "close_preview s = s\<lparr>td_previewTemplate := None\<rparr>"

section \<open>What is shown\<close>

definition tenant_tabs :: "bool \<Rightarrow> string list" where
  "tenant_tabs isPlatform =
    [''overview'', ''integration''] @ (if isPlatform then [''features'', ''channels'', ''providers''] else [])
    @ [''contacts'', ''groups'', ''templates'', ''campaigns'', ''api-keys'', ''audit'']"

definition tabMeta :: "string obj" where
  "tabMeta =
    [(''overview'', ''Overview''), (''integration'', ''Integration''), (''features'', ''Capabilities''), (''channels'', ''Channels''),
     (''providers'', ''Providers''), (''contacts'', ''Contacts''), (''groups'', ''Groups''), (''templates'', ''Templates''),
     (''campaigns'', ''Campaigns''), (''api-keys'', ''API keys''), (''audit'', ''Audit log'')]"

record overview_section =
  os_facts :: "(string \<times> string) list"
  os_status :: "badge_tone \<times> string"
  os_summary :: "(string \<times> int) list"
  os_health :: "(string \<times> string) list"
  os_active :: string
  os_channels :: "(string \<times> (badge_tone \<times> string) \<times> int \<times> int) list_content"

definition fraction_text :: "('a \<Rightarrow> bool) \<Rightarrow> 'a list \<Rightarrow> string" where
  "fraction_text on xs = int_str (int (length (filter on xs))) @ ''/'' @ int_str (int (length xs))"

definition OverviewSection :: "overview \<Rightarrow> overview_section" where
  "OverviewSection o1 =
    (let t = ov_tenant o1; n = ov_counts o1
     in \<lparr>os_facts = [(''Name'', tn_name t), (''Slug'', tn_slug t), (''Created'', tn_created_at t)],
         os_status = StatusBadge (StatusText (Some (tn_status t))),
         os_summary = [(''Contacts'', oc_contacts n), (''Campaigns'', oc_campaigns n), (''Templates'', oc_templates n),
           (''API keys'', oc_api_keys n), (''Users'', oc_users n)],
         os_health = [(''Enabled capabilities'', fraction_text ofe_enabled (ov_features o1)),
           (''Enabled channels'', fraction_text och_enabled (ov_channels o1)),
           (''Active providers'', fraction_text (\<lambda>p. opr_status p = ''active'') (ov_providers o1))],
         os_active = int_str (int (length (filter och_enabled (ov_channels o1)))) @ '' active'',
         os_channels = (if ov_channels o1 = [] then ListEmpty ''No channels configured''
           else ListRows (map (\<lambda>c. (replace_first_char CHR ''_'' CHR '' '' (och_channel c), StatusBadge (StatusFlag (och_enabled c)),
             och_rate_limit c, och_daily_quota c)) (ov_channels o1)))\<rparr>)"

text \<open>
  The plain tables. The heading of a row falls back to a dash when the value is absent, the other cells
  also when it is empty or zero. The badge wants a text: a number other than zero makes it throw, \<^const>\<open>None\<close>.
\<close>

fun cell_text :: "cell_value \<Rightarrow> string" where
  "cell_text (CText s) = s"
| "cell_text (CNum n) = int_str n"

definition cell_badge :: "cell_value option \<Rightarrow> (badge_tone \<times> string) option" where
  "cell_badge v =
    (case v of
       None \<Rightarrow> Some (StatusBadge (StatusText None))
     | Some (CText s) \<Rightarrow> Some (StatusBadge (StatusText (Some s)))
     | Some (CNum n) \<Rightarrow> if n = 0 then Some (StatusBadge (StatusText None)) else None)"

datatype table_cell = TextCell string | BadgeCell "(badge_tone \<times> string) option"

definition detail_cell :: "sub_row \<Rightarrow> string \<Rightarrow> table_cell" where
  "detail_cell row key =
    (if key = ''status'' \<or> key = ''enabled'' then BadgeCell (cell_badge (obj_get row key))
     else TextCell (case obj_get row key of
         Some (CNum n) \<Rightarrow> if n = 0 then ''-'' else int_str n
       | Some (CText s) \<Rightarrow> or_str s ''-''
       | None \<Rightarrow> ''-''))"

record generic_row =
  gn_heading :: "string \<times> string"
  gn_badge :: "(badge_tone \<times> string) option option"
  gn_cells :: "(string \<times> table_cell) list"

definition GenericTable :: "string \<times> string \<Rightarrow> (string \<times> string) list \<Rightarrow> sub_row list \<Rightarrow> generic_row list_content" where
  "GenericTable primaryColumn detailColumns rows =
    (if rows = [] then ListEmpty ''No data''
     else ListRows (map (\<lambda>row.
       \<lparr>gn_heading = (snd primaryColumn, case obj_get row (fst primaryColumn) of Some v \<Rightarrow> cell_text v | None \<Rightarrow> ''-''),
        gn_badge = map_option (\<lambda>v. cell_badge (Some v)) (obj_get row ''status''),
        gn_cells = map (\<lambda>(key, label). (label, detail_cell row key)) detailColumns\<rparr>) rows))"

definition TenantAuditTable :: "audit_log list \<Rightarrow> (string \<times> nat \<times> string list list) list_content" where
  "TenantAuditTable rows =
    (if rows = [] then ListEmpty ''No audit logs''
     else ListRows (map (\<lambda>(sid, logs). (sid, length logs,
       map (\<lambda>item. [al_action item, al_actor_type item, al_resource_type item, al_created_at item]) logs)) (obj_entries (group_by_key session_key rows))))"

definition TenantTemplates :: "tenant_template list \<Rightarrow> (string \<times> (badge_tone \<times> string) \<times> string \<times> string) list_content" where
  "TenantTemplates ts =
    (if ts = [] then ListEmpty ''No templates''
     else ListRows (map (\<lambda>t. (tt_template_key t, StatusBadge (StatusText (Some (tt_status t))), or_str (tt_channel t) ''-'', or_str (tt_subject t) ''-'')) ts))"

record preview_view =
  pw_title :: string
  pw_wide :: bool
  pw_channel :: string
  pw_status :: "badge_tone \<times> string"
  pw_content :: "string option \<times> preview_body"

definition TenantTemplatePreview :: "tenant_template \<Rightarrow> template_preview_mode \<Rightarrow> preview_view" where
  "TenantTemplatePreview t mode =
    (let body = or_opt (tt_body t) []
     in \<lparr>pw_title = tt_template_key t, pw_wide = (1200 < length body \<or> mode = HtmlPreview), pw_channel = or_str (tt_channel t) ''-'',
         pw_status = StatusBadge (StatusText (Some (tt_status t))), pw_content = TemplatePreviewPanel (tt_subject t) body mode\<rparr>)"

text \<open>A card with a switch; clicking the switch asks for confirmation of the action it carries.\<close>

record option_card =
  oa_active :: bool
  oa_title :: string
  oa_badges :: "string list"
  oa_description :: string
  oa_code :: string
  oa_label :: string
  oa_kind :: string
  oa_action :: switch_action
  oa_footer :: string

definition feature_card :: "string \<Rightarrow> ov_feature \<Rightarrow> option_card" where
  "feature_card name f =
    \<lparr>oa_active = ofe_enabled f, oa_title = ofe_name f, oa_badges = [ofe_category f], oa_description = ofe_description f,
     oa_code = or_str (ofe_identifier f) (ofe_feature_key f), oa_label = (if ofe_enabled f then ''Disable '' else ''Enable '') @ ofe_name f,
     oa_kind = ''capability'', oa_action = SwitchFeature (ofe_id f) (\<not> ofe_enabled f),
     oa_footer = (if ofe_enabled f then ''Available to '' else ''Not available to '') @ name\<rparr>"

definition channel_card :: "string \<Rightarrow> ov_channel \<Rightarrow> option_card" where
  "channel_card name c =
    \<lparr>oa_active = och_enabled c, oa_title = replace_all_char CHR ''_'' CHR '' '' (och_channel c), oa_badges = [och_direction c],
     oa_description = ''Rate limit '' @ int_str (och_rate_limit c) @ ''/s . Daily quota '' @ int_str (och_daily_quota c),
     oa_code = och_channel c, oa_label = (if och_enabled c then ''Disable '' else ''Enable '') @ och_channel c @ '' channel'',
     oa_kind = ''channel'', oa_action = SwitchChannel (och_id c) (\<not> och_enabled c),
     oa_footer = (if och_enabled c then ''Available to '' else ''Not available to '') @ name\<rparr>"

definition provider_card :: "ov_provider \<Rightarrow> option_card" where
  "provider_card p =
    (let active = (opr_status p = ''active'')
     in \<lparr>oa_active = active, oa_title = opr_provider p, oa_badges = opr_channel p # (if opr_is_default p then [''default''] else []),
         oa_description = (if opr_is_default p then ''Default provider for this channel.'' else ''Configured provider available for this tenant.''),
         oa_code = opr_id p, oa_label = (if active then ''Disable '' else ''Enable '') @ opr_provider p @ '' provider'',
         oa_kind = ''provider'', oa_action = SwitchProvider (opr_id p) (\<not> active),
         oa_footer = (if active then ''Provider is active for this tenant'' else ''Provider is disabled for this tenant'')\<rparr>)"

definition provider_cards :: "ov_provider list \<Rightarrow> (string \<times> option_card list) list" where
  "provider_cards ps =
    map (\<lambda>(channel, prows). (replace_all_char CHR ''_'' CHR '' '' channel, map provider_card prows)) (obj_entries (group_by_key opr_channel ps))"

datatype tab_content =
    TabLoading
  | TabOverview overview_section
  | TabIntegration string string
  | TabCards "(string \<times> option_card list) list_content"
  | TabTable "generic_row list_content"
  | TabTemplates "(string \<times> (badge_tone \<times> string) \<times> string \<times> string) list_content"
  | TabAudit "(string \<times> nat \<times> string list list) list_content"
  | TabNothing

definition cards_or :: "string \<Rightarrow> (string \<times> option_card list) list \<Rightarrow> tab_content" where
  "cards_or none groups = TabCards (if \<forall>g \<in> set groups. snd g = [] then ListEmpty none else ListRows groups)"

definition renderTabContent :: "overview \<Rightarrow> tenant_detail \<Rightarrow> tab_content" where
  "renderTabContent o1 s =
    (let tab = td_tab s; name = tn_name (ov_tenant o1)
     in if td_subLoading s then TabLoading
        else if tab = ''overview'' then TabOverview (OverviewSection o1)
        else if tab = ''integration'' then
          TabIntegration (''/admin/api/v1/tenants/'' @ tn_id (ov_tenant o1) @ ''/integration'') (tn_id (ov_tenant o1))
        else if tab = ''features'' then cards_or ''No capabilities assigned'' [([], map (feature_card name) (ov_features o1))]
        else if tab = ''channels'' then cards_or ''No channels configured'' [([], map (channel_card name) (ov_channels o1))]
        else if tab = ''providers'' then cards_or ''No providers configured'' (provider_cards (ov_providers o1))
        else if tab = ''contacts'' then
          TabTable (GenericTable (''name'', ''Name'') [(''email'', ''Email''), (''phone'', ''Phone''), (''status'', ''Status'')] (td_contacts s))
        else if tab = ''groups'' then
          TabTable (GenericTable (''name'', ''Name'') [(''description'', ''Description''), (''member_count'', ''Members''), (''status'', ''Status'')] (td_groups s))
        else if tab = ''templates'' then TabTemplates (TenantTemplates (td_templates s))
        else if tab = ''campaigns'' then
          TabTable (GenericTable (''name'', ''Name'') [(''status'', ''Status''), (''scheduled_at'', ''Scheduled''), (''created_at'', ''Created'')] (td_campaigns s))
        else if tab = ''api-keys'' then
          TabTable (GenericTable (''name'', ''Name'') [(''status'', ''Status''), (''last_used_at'', ''Last Used''), (''created_at'', ''Created'')] (td_apiKeys s))
        else if tab = ''audit'' then TabAudit (TenantAuditTable (td_auditLogs s))
        else TabNothing)"

record detail_content =
  dc_initials :: string
  dc_name :: string
  dc_slug :: string
  dc_status :: "badge_tone \<times> string"
  dc_tabs :: "(string \<times> string option) list"
  dc_panel :: "string option"
  dc_content :: tab_content
  dc_preview :: "preview_view option"
  dc_session :: "(string \<times> string list list_content) option"
  dc_confirm :: "dialog_view option"

datatype detail_view = DetailNote string | DetailContent detail_content

definition audit_session_row :: "audit_log \<Rightarrow> string list" where
  "audit_session_row item =
    [al_action item, al_actor_type item, al_resource_type item, or_str (al_resource_id item) ''-'', or_opt (al_request_id item) ''-'',
     or_str (al_ip_address item) ''-'', al_created_at item]"

definition TenantDetailPage :: "tenant_detail \<Rightarrow> detail_view" where
  "TenantDetailPage s =
    (if td_loading s then DetailNote ''Loading...''
     else if td_error s \<noteq> [] then DetailNote (td_error s)
     else case td_overview s of
       None \<Rightarrow> DetailNote ''Tenant not found''
     | Some o1 \<Rightarrow> DetailContent
        \<lparr>dc_initials = to_upper (take 2 (tn_name (ov_tenant o1))), dc_name = tn_name (ov_tenant o1), dc_slug = tn_slug (ov_tenant o1),
         dc_status = StatusBadge (StatusText (Some (tn_status (ov_tenant o1)))),
         dc_tabs = map (\<lambda>t. (t, obj_get tabMeta t)) (tenant_tabs (td_isPlatform s)), dc_panel = obj_get tabMeta (td_tab s),
         dc_content = renderTabContent o1 s,
         dc_preview = map_option (\<lambda>t. TenantTemplatePreview t (td_previewMode s)) (td_previewTemplate s),
         dc_session = (if td_selectedAuditSession s = [] then None
           else Some (td_selectedAuditSession s,
             if td_auditSessionLoading s then ListLoading
             else if td_selectedAuditLogs s = [] then ListEmpty ''No audit events found for this session''
             else ListRows (map audit_session_row (td_selectedAuditLogs s)))),
         dc_confirm = confirmDialog (td_confirm s)\<rparr>)"

section \<open>The statements of the server\<close>

text \<open>
  What the server stores of the tenant is what it answers as overview. A request that names no row is
  answered by 404 and changes nothing. An absent \<^verbatim>\<open>enabled\<close> is false for a feature and no change for a
  channel; an empty or absent \<^verbatim>\<open>status\<close> is no change for a provider.
\<close>

definition not_found :: "string \<Rightarrow> js_error" where
  "not_found m = ApiError 404 (errorCodeForStatus 404) m"

definition UpdateFeature :: "string \<Rightarrow> json \<Rightarrow> overview \<Rightarrow> overview \<times> unit outcome" where
  "UpdateFeature i body st =
    (if \<exists>f \<in> set (ov_features st). ofe_id f = i
     then (st\<lparr>ov_features := map (\<lambda>f. if ofe_id f = i then f\<lparr>ofe_enabled := (jprop body ''enabled'' = Some (JBool True))\<rparr> else f) (ov_features st)\<rparr>, Inr ())
     else (st, Inl (not_found ''feature not found'')))"

definition UpdateChannel :: "string \<Rightarrow> json \<Rightarrow> overview \<Rightarrow> overview \<times> unit outcome" where
  "UpdateChannel i body st =
    (if \<exists>c \<in> set (ov_channels st). och_id c = i
     then (case jprop body ''enabled'' of
         Some (JBool b) \<Rightarrow> (st\<lparr>ov_channels := map (\<lambda>c. if och_id c = i then c\<lparr>och_enabled := b\<rparr> else c) (ov_channels st)\<rparr>, Inr ())
       | _ \<Rightarrow> (st, Inr ()))
     else (st, Inl (not_found ''channel not found'')))"

definition UpdateProviderStatus :: "string \<Rightarrow> json \<Rightarrow> overview \<Rightarrow> overview \<times> unit outcome" where
  "UpdateProviderStatus i body st =
    (if \<exists>p \<in> set (ov_providers st). opr_id p = i
     then (case jprop body ''status'' of
         Some (JStr v) \<Rightarrow> (st\<lparr>ov_providers := map (\<lambda>p. if opr_id p = i \<and> v \<noteq> [] then p\<lparr>opr_status := v\<rparr> else p) (ov_providers st)\<rparr>, Inr ())
       | _ \<Rightarrow> (st, Inr ()))
     else (st, Inl (not_found ''provider config not found'')))"

text \<open>The routes of the three requests.\<close>

definition serve_switch :: "api_call \<Rightarrow> overview \<Rightarrow> overview \<times> unit outcome" where
  "serve_switch call st =
    (let path = call_path call; body = (case call_body call of Some b \<Rightarrow> b | None \<Rightarrow> JNull);
         under = (\<lambda>p. call_method call = ''PUT'' \<and> starts_with path p)
     in if under ''/admin/api/v1/features/'' then UpdateFeature (drop (length ''/admin/api/v1/features/'') path) body st
        else if under ''/admin/api/v1/channels/'' then UpdateChannel (drop (length ''/admin/api/v1/channels/'') path) body st
        else if under ''/admin/api/v1/providers/'' then UpdateProviderStatus (drop (length ''/admin/api/v1/providers/'') path) body st
        else (st, Inl (not_found ''404 page not found'')))"

section \<open>The page under a user and a server\<close>

text \<open>
  The page beside what the server stores. A switch is clicked on a shown card; a confirmed switch
  reaches the server and is answered, or fails on the way there.
\<close>

inductive detail_step :: "tenant_detail \<times> overview \<Rightarrow> tenant_detail \<times> overview \<Rightarrow> bool" where
  overview: "detail_step (s, st) (overview_loaded (Inr st) s, st)"
| overview_failed: "detail_step (s, st) (overview_loaded (Inl err) s, st)"
| tab: "TenantDetailPage s = DetailContent c \<Longrightarrow> t \<in> fst ` set (dc_tabs c) \<Longrightarrow> detail_step (s, st) (fst (set_tab t s), st)"
| rows: "detail_step (s, st) (fst (loadSubData_done (td_id s) res s), st)"
| ask: "TenantDetailPage s = DetailContent c \<Longrightarrow> dc_content c = TabCards (ListRows gs) \<Longrightarrow> oc \<in> set (concat (map snd gs)) \<Longrightarrow>
    detail_step (s, st) (confirmToggle (oa_kind oc) (oa_title oc) (\<not> oa_active oc) (oa_action oc) s, st)"
| cancel: "detail_step (s, st) (s\<lparr>td_confirm := confirm_close (td_confirm s)\<rparr>, st)"
| confirmed: "confirm_start (td_confirm s) = (Some a, d) \<Longrightarrow> serve_switch (switch_call a) st = (st', res) \<Longrightarrow>
    detail_step (s, st) ((fst (switch_done a res s))\<lparr>td_confirm := confirm_finish True d\<rparr>, st')"
| unsent: "confirm_start (td_confirm s) = (Some a, d) \<Longrightarrow>
    detail_step (s, st) ((fst (switch_done a (Inl err) s))\<lparr>td_confirm := confirm_finish True d\<rparr>, st)"
| view: "detail_step (s, st) (fst (viewAuditSession_start i s), st)"
| viewed: "detail_step (s, st) (fst (viewAuditSession_done i res' s), st)"
| preview: "t \<in> set (td_templates s) \<Longrightarrow> detail_step (s, st) (open_preview t s, st)"
| look: "s' \<in> {close_audit_session s, set_preview_mode m s, close_preview s} \<Longrightarrow> detail_step (s, st) (s', st)"

abbreviation detail_reachable :: "string \<Rightarrow> principal option \<Rightarrow> tenant_detail \<times> overview \<Rightarrow> bool" where
  "detail_reachable ident user \<equiv> reachable (\<lambda>c. fst c = fst (tenant_detail_mount ident user)) detail_step"

section \<open>Lemmas\<close>

named_theorems detail_ops

lemmas [detail_ops] = overview_loaded_def set_tab_def loadSubData_done_def sub_rows_def confirmToggle_def requestConfirm_def switch_done_def
  toggleTenantFeature_done_def toggleChannelFn_done_def toggleProviderFn_done_def viewAuditSession_start_def viewAuditSession_done_def
  close_audit_session_def open_preview_def set_preview_mode_def close_preview_def confirm_close_def confirm_finish_def confirm_start_def

lemma drop_prefix: "drop (length p) (p @ v) = v"
  by simp

text \<open>The three requests reach their statements, with the value of the switch.\<close>

lemma serve_switch_call:
  "serve_switch (switch_call (SwitchFeature i b)) st = UpdateFeature i (JObj [(''enabled'', JBool b)]) st"
  "serve_switch (switch_call (SwitchChannel i b)) st = UpdateChannel i (JObj [(''enabled'', JBool b)]) st"
  "serve_switch (switch_call (SwitchProvider i b)) st =
     UpdateProviderStatus i (JObj [(''status'', JStr (if b then ''active'' else ''disabled''))]) st"
  by (simp_all add: serve_switch_def switch_call_def api_send_def Let_def)

text \<open>The page repeats on its copy what the server did on its rows.\<close>

lemma switch_in_step:
  assumes "serve_switch (switch_call a) st = (st', res)" and "td_overview s \<in> {None, Some st}"
  shows "td_overview (fst (switch_done a res s)) \<in> {None, Some st'}"
  using assms
  by (cases a; cases "td_overview s")
     (auto simp: serve_switch_call UpdateFeature_def UpdateChannel_def UpdateProviderStatus_def detail_ops set_feature_def set_channel_def
        set_provider_def obj_get_def split: if_splits)

definition own_rows :: "tenant_detail \<Rightarrow> bool" where
  "own_rows s \<longleftrightarrow>
     (\<forall>row \<in> set (td_contacts s @ td_groups s @ td_campaigns s @ td_apiKeys s). row_of_tenant (td_id s) row)
     \<and> (\<forall>t \<in> set (td_templates s). tt_tenant_id t = td_id s)
     \<and> (\<forall>t. td_previewTemplate s = Some t \<longrightarrow> tt_tenant_id t = td_id s)"

definition detail_inv :: "string \<Rightarrow> bool \<Rightarrow> tenant_detail \<times> overview \<Rightarrow> bool" where
  "detail_inv ident platform = (\<lambda>(s, st). td_id s = ident \<and> td_isPlatform s = platform \<and> td_overview s \<in> {None, Some st} \<and>
     td_tab s \<in> set (tenant_tabs platform) \<and> own_rows s \<and> (intent (td_confirm s) \<noteq> None \<longrightarrow> platform))"

lemma detail_content_cases:
  assumes "TenantDetailPage s = DetailContent c"
  obtains o1 where "td_overview s = Some o1" "dc_content c = renderTabContent o1 s" "fst ` set (dc_tabs c) = set (tenant_tabs (td_isPlatform s))"
  using assms by (auto simp: TenantDetailPage_def image_image split: if_splits option.splits)

text \<open>Cards are shown in three tabs, which only platform administrators have.\<close>

lemma cards_tab: "renderTabContent o1 s = TabCards g \<Longrightarrow> td_tab s \<in> {''features'', ''channels'', ''providers''}"
  by (auto simp: renderTabContent_def Let_def split: if_splits)

lemma cards_platform: "td_tab s \<in> set (tenant_tabs platform) \<Longrightarrow> renderTabContent o1 s = TabCards g \<Longrightarrow> platform"
  by (drule cards_tab) (auto simp: tenant_tabs_def split: if_splits)

lemma switch_done_frame:
  "td_id (fst (switch_done a res s)) = td_id s" "td_isPlatform (fst (switch_done a res s)) = td_isPlatform s"
  "td_tab (fst (switch_done a res s)) = td_tab s" "own_rows (fst (switch_done a res s)) = own_rows s"
  "td_overview (fst (switch_done a (Inl err) s)) = td_overview s"
  by (auto simp: detail_ops own_rows_def split: switch_action.splits sum.splits)

lemma switch_keeps_overview: "td_overview s \<noteq> None \<Longrightarrow> td_overview (fst (switch_done a res s)) \<noteq> None"
  by (auto simp: detail_ops split: switch_action.splits sum.splits)

lemma set_tab_frame:
  "td_id (fst (set_tab t s)) = td_id s" "td_isPlatform (fst (set_tab t s)) = td_isPlatform s" "td_overview (fst (set_tab t s)) = td_overview s"
  "td_tab (fst (set_tab t s)) = t" "own_rows (fst (set_tab t s)) = own_rows s" "td_confirm (fst (set_tab t s)) = td_confirm s"
  by (auto simp: set_tab_def own_rows_def)

lemma own_rows_confirm [simp]: "own_rows (s\<lparr>td_confirm := d\<rparr>) = own_rows s"
  by (simp add: own_rows_def)

lemma detail_step_inv:
  assumes "detail_step c c'" and "detail_inv ident platform c"
  shows "detail_inv ident platform c'"
  using assms
proof (induction rule: detail_step.induct)
  case (tab s c t st)
  from tab.hyps have "t \<in> set (tenant_tabs (td_isPlatform s))" by (auto elim!: detail_content_cases)
  with tab.prems show ?case by (auto simp: detail_inv_def set_tab_frame)
next
  case (ask s c gs oc st)
  then show ?case
    by (auto simp: detail_inv_def detail_ops own_rows_def elim!: detail_content_cases dest: cards_platform)
next
  case (confirmed s a d st st' res)
  then show ?case using switch_in_step [OF confirmed(2), of s]
    by (auto simp: detail_inv_def switch_done_frame confirm_finish_def confirm_start_def split: option.splits)
next
  case (unsent s a d st err)
  then show ?case by (auto simp: detail_inv_def switch_done_frame confirm_finish_def confirm_start_def split: option.splits)
qed (auto simp: detail_inv_def detail_ops own_rows_def split: sum.splits sub_answer.splits)

abbreviation platform_user :: "principal option \<Rightarrow> bool" where
  "platform_user user \<equiv> (case user of Some u \<Rightarrow> is_platform_admin u | None \<Rightarrow> False)"

interpretation workspace: step_invariant detail_step "detail_inv ident (platform_user user)"
    "\<lambda>c. fst c = fst (tenant_detail_mount ident user)" for ident user
  by unfold_locales
     (erule (1) detail_step_inv, auto simp: detail_inv_def tenant_detail_mount_def own_rows_def tenant_tabs_def confirm_init_def split_beta)

section \<open>Properties\<close>


definition sample_overview :: overview where
  "sample_overview =
    \<lparr>ov_tenant = \<lparr>tn_id = ''t1'', tn_name = ''Acme'', tn_slug = ''acme'', tn_status = ''active'', tn_created_at = []\<rparr>,
     ov_features = [\<lparr>ofe_id = ''f1'', ofe_identifier = ''campaigns'', ofe_feature_key = ''campaigns'', ofe_name = ''Campaigns'',
       ofe_description = [], ofe_category = ''core'', ofe_enabled = False\<rparr>],
     ov_channels = [], ov_providers = [],
     ov_counts = \<lparr>oc_users = 1, oc_contacts = 0, oc_templates = 0, oc_campaigns = 0, oc_api_keys = 0\<rparr>\<rparr>"

definition platform_admin :: principal where
  "platform_admin = \<lparr>user_id = ''u1'', tenant_id = None, email = ''a@b.co'', is_platform_admin = True, permissions = None\<rparr>"

abbreviation loaded_detail :: tenant_detail where
  "loaded_detail \<equiv> overview_loaded (Inr sample_overview) (fst (tenant_detail_mount ''t1'' (Some platform_admin)))"

lemmas detail_reachable_step = reachable.step [where start = "\<lambda>c. fst c = fst (tenant_detail_mount ident user)" and step = detail_step for ident user]

lemma loaded_detail_reachable: "detail_reachable ''t1'' (Some platform_admin) (loaded_detail, sample_overview)"
  by (rule reachable_once, rule detail_step.overview) simp

lemma switched_detail_reachable:
  "detail_reachable ''t1'' (Some platform_admin)
     (let s = confirmToggle ''capability'' ''Campaigns'' True (SwitchFeature ''f1'' True) (fst (set_tab ''features'' loaded_detail))
      in ((fst (switch_done (SwitchFeature ''f1'' True) (Inr ()) s))\<lparr>td_confirm := confirm_init\<rparr>,
          sample_overview\<lparr>ov_features := set_feature ''f1'' True (ov_features sample_overview)\<rparr>))"
proof -
  let ?s1 = "fst (set_tab ''features'' loaded_detail)"
  let ?card = "feature_card ''Acme'' (hd (ov_features sample_overview))"
  let ?s2 = "confirmToggle (oa_kind ?card) (oa_title ?card) (\<not> oa_active ?card) (oa_action ?card) ?s1"
  have [simp]: "td_overview loaded_detail = Some sample_overview" "\<not> td_loading loaded_detail" "td_error loaded_detail = []"
    "td_isPlatform loaded_detail" "td_tab loaded_detail = ''overview''" "\<not> td_subLoading loaded_detail" "td_confirm loaded_detail = confirm_init"
    by (simp_all add: overview_loaded_def tenant_detail_mount_def platform_admin_def)
  have [simp]: "ov_features sample_overview = [f] \<longleftrightarrow> f = hd (ov_features sample_overview)" "tn_name (ov_tenant sample_overview) = ''Acme''"
    "map (feature_card ''Acme'') (ov_features sample_overview) = [?card]" for f
    by (auto simp: sample_overview_def)
  obtain c where "TenantDetailPage loaded_detail = DetailContent c" "''features'' \<in> fst ` set (dc_tabs c)"
    by (simp add: TenantDetailPage_def image_image tenant_tabs_def)
  from detail_reachable_step [OF loaded_detail_reachable detail_step.tab [OF this]]
  have r1: "detail_reachable ''t1'' (Some platform_admin) (?s1, sample_overview)" .
  obtain c where "TenantDetailPage ?s1 = DetailContent c" "dc_content c = TabCards (ListRows [([], [?card])])"
    by (simp add: TenantDetailPage_def set_tab_def renderTabContent_def cards_or_def Let_def)
  from detail_reachable_step [OF r1 detail_step.ask [OF this]]
  have r2: "detail_reachable ''t1'' (Some platform_admin) (?s2, sample_overview)" by simp
  have a: "confirm_start (td_confirm ?s2) = (Some (SwitchFeature ''f1'' True), (td_confirm ?s2)\<lparr>running := True\<rparr>)"
    by (simp add: confirm_start_def confirmToggle_def requestConfirm_def feature_card_def sample_overview_def)
  have b: "serve_switch (switch_call (SwitchFeature ''f1'' True)) sample_overview
      = (sample_overview\<lparr>ov_features := set_feature ''f1'' True (ov_features sample_overview)\<rparr>, Inr ())"
    by (simp add: serve_switch_call UpdateFeature_def set_feature_def sample_overview_def obj_get_def)
  have c: "confirm_finish True ((td_confirm ?s2)\<lparr>running := True\<rparr>) = confirm_init"
    by (simp add: confirm_finish_def confirmToggle_def requestConfirm_def set_tab_def confirm_init_def)
  show ?thesis
    using detail_reachable_step [OF r2 detail_step.confirmed [OF a b]] unfolding c
    by (simp add: feature_card_def sample_overview_def)
qed


lemma tabMeta_total: "t \<in> set (tenant_tabs platform) \<Longrightarrow> obj_get tabMeta t \<noteq> None"
  by (auto simp: tenant_tabs_def tabMeta_def obj_get_def split: if_splits)



end
