(* ===== verification/Contacts.thy ===== *)
theory Contacts
  imports Paged_List Auth
begin

text \<open>
  Two list pages: the address book
  \<^verbatim>\<open>src/notification-admin-ui/src/pages/contacts/ContactsPage.tsx\<close> with creating, editing, viewing
  and deleting a contact, and the delivery log
  \<^verbatim>\<open>src/notification-admin-ui/src/pages/notifications/NotificationsPage.tsx\<close> with the detail of a
  notification. Dates are shown in the local format by the browser and stay as they came.
\<close>

section \<open>Contacts\<close>

record contact =
  ct_id :: string
  ct_tenant_id :: string
  ct_name :: string
  ct_email :: string
  ct_phone :: string
  ct_status :: string
  ct_created_at :: string
  ct_external_ref :: "string option"
  ct_tenant_name :: "string option"

datatype contact_mode = CreateContact | ViewContact contact | EditContact contact | DeleteContact contact

record contact_form =
  cf_tenantId :: string
  cf_name :: string
  cf_email :: string
  cf_phone :: string
  cf_externalRef :: string

definition emptyContactForm :: contact_form where
  "emptyContactForm = \<lparr>cf_tenantId = [], cf_name = [], cf_email = [], cf_phone = [], cf_externalRef = []\<rparr>"

record contacts_page =
  cp_isPlatform :: bool
  cp_list :: "(search_filter, contact) paged"
  cp_tenants :: tenant_choices
  cp_error :: string
  cp_saving :: bool
  cp_mode :: "contact_mode option"
  cp_form :: contact_form

definition contacts_mount :: "bool \<Rightarrow> contacts_page" where
  "contacts_mount platform =
    \<lparr>cp_isPlatform = platform, cp_list = pg_mount \<lparr>sf_tenant = [], sf_search = []\<rparr>, cp_tenants = [], cp_error = [],
     cp_saving = False, cp_mode = None, cp_form = emptyContactForm\<rparr>"

definition contacts_call :: "search_filter \<times> int \<times> int \<Rightarrow> api_call" where
  "contacts_call q = (case q of (f, p, n) \<Rightarrow> api_get (listPage_url ''/admin/api/v1/contacts'' (search_params f p n)))"

text \<open>A load started by a handler that captured the page \<^verbatim>\<open>p0\<close>; it clears the error line.\<close>

definition contacts_load :: "contacts_page \<Rightarrow> contacts_page \<Rightarrow> contacts_page" where
  "contacts_load p0 s = s\<lparr>cp_list := pg_load_as (pg_query (cp_list p0)) (cp_list s), cp_error := []\<rparr>"

definition contacts_answer :: "nat \<Rightarrow> contact list_answer outcome \<Rightarrow> contacts_page \<Rightarrow> contacts_page \<times> toast_call list" where
  "contacts_answer k res s =
    (s\<lparr>cp_list := pg_answer k res (cp_list s)\<rparr>,
     case res of Inr _ \<Rightarrow> [] | Inl err \<Rightarrow> [(TError, ''Unable to load contacts'', Some (getErrorMessage err ''Load failed''))])"

definition contact_tenants_loaded :: "tenant_choices outcome \<Rightarrow> contacts_page \<Rightarrow> contacts_page" where
  "contact_tenants_loaded res s = s\<lparr>cp_tenants := tenants_or res (cp_tenants s)\<rparr>"

definition contacts_set_filter :: "search_filter \<Rightarrow> contacts_page \<Rightarrow> contacts_page" where
  "contacts_set_filter f s =
    (if f = pg_filters (cp_list s) then s else s\<lparr>cp_list := pg_set_filter f (cp_list s), cp_error := []\<rparr>)"

definition edit_contact :: "contact \<Rightarrow> contacts_page \<Rightarrow> contacts_page" where
  "edit_contact c s =
    s\<lparr>cp_form := \<lparr>cf_tenantId = ct_tenant_id c, cf_name = ct_name c, cf_email = ct_email c, cf_phone = ct_phone c,
                  cf_externalRef = or_opt (ct_external_ref c) []\<rparr>,
      cp_mode := Some (EditContact c), cp_error := []\<rparr>"

definition create_contact :: "contacts_page \<Rightarrow> contacts_page" where
  "create_contact s =
    s\<lparr>cp_form := emptyContactForm\<lparr>cf_tenantId := sf_tenant (pg_filters (cp_list s))\<rparr>, cp_mode := Some CreateContact, cp_error := []\<rparr>"

definition view_contact :: "contact \<Rightarrow> contacts_page \<Rightarrow> contacts_page" where
  "view_contact c s = s\<lparr>cp_mode := Some (ViewContact c)\<rparr>"

definition ask_delete_contact :: "contact \<Rightarrow> contacts_page \<Rightarrow> contacts_page" where
  "ask_delete_contact c s = s\<lparr>cp_mode := Some (DeleteContact c)\<rparr>"

definition close_contact :: "contacts_page \<Rightarrow> contacts_page" where
  "close_contact s = s\<lparr>cp_mode := None\<rparr>"

definition contact_incomplete :: "contacts_page \<Rightarrow> bool" where
  "contact_incomplete s \<longleftrightarrow>
     trim (cf_name (cp_form s)) = []
     \<or> (trim (cf_email (cp_form s)) = [] \<and> trim (cf_phone (cp_form s)) = [])
     \<or> (cp_isPlatform s \<and> cp_mode s = Some CreateContact \<and> cf_tenantId (cp_form s) = [])"

definition contact_payload :: "contact_form \<Rightarrow> json" where
  "contact_payload f =
    str_obj ([(''tenant_id'', cf_tenantId f), (''name'', trim (cf_name f)), (''email'', trim (cf_email f)), (''phone'', trim (cf_phone f))]
             @ (if trim (cf_externalRef f) \<noteq> [] then [(''external_ref'', trim (cf_externalRef f))] else []))"

definition save_contact_start :: "contacts_page \<Rightarrow> contacts_page \<times> api_call option" where
  "save_contact_start s =
    (if contact_incomplete s
     then (s\<lparr>cp_error := ''Name, tenant, and at least one delivery address are required.''\<rparr>, None)
     else (s\<lparr>cp_saving := True, cp_error := []\<rparr>,
           Some (case cp_mode s of
                   Some (EditContact c) \<Rightarrow> api_send ''PUT'' (''/admin/api/v1/contacts/'' @ ct_id c) (contact_payload (cp_form s))
                 | _ \<Rightarrow> api_send ''POST'' ''/admin/api/v1/contacts'' (contact_payload (cp_form s)))))"

definition save_contact_done :: "contacts_page \<Rightarrow> unit outcome \<Rightarrow> contacts_page \<Rightarrow> contacts_page \<times> toast_call list" where
  "save_contact_done p0 res s =
    (case res of
       Inr _ \<Rightarrow>
         ((contacts_load p0 (s\<lparr>cp_mode := None\<rparr>))\<lparr>cp_saving := False\<rparr>,
          [(TSuccess, case cp_mode p0 of Some (EditContact _) \<Rightarrow> ''Contact updated'' | _ \<Rightarrow> ''Contact created'', None)])
     | Inl err \<Rightarrow>
         (let msg = getErrorMessage err ''Unable to save contact.''
          in (s\<lparr>cp_error := msg, cp_saving := False\<rparr>, [(TError, ''Unable to save contact'', Some msg)])))"

definition remove_contact_start :: "contact \<Rightarrow> contacts_page \<Rightarrow> contacts_page \<times> api_call" where
  "remove_contact_start c s =
    (s\<lparr>cp_saving := True, cp_error := []\<rparr>, api_delete (''/admin/api/v1/contacts/'' @ ct_id c))"

definition remove_contact_done :: "contacts_page \<Rightarrow> contact \<Rightarrow> unit outcome \<Rightarrow> contacts_page \<Rightarrow> contacts_page \<times> toast_call list" where
  "remove_contact_done p0 c res s =
    (case res of
       Inr _ \<Rightarrow> ((contacts_load p0 (s\<lparr>cp_mode := None\<rparr>))\<lparr>cp_saving := False\<rparr>, [(TSuccess, ''Contact deleted'', Some (ct_name c))])
     | Inl err \<Rightarrow>
         (let msg = getErrorMessage err ''Unable to delete contact.''
          in (s\<lparr>cp_error := msg, cp_saving := False\<rparr>, [(TError, ''Unable to delete contact'', Some msg)])))"

record contact_row =
  crw_initial :: string
  crw_name :: string
  crw_ref :: "string option"
  crw_email :: "string option"
  crw_phone :: "string option"
  crw_tenant :: "string option option"
  crw_status :: string
  crw_edit :: bool
  crw_delete :: bool

definition contact_row_of :: "principal option \<Rightarrow> contacts_page \<Rightarrow> contact \<Rightarrow> contact_row" where
  "contact_row_of user s c =
    \<lparr>crw_initial = to_upper (take 1 (ct_name c)),
     crw_name = ct_name c,
     crw_ref = map_option (\<lambda>r. ''Ref: '' @ r) (or_dash (or_opt (ct_external_ref c) [])),
     crw_email = or_dash (ct_email c), crw_phone = or_dash (ct_phone c),
     crw_tenant = (if cp_isPlatform s then Some (or_dash (or_opt (ct_tenant_name c) [])) else None),
     crw_status = ct_status c,
     crw_edit = hasPermission user ''contacts.update'',
     crw_delete = hasPermission user ''contacts.delete''\<rparr>"

text \<open>
  The dialog of a mode: its title, the enabled state and label of its main button, progress labels without
  their trailing ellipsis.
\<close>

record contacts_view =
  cw_new :: bool
  cw_rows :: "contact_row list_content"
  cw_footer :: "pagination_view option"
  cw_dialog :: "(string \<times> bool \<times> string) option"
  cw_tenant_options :: "select_option list option"

definition contact_dialog :: "principal option \<Rightarrow> contacts_page \<Rightarrow> (string \<times> bool \<times> string) option" where
  "contact_dialog user s =
    (case cp_mode s of
       None \<Rightarrow> None
     | Some CreateContact \<Rightarrow> Some (''Create contact'', \<not> cp_saving s, if cp_saving s then ''Saving'' else ''Create contact'')
     | Some (EditContact c) \<Rightarrow> Some (''Edit contact'', \<not> cp_saving s, if cp_saving s then ''Saving'' else ''Save changes'')
     | Some (ViewContact c) \<Rightarrow> Some (ct_name c, hasPermission user ''contacts.update'', ''Edit contact'')
     | Some (DeleteContact c) \<Rightarrow> Some (''Delete contact'', \<not> cp_saving s, if cp_saving s then ''Deleting'' else ''Delete contact''))"

definition ContactsPage :: "principal option \<Rightarrow> contacts_page \<Rightarrow> contacts_view" where
  "ContactsPage user s =
    \<lparr>cw_new = hasPermission user ''contacts.create'',
     cw_rows = table_content ''No contacts found'' (contact_row_of user s) (cp_list s),
     cw_footer = (if pg_loading (cp_list s) then None else Some (footer_of (cp_list s))),
     cw_dialog = contact_dialog user s,
     cw_tenant_options = (if cp_isPlatform s \<and> cp_mode s = Some CreateContact
       then Some (map (\<lambda>(t, st). \<lparr>so_value = to_id t, so_label = to_name t, so_disabled = False\<rparr>)
                    (filter (\<lambda>(t, st). st = ''active'') (cp_tenants s)))
       else None)\<rparr>"

section \<open>Delivery log\<close>

record notification_log =
  nl_public_id :: string
  nl_tenant :: string
  nl_event :: string
  nl_status :: string
  nl_delivery_status :: string
  nl_channel :: string
  nl_provider :: string
  nl_created_at :: string

record failure_info =
  fi_code :: string
  fi_explanation :: string
  fi_suggested_action :: string

record timeline_event =
  te_type :: string
  te_timestamp :: string
  te_channel :: "string option"
  te_provider :: "string option"
  te_attempt_no :: "int option"
  te_explanation :: "string option"
  te_failure :: "failure_info option"

record delivery_detail =
  dd_id :: string
  dd_channel :: string
  dd_provider :: string
  dd_status :: string
  dd_failure :: failure_info
  dd_attempts :: nat

record notification_detail =
  nd_public_id :: string
  nd_tenant :: string
  nd_event :: string
  nd_status :: string
  nd_template_key :: string
  nd_schedule_type :: string
  nd_created_at :: string
  nd_deliveries :: "delivery_detail list"
  nd_timeline :: "timeline_event list"

record log_filters =
  lf_search :: string
  lf_status :: string
  lf_channel :: string

record log_page =
  lg_list :: "(log_filters, notification_log) paged"
  lg_error :: string
  lg_detail :: "notification_detail option"
  lg_detailLoading :: bool

definition log_mount :: log_page where
  "log_mount = \<lparr>lg_list = pg_mount \<lparr>lf_search = [], lf_status = [], lf_channel = []\<rparr>, lg_error = [], lg_detail = None,
                lg_detailLoading = False\<rparr>"

definition log_params :: "log_filters \<Rightarrow> int \<Rightarrow> int \<Rightarrow> pval obj" where
  "log_params f p n =
    [(''page'', PNum p), (''per_page'', PNum n), (''search'', PStr (lf_search f)), (''status'', PStr (lf_status f)),
     (''channel'', PStr (lf_channel f))]"

definition log_answer :: "nat \<Rightarrow> notification_log list_answer outcome \<Rightarrow> log_page \<Rightarrow> log_page" where
  "log_answer k res s =
    (let s1 = s\<lparr>lg_list := pg_answer k res (lg_list s)\<rparr>
     in case res of
          Inr _ \<Rightarrow> s1
        | Inl err \<Rightarrow> s1\<lparr>lg_error := (case error_message err of Some m \<Rightarrow> m | None \<Rightarrow> [])\<rparr>)"

text \<open>\<^verbatim>\<open>updateFilter\<close> sets the filter and the page in one event.\<close>

definition updateFilter :: "log_filters \<Rightarrow> log_page \<Rightarrow> log_page" where
  "updateFilter f s = s\<lparr>lg_list := pg_update_filter f (lg_list s)\<rparr>"

definition openDetail_start :: "string \<Rightarrow> log_page \<Rightarrow> log_page \<times> api_call" where
  "openDetail_start ident s =
    (s\<lparr>lg_detailLoading := True, lg_error := []\<rparr>, api_get (''/admin/api/v1/notifications/'' @ ident))"

definition openDetail_done :: "notification_detail outcome \<Rightarrow> log_page \<Rightarrow> log_page" where
  "openDetail_done res s =
    (case res of
       Inr d \<Rightarrow> s\<lparr>lg_detail := Some d\<rparr>
     | Inl err \<Rightarrow> s\<lparr>lg_error := getErrorMessage err ''Unable to load notification details''\<rparr>)\<lparr>lg_detailLoading := False\<rparr>"

definition close_detail :: "log_page \<Rightarrow> log_page" where
  "close_detail s = s\<lparr>lg_detail := None\<rparr>"

definition log_row_of :: "log_page \<Rightarrow> notification_log \<Rightarrow> string list \<times> (badge_tone \<times> string) \<times> bool" where
  "log_row_of s item =
    ([nl_public_id item, nl_tenant item, nl_event item, or_str (nl_channel item) ''-'', or_str (nl_provider item) ''-'', nl_created_at item],
     StatusBadge (StatusText (Some (or_str (nl_delivery_status item) (nl_status item)))), \<not> lg_detailLoading s)"

text \<open>An attempt number of zero is rendered as a bare zero.\<close>

definition timeline_line :: "timeline_event \<Rightarrow> string list \<times> string option" where
  "timeline_line e =
    ([replace_all_char CHR ''_'' CHR '' '' (te_type e)]
     @ (case te_channel e of Some c \<Rightarrow> if c \<noteq> [] then [c] else [] | None \<Rightarrow> [])
     @ (case te_provider e of Some p \<Rightarrow> if p \<noteq> [] then [p] else [] | None \<Rightarrow> [])
     @ (case te_attempt_no e of Some n \<Rightarrow> if n \<noteq> 0 then [''attempt '' @ int_str n] else [int_str n] | None \<Rightarrow> [])
     @ [te_timestamp e],
     case te_explanation e of
       Some x \<Rightarrow> if x \<noteq> [] then Some x else map_option fi_explanation (te_failure e)
     | None \<Rightarrow> map_option fi_explanation (te_failure e))"

record log_view =
  lv_send_link :: bool
  lv_error :: string
  lv_rows :: "(string list \<times> (badge_tone \<times> string) \<times> bool) list_content"
  lv_footer :: "pagination_view option"
  lv_detail :: "(string \<times> (badge_tone \<times> string) \<times> string list \<times> string list list \<times> (string list \<times> string option) list) option"

definition NotificationsPage :: "principal option \<Rightarrow> log_page \<Rightarrow> log_view" where
  "NotificationsPage user s =
    \<lparr>lv_send_link = hasPermission user ''notifications.send'',
     lv_error = lg_error s,
     lv_rows = table_content ''No notifications found'' (log_row_of s) (lg_list s),
     lv_footer = (if pg_loading (lg_list s) \<or> pg_items (lg_list s) = [] then None else Some (footer_of (lg_list s))),
     lv_detail = map_option (\<lambda>d.
       (''Notification '' @ nd_public_id d, StatusBadge (StatusText (Some (nd_status d))),
        [or_str (nd_template_key d) ''-'', nd_schedule_type d, nd_created_at d],
        map (\<lambda>x. [dd_channel x, dd_provider x, snd (StatusBadge (StatusText (Some (dd_status x)))), int_str (int (dd_attempts x)), fi_code (dd_failure x), fi_suggested_action (dd_failure x)])
          (nd_deliveries d),
        map timeline_line (nd_timeline d))) (lg_detail s)\<rparr>"

section \<open>The pages under a user and a server\<close>

text \<open>
  The server answers list requests by \<^verbatim>\<open>ans\<close>, in their order; a handler that reloads the list finds
  the filters it captured still in place.
\<close>

inductive contacts_step ::
    "(search_filter \<times> int \<times> int \<Rightarrow> contact list_answer) \<Rightarrow> contacts_page \<Rightarrow> contacts_page \<Rightarrow> bool" for ans where
  filter: "contacts_step ans s (contacts_set_filter f s)"
| turn: "pg_turn (cp_list s) l \<Longrightarrow>
    contacts_step ans s (s\<lparr>cp_list := l, cp_error := (if l = cp_list s then cp_error s else [])\<rparr>)"
| rows: "pg_pending (cp_list s) = q # qs \<Longrightarrow> contacts_step ans s (fst (contacts_answer 0 (Inr (ans q)) s))"
| tenants: "contacts_step ans s (contact_tenants_loaded ts s)"
| create: "contacts_step ans s (create_contact s)"
| view: "contacts_step ans s (view_contact c s)"
| edit: "contacts_step ans s (edit_contact c s)"
| ask_delete: "contacts_step ans s (ask_delete_contact c s)"
| close: "contacts_step ans s (close_contact s)"
| typed: "contacts_step ans s (s\<lparr>cp_form := f\<rparr>)"
| save: "contacts_step ans s (fst (save_contact_start s))"
| saved: "pg_query (cp_list p0) = pg_query (cp_list s) \<Longrightarrow> contacts_step ans s (fst (save_contact_done p0 res s))"
| remove: "contacts_step ans s (fst (remove_contact_start c s))"
| removed: "pg_query (cp_list p0) = pg_query (cp_list s) \<Longrightarrow> contacts_step ans s (fst (remove_contact_done p0 c res s))"

inductive log_step ::
    "(log_filters \<times> int \<times> int \<Rightarrow> notification_log list_answer) \<Rightarrow> log_page \<Rightarrow> log_page \<Rightarrow> bool" for ans where
  filter: "log_step ans s (updateFilter f s)"
| turn: "pg_turn (lg_list s) l \<Longrightarrow> log_step ans s (s\<lparr>lg_list := l\<rparr>)"
| rows: "pg_pending (lg_list s) = q # qs \<Longrightarrow> log_step ans s (log_answer 0 (Inr (ans q)) s)"
| open_detail: "log_step ans s (fst (openDetail_start i s))"
| detail: "log_step ans s (openDetail_done res s)"
| close: "log_step ans s (close_detail s)"

section \<open>Lemmas\<close>

interpretation contacts_source: list_source "''/admin/api/v1/contacts''" search_params
  by unfold_locales (simp_all add: search_params_def obj_wf_def)

interpretation log_source: list_source "''/admin/api/v1/notifications''" log_params
  by unfold_locales (simp_all add: log_params_def obj_wf_def)

interpretation contacts_list: list_page cp_list "\<lambda>s. \<exists>platform. s = contacts_mount platform" contacts_step
proof unfold_locales
  fix ans s s'
  assume "contacts_step ans s s'"
  then show "cp_list s' = cp_list s \<or> pg_step ans (cp_list s) (cp_list s')"
    by cases (auto simp: contacts_set_filter_def contacts_answer_def contact_tenants_loaded_def create_contact_def
        view_contact_def edit_contact_def ask_delete_contact_def close_contact_def save_contact_start_def
        save_contact_done_def remove_contact_start_def remove_contact_done_def contacts_load_def Let_def
        split: sum.splits intro: pg_page_steps)
qed (auto simp: contacts_mount_def)

interpretation log_list: list_page lg_list "\<lambda>s. s = log_mount" log_step
proof unfold_locales
  fix ans s s'
  assume "log_step ans s s'"
  then show "lg_list s' = lg_list s \<or> pg_step ans (lg_list s) (lg_list s')"
    by cases (auto simp: updateFilter_def log_answer_def openDetail_start_def openDetail_done_def close_detail_def
        split: sum.splits intro: pg_page_steps)
qed (auto simp: log_mount_def)

interpretation contacts_served: served_page cp_list "\<lambda>s. \<exists>platform. s = contacts_mount platform" contacts_step "''/admin/api/v1/contacts''" search_params ..

interpretation log_served: served_page lg_list "\<lambda>s. s = log_mount" log_step "''/admin/api/v1/notifications''" log_params ..

lemma contact_payload_get:
  "jprop (contact_payload f) ''name'' = Some (JStr (trim (cf_name f)))"
  "jprop (contact_payload f) ''email'' = Some (JStr (trim (cf_email f)))"
  "jprop (contact_payload f) ''phone'' = Some (JStr (trim (cf_phone f)))"
  "jprop (contact_payload f) ''tenant_id'' = Some (JStr (cf_tenantId f))"
  by (simp_all add: contact_payload_def)

section \<open>Properties\<close>

text \<open>
  A saved contact can be reached: a save makes a request exactly when the trimmed name is
  not empty, an email address or a phone number is given, and a platform administrator who creates a
  contact has chosen a tenant; the request goes to the contact that was opened for editing or else
  creates one, and carries the trimmed values. Opening a stored contact and saving it unchanged sends
  its own fields back.
\<close>

theorem saved_contact_reachable:
  "(snd (save_contact_start s) \<noteq> None) =
     (trim (cf_name (cp_form s)) \<noteq> [] \<and> (trim (cf_email (cp_form s)) \<noteq> [] \<or> trim (cf_phone (cp_form s)) \<noteq> [])
      \<and> (cp_isPlatform s \<and> cp_mode s = Some CreateContact \<longrightarrow> cf_tenantId (cp_form s) \<noteq> []))
   \<and> (snd (save_contact_start s) = Some call \<longrightarrow>
        call_body call = Some (contact_payload (cp_form s)) \<and> cp_saving (fst (save_contact_start s))
        \<and> (call_method call, call_path call) =
            (case cp_mode s of Some (EditContact c) \<Rightarrow> (''PUT'', ''/admin/api/v1/contacts/'' @ ct_id c)
             | _ \<Rightarrow> (''POST'', ''/admin/api/v1/contacts'')))
   \<and> (trim (ct_name c) = ct_name c \<and> trim (ct_email c) = ct_email c \<and> trim (ct_phone c) = ct_phone c \<longrightarrow>
        jprop (contact_payload (cp_form (edit_contact c s))) ''name'' = Some (JStr (ct_name c))
      \<and> jprop (contact_payload (cp_form (edit_contact c s))) ''email'' = Some (JStr (ct_email c))
      \<and> jprop (contact_payload (cp_form (edit_contact c s))) ''phone'' = Some (JStr (ct_phone c))
      \<and> jprop (contact_payload (cp_form (edit_contact c s))) ''tenant_id'' = Some (JStr (ct_tenant_id c)))"
  by (auto simp: save_contact_start_def contact_incomplete_def api_send_def contact_payload_get edit_contact_def
      split: if_splits option.splits contact_mode.splits)

theorem saved_contact_reachable_witness:
  "snd (save_contact_start ((create_contact (contacts_mount False))\<lparr>cp_form := emptyContactForm\<lparr>cf_name := ''Ann'', cf_phone := ''1''\<rparr>\<rparr>)) \<noteq> None"
proof -
  have "trim ''Ann'' \<noteq> [] \<and> trim ''1'' \<noteq> []" by code_simp
  then show ?thesis
    using saved_contact_reachable [of "(create_contact (contacts_mount False))\<lparr>cp_form := emptyContactForm\<lparr>cf_name := ''Ann'', cf_phone := ''1''\<rparr>\<rparr>"]
    by (simp add: create_contact_def contacts_mount_def)
qed

end
