(* ===== verification/Campaigns.thy ===== *)
theory Campaigns
  imports Paged_List Shell
begin

text \<open>
  The campaign page \<^verbatim>\<open>src/notification-admin-ui/src/pages/campaigns/CampaignsPage.tsx\<close> and the queue
  page \<^verbatim>\<open>src/notification-admin-ui/src/pages/queues/QueueControlsPage.tsx\<close>: lists whose rows offer
  the status changes that fit the status shown. The status change of a campaign on the server,
  \<^verbatim>\<open>campaignStatusTransition\<close> of
  \<^verbatim>\<open>src/notification-core-api/internal/http/handlers/crud.go\<close>, stands beside the page; it does not look
  at the status it replaces.
\<close>

section \<open>Campaigns\<close>

record campaign =
  ca_id :: string
  ca_tenant_id :: string
  ca_tenant_name :: "string option"
  ca_name :: string
  ca_description :: string
  ca_status :: string
  ca_scheduled_at :: string
  ca_created_at :: string

text \<open>A confirmed action: the campaign and the verb of the request.\<close>

type_synonym campaign_action = "string \<times> string"

record campaigns_page =
  cm_isPlatform :: bool
  cm_list :: "(search_filter, campaign) paged"
  cm_error :: string
  cm_showForm :: bool
  cm_formError :: string
  cm_name :: string
  cm_description :: string
  cm_saving :: bool
  cm_tenants :: tenant_choices
  cm_confirm :: "campaign_action confirm_state"

definition campaigns_mount :: "bool \<Rightarrow> campaigns_page" where
  "campaigns_mount platform =
    \<lparr>cm_isPlatform = platform, cm_list = pg_mount \<lparr>sf_tenant = [], sf_search = []\<rparr>, cm_error = [], cm_showForm = False,
     cm_formError = [], cm_name = [], cm_description = [], cm_saving = False, cm_tenants = [], cm_confirm = confirm_init\<rparr>"

definition campaigns_call :: "search_filter \<times> int \<times> int \<Rightarrow> api_call" where
  "campaigns_call q = (case q of (f, p, n) \<Rightarrow> api_get (listPage_url ''/admin/api/v1/campaigns'' (search_params f p n)))"

definition campaigns_load :: "campaigns_page \<Rightarrow> campaigns_page \<Rightarrow> campaigns_page" where
  "campaigns_load p0 s = s\<lparr>cm_list := pg_load_as (pg_query (cm_list p0)) (cm_list s)\<rparr>"

definition campaigns_answer :: "nat \<Rightarrow> campaign list_answer outcome \<Rightarrow> campaigns_page \<Rightarrow> campaigns_page \<times> toast_call list" where
  "campaigns_answer k res s =
    (s\<lparr>cm_list := pg_answer k res (cm_list s)\<rparr>,
     case res of Inr _ \<Rightarrow> [] | Inl err \<Rightarrow> [(TError, ''Unable to load campaigns'', Some (getErrorMessage err ''Load failed''))])"

definition campaign_tenants_loaded :: "tenant_choices outcome \<Rightarrow> campaigns_page \<Rightarrow> campaigns_page" where
  "campaign_tenants_loaded res s = s\<lparr>cm_tenants := tenants_or res (cm_tenants s)\<rparr>"

definition campaigns_set_filter :: "search_filter \<Rightarrow> campaigns_page \<Rightarrow> campaigns_page" where
  "campaigns_set_filter f s = s\<lparr>cm_list := pg_set_filter f (cm_list s)\<rparr>"

definition campaign_submit_start :: "campaigns_page \<Rightarrow> campaigns_page \<times> api_call" where
  "campaign_submit_start s =
    (s\<lparr>cm_saving := True, cm_error := [], cm_formError := []\<rparr>,
     api_send ''POST'' ''/admin/api/v1/campaigns'' (str_obj [(''name'', cm_name s), (''description'', cm_description s)]))"

definition campaign_submit_done :: "campaigns_page \<Rightarrow> unit outcome \<Rightarrow> campaigns_page \<Rightarrow> campaigns_page \<times> toast_call list" where
  "campaign_submit_done p0 res s =
    (case res of
       Inr _ \<Rightarrow>
         ((campaigns_load p0 (s\<lparr>cm_name := [], cm_description := [], cm_showForm := False\<rparr>))\<lparr>cm_saving := False\<rparr>,
          [(TSuccess, ''Campaign created'', Some (cm_name p0))])
     | Inl err \<Rightarrow>
         (let msg = getErrorMessage err ''Create failed''
          in (s\<lparr>cm_formError := msg, cm_saving := False\<rparr>, [(TError, ''Unable to create campaign'', Some msg)])))"

definition campaign_transition :: "campaign_action \<Rightarrow> api_call" where
  "campaign_transition a =
    (case a of (ident, verb) \<Rightarrow>
      \<lparr>call_method = ''POST'', call_path = ''/admin/api/v1/campaigns/'' @ ident @ ''/'' @ verb, call_body = None\<rparr>)"

definition campaign_transition_done ::
    "campaigns_page \<Rightarrow> campaign_action \<Rightarrow> unit outcome \<Rightarrow> campaigns_page \<Rightarrow> campaigns_page \<times> toast_call list" where
  "campaign_transition_done p0 a res s =
    (case res of
       Inr _ \<Rightarrow> (campaigns_load p0 s, [(TSuccess, ''Campaign '' @ snd a @ ''ed'', None)])
     | Inl err \<Rightarrow> (s, [(TError, ''Campaign action failed'', Some (getErrorMessage err ''Action failed''))]))"

definition campaign_toggle_form :: "campaigns_page \<Rightarrow> campaigns_page" where
  "campaign_toggle_form s = s\<lparr>cm_formError := [], cm_showForm := \<not> cm_showForm s\<rparr>"

definition campaign_close_form :: "campaigns_page \<Rightarrow> campaigns_page" where
  "campaign_close_form s = s\<lparr>cm_showForm := False\<rparr>"

text \<open>The buttons of a row: label and verb.\<close>

definition campaign_buttons :: "principal option \<Rightarrow> string \<Rightarrow> (string \<times> string) list" where
  "campaign_buttons user status =
    (if status = ''draft'' \<and> hasPermission user ''campaigns.approve'' then [(''Approve'', ''approve'')] else [])
    @ (if status = ''approved'' \<and> hasPermission user ''campaigns.send'' then [(''Send'', ''send'')] else [])
    @ (if (status = ''draft'' \<or> status = ''approved'') \<and> hasPermission user ''campaigns.cancel'' then [(''Cancel'', ''cancel'')] else [])"

definition campaign_request :: "campaign \<Rightarrow> string \<Rightarrow> campaigns_page \<Rightarrow> campaigns_page" where
  "campaign_request item verb s =
    s\<lparr>cm_confirm := requestConfirm
       \<lparr>intent_title = (if verb = ''approve'' then ''Approve campaign'' else if verb = ''send'' then ''Send campaign'' else ''Cancel campaign''),
        intent_description = Some ''Confirm campaign action'',
        intent_body = (if verb = ''approve'' then [''Approve '', ca_name item, ''?''] else if verb = ''send'' then [''Send '', ca_name item, '' now?''] else [''Cancel '', ca_name item, ''?'']),
        intent_confirmLabel = Some (if verb = ''approve'' then ''Approve'' else if verb = ''send'' then ''Send campaign'' else ''Cancel campaign''),
        intent_variant = (if verb = ''cancel'' then Some CDanger else None),
        intent_onConfirm = (ca_id item, verb)\<rparr> (cm_confirm s)\<rparr>"

record campaigns_view =
  cmv_create :: "string option"
  cmv_form :: "(string \<times> bool \<times> string) option"
  cmv_clear :: bool
  cmv_rows :: "(string list \<times> string option \<times> (badge_tone \<times> string) \<times> (string \<times> string) list) list_content"
  cmv_footer :: "pagination_view option"
  cmv_dialog :: "dialog_view option"

definition campaign_row_of ::
    "principal option \<Rightarrow> campaigns_page \<Rightarrow> campaign \<Rightarrow> string list \<times> string option \<times> (badge_tone \<times> string) \<times> (string \<times> string) list" where
  "campaign_row_of user s item =
    ([ca_name item, or_str (ca_scheduled_at item) ''-'', ca_created_at item],
     (if cm_isPlatform s then Some (or_opt (ca_tenant_name item) ''-'') else None),
     StatusBadge (StatusText (Some (ca_status item))), campaign_buttons user (ca_status item))"

definition CampaignsPage :: "principal option \<Rightarrow> campaigns_page \<Rightarrow> campaigns_view" where
  "CampaignsPage user s =
    (let f = pg_filters (cm_list s)
     in \<lparr>cmv_create = (if hasPermission user ''campaigns.create'' then Some (if cm_showForm s then ''Cancel'' else ''Create campaign'') else None),
         cmv_form = (if cm_showForm s then Some (cm_formError s, \<not> cm_saving s, if cm_saving s then ''Creating...'' else ''Create campaign'') else None),
         cmv_clear = (sf_search f \<noteq> [] \<or> sf_tenant f \<noteq> []),
         cmv_rows = table_content ''No campaigns found'' (campaign_row_of user s) (cm_list s),
         cmv_footer = (if pg_loading (cm_list s) \<or> pg_items (cm_list s) = [] then None else Some (footer_of (cm_list s))),
         cmv_dialog = confirmDialog (cm_confirm s)\<rparr>)"

text \<open>The server: the status a verb sets, whatever the status was.\<close>

definition campaignStatusTransition :: "string \<Rightarrow> string \<Rightarrow> string option" where
  "campaignStatusTransition verb status =
    (if verb = ''approve'' then Some ''approved''
     else if verb = ''send'' then Some ''sending''
     else if verb = ''cancel'' then Some ''cancelled''
     else None)"

section \<open>Queues\<close>

record queue_control =
  qc_id :: string
  qc_tenant_id :: string
  qc_tenant_name :: "string option"
  qc_channel :: string
  qc_queue_name :: string
  qc_status :: string
  qc_max_attempts :: int
  qc_retry_delay_seconds :: int
  qc_notes :: string
  qc_updated_at :: string

record queue_filters =
  qf_tenant :: string
  qf_search :: string
  qf_channel :: string
  qf_status :: string

record queues_page =
  qp_isPlatform :: bool
  qp_list :: "(queue_filters, queue_control) paged"
  qp_tenants :: tenant_choices
  qp_saving :: string

definition no_queue_filters :: queue_filters where
  "no_queue_filters = \<lparr>qf_tenant = [], qf_search = [], qf_channel = [], qf_status = []\<rparr>"

definition queues_mount :: "bool \<Rightarrow> queues_page" where
  "queues_mount platform = \<lparr>qp_isPlatform = platform, qp_list = pg_mount no_queue_filters, qp_tenants = [], qp_saving = []\<rparr>"

definition queues_params :: "queue_filters \<Rightarrow> int \<Rightarrow> int \<Rightarrow> pval obj" where
  "queues_params f p n =
    [(''tenant_id'', PStr (qf_tenant f)), (''q'', PStr (qf_search f)), (''filter_channel'', PStr (qf_channel f)),
     (''filter_status'', PStr (qf_status f)), (''page'', PNum p), (''per_page'', PNum n)]"

definition queues_answer :: "nat \<Rightarrow> queue_control list_answer outcome \<Rightarrow> queues_page \<Rightarrow> queues_page \<times> toast_call list" where
  "queues_answer k res s =
    (s\<lparr>qp_list := pg_answer k res (qp_list s)\<rparr>,
     case res of Inr _ \<Rightarrow> [] | Inl err \<Rightarrow> [(TError, ''Unable to load queue controls'', Some (getErrorMessage err ''Load failed''))])"

definition queue_tenants_loaded :: "tenant_choices outcome \<Rightarrow> queues_page \<Rightarrow> queues_page" where
  "queue_tenants_loaded res s = s\<lparr>qp_tenants := tenants_or res (qp_tenants s)\<rparr>"

definition queues_set_filter :: "queue_filters \<Rightarrow> queues_page \<Rightarrow> queues_page" where
  "queues_set_filter f s = s\<lparr>qp_list := pg_set_filter f (qp_list s)\<rparr>"

definition updateStatus_start :: "queue_control \<Rightarrow> string \<Rightarrow> queues_page \<Rightarrow> queues_page \<times> api_call" where
  "updateStatus_start item status s =
    (s\<lparr>qp_saving := qc_id item\<rparr>, api_send ''PATCH'' (''/admin/api/v1/queue-controls/'' @ qc_id item) (str_obj [(''status'', status)]))"

definition updateStatus_done ::
    "queues_page \<Rightarrow> queue_control \<Rightarrow> string \<Rightarrow> unit outcome \<Rightarrow> queues_page \<Rightarrow> queues_page \<times> toast_call list" where
  "updateStatus_done p0 item status res s =
    (case res of
       Inr _ \<Rightarrow> (s\<lparr>qp_list := pg_load_as (pg_query (qp_list p0)) (qp_list s), qp_saving := []\<rparr>,
                [(TSuccess, ''Queue '' @ status, Some (qc_queue_name item))])
     | Inl err \<Rightarrow> (s\<lparr>qp_saving := []\<rparr>, [(TError, ''Unable to update queue'', Some (getErrorMessage err ''Update failed''))]))"

text \<open>The buttons of a row with the status they set; all are disabled while the row is saved.\<close>

definition queue_buttons :: "principal option \<Rightarrow> string \<Rightarrow> (string \<times> string) list" where
  "queue_buttons user status =
    (if hasPermission user ''queue_controls.update''
     then filter (\<lambda>(label, st). status \<noteq> st) [(''Resume'', ''active''), (''Pause'', ''paused''), (''Stop'', ''stopped'')]
     else [])"

definition queue_row_of ::
    "principal option \<Rightarrow> queues_page \<Rightarrow> queue_control \<Rightarrow> string list \<times> string option \<times> (badge_tone \<times> string) \<times> (string \<times> string) list \<times> bool" where
  "queue_row_of user s item =
    ([qc_queue_name item, qc_notes item, replace_first_char CHR ''_'' CHR '' '' (qc_channel item),
      int_str (qc_max_attempts item) @ '' attempts / '' @ int_str (qc_retry_delay_seconds item) @ ''s'', qc_updated_at item],
     (if qp_isPlatform s then Some (or_opt (qc_tenant_name item) (qc_tenant_id item)) else None),
     StatusBadge (StatusText (Some (qc_status item))), queue_buttons user (qc_status item), qp_saving s \<noteq> qc_id item)"

definition QueueControlsPage ::
    "principal option \<Rightarrow> queues_page \<Rightarrow> (string list \<times> string option \<times> (badge_tone \<times> string) \<times> (string \<times> string) list \<times> bool) list_content
       \<times> pagination_view option \<times> bool" where
  "QueueControlsPage user s =
    (table_content ''No queue controls found'' (queue_row_of user s) (qp_list s),
     (if pg_loading (qp_list s) \<or> pg_items (qp_list s) = [] then None else Some (footer_of (qp_list s))),
     pg_filters (qp_list s) \<noteq> no_queue_filters)"

text \<open>The server accepts three statuses, \<^verbatim>\<open>UpdateQueueControl\<close> of handlers.go.\<close>

definition UpdateQueueControl :: "string \<Rightarrow> string option" where
  "UpdateQueueControl status = (if status \<noteq> ''active'' \<and> status \<noteq> ''paused'' \<and> status \<noteq> ''stopped'' then None else Some status)"

section \<open>The life of a campaign\<close>

text \<open>
  The statuses a campaign goes through when every action is taken on a row that shows its current
  status, oldest first.
\<close>

inductive campaign_history :: "principal option \<Rightarrow> string list \<Rightarrow> bool" for user where
  created: "campaign_history user [''draft'']"
| action: "campaign_history user (h @ [st]) \<Longrightarrow> (label, verb) \<in> set (campaign_buttons user st) \<Longrightarrow>
    campaignStatusTransition verb st = Some st' \<Longrightarrow> campaign_history user (h @ [st, st'])"

section \<open>The pages under a user and a server\<close>

text \<open>
  The server answers list requests by \<^verbatim>\<open>ans\<close>, in their order; a handler that reloads the list finds
  the filters it captured still in place.
\<close>

inductive campaigns_step ::
    "(search_filter \<times> int \<times> int \<Rightarrow> campaign list_answer) \<Rightarrow> campaigns_page \<Rightarrow> campaigns_page \<Rightarrow> bool" for ans where
  filter: "campaigns_step ans s (campaigns_set_filter f s)"
| turn: "pg_turn (cm_list s) l \<Longrightarrow> campaigns_step ans s (s\<lparr>cm_list := l\<rparr>)"
| rows: "pg_pending (cm_list s) = q # qs \<Longrightarrow> campaigns_step ans s (fst (campaigns_answer 0 (Inr (ans q)) s))"
| tenants: "campaigns_step ans s (campaign_tenants_loaded ts s)"
| toggle: "campaigns_step ans s (campaign_toggle_form s)"
| close: "campaigns_step ans s (campaign_close_form s)"
| typed: "campaigns_step ans s (s\<lparr>cm_name := n, cm_description := d\<rparr>)"
| submit: "campaigns_step ans s (fst (campaign_submit_start s))"
| submitted: "pg_query (cm_list p0) = pg_query (cm_list s) \<Longrightarrow> campaigns_step ans s (fst (campaign_submit_done p0 res s))"
| request: "campaigns_step ans s (campaign_request item verb s)"
| confirm: "confirm_start (cm_confirm s) = (Some a, c) \<Longrightarrow> campaigns_step ans s (s\<lparr>cm_confirm := c\<rparr>)"
| performed: "pg_query (cm_list p0) = pg_query (cm_list s) \<Longrightarrow>
    campaigns_step ans s ((fst (campaign_transition_done p0 a res s))\<lparr>cm_confirm := confirm_finish True (cm_confirm s)\<rparr>)"
| cancel: "campaigns_step ans s (s\<lparr>cm_confirm := confirm_close (cm_confirm s)\<rparr>)"

inductive queues_step ::
    "(queue_filters \<times> int \<times> int \<Rightarrow> queue_control list_answer) \<Rightarrow> queues_page \<Rightarrow> queues_page \<Rightarrow> bool" for ans where
  filter: "queues_step ans s (queues_set_filter f s)"
| turn: "pg_turn (qp_list s) l \<Longrightarrow> queues_step ans s (s\<lparr>qp_list := l\<rparr>)"
| rows: "pg_pending (qp_list s) = q # qs \<Longrightarrow> queues_step ans s (fst (queues_answer 0 (Inr (ans q)) s))"
| tenants: "queues_step ans s (queue_tenants_loaded ts s)"
| update: "queues_step ans s (fst (updateStatus_start item status s))"
| updated: "pg_query (qp_list p0) = pg_query (qp_list s) \<Longrightarrow> queues_step ans s (fst (updateStatus_done p0 item status res s))"

section \<open>Lemmas\<close>

interpretation campaigns_source: list_source "''/admin/api/v1/campaigns''" search_params
  by unfold_locales (simp_all add: search_params_def obj_wf_def)

interpretation queues_source: list_source "''/admin/api/v1/queue-controls''" queues_params
  by unfold_locales (simp_all add: queues_params_def obj_wf_def)

interpretation campaigns_list: list_page cm_list "\<lambda>s. \<exists>platform. s = campaigns_mount platform" campaigns_step
proof unfold_locales
  fix ans s s'
  assume "campaigns_step ans s s'"
  then show "cm_list s' = cm_list s \<or> pg_step ans (cm_list s) (cm_list s')"
    by cases (auto simp: campaigns_set_filter_def campaigns_answer_def campaign_tenants_loaded_def campaign_toggle_form_def
        campaign_close_form_def campaign_submit_start_def campaign_submit_done_def campaign_request_def
        campaign_transition_done_def campaigns_load_def Let_def
        split: sum.splits intro: pg_page_steps)
qed (auto simp: campaigns_mount_def)

interpretation queues_list: list_page qp_list "\<lambda>s. \<exists>platform. s = queues_mount platform" queues_step
proof unfold_locales
  fix ans s s'
  assume "queues_step ans s s'"
  then show "qp_list s' = qp_list s \<or> pg_step ans (qp_list s) (qp_list s')"
    by cases (auto simp: queues_set_filter_def queues_answer_def queue_tenants_loaded_def updateStatus_start_def
        updateStatus_done_def split: sum.splits intro: pg_page_steps)
qed (auto simp: queues_mount_def)

interpretation campaigns_served: served_page cm_list "\<lambda>s. \<exists>platform. s = campaigns_mount platform" campaigns_step "''/admin/api/v1/campaigns''" search_params ..

interpretation queues_served: served_page qp_list "\<lambda>s. \<exists>platform. s = queues_mount platform" queues_step "''/admin/api/v1/queue-controls''" queues_params ..

lemma campaign_buttons_cases:
  "(label, verb) \<in> set (campaign_buttons user st) \<Longrightarrow>
     (verb = ''approve'' \<and> st = ''draft'' \<and> hasPermission user ''campaigns.approve'')
     \<or> (verb = ''send'' \<and> st = ''approved'' \<and> hasPermission user ''campaigns.send'')
     \<or> (verb = ''cancel'' \<and> (st = ''draft'' \<or> st = ''approved'') \<and> hasPermission user ''campaigns.cancel'')"
  by (auto simp: campaign_buttons_def split: if_splits)

lemma campaign_endpoints:
  "map_of endpoint_permission (''POST'', ''/admin/api/v1/campaigns/{id}/approve'') = Some ''campaigns.approve''"
  "map_of endpoint_permission (''POST'', ''/admin/api/v1/campaigns/{id}/send'') = Some ''campaigns.send''"
  "map_of endpoint_permission (''POST'', ''/admin/api/v1/campaigns/{id}/cancel'') = Some ''campaigns.cancel''"
  by code_simp+

definition campaign_paths :: "string list set" where
  "campaign_paths = {[''draft''], [''draft'', ''approved''], [''draft'', ''approved'', ''sending''],
     [''draft'', ''cancelled''], [''draft'', ''approved'', ''cancelled'']}"

lemma campaign_history_paths: "campaign_history user h \<Longrightarrow> h \<in> campaign_paths"
proof (induction rule: campaign_history.induct)
  case created
  show ?case by (simp add: campaign_paths_def)
next
  case (action h st label verb st')
  have "h @ [st] \<in> {[''draft''], [''draft'', ''approved'']}"
    using action.IH campaign_buttons_cases [OF action.hyps(2)]
    by (auto simp: campaign_paths_def)
  then have "(h = [] \<and> st = ''draft'') \<or> (h = [''draft''] \<and> st = ''approved'')"
    by (cases h) auto
  with campaign_buttons_cases [OF action.hyps(2)] action.hyps(3) show ?case
    by (elim disjE conjE; simp add: campaignStatusTransition_def campaign_paths_def)
qed

lemma queue_buttons_iff:
  "hasPermission user ''queue_controls.update'' \<Longrightarrow>
     (\<exists>label. (label, st') \<in> set (queue_buttons user st)) \<longleftrightarrow> st' \<noteq> st \<and> UpdateQueueControl st' \<noteq> None"
  by (auto simp: queue_buttons_def UpdateQueueControl_def)

section \<open>Properties\<close>

text \<open>
  Property C40. The life of a campaign: as long as every action is taken on a row that shows the current
  status, a campaign is approved before it is sent, it is sent or cancelled at most once and nothing
  follows either, and every button stands for an action its user may perform on the server. But the
  server does not look at the status it replaces, so a button of a row that was loaded before another
  administrator cancelled the campaign sends it all the same.
\<close>

theorem campaign_lifecycle:
  "(campaign_history user h \<longrightarrow> h \<in> {[''draft''], [''draft'', ''approved''], [''draft'', ''approved'', ''sending''],
       [''draft'', ''cancelled''], [''draft'', ''approved'', ''cancelled'']})
   \<and> (\<forall>(label, verb) \<in> set (campaign_buttons user st).
        \<exists>p. map_of endpoint_permission (''POST'', ''/admin/api/v1/campaigns/{id}/'' @ verb) = Some p \<and> hasPermission user p)
   \<and> (hasPermission user ''campaigns.send'' \<longrightarrow>
        (''Send'', ''send'') \<in> set (campaign_buttons user ''approved'') \<and> campaignStatusTransition ''send'' ''cancelled'' = Some ''sending'')"
  unfolding campaign_paths_def [symmetric]
proof (intro conjI)
  show "campaign_history user h \<longrightarrow> h \<in> campaign_paths" using campaign_history_paths by blast
  show "\<forall>(label, verb) \<in> set (campaign_buttons user st).
        \<exists>p. map_of endpoint_permission (''POST'', ''/admin/api/v1/campaigns/{id}/'' @ verb) = Some p \<and> hasPermission user p"
  proof (intro ballI, clarify)
    fix label verb assume "(label, verb) \<in> set (campaign_buttons user st)"
    from campaign_buttons_cases [OF this] campaign_endpoints
    show "\<exists>p. map_of endpoint_permission (''POST'', ''/admin/api/v1/campaigns/{id}/'' @ verb) = Some p \<and> hasPermission user p"
      by (elim disjE) simp_all
  qed
  show "hasPermission user ''campaigns.send'' \<longrightarrow>
        (''Send'', ''send'') \<in> set (campaign_buttons user ''approved'') \<and> campaignStatusTransition ''send'' ''cancelled'' = Some ''sending''"
    by (simp add: campaign_buttons_def campaignStatusTransition_def)
qed

theorem campaign_lifecycle_witness:
  "(''Send'', ''send'') \<in> set (campaign_buttons (Some (demo_user\<lparr>is_platform_admin := True\<rparr>)) ''approved'')"
  using campaign_lifecycle [of "Some (demo_user\<lparr>is_platform_admin := True\<rparr>)" "[''draft'']" "''draft''"]
  by (simp add: hasPermission_simps)

end
