(* ===== verification/Api_Keys.thy ===== *)
theory Api_Keys
  imports Paged_List Auth
begin

text \<open>
  The page of API keys, \<^verbatim>\<open>src/notification-admin-ui/src/pages/api-keys/ApiKeysPage.tsx\<close>, and the page of
  contact groups, \<^verbatim>\<open>src/notification-admin-ui/src/pages/groups/GroupsPage.tsx\<close>. Progress labels are
  written without their trailing ellipsis.
\<close>

section \<open>API keys\<close>

record api_key =
  ak_id :: string
  ak_tenant_id :: string
  ak_tenant_name :: "string option"
  ak_name :: string
  ak_scopes :: string
  ak_status :: string
  ak_last_used_at :: string
  ak_created_at :: string

record keys_page =
  kp_isPlatform :: bool
  kp_list :: "(search_filter, api_key) paged"
  kp_showForm :: bool
  kp_name :: string
  kp_saving :: bool
  kp_newKey :: string
  kp_copied :: bool
  kp_revokeTarget :: "api_key option"
  kp_selected :: "api_key option"
  kp_tenants :: tenant_choices
  kp_tenantId :: string

definition keys_mount :: "bool \<Rightarrow> keys_page" where
  "keys_mount platform =
    \<lparr>kp_isPlatform = platform, kp_list = pg_mount \<lparr>sf_tenant = [], sf_search = []\<rparr>, kp_showForm = False, kp_name = [],
     kp_saving = False, kp_newKey = [], kp_copied = False, kp_revokeTarget = None, kp_selected = None, kp_tenants = [],
     kp_tenantId = []\<rparr>"

definition keys_load :: "keys_page \<Rightarrow> keys_page \<Rightarrow> keys_page" where
  "keys_load p0 s = s\<lparr>kp_list := pg_load_as (pg_query (kp_list p0)) (kp_list s)\<rparr>"

definition keys_answer :: "nat \<Rightarrow> api_key list_answer outcome \<Rightarrow> keys_page \<Rightarrow> keys_page \<times> toast_call list" where
  "keys_answer k res s =
    (s\<lparr>kp_list := pg_answer k res (kp_list s)\<rparr>,
     case res of Inr _ \<Rightarrow> [] | Inl err \<Rightarrow> [(TError, ''Unable to load API keys'', Some (getErrorMessage err ''Load failed''))])"

definition keys_tenants_loaded :: "tenant_choices outcome \<Rightarrow> keys_page \<Rightarrow> keys_page" where
  "keys_tenants_loaded res s = s\<lparr>kp_tenants := tenants_or res (kp_tenants s)\<rparr>"

definition keys_set_filter :: "search_filter \<Rightarrow> keys_page \<Rightarrow> keys_page" where
  "keys_set_filter f s = s\<lparr>kp_list := pg_set_filter f (kp_list s)\<rparr>"

definition default_key_name :: "tenant_option \<Rightarrow> string" where
  "default_key_name t = to_name t @ '' API Key''"

text \<open>Choosing a tenant proposes a name, unless a name of another kind was typed.\<close>

definition chooseTenant :: "string \<Rightarrow> keys_page \<Rightarrow> keys_page" where
  "chooseTenant v s =
    (let s1 = s\<lparr>kp_tenantId := v\<rparr>
     in case find (\<lambda>(t, st). to_id t = v) (kp_tenants s) of
          Some (t, st) \<Rightarrow>
            if kp_name s = [] \<or> list_ex (\<lambda>(t', st'). kp_name s = default_key_name t') (kp_tenants s)
            then s1\<lparr>kp_name := default_key_name t\<rparr> else s1
        | None \<Rightarrow> s1)"

definition enter_key_name :: "string \<Rightarrow> keys_page \<Rightarrow> keys_page" where
  "enter_key_name v s = s\<lparr>kp_name := v\<rparr>"

definition key_submit_start :: "keys_page \<Rightarrow> keys_page \<times> api_call" where
  "key_submit_start s =
    (s\<lparr>kp_saving := True, kp_newKey := []\<rparr>,
     api_send ''POST'' ''/admin/api/v1/api-keys''
       (str_obj ([(''name'', kp_name s)] @ (if kp_isPlatform s then [(''tenant_id'', kp_tenantId s)] else []))))"

definition key_submit_done :: "keys_page \<Rightarrow> string outcome \<Rightarrow> keys_page \<Rightarrow> keys_page \<times> toast_call list" where
  "key_submit_done p0 res s =
    (case res of
       Inr key \<Rightarrow>
         ((keys_load p0 (s\<lparr>kp_newKey := key, kp_name := []\<rparr>))\<lparr>kp_saving := False\<rparr>,
          [(TSuccess, ''API key created'', Some ''Copy it now. It will not be shown again.'')])
     | Inl err \<Rightarrow> (s\<lparr>kp_saving := False\<rparr>, [(TError, ''Unable to create API key'', Some (getErrorMessage err ''Create failed''))]))"

text \<open>Copying: the text for the clipboard, then the mark that a timer removes again.\<close>

definition copyKey :: "keys_page \<Rightarrow> string option" where
  "copyKey s = (if kp_newKey s = [] then None else Some (kp_newKey s))"

definition copy_mark :: "bool \<Rightarrow> keys_page \<Rightarrow> keys_page" where
  "copy_mark b s = s\<lparr>kp_copied := b\<rparr>"

definition dismiss_key :: "keys_page \<Rightarrow> keys_page" where
  "dismiss_key s = s\<lparr>kp_newKey := [], kp_showForm := False\<rparr>"

definition revoke_call :: "string \<Rightarrow> api_call" where
  "revoke_call ident = api_delete (''/admin/api/v1/api-keys/'' @ ident)"

definition revoke_done :: "keys_page \<Rightarrow> unit outcome \<Rightarrow> keys_page \<Rightarrow> keys_page \<times> toast_call list" where
  "revoke_done p0 res s =
    (case res of
       Inr _ \<Rightarrow> (keys_load p0 (s\<lparr>kp_revokeTarget := None\<rparr>), [(TSuccess, ''API key revoked'', None)])
     | Inl err \<Rightarrow> (s, [(TError, ''Unable to revoke API key'', Some (getErrorMessage err ''Revoke failed''))]))"

definition toggle_key_form :: "keys_page \<Rightarrow> keys_page" where
  "toggle_key_form s = s\<lparr>kp_tenantId := sf_tenant (pg_filters (kp_list s)), kp_showForm := \<not> kp_showForm s\<rparr>"

definition close_key_form :: "keys_page \<Rightarrow> keys_page" where
  "close_key_form s = s\<lparr>kp_showForm := False\<rparr>"

definition select_key :: "api_key option \<Rightarrow> keys_page \<Rightarrow> keys_page" where
  "select_key k s = s\<lparr>kp_selected := k\<rparr>"

definition ask_revoke :: "api_key option \<Rightarrow> keys_page \<Rightarrow> keys_page" where
  "ask_revoke k s = s\<lparr>kp_revokeTarget := k\<rparr>"

definition revoke_selected :: "keys_page \<Rightarrow> keys_page" where
  "revoke_selected s = s\<lparr>kp_selected := None, kp_revokeTarget := kp_selected s\<rparr>"

definition key_row_of ::
    "principal option \<Rightarrow> keys_page \<Rightarrow> api_key \<Rightarrow> string list \<times> string option \<times> (badge_tone \<times> string) \<times> bool \<times> bool" where
  "key_row_of user s item =
    ([ak_name item, or_str (ak_last_used_at item) ''never'', ak_created_at item],
     (if kp_isPlatform s then Some (or_opt (ak_tenant_name item) ''-'') else None),
     StatusBadge (StatusText (Some (ak_status item))),
     hasPermission user ''api_keys.view'', ak_status item = ''active'' \<and> hasPermission user ''api_keys.revoke'')"

definition key_details :: "api_key \<Rightarrow> (string \<times> string) list" where
  "key_details k =
    [(''Tenant'', or_opt (ak_tenant_name k) (ak_tenant_id k)), (''Status'', ak_status k), (''Scopes'', or_str (ak_scopes k) ''[]''),
     (''Last used'', or_str (ak_last_used_at k) ''Never''), (''Created'', ak_created_at k), (''Key ID'', ak_id k)]"

text \<open>The tenants a key can be created for: the active ones.\<close>

definition key_tenant_options :: "keys_page \<Rightarrow> select_option list" where
  "key_tenant_options s =
    map (\<lambda>(t, st). \<lparr>so_value = to_id t, so_label = to_name t @ '' ('' @ (case to_slug t of Some sl \<Rightarrow> sl | None \<Rightarrow> ''undefined'') @ '')'', so_disabled = False\<rparr>)
      (filter (\<lambda>(t, st). st = ''active'') (kp_tenants s))"

record keys_view =
  kv_create :: "string option"
  kv_rows :: "(string list \<times> string option \<times> (badge_tone \<times> string) \<times> bool \<times> bool) list_content"
  kv_footer :: "pagination_view option"
  kv_clear :: bool
  kv_form :: "(bool \<times> string \<times> select_option list option) option"
  kv_selected :: "((string \<times> string) list \<times> bool) option"
  kv_secret :: "(string \<times> string) option"
  kv_revoke :: "string option"

definition ApiKeysPage :: "principal option \<Rightarrow> keys_page \<Rightarrow> keys_view" where
  "ApiKeysPage user s =
    \<lparr>kv_create = (if hasPermission user ''api_keys.create'' then Some (if kp_showForm s then ''Cancel'' else ''Create API key'') else None),
     kv_rows = table_content ''No API keys found'' (key_row_of user s) (kp_list s),
     kv_footer = (if pg_loading (kp_list s) \<or> pg_items (kp_list s) = [] then None else Some (footer_of (kp_list s))),
     kv_clear = (sf_search (pg_filters (kp_list s)) \<noteq> [] \<or> sf_tenant (pg_filters (kp_list s)) \<noteq> []),
     kv_form = (if kp_showForm s \<and> kp_newKey s = []
       then Some (\<not> (kp_saving s \<or> (kp_isPlatform s \<and> kp_tenantId s = [])), if kp_saving s then ''Creating'' else ''Create API key'',
                  if kp_isPlatform s then Some (key_tenant_options s) else None)
       else None),
     kv_selected = map_option (\<lambda>k. (key_details k, ak_status k = ''active'' \<and> hasPermission user ''api_keys.revoke'')) (kp_selected s),
     kv_secret = (if kp_newKey s \<noteq> [] then Some (kp_newKey s, if kp_copied s then ''Copied'' else ''Copy'') else None),
     kv_revoke = map_option ak_name (kp_revokeTarget s)\<rparr>"

section \<open>Contact groups\<close>

record group =
  gr_id :: string
  gr_tenant_name :: "string option"
  gr_name :: string
  gr_description :: string
  gr_member_count :: int
  gr_status :: string

record member =
  mb_id :: string
  mb_name :: string
  mb_email :: string
  mb_phone :: string

datatype group_action = RemoveGroup string | RemoveMember string string

record groups_page =
  gp_isPlatform :: bool
  gp_list :: "(search_filter, group) paged"
  gp_contacts :: "member list"
  gp_showForm :: bool
  gp_formError :: string
  gp_name :: string
  gp_description :: string
  gp_saving :: bool
  gp_expanded :: "string option"
  gp_members :: "member list"
  gp_showAddMember :: "string option"
  gp_tenants :: tenant_choices
  gp_confirm :: "group_action confirm_state"

definition groups_mount :: "bool \<Rightarrow> groups_page" where
  "groups_mount platform =
    \<lparr>gp_isPlatform = platform, gp_list = pg_mount \<lparr>sf_tenant = [], sf_search = []\<rparr>, gp_contacts = [], gp_showForm = False,
     gp_formError = [], gp_name = [], gp_description = [], gp_saving = False, gp_expanded = None, gp_members = [],
     gp_showAddMember = None, gp_tenants = [], gp_confirm = confirm_init\<rparr>"

definition groups_reload :: "groups_page \<Rightarrow> groups_page \<Rightarrow> groups_page" where
  "groups_reload p0 s = s\<lparr>gp_list := pg_load_as (pg_query (gp_list p0)) (gp_list s)\<rparr>"

definition groups_answer :: "nat \<Rightarrow> group list_answer outcome \<Rightarrow> groups_page \<Rightarrow> groups_page \<times> toast_call list" where
  "groups_answer k res s =
    (s\<lparr>gp_list := pg_answer k res (gp_list s)\<rparr>,
     case res of Inr _ \<Rightarrow> [] | Inl err \<Rightarrow> [(TError, ''Unable to load groups'', Some (getErrorMessage err ''Load failed''))])"

definition group_contacts_loaded :: "member list outcome \<Rightarrow> groups_page \<Rightarrow> groups_page" where
  "group_contacts_loaded res s = (case res of Inr cs \<Rightarrow> s\<lparr>gp_contacts := cs\<rparr> | Inl _ \<Rightarrow> s)"

definition group_tenants_loaded :: "tenant_choices outcome \<Rightarrow> groups_page \<Rightarrow> groups_page" where
  "group_tenants_loaded res s = s\<lparr>gp_tenants := tenants_or res (gp_tenants s)\<rparr>"

definition groups_set_filter :: "search_filter \<Rightarrow> groups_page \<Rightarrow> groups_page" where
  "groups_set_filter f s = s\<lparr>gp_list := pg_set_filter f (gp_list s)\<rparr>"

definition loadMembers_call :: "string \<Rightarrow> api_call" where
  "loadMembers_call ident = api_get (''/admin/api/v1/groups/'' @ ident @ ''/members'')"

definition members_loaded :: "member list outcome \<Rightarrow> groups_page \<Rightarrow> groups_page \<times> toast_call list" where
  "members_loaded res s =
    (case res of
       Inr ms \<Rightarrow> (s\<lparr>gp_members := ms\<rparr>, [])
     | Inl err \<Rightarrow> (s, [(TError, ''Unable to load members'', Some (getErrorMessage err ''Load failed''))]))"

definition toggleGroup :: "string \<Rightarrow> groups_page \<Rightarrow> groups_page \<times> api_call option" where
  "toggleGroup ident s =
    (if gp_expanded s = Some ident then (s\<lparr>gp_expanded := None\<rparr>, None)
     else (s\<lparr>gp_expanded := Some ident\<rparr>, Some (loadMembers_call ident)))"

definition group_submit_start :: "groups_page \<Rightarrow> groups_page \<times> api_call" where
  "group_submit_start s =
    (s\<lparr>gp_saving := True, gp_formError := []\<rparr>,
     api_send ''POST'' ''/admin/api/v1/groups'' (str_obj [(''name'', gp_name s), (''description'', gp_description s)]))"

definition group_submit_done :: "groups_page \<Rightarrow> unit outcome \<Rightarrow> groups_page \<Rightarrow> groups_page \<times> toast_call list" where
  "group_submit_done p0 res s =
    (case res of
       Inr _ \<Rightarrow>
         ((groups_reload p0 (s\<lparr>gp_name := [], gp_description := [], gp_showForm := False\<rparr>))\<lparr>gp_saving := False\<rparr>,
          [(TSuccess, ''Group created'', Some (gp_name p0))])
     | Inl err \<Rightarrow>
         (let msg = getErrorMessage err ''Create failed''
          in (s\<lparr>gp_formError := msg, gp_saving := False\<rparr>, [(TError, ''Unable to create group'', Some msg)])))"

definition group_action_call :: "group_action \<Rightarrow> api_call" where
  "group_action_call a =
    (case a of
       RemoveGroup g \<Rightarrow> api_delete (''/admin/api/v1/groups/'' @ g)
     | RemoveMember g m \<Rightarrow> api_delete (''/admin/api/v1/groups/'' @ g @ ''/members/'' @ m))"

definition group_removed :: "groups_page \<Rightarrow> unit outcome \<Rightarrow> groups_page \<Rightarrow> groups_page \<times> toast_call list" where
  "group_removed p0 res s =
    (case res of
       Inr _ \<Rightarrow> (groups_reload p0 s, [(TSuccess, ''Group deleted'', None)])
     | Inl err \<Rightarrow> (s, [(TError, ''Unable to delete group'', Some (getErrorMessage err ''Delete failed''))]))"

definition addMember_call :: "string \<Rightarrow> string \<Rightarrow> api_call" where
  "addMember_call g c = api_send ''POST'' (''/admin/api/v1/groups/'' @ g @ ''/members'') (str_obj [(''contact_id'', c)])"

definition member_changed ::
    "string \<Rightarrow> string \<Rightarrow> string \<Rightarrow> string \<Rightarrow> unit outcome \<Rightarrow> toast_call list \<times> api_call option" where
  "member_changed g ok bad fallback res =
    (case res of
       Inr _ \<Rightarrow> ([(TSuccess, ok, None)], Some (loadMembers_call g))
     | Inl err \<Rightarrow> ([(TError, bad, Some (getErrorMessage err fallback))], None))"

definition member_added :: "string \<Rightarrow> unit outcome \<Rightarrow> toast_call list \<times> api_call option" where
  "member_added g res = member_changed g ''Member added'' ''Unable to add member'' ''Add failed'' res"

definition member_removed :: "string \<Rightarrow> unit outcome \<Rightarrow> toast_call list \<times> api_call option" where
  "member_removed g res = member_changed g ''Member removed'' ''Unable to remove member'' ''Remove failed'' res"

definition expandedGroup :: "groups_page \<Rightarrow> group option" where
  "expandedGroup s = find (\<lambda>g. gp_expanded s = Some (gr_id g)) (pg_items (gp_list s))"

definition toggle_add_member :: "group \<Rightarrow> groups_page \<Rightarrow> groups_page" where
  "toggle_add_member g s =
    s\<lparr>gp_showAddMember := (case gp_showAddMember s of Some x \<Rightarrow> if x \<noteq> [] then None else Some (gr_id g) | None \<Rightarrow> Some (gr_id g))\<rparr>"

definition pick_member :: "group \<Rightarrow> string \<Rightarrow> groups_page \<Rightarrow> groups_page \<times> api_call" where
  "pick_member g c s = (s\<lparr>gp_showAddMember := None\<rparr>, addMember_call (gr_id g) c)"

definition close_group :: "groups_page \<Rightarrow> groups_page" where
  "close_group s = s\<lparr>gp_expanded := None, gp_showAddMember := None\<rparr>"

definition toggle_group_form :: "groups_page \<Rightarrow> groups_page" where
  "toggle_group_form s = s\<lparr>gp_formError := [], gp_showForm := \<not> gp_showForm s\<rparr>"

definition request_remove_group :: "group \<Rightarrow> groups_page \<Rightarrow> groups_page" where
  "request_remove_group g s =
    s\<lparr>gp_confirm := requestConfirm
       \<lparr>intent_title = ''Delete contact group'', intent_description = Some ''This action cannot be undone'',
        intent_body = [''Delete '', gr_name g, ''?''], intent_confirmLabel = Some ''Delete group'', intent_variant = Some CDanger, intent_onConfirm = RemoveGroup (gr_id g)\<rparr> (gp_confirm s)\<rparr>"

definition request_remove_member :: "group \<Rightarrow> member \<Rightarrow> groups_page \<Rightarrow> groups_page" where
  "request_remove_member g m s =
    s\<lparr>gp_confirm := requestConfirm
       \<lparr>intent_title = ''Remove group member'', intent_description = Some ''Confirm member removal'',
        intent_body = [''Remove '', mb_name m, '' from this group?''], intent_confirmLabel = Some ''Remove member'', intent_variant = Some CDanger, intent_onConfirm = RemoveMember (gr_id g) (mb_id m)\<rparr> (gp_confirm s)\<rparr>"

text \<open>The contacts offered for a group: those that are not among the members shown.\<close>

definition member_options :: "groups_page \<Rightarrow> select_option list" where
  "member_options s =
    map (\<lambda>c. \<lparr>so_value = mb_id c,
              so_label = mb_name c @ '' ('' @ or_str (mb_email c) (or_str (mb_phone c) ''no contact info'') @ '')'', so_disabled = False\<rparr>)
      (filter (\<lambda>c. \<not> list_ex (\<lambda>m. mb_id m = mb_id c) (gp_members s)) (gp_contacts s))"

text \<open>The dialog of a group: its name, the members with their remove buttons, the contacts offered.\<close>

record group_dialog =
  gd_title :: string
  gd_count :: int
  gd_members :: "string list list"
  gd_manage :: bool
  gd_options :: "select_option list option"

definition group_dialog_of :: "principal option \<Rightarrow> groups_page \<Rightarrow> group \<Rightarrow> group_dialog" where
  "group_dialog_of user s g =
    \<lparr>gd_title = gr_name g, gd_count = gr_member_count g,
     gd_members = map (\<lambda>m. [mb_name m, or_str (mb_email m) ''-'', or_str (mb_phone m) ''-'']) (gp_members s),
     gd_manage = hasPermission user ''groups.members.manage'',
     gd_options = (if hasPermission user ''groups.members.manage'' \<and> gp_showAddMember s \<notin> {None, Some []}
                   then Some (member_options s) else None)\<rparr>"

record groups_view =
  gv_create :: "string option"
  gv_rows :: "(string list \<times> string option \<times> (badge_tone \<times> string) \<times> bool) list_content"
  gv_footer :: "pagination_view option"
  gv_form :: "(string \<times> bool \<times> string) option"
  gv_dialog :: "group_dialog option"
  gv_confirm :: "dialog_view option"

definition group_row_of ::
    "principal option \<Rightarrow> groups_page \<Rightarrow> group \<Rightarrow> string list \<times> string option \<times> (badge_tone \<times> string) \<times> bool" where
  "group_row_of user s g =
    ([gr_name g, int_str (gr_member_count g)],
     (if gp_isPlatform s then Some (or_opt (gr_tenant_name g) ''-'') else None),
     StatusBadge (StatusText (Some (gr_status g))), hasPermission user ''groups.delete'')"

definition GroupsPage :: "principal option \<Rightarrow> groups_page \<Rightarrow> groups_view" where
  "GroupsPage user s =
    \<lparr>gv_create = (if hasPermission user ''groups.create'' then Some (if gp_showForm s then ''Cancel'' else ''Create group'') else None),
     gv_rows = table_content ''No groups found'' (group_row_of user s) (gp_list s),
     gv_footer = (if pg_loading (gp_list s) \<or> pg_items (gp_list s) = [] then None else Some (footer_of (gp_list s))),
     gv_form = (if gp_showForm s
       then Some (gp_formError s, \<not> gp_saving s, if gp_saving s then ''Creating...'' else ''Create group'') else None),
     gv_dialog = map_option (group_dialog_of user s) (expandedGroup s),
     gv_confirm = confirmDialog (gp_confirm s)\<rparr>"

section \<open>Histories of the key page\<close>

text \<open>What can happen on the page of keys; the answers carry what the closures of the handlers captured.\<close>

datatype key_event =
    KFilter search_filter
  | KPage int
  | KPerPage int
  | KRows nat "api_key list_answer outcome"
  | KTenants "tenant_choices outcome"
  | KTenant string
  | KName string
  | KSubmit
  | KCreated keys_page "string outcome"
  | KCopied bool
  | KDismiss
  | KRevoked keys_page "unit outcome"
  | KToggleForm
  | KCloseForm
  | KSelect "api_key option"
  | KAskRevoke "api_key option"
  | KRevokeSelected

definition key_event_step :: "key_event \<Rightarrow> keys_page \<Rightarrow> keys_page" where
  "key_event_step e s =
    (case e of
       KFilter f \<Rightarrow> keys_set_filter f s
     | KPage p \<Rightarrow> s\<lparr>kp_list := pg_set_page p (kp_list s)\<rparr>
     | KPerPage n \<Rightarrow> s\<lparr>kp_list := pg_set_perPage n (kp_list s)\<rparr>
     | KRows k res \<Rightarrow> fst (keys_answer k res s)
     | KTenants res \<Rightarrow> keys_tenants_loaded res s
     | KTenant v \<Rightarrow> chooseTenant v s
     | KName v \<Rightarrow> enter_key_name v s
     | KSubmit \<Rightarrow> fst (key_submit_start s)
     | KCreated p0 res \<Rightarrow> fst (key_submit_done p0 res s)
     | KCopied b \<Rightarrow> copy_mark b s
     | KDismiss \<Rightarrow> dismiss_key s
     | KRevoked p0 res \<Rightarrow> fst (revoke_done p0 res s)
     | KToggleForm \<Rightarrow> toggle_key_form s
     | KCloseForm \<Rightarrow> close_key_form s
     | KSelect k \<Rightarrow> select_key k s
     | KAskRevoke k \<Rightarrow> ask_revoke k s
     | KRevokeSelected \<Rightarrow> revoke_selected s)"

definition keys_run :: "bool \<Rightarrow> key_event list \<Rightarrow> keys_page" where
  "keys_run platform es = fold key_event_step es (keys_mount platform)"

text \<open>
  The contract of the page in terms of the history alone: the secret on display is the key created
  last, if it was not put away since and no further creation was started since.
\<close>

definition secret_after :: "key_event \<Rightarrow> string \<Rightarrow> string" where
  "secret_after e k =
    (case e of KSubmit \<Rightarrow> [] | KCreated p0 (Inr key) \<Rightarrow> key | KDismiss \<Rightarrow> [] | _ \<Rightarrow> k)"

text \<open>
  The events with a server that answers list requests by \<^verbatim>\<open>ans\<close>, in their order, where a handler that
  reloads the list finds the filters it captured still in place; and the page of groups alike.
\<close>

inductive keys_step ::
    "(search_filter \<times> int \<times> int \<Rightarrow> api_key list_answer) \<Rightarrow> keys_page \<Rightarrow> keys_page \<Rightarrow> bool" for ans where
  filter: "keys_step ans s (keys_set_filter f s)"
| turn: "pg_turn (kp_list s) l \<Longrightarrow> keys_step ans s (s\<lparr>kp_list := l\<rparr>)"
| rows: "pg_pending (kp_list s) = q # qs \<Longrightarrow> keys_step ans s (key_event_step (KRows 0 (Inr (ans q))) s)"
| local: "e \<in> {KTenants ts, KTenant v, KName v, KSubmit, KCopied b, KDismiss, KToggleForm, KCloseForm, KSelect k, KAskRevoke k, KRevokeSelected} \<Longrightarrow>
    keys_step ans s (key_event_step e s)"
| reloading: "e \<in> {KCreated p0 created, KRevoked p0 revoked} \<Longrightarrow> pg_query (kp_list p0) = pg_query (kp_list s) \<Longrightarrow>
    keys_step ans s (key_event_step e s)"

inductive groups_step ::
    "(search_filter \<times> int \<times> int \<Rightarrow> group list_answer) \<Rightarrow> groups_page \<Rightarrow> groups_page \<Rightarrow> bool" for ans where
  filter: "groups_step ans s (groups_set_filter f s)"
| turn: "pg_turn (gp_list s) l \<Longrightarrow> groups_step ans s (s\<lparr>gp_list := l\<rparr>)"
| rows: "pg_pending (gp_list s) = q # qs \<Longrightarrow> groups_step ans s (fst (groups_answer 0 (Inr (ans q)) s))"
| contacts: "groups_step ans s (group_contacts_loaded cs s)"
| tenants: "groups_step ans s (group_tenants_loaded ts s)"
| toggle: "groups_step ans s (fst (toggleGroup i s))"
| members: "groups_step ans s (fst (members_loaded ms s))"
| close: "groups_step ans s (close_group s)"
| add: "groups_step ans s (toggle_add_member g s)"
| pick: "groups_step ans s (fst (pick_member g c s))"
| form: "groups_step ans s (toggle_group_form s)"
| typed: "groups_step ans s (s\<lparr>gp_name := n, gp_description := d\<rparr>)"
| submit: "groups_step ans s (fst (group_submit_start s))"
| submitted: "pg_query (gp_list p0) = pg_query (gp_list s) \<Longrightarrow> groups_step ans s (fst (group_submit_done p0 res s))"
| request: "groups_step ans s (request_remove_group g s)"
| request_member: "groups_step ans s (request_remove_member g m s)"
| confirm: "confirm_start (gp_confirm s) = (Some a, c) \<Longrightarrow> groups_step ans s (s\<lparr>gp_confirm := c\<rparr>)"
| removed: "pg_query (gp_list p0) = pg_query (gp_list s) \<Longrightarrow>
    groups_step ans s ((fst (group_removed p0 res s))\<lparr>gp_confirm := confirm_finish True (gp_confirm s)\<rparr>)"
| cancel: "groups_step ans s (s\<lparr>gp_confirm := confirm_close (gp_confirm s)\<rparr>)"

section \<open>Lemmas\<close>

interpretation keys_source: list_source "''/admin/api/v1/api-keys''" search_params
  by unfold_locales (simp_all add: search_params_def obj_wf_def)

interpretation groups_source: list_source "''/admin/api/v1/groups''" search_params
  by unfold_locales (simp_all add: search_params_def obj_wf_def)

lemmas key_handler_defs =
  keys_set_filter_def keys_answer_def keys_tenants_loaded_def chooseTenant_def enter_key_name_def key_submit_start_def
  key_submit_done_def keys_load_def copy_mark_def dismiss_key_def revoke_done_def toggle_key_form_def close_key_form_def
  select_key_def ask_revoke_def revoke_selected_def

interpretation keys_list: list_page kp_list "\<lambda>s. \<exists>platform. s = keys_mount platform" keys_step
proof unfold_locales
  fix ans s s'
  assume "keys_step ans s s'"
  then show "kp_list s' = kp_list s \<or> pg_step ans (kp_list s) (kp_list s')"
    by cases (auto simp: key_event_step_def key_handler_defs Let_def split: sum.splits option.splits intro: pg_page_steps)
qed (auto simp: keys_mount_def)

interpretation groups_list: list_page gp_list "\<lambda>s. \<exists>platform. s = groups_mount platform" groups_step
proof unfold_locales
  fix ans s s'
  assume "groups_step ans s s'"
  then show "gp_list s' = gp_list s \<or> pg_step ans (gp_list s) (gp_list s')"
    by cases (auto simp: groups_set_filter_def groups_answer_def group_contacts_loaded_def group_tenants_loaded_def
        toggleGroup_def members_loaded_def close_group_def toggle_add_member_def pick_member_def toggle_group_form_def
        group_submit_start_def group_submit_done_def request_remove_group_def request_remove_member_def group_removed_def
        groups_reload_def Let_def split: sum.splits intro: pg_page_steps)
qed (auto simp: groups_mount_def)

interpretation keys_served: served_page kp_list "\<lambda>s. \<exists>platform. s = keys_mount platform" keys_step "''/admin/api/v1/api-keys''" search_params ..

interpretation groups_served: served_page gp_list "\<lambda>s. \<exists>platform. s = groups_mount platform" groups_step "''/admin/api/v1/groups''" search_params ..

lemma key_event_secret: "kp_newKey (key_event_step e s) = secret_after e (kp_newKey s)"
  by (cases e) (auto simp: key_event_step_def secret_after_def key_handler_defs Let_def
      split: option.splits sum.splits)

lemma key_event_platform: "kp_isPlatform (key_event_step e s) = kp_isPlatform s"
  by (cases e) (auto simp: key_event_step_def key_handler_defs Let_def split: option.splits sum.splits)

lemma key_events_secret: "kp_newKey (fold key_event_step es s) = fold secret_after es (kp_newKey s)"
  by (induction es arbitrary: s) (simp_all add: key_event_secret)

lemma key_events_platform: "kp_isPlatform (fold key_event_step es s) = kp_isPlatform s"
  by (induction es arbitrary: s) (simp_all add: key_event_platform)

lemma keys_run_secret: "kp_newKey (keys_run platform es) = fold secret_after es []"
  by (simp add: keys_run_def key_events_secret keys_mount_def)

lemma keys_run_platform: "kp_isPlatform (keys_run platform es) = platform"
  by (simp add: keys_run_def key_events_platform keys_mount_def)

lemma image_filter_by_key: "f ` {x \<in> A. f x \<notin> B} = f ` A - B"
  by auto

lemma member_option_values: "so_value ` set (member_options s) = mb_id ` set (gp_contacts s) - mb_id ` set (gp_members s)"
proof -
  have "so_value ` set (member_options s) = mb_id ` {c \<in> set (gp_contacts s). mb_id c \<notin> mb_id ` set (gp_members s)}"
    by (simp add: member_options_def list_ex_iff image_image image_iff eq_commute)
  then show ?thesis by (simp add: image_filter_by_key)
qed

section \<open>Properties\<close>

text \<open>
  A created key is on display until it is put away: after any history of the page the
  secret shown is the one the last creation returned, if it was neither put away nor followed by the
  start of another creation; reloading, filtering, revoking, closing the form and failed requests
  leave it in place. The form is never shown over it. An enabled create button of a platform
  administrator sends a key for a chosen tenant, and the keys of a tenant's administrator are sent
  without one.
\<close>

theorem created_key_shown_until_dismissed:
  "map_option fst (kv_secret (ApiKeysPage user (keys_run platform es)))
      = (let k = fold secret_after es [] in if k = [] then None else Some k)
   \<and> (kv_secret (ApiKeysPage user (keys_run platform es)) \<noteq> None \<longrightarrow> kv_form (ApiKeysPage user (keys_run platform es)) = None)
   \<and> (\<forall>label opts. kv_form (ApiKeysPage user (keys_run platform es)) = Some (True, label, opts) \<longrightarrow>
        (let s = keys_run platform es
         in call_body (snd (key_submit_start s))
              = Some (str_obj ((''name'', kp_name s) # (if platform then [(''tenant_id'', kp_tenantId s)] else [])))
            \<and> (platform \<longrightarrow> kp_tenantId s \<noteq> [])))"
  by (auto simp: ApiKeysPage_def keys_run_secret keys_run_platform Let_def key_submit_start_def api_send_def
      split: if_splits)

theorem created_key_shown_until_dismissed_witness:
  "map_option fst (kv_secret (ApiKeysPage None (keys_run False [KToggleForm, KSubmit, KCreated (keys_mount False) (Inr ''nk_1''), KCloseForm])))
     = Some ''nk_1''
   \<and> kv_form (ApiKeysPage None (keys_run False [KToggleForm, KSubmit, KCreated (keys_mount False) (Inr ''nk_1''), KCloseForm])) = None"
  using created_key_shown_until_dismissed
    [of None False "[KToggleForm, KSubmit, KCreated (keys_mount False) (Inr ''nk_1''), KCloseForm]"]
  by (auto simp: secret_after_def)

text \<open>
  The members of a group: once the members of an opened group have arrived, its dialog
  lists exactly those, and the contacts offered for adding are exactly the known contacts that are
  not members. But opening a group keeps the members of the one opened before: until the answer
  arrives, and for good if it is an error, the dialog lists them under the name of the new group, and
  removing one of them asks the server to remove it from the new group.
\<close>

theorem group_members_of_opened_group:
  assumes "gp_expanded s \<noteq> Some (gr_id g)" and "find (\<lambda>x. gr_id x = gr_id g) (pg_items (gp_list s)) = Some g"
  shows "snd (toggleGroup (gr_id g) s) = Some (api_get (''/admin/api/v1/groups/'' @ gr_id g @ ''/members''))
   \<and> map_option gd_members (gv_dialog (GroupsPage user (fst (members_loaded (Inr ms) (fst (toggleGroup (gr_id g) s))))))
       = Some (map (\<lambda>m. [mb_name m, or_str (mb_email m) ''-'', or_str (mb_phone m) ''-'']) ms)
   \<and> so_value ` set (member_options (fst (members_loaded (Inr ms) (fst (toggleGroup (gr_id g) s)))))
       = mb_id ` set (gp_contacts s) - mb_id ` set ms
   \<and> (\<forall>s' \<in> {fst (toggleGroup (gr_id g) s), fst (members_loaded (Inl err) (fst (toggleGroup (gr_id g) s)))}.
        map_option gd_title (gv_dialog (GroupsPage user s')) = Some (gr_name g) \<and> gp_members s' = gp_members s
        \<and> map_option (group_action_call \<circ> intent_onConfirm) (intent (gp_confirm (request_remove_member g m s')))
            = Some (api_delete (''/admin/api/v1/groups/'' @ gr_id g @ ''/members/'' @ mb_id m)))"
proof -
  have e: "expandedGroup (s\<lparr>gp_expanded := Some (gr_id g), gp_members := ms\<rparr>) = Some g"
    "expandedGroup (s\<lparr>gp_expanded := Some (gr_id g)\<rparr>) = Some g" for ms
    using assms(2) by (simp_all add: expandedGroup_def eq_commute [of "gr_id g"])
  have t: "fst (toggleGroup (gr_id g) s) = s\<lparr>gp_expanded := Some (gr_id g)\<rparr>"
    "snd (toggleGroup (gr_id g) s) = Some (loadMembers_call (gr_id g))"
    using assms(1) by (simp_all add: toggleGroup_def)
  have o: "so_value ` set (member_options (s\<lparr>gp_expanded := Some (gr_id g), gp_members := ms\<rparr>))
      = mb_id ` set (gp_contacts s) - mb_id ` set ms"
    by (simp add: member_option_values)
  show ?thesis
    using e o by (simp add: t members_loaded_def loadMembers_call_def GroupsPage_def group_dialog_of_def
        request_remove_member_def requestConfirm_def group_action_call_def)
qed

definition demo_group :: group where
  "demo_group = \<lparr>gr_id = ''g2'', gr_tenant_name = None, gr_name = ''Ops'', gr_description = [], gr_member_count = 0, gr_status = ''active''\<rparr>"

theorem group_members_of_opened_group_witness:
  "map_option gd_title (gv_dialog (GroupsPage None (fst (toggleGroup ''g2'' ((groups_mount False)
      \<lparr>gp_list := (pg_mount \<lparr>sf_tenant = [], sf_search = []\<rparr>)\<lparr>pg_items := [demo_group]\<rparr>, gp_expanded := Some ''g1''\<rparr>))))) = Some ''Ops''"
  using group_members_of_opened_group [of "(groups_mount False)
      \<lparr>gp_list := (pg_mount \<lparr>sf_tenant = [], sf_search = []\<rparr>)\<lparr>pg_items := [demo_group]\<rparr>, gp_expanded := Some ''g1''\<rparr>" demo_group None]
  by (simp add: demo_group_def)

end
