(* ===== verification/Served_Lists.thy ===== *)
theory Served_Lists
  imports Contacts Campaigns Api_Keys Audit_Logs Templates Tenants
begin

text \<open>
  The list pages beside the lists of the server: the tenant scope of the list handlers
  (\<^verbatim>\<open>src/notification-core-api/internal/http/handlers/crud.go\<close>, \<^verbatim>\<open>handlers.go\<close>) and the middleware
  \<^verbatim>\<open>DataTableQuery\<close> (\<^verbatim>\<open>src/notification-core-api/internal/http/middleware/middleware.go\<close>) that searches, filters
  and pages what they answer. The dashboard never asks for an order, so sorting is left out. The JSON text
  of a row and the text of one of its cols are arguments.
\<close>

section \<open>The server's lists\<close>

text \<open>\<^verbatim>\<open>strconv.Atoi\<close>: a sign, digits, and a value of 64 bits.\<close>

definition Atoi :: "string \<Rightarrow> int option" where
  "Atoi s =
    (let (neg, ds) = (case s of c # cs \<Rightarrow> if c = CHR ''-'' then (True, cs) else if c = CHR ''+'' then (False, cs) else (False, s) | [] \<Rightarrow> (False, []));
         v = (if neg then - int (digits_value ds) else int (digits_value ds))
     in if ds = [] \<or> \<not> list_all is_digit_char ds \<or> v < - (2 ^ 63) \<or> 2 ^ 63 \<le> v then None else Some v)"

definition positiveInt :: "string \<Rightarrow> nat \<Rightarrow> nat" where
  "positiveInt s fallback = (case Atoi s of Some v \<Rightarrow> if v < 1 then fallback else nat v | None \<Rightarrow> fallback)"

text \<open>\<^verbatim>\<open>query.Get\<close>: an absent parameter reads as the empty text.\<close>

definition query_get :: "(string \<rightharpoonup> string) \<Rightarrow> string \<Rightarrow> string" where
  "query_get ps k = (case ps k of Some v \<Rightarrow> v | None \<Rightarrow> [])"

definition matchesFilters :: "('a \<Rightarrow> string \<Rightarrow> string) \<Rightarrow> string list \<Rightarrow> (string \<rightharpoonup> string) \<Rightarrow> 'a \<Rightarrow> bool" where
  "matchesFilters field cols ps r \<longleftrightarrow>
     list_all (\<lambda>k. query_get ps (''filter_'' @ k) = [] \<or> to_lower (field r k) = to_lower (query_get ps (''filter_'' @ k))) cols"

text \<open>The columns are those a row has; a request without any of the parameters is answered in full.\<close>

definition DataTableQuery ::
    "('a \<Rightarrow> string) \<Rightarrow> ('a \<Rightarrow> string \<Rightarrow> string) \<Rightarrow> string list \<Rightarrow> 'a list \<Rightarrow> (string \<rightharpoonup> string) \<Rightarrow> 'a list_answer" where
  "DataTableQuery rtext field cols rows ps =
    (if query_get ps ''q'' = [] \<and> query_get ps ''page'' = [] \<and> query_get ps ''per_page'' = []
        \<and> list_all (\<lambda>k. query_get ps (''filter_'' @ k) = []) cols
     then (rows, None)
     else paginate (filter (matchesFilters field cols ps) (search_rows rtext (query_get ps ''q'') rows))
            (positiveInt (query_get ps ''page'') 1) (positiveInt (query_get ps ''per_page'') 25))"

text \<open>The rows a list handler selects: of the asked tenant for platform administrators, else of the caller's.\<close>

definition tenant_scope :: "bool \<Rightarrow> string \<Rightarrow> ('a \<Rightarrow> string) \<Rightarrow> string \<Rightarrow> 'a list \<Rightarrow> 'a list" where
  "tenant_scope platform own tenant_of asked rows =
    filter (\<lambda>r. if platform then asked = [] \<or> tenant_of r = asked else tenant_of r = own) rows"

record 'a list_table =
  lt_tenant_of :: "'a \<Rightarrow> string"
  lt_text :: "'a \<Rightarrow> string"
  lt_field :: "'a \<Rightarrow> string \<Rightarrow> string"
  lt_cols :: "string list"
  lt_rows :: "'a list"

definition list_server :: "bool \<Rightarrow> string \<Rightarrow> 'a list_table \<Rightarrow> (string \<rightharpoonup> string) \<Rightarrow> 'a list_answer" where
  "list_server platform own t ps =
    DataTableQuery (lt_text t) (lt_field t) (lt_cols t) (tenant_scope platform own (lt_tenant_of t) (query_get ps ''tenant_id'') (lt_rows t)) ps"

text \<open>What the controls of a page describe: the rows in scope that contain the search text.\<close>

definition asked_rows :: "bool \<Rightarrow> string \<Rightarrow> 'a list_table \<Rightarrow> search_filter \<Rightarrow> 'a list" where
  "asked_rows platform own t f = search_rows (lt_text t) (sf_search f) (tenant_scope platform own (lt_tenant_of t) (sf_tenant f) (lt_rows t))"

definition shows_asked :: "bool \<Rightarrow> string \<Rightarrow> 'a list_table \<Rightarrow> (search_filter, 'a) paged \<Rightarrow> bool" where
  "shows_asked platform own t l \<longleftrightarrow>
     (pg_items l, pg_meta l) = paginate (asked_rows platform own t (pg_filters l)) (nat (pg_page l)) (nat (pg_perPage l))"

text \<open>
  The handler of the delivery log, \<^verbatim>\<open>ListNotificationLogs\<close>, cuts the page out of the matching rows itself, by LIMIT and OFFSET; the middleware of
  its route then cuts the same page out of what is left, and counts what is left.
\<close>

definition log_rows_page :: "'a list \<Rightarrow> nat \<Rightarrow> nat \<Rightarrow> 'a list" where
  "log_rows_page rows page perPage0 =
    (let perPage = (if perPage0 > 100 then 100 else perPage0) in take perPage (drop ((page - 1) * perPage) rows))"

definition log_server :: "(log_filters \<Rightarrow> notification_log list) \<Rightarrow> log_filters \<times> int \<times> int \<Rightarrow> notification_log list_answer" where
  "log_server matching q = (case q of (f, p, n) \<Rightarrow> paginate (log_rows_page (matching f) (nat p) (nat n)) (nat p) (nat n))"

section \<open>Lemmas\<close>

lemma digits_value_append: "digits_value (s @ [c]) = 10 * digits_value s + (of_char c - 48)"
  by (simp add: digits_value_def)

lemma digits_value_nat_str [simp]: "digits_value (nat_str n) = n"
proof (induction n rule: nat_str.induct)
  case (1 n)
  show ?case
  proof (cases "n < 10")
    case True
    then show ?thesis by (subst nat_str.simps) (simp add: digits_value_def)
  next
    case False
    with 1 show ?thesis by (subst nat_str.simps) (simp add: digits_value_append)
  qed
qed

lemma is_digit_char_of [simp]: "k < (10 :: nat) \<Longrightarrow> is_digit_char (char_of (48 + k))"
  by (simp add: is_digit_char_def)

lemma nat_str_digits: "list_all is_digit_char (nat_str n)"
proof (induction n rule: nat_str.induct)
  case (1 n)
  then show ?case by (subst nat_str.simps) simp
qed

lemma positiveInt_int_str: "1 \<le> i \<Longrightarrow> i < 2 ^ 63 \<Longrightarrow> positiveInt (int_str i) d = nat i"
proof -
  assume i: "1 \<le> i" "i < 2 ^ 63"
  obtain c cs where s: "nat_str (nat i) = c # cs" using nat_str_not_Nil by (meson neq_Nil_conv)
  have "is_digit_char c" using nat_str_digits [of "nat i"] s by simp
  then have c: "c \<noteq> CHR ''-''" "c \<noteq> CHR ''+''" by (auto simp: is_digit_char_def)
  have "Atoi (int_str i) = Some i"
    using i c nat_str_digits [of "nat i"] digits_value_nat_str [of "nat i"] by (simp add: Atoi_def int_str_def s)
  with i show ?thesis by (simp add: positiveInt_def)
qed

text \<open>What the server reads from the request of a search page.\<close>

lemma search_wire [simp]:
  "query_get (wire_params (search_params f p n)) ''tenant_id'' = sf_tenant f"
  "query_get (wire_params (search_params f p n)) ''q'' = sf_search f"
  "query_get (wire_params (search_params f p n)) ''page'' = int_str p"
  "query_get (wire_params (search_params f p n)) ''per_page'' = int_str n"
  "query_get (wire_params (search_params f p n)) (''filter_'' @ k) = []"
  by (simp_all add: query_get_def wire_params_def search_params_def obj_get_def pval_kept_def)

lemma rows_per_page_bounds: "n \<in> set rows_per_page \<Longrightarrow> 1 \<le> n \<and> n < 2 ^ 63"
  by (auto simp: rows_per_page_def)

lemma list_server_asked:
  assumes "1 \<le> p" "p < 2 ^ 63" "n \<in> set rows_per_page"
  shows "list_server platform own t (wire_params (search_params f p n)) = paginate (asked_rows platform own t f) (nat p) (nat n)"
proof -
  have all: "matchesFilters field cols (wire_params (search_params f p n)) = (\<lambda>r. True)" for field :: "'a \<Rightarrow> string \<Rightarrow> string" and cols
    by (auto simp: matchesFilters_def list_all_iff simp del: append_Cons append_Nil)
  have "positiveInt (int_str p) 1 = nat p" "positiveInt (int_str n) 25 = nat n"
    using assms rows_per_page_bounds by (auto intro: positiveInt_int_str)
  then show ?thesis by (simp add: list_server_def DataTableQuery_def asked_rows_def all)
qed

text \<open>The contract of a page with a search list, on top of that of a served list.\<close>

locale search_page = served_page lst start step path search_params
  for lst :: "'s \<Rightarrow> (search_filter, 'a) paged"
    and start :: "'s \<Rightarrow> bool"
    and step :: "(search_filter \<times> int \<times> int \<Rightarrow> 'a list_answer) \<Rightarrow> 's \<Rightarrow> 's \<Rightarrow> bool"
    and path :: string
begin

lemma idle_shows_asked:
  assumes "(step (served path search_params (list_server platform own t)))\<^sup>*\<^sup>* s0 s" and "start s0"
    and "pg_pending (lst s) = []" and "pg_page (lst s) < 2 ^ 63"
  shows "shows_asked platform own t (lst s)"
  using shows_served [OF assms(1-3)] counters_sound [OF assms(1,2)]
    list_server_asked [of "pg_page (lst s)" "pg_perPage (lst s)" platform own t "pg_filters (lst s)"] assms(4)
  by (simp add: shows_asked_def)

end

interpretation contacts_search: search_page cp_list "\<lambda>s. \<exists>platform. s = contacts_mount platform" contacts_step "''/admin/api/v1/contacts''" ..

interpretation campaigns_search: search_page cm_list "\<lambda>s. \<exists>platform. s = campaigns_mount platform" campaigns_step "''/admin/api/v1/campaigns''" ..

interpretation keys_search: search_page kp_list "\<lambda>s. \<exists>platform. s = keys_mount platform" keys_step "''/admin/api/v1/api-keys''" ..

interpretation groups_search: search_page gp_list "\<lambda>s. \<exists>platform. s = groups_mount platform" groups_step "''/admin/api/v1/groups''" ..

interpretation audit_search: search_page au_list "\<lambda>s. \<exists>platform. s = audit_mount platform" audit_step "''/admin/api/v1/audit-logs''" ..

text \<open>A list that is only ever offered one page stays on the first.\<close>

definition single_paged :: "('f \<times> int \<times> int \<Rightarrow> 'a list_answer) \<Rightarrow> bool" where
  "single_paged ans \<longleftrightarrow> (\<forall>f. \<forall>n \<in> set rows_per_page. \<exists>m. snd (ans (f, 1, n)) = Some m \<and> meta_total_pages m \<le> 1)"

definition one_page_inv :: "('f \<times> int \<times> int \<Rightarrow> 'a list_answer) \<Rightarrow> ('f, 'a) paged \<Rightarrow> bool" where
  "one_page_inv ans l \<longleftrightarrow> pg_page l = 1 \<and> pg_perPage l \<in> set rows_per_page \<and>
     (\<forall>(f, p, n) \<in> set (pg_pending l). p = 1 \<and> n \<in> set rows_per_page) \<and>
     (case pg_meta l of Some m \<Rightarrow> meta_total_pages m \<le> 1 | None \<Rightarrow> True)"

lemma one_page_step:
  assumes one: "single_paged ans"
    and "pg_step ans s s'" and "one_page_inv ans s"
  shows "one_page_inv ans s'"
  using assms(2,3)
proof (induction rule: pg_step.induct)
  case (answer s q qs)
  obtain f p n where q: "q = (f, p, n)" by (cases q)
  with answer have "p = 1" "n \<in> set rows_per_page" by (auto simp: one_page_inv_def)
  with one obtain m where "snd (ans q) = Some m" "meta_total_pages m \<le> 1" using q unfolding single_paged_def by blast
  with answer show ?case by (simp add: one_page_inv_def)
next
  case (next_page s p)
  then show ?case by (auto simp: one_page_inv_def TablePagination_def Let_def split: option.splits if_splits)
qed (auto simp: one_page_inv_def pg_defs TablePagination_def Let_def split: if_splits)

interpretation one_page: step_invariant "pg_step ans" "\<lambda>s. single_paged ans \<longrightarrow> one_page_inv ans s" pg_start for ans
  by unfold_locales (auto intro: one_page_step, auto simp: one_page_inv_def pg_defs rows_per_page_def)

lemma one_page_reachable:
  assumes one: "single_paged ans"
    and "pg_reachable ans s"
  shows "one_page_inv ans s"
  using one_page.always [OF assms(2)] one by simp

lemma log_server_first_page:
  assumes "n \<in> set rows_per_page"
  shows "fst (log_server matching (f, 1, n)) = take (nat n) (matching f)"
    and "snd (log_server matching (f, 1, n)) =
      Some \<lparr>meta_page = 1, meta_per_page = n, meta_total = min n (int (length (matching f))), meta_total_pages = 1\<rparr>"
proof -
  have n: "0 < nat n" "nat n \<le> 100" "0 \<le> n" using assms by (auto simp: rows_per_page_def)
  let ?rows = "take (nat n) (matching f)"
  have page: "log_server matching (f, 1, n) = paginate ?rows 1 (nat n)"
    using n by (simp add: log_server_def log_rows_page_def)
  show "fst (log_server matching (f, 1, n)) = ?rows" using n by (simp add: page paginate_rows)
  have "(length ?rows + nat n - 1) div nat n \<le> 1" using n by (subst ceil_div_le_iff) auto
  then show "snd (log_server matching (f, 1, n)) =
      Some \<lparr>meta_page = 1, meta_per_page = n, meta_total = min n (int (length (matching f))), meta_total_pages = 1\<rparr>"
    using n by (auto simp: page paginate_meta)
qed

section \<open>Properties\<close>


definition two_logs :: "audit_log list_table" where
  "two_logs = \<lparr>lt_tenant_of = (\<lambda>r. al_resource_id r), lt_text = al_action, lt_field = (\<lambda>r k. []), lt_cols = [],
     lt_rows = [demo_log\<lparr>al_resource_id := ''t1''\<rparr>, demo_log\<lparr>al_resource_id := ''t2''\<rparr>]\<rparr>"


text \<open>
  Property C24. The delivery log ends with its first page: the server's handler cuts out the asked page, and the
  list middleware then pages what is left once more and counts only that. So on every idle log page
  the rows are the first ones that match, the footer counts no more than fit on the page, offers no next page,
  and whatever matches beyond the page size (at most a hundred) cannot be reached by paging.
\<close>

theorem delivery_log_stops_at_first_page:
  assumes "(log_step (log_server matching))\<^sup>*\<^sup>* log_mount s" and "pg_pending (lg_list s) = []"
  shows "pg_page (lg_list s) = 1 \<and> pg_items (lg_list s) = take (nat (pg_perPage (lg_list s))) (matching (pg_filters (lg_list s))) \<and>
    pg_perPage (lg_list s) \<le> 100 \<and> pv_next (footer_of (lg_list s)) = None \<and>
    pv_total (footer_of (lg_list s)) = min (pg_perPage (lg_list s)) (int (length (matching (pg_filters (lg_list s)))))"
proof -
  have "single_paged (log_server matching)" by (simp add: single_paged_def log_server_first_page)
  with log_list.in_list.run_reachable [OF assms(1)] have inv: "pg_page (lg_list s) = 1" "pg_perPage (lg_list s) \<in> set rows_per_page"
    by (simp_all add: one_page_reachable [unfolded one_page_inv_def])
  have rows: "(pg_items (lg_list s), pg_meta (lg_list s)) = log_server matching (pg_filters (lg_list s), 1, pg_perPage (lg_list s))"
    using log_list.rows_current [OF assms(1) _ assms(2)] inv(1) by (simp add: pg_query_def)
  from inv(2) have "pg_perPage (lg_list s) \<le> 100" by (auto simp: rows_per_page_def)
  moreover note items = log_server_first_page [OF inv(2), of matching "pg_filters (lg_list s)"]
  moreover have "pg_items (lg_list s) = fst (log_server matching (pg_filters (lg_list s), 1, pg_perPage (lg_list s)))"
    "pg_meta (lg_list s) = snd (log_server matching (pg_filters (lg_list s), 1, pg_perPage (lg_list s)))"
    using rows by (metis fst_conv, metis snd_conv)
  ultimately show ?thesis by (simp add: inv(1) footer_of_def TablePagination_Some)
qed

definition sent_log :: notification_log where
  "sent_log = \<lparr>nl_public_id = ''n1'', nl_tenant = ''Acme'', nl_event = ''welcome'', nl_status = ''sent'', nl_delivery_status = ''sent'',
     nl_channel = ''email'', nl_provider = ''smtp'', nl_created_at = []\<rparr>"

text \<open>Of thirty deliveries the page shows twenty-five and offers no way to the others.\<close>

theorem delivery_log_stops_at_first_page_witness:
  "\<exists>s. (log_step (log_server (\<lambda>f. replicate 30 sent_log)))\<^sup>*\<^sup>* log_mount s \<and> length (pg_items (lg_list s)) = 25 \<and> pv_next (footer_of (lg_list s)) = None"
proof -
  let ?ans = "log_server (\<lambda>f. replicate 30 sent_log)"
  have pend: "pg_pending (lg_list log_mount) = [(\<lparr>lf_search = [], lf_status = [], lf_channel = []\<rparr>, 1, 25)]"
    by (simp add: log_mount_def pg_defs)
  define s where "s = log_answer 0 (Inr (?ans (\<lparr>lf_search = [], lf_status = [], lf_channel = []\<rparr>, 1, 25))) log_mount"
  have run: "(log_step ?ans)\<^sup>*\<^sup>* log_mount s" unfolding s_def by (rule r_into_rtranclp) (rule log_step.rows [OF pend])
  have "pg_pending (lg_list s) = []" "pg_perPage (lg_list s) = 25"
    by (simp_all add: s_def log_answer_def pend) (simp_all add: log_mount_def pg_defs)
  with delivery_log_stops_at_first_page [OF run] run show ?thesis by auto
qed

end
