(* ===== verification/Routes.thy ===== *)
theory Routes
  imports Shell Paged_List
begin

text \<open>
  Requests of the dashboard against the route table of the server,
  \<^verbatim>\<open>src/notification-core-api/internal/http/router.go\<close>. Matching is that of \<^verbatim>\<open>http.ServeMux\<close> for patterns of
  literal segments and single wildcards. Requests to an item carry an identifier in their address; to
  decide them for every identifier, the table is searched once for an address with holes.
\<close>

section \<open>Matching\<close>

text \<open>A segment in braces matches any segment that is not empty.\<close>

definition segment_matches :: "string \<Rightarrow> string \<Rightarrow> bool" where
  "segment_matches pat seg \<longleftrightarrow> (if starts_with pat ''{'' then seg \<noteq> [] else pat = seg)"

definition route_matches :: "string \<Rightarrow> string \<Rightarrow> bool" where
  "route_matches pat path \<longleftrightarrow> list_all2 segment_matches (split_on CHR ''/'' pat) (split_on CHR ''/'' path)"

text \<open>The permission the server asks for a request, if the request has a route.\<close>

definition route_permission :: "api_call \<Rightarrow> string option" where
  "route_permission call =
    map_option snd (find (\<lambda>((m, pat), perm). m = call_method call \<and> route_matches pat (call_path call)) endpoint_permission)"

definition granted :: "principal option \<Rightarrow> api_call \<Rightarrow> bool" where
  "granted user call \<longleftrightarrow> (case route_permission call of Some perm \<Rightarrow> hasPermission user perm | None \<Rightarrow> False)"

section \<open>Addresses with holes\<close>

text \<open>An identifier as the server issues them: one segment of an address.\<close>

definition plain_id :: "string \<Rightarrow> bool" where
  "plain_id i \<longleftrightarrow> i \<noteq> [] \<and> CHR ''/'' \<notin> set i"

definition hole_matches :: "string \<Rightarrow> string option \<Rightarrow> bool" where
  "hole_matches pat t = (case t of Some s \<Rightarrow> segment_matches pat s | None \<Rightarrow> True)"

definition candidates :: "string \<Rightarrow> string option list \<Rightarrow> ((string \<times> string) \<times> string) list" where
  "candidates m tmpl = filter (\<lambda>((m', pat), perm). m' = m \<and> list_all2 hole_matches (split_on CHR ''/'' pat) tmpl) endpoint_permission"

definition holes_filled :: "string option list \<Rightarrow> string list \<Rightarrow> bool" where
  "holes_filled tmpl segs \<longleftrightarrow> list_all2 (\<lambda>t sg. case t of Some s \<Rightarrow> sg = s | None \<Rightarrow> plain_id sg) tmpl segs"

definition admin :: "string option list \<Rightarrow> string option list" where
  "admin tmpl = [Some [], Some ''admin'', Some ''api'', Some ''v1''] @ tmpl"

section \<open>Lemmas\<close>

lemma find_unique:
  assumes "filter Q xs = [x]" and "\<And>y. P y \<Longrightarrow> Q y" and "P x"
  shows "find P xs = Some x"
  using assms(1)
proof (induction xs)
  case (Cons y ys)
  show ?case
  proof (cases "Q y")
    case True
    with Cons.prems assms(3) show ?thesis by simp
  next
    case False
    with Cons assms(2) [of y] show ?thesis by auto
  qed
qed simp

lemma fill_matches:
  assumes "holes_filled tmpl segs" and "list_all2 segment_matches pats segs"
  shows "list_all2 hole_matches pats tmpl"
  using assms unfolding holes_filled_def list_all2_conv_all_nth hole_matches_def by (auto split: option.splits)

lemma fill_holes:
  assumes "holes_filled tmpl segs" and "list_all2 (\<lambda>pat t. case t of Some s \<Rightarrow> segment_matches pat s | None \<Rightarrow> starts_with pat ''{'') pats tmpl"
  shows "list_all2 segment_matches pats segs"
  using assms unfolding holes_filled_def list_all2_conv_all_nth
  by (auto simp: segment_matches_def plain_id_def split: option.splits)

lemma route_none:
  assumes "candidates (call_method call) tmpl = []" and "holes_filled tmpl (split_on CHR ''/'' (call_path call))"
  shows "route_permission call = None"
proof -
  have "\<not> (m = call_method call \<and> route_matches pat (call_path call))" if "((m, pat), perm) \<in> set endpoint_permission" for m pat perm
    using that assms fill_matches [OF assms(2), of "split_on CHR ''/'' pat"]
    by (auto simp: candidates_def filter_empty_conv route_matches_def)
  then show ?thesis by (auto simp: route_permission_def find_None_iff)
qed

lemma route_one:
  assumes "candidates (call_method call) tmpl = [((call_method call, pat), perm)]" and "holes_filled tmpl (split_on CHR ''/'' (call_path call))"
    and "list_all2 (\<lambda>pat t. case t of Some s \<Rightarrow> segment_matches pat s | None \<Rightarrow> starts_with pat ''{'') (split_on CHR ''/'' pat) tmpl"
  shows "route_permission call = Some perm"
proof -
  have "find (\<lambda>((m, pat), perm). m = call_method call \<and> route_matches pat (call_path call)) endpoint_permission
      = Some ((call_method call, pat), perm)"
    using assms(1) unfolding candidates_def
    by (rule find_unique) (use fill_matches [OF assms(2)] fill_holes [OF assms(2,3)] in \<open>auto simp: route_matches_def\<close>)
  then show ?thesis by (simp add: route_permission_def)
qed

lemma split_plain:
  "plain_id i \<Longrightarrow> split_on CHR ''/'' i = [i]" "plain_id i \<Longrightarrow> split_on CHR ''/'' (i @ CHR ''/'' # s) = i # split_on CHR ''/'' s"
  by (simp_all add: plain_id_def split_on_free split_on_append)

text \<open>A request with holes has one route, whose wildcards are at the holes.\<close>

definition routes_to :: "string \<Rightarrow> string option list \<Rightarrow> string \<Rightarrow> bool" where
  "routes_to m tmpl perm \<longleftrightarrow>
    (let c = candidates m tmpl; pat = snd (fst (hd c))
     in c = [((m, pat), perm)] \<and>
        list_all2 (\<lambda>pat t. case t of Some s \<Rightarrow> segment_matches pat s | None \<Rightarrow> starts_with pat ''{'') (split_on CHR ''/'' pat) tmpl)"

lemma route_to:
  assumes "routes_to (call_method call) tmpl perm" and "holes_filled tmpl (split_on CHR ''/'' (call_path call))"
  shows "route_permission call = Some perm"
  using assms by (auto simp: routes_to_def Let_def intro: route_one)

lemma routes_updates:
  "routes_to ''PUT'' (admin [Some ''templates'', None]) ''templates.update''"
  "routes_to ''PUT'' (admin [Some ''contacts'', None]) ''contacts.update''"
  "routes_to ''PUT'' (admin [Some ''users'', None]) ''users.update''"
  "routes_to ''PATCH'' (admin [Some ''queue-controls'', None]) ''queue_controls.update''"
  "routes_to ''PUT'' (admin [Some ''feature-catalog'', None]) ''features.update''"
  "routes_to ''PUT'' (admin [Some ''channel-catalog'', None]) ''channels.update''"
  "routes_to ''PUT'' (admin [Some ''provider-types'', None]) ''providers.update''"
  "routes_to ''PUT'' (admin [Some ''providers'', None]) ''providers.update''"
  by code_simp+

lemma routes_deletes:
  "routes_to ''DELETE'' (admin [Some ''templates'', None]) ''templates.delete''"
  "routes_to ''DELETE'' (admin [Some ''contacts'', None]) ''contacts.delete''"
  "routes_to ''DELETE'' (admin [Some ''api-keys'', None]) ''api_keys.revoke''"
  "routes_to ''DELETE'' (admin [Some ''groups'', None]) ''groups.delete''"
  "routes_to ''DELETE'' (admin [Some ''groups'', None, Some ''members'', None]) ''groups.members.manage''"
  "candidates ''DELETE'' (admin [Some ''users'', None]) = []"
  by code_simp+

lemma routes_posts:
  "routes_to ''POST'' (admin [Some ''groups'', None, Some ''members'']) ''groups.members.manage''"
  "routes_to ''POST'' (admin [Some ''campaigns'', None, Some ''approve'']) ''campaigns.approve''"
  "routes_to ''POST'' (admin [Some ''campaigns'', None, Some ''send'']) ''campaigns.send''"
  "routes_to ''POST'' (admin [Some ''campaigns'', None, Some ''cancel'']) ''campaigns.cancel''"
  by code_simp+

text \<open>Addresses of one item, and of something below one item.\<close>

lemma fill_item:
  "plain_id i \<Longrightarrow> CHR ''/'' \<notin> set r \<Longrightarrow> holes_filled (admin [Some r, None]) (split_on CHR ''/'' (''/admin/api/v1/'' @ r @ ''/'' @ i))"
  by (simp add: holes_filled_def admin_def split_plain split_on_append)

lemma fill_below:
  "plain_id i \<Longrightarrow> CHR ''/'' \<notin> set r \<Longrightarrow> CHR ''/'' \<notin> set q \<Longrightarrow>
     holes_filled (admin [Some r, None, Some q]) (split_on CHR ''/'' (''/admin/api/v1/'' @ r @ ''/'' @ i @ ''/'' @ q))"
  by (simp add: holes_filled_def admin_def split_plain split_on_append split_on_free)

lemma fill_below_item:
  "plain_id i \<Longrightarrow> plain_id j \<Longrightarrow> CHR ''/'' \<notin> set r \<Longrightarrow> CHR ''/'' \<notin> set q \<Longrightarrow>
     holes_filled (admin [Some r, None, Some q, None]) (split_on CHR ''/'' (''/admin/api/v1/'' @ r @ ''/'' @ i @ ''/'' @ q @ ''/'' @ j))"
  by (simp add: holes_filled_def admin_def split_plain split_on_append split_on_free)

lemma granted_item:
  assumes "routes_to m (admin [Some r, None]) perm" and "plain_id i" and "CHR ''/'' \<notin> set r" and "hasPermission user perm"
    and "call_method call = m" and "call_path call = ''/admin/api/v1/'' @ r @ ''/'' @ i"
  shows "granted user call"
  using route_to [of call "admin [Some r, None]" perm] fill_item [OF assms(2,3)] assms by (simp add: granted_def)

lemma granted_below:
  assumes "routes_to m (admin [Some r, None, Some q]) perm" and "plain_id i" and "CHR ''/'' \<notin> set r" and "CHR ''/'' \<notin> set q"
    and "hasPermission user perm" and "call_method call = m" and "call_path call = ''/admin/api/v1/'' @ r @ ''/'' @ i @ ''/'' @ q"
  shows "granted user call"
  using route_to [of call "admin [Some r, None, Some q]" perm] fill_below [OF assms(2,3,4)] assms by (simp add: granted_def)

lemma granted_below_item:
  assumes "routes_to m (admin [Some r, None, Some q, None]) perm" and "plain_id i" and "plain_id j" and "CHR ''/'' \<notin> set r"
    and "CHR ''/'' \<notin> set q" and "hasPermission user perm" and "call_method call = m"
    and "call_path call = ''/admin/api/v1/'' @ r @ ''/'' @ i @ ''/'' @ q @ ''/'' @ j"
  shows "granted user call"
  using route_to [of call "admin [Some r, None, Some q, None]" perm] fill_below_item [OF assms(2,3,4,5)] assms by (simp add: granted_def)

lemma unrouted_item:
  assumes "candidates m (admin [Some r, None]) = []" and "plain_id i" and "CHR ''/'' \<notin> set r"
    and "call_method call = m" and "call_path call = ''/admin/api/v1/'' @ r @ ''/'' @ i"
  shows "route_permission call = None"
  using route_none [of call "admin [Some r, None]"] fill_item [OF assms(2,3)] assms by simp

text \<open>An encoded component is one segment.\<close>

lemma encoded_char:
  assumes "b < 256" shows "CHR ''/'' \<notin> set (if uri_unreserved b then [char_of b] else [CHR ''%'', hex_digit (b div 16), hex_digit (b mod 16)])"
proof -
  have "(of_char (hex_digit n) :: nat) \<noteq> 47" if "n < 16" for n using that by (auto simp: hex_digit_def)
  then have hex: "hex_digit n \<noteq> CHR ''/''" if "n < 16" for n using that by force
  have "(of_char (char_of b :: char) :: nat) = b" using assms by simp
  moreover have "uri_unreserved b \<Longrightarrow> b \<noteq> 47" by (auto simp: uri_unreserved_def)
  moreover have "(of_char CHR ''/'' :: nat) = 47" by simp
  ultimately have "uri_unreserved b \<Longrightarrow> char_of b \<noteq> CHR ''/''" by metis
  moreover have "b div 16 < 16" using assms by (simp add: less_mult_imp_div_less)
  ultimately show ?thesis using hex [of "b div 16"] hex [of "b mod 16"] by auto
qed

lemma encoded_no_slash:
  "\<forall>b \<in> set bs. b < 256 \<Longrightarrow>
   CHR ''/'' \<notin> set (concat (map (\<lambda>b. if uri_unreserved b then [char_of b] else [CHR ''%'', hex_digit (b div 16), hex_digit (b mod 16)]) bs))"
proof (induction bs)
  case (Cons b bs)
  then show ?case using encoded_char [of b] by (simp only: list.map concat.simps set_append list.set Un_iff ball_simps) blast
qed simp

lemma encoded_plain: "s \<noteq> [] \<Longrightarrow> plain_id (encodeURIComponent s)"
proof -
  assume "s \<noteq> []"
  then have "encodeURIComponent s \<noteq> []"
    by (cases s) (simp_all add: encodeURIComponent_def utf8_char_def Let_def del: concat_eq_Nil_conv)
  moreover have "CHR ''/'' \<notin> set (encodeURIComponent s)"
    unfolding encodeURIComponent_def by (rule encoded_no_slash) (auto dest: utf8_char_lt)
  ultimately show ?thesis by (simp add: plain_id_def)
qed

end
