(* ===== verification/Markup.thy ===== *)
theory Markup
  imports Complex_Main Shell Widgets
begin

text \<open>
  The presentational components under \<^verbatim>\<open>src/notification-admin-ui/src/components\<close> and the
  login form: the trees of elements their \<^verbatim>\<open>return\<close> statements build, with attributes, style
  classes and handlers. A tree is a value of the type \<^verbatim>\<open>node\<close>; what a user can set off by a click
  is read off the tree by \<^verbatim>\<open>fires\<close>, which follows the rules of the browser for disabled buttons
  and for buttons inside a form. The icons of the icon library are empty \<^verbatim>\<open>svg\<close> elements that
  carry the name of the icon.
\<close>

named_theorems markup_simps

section \<open>Trees\<close>

text \<open>
  An attribute is a text, a number, a length in pixels, a flag, a handler that is called (\<^verbatim>\<open>onClick\<close>,
  \<^verbatim>\<open>onSubmit\<close>), or a handler that is given the value of a control (\<^verbatim>\<open>onChange\<close>).
\<close>

datatype 'h attr = AStr string | ANum int | APx rat | AFlag bool | AFire 'h | ARead "string \<Rightarrow> 'h"

type_synonym 'h attrs = "(string \<times> 'h attr) list"

datatype 'h node = TextN string | Elem string "'h attrs" "'h node list"

definition handler_of :: "'h attrs \<Rightarrow> string \<Rightarrow> 'h list" where
  "handler_of ats name = (case map_of ats name of Some (AFire h) \<Rightarrow> [h] | _ \<Rightarrow> [])"

definition flag_of :: "'h attrs \<Rightarrow> string \<Rightarrow> bool" where
  "flag_of ats name = (case map_of ats name of Some (AFlag b) \<Rightarrow> b | _ \<Rightarrow> False)"

definition text_of :: "'h attrs \<Rightarrow> string \<Rightarrow> string" where
  "text_of ats name = (case map_of ats name of Some (AStr s) \<Rightarrow> s | _ \<Rightarrow> [])"

text \<open>
  What clicks on the parts of a tree can set off, from top to bottom: the \<^verbatim>\<open>onClick\<close> of
  elements, and the \<^verbatim>\<open>onSubmit\<close> of the enclosing form for a button that is not of type
  \<^verbatim>\<open>button\<close>. A disabled button sets off nothing.
\<close>

fun fires :: "'h list \<Rightarrow> 'h node \<Rightarrow> 'h list" where
  "fires form (TextN s) = []"
| "fires form (Elem tag ats kids) =
    (if tag = ''button'' \<and> flag_of ats ''disabled'' then []
     else handler_of ats ''onClick''
          @ (if tag = ''button'' \<and> text_of ats ''type'' \<noteq> ''button'' then form else [])
          @ concat (map (fires (if tag = ''form'' then handler_of ats ''onSubmit'' else form)) kids))"

text \<open>The texts a tree shows, from top to bottom.\<close>

fun texts :: "'h node \<Rightarrow> string list" where
  "texts (TextN s) = [s]"
| "texts (Elem tag ats kids) = concat (map texts kids)"

text \<open>What typing the value \<^verbatim>\<open>v\<close> into the control with identifier \<^verbatim>\<open>i\<close> sets off.\<close>

fun types_in :: "string \<Rightarrow> string \<Rightarrow> 'h node \<Rightarrow> 'h list" where
  "types_in i v (TextN s) = []"
| "types_in i v (Elem tag ats kids) =
    (if text_of ats ''id'' = i then (case map_of ats ''onChange'' of Some (ARead f) \<Rightarrow> [f v] | _ \<Rightarrow> []) else [])
    @ concat (map (types_in i v) kids)"

text \<open>The conditional \<^verbatim>\<open>cond && element\<close>.\<close>

definition show_if :: "bool \<Rightarrow> 'h node \<Rightarrow> 'h node list" where
  "show_if c n = (if c then [n] else [])"

definition svg :: "string \<Rightarrow> int \<Rightarrow> string \<Rightarrow> 'h node" where
  "svg name px cls = Elem ''svg'' [(''icon'', AStr name), (''size'', ANum px), (''className'', AStr cls)] []"

section \<open>Buttons\<close>

datatype button_variant = VPrimary | VSecondary | VDanger | VSuccess | VGhost

datatype button_size = Sm | Md

datatype row_tone = ToneNeutral | TonePrimary | ToneDanger | ToneSuccess

fun variantClasses :: "button_variant \<Rightarrow> string" where
  "variantClasses VPrimary = ''border-blue-600 bg-blue-600 text-white shadow-sm hover:bg-blue-700''"
| "variantClasses VSecondary = ''border-slate-300 bg-white text-slate-700 shadow-sm hover:bg-slate-50''"
| "variantClasses VDanger = ''border-red-600 bg-red-600 text-white shadow-sm hover:bg-red-700''"
| "variantClasses VSuccess = ''border-emerald-600 bg-emerald-600 text-white shadow-sm hover:bg-emerald-700''"
| "variantClasses VGhost = ''border-transparent bg-transparent text-slate-600 hover:bg-slate-100 hover:text-slate-900''"

fun sizeClasses :: "button_size \<Rightarrow> string" where
  "sizeClasses Sm = ''gap-1.5 rounded-md px-2.5 py-1.5 text-xs''"
| "sizeClasses Md = ''gap-2 rounded-md px-3.5 py-2 text-sm''"

fun rowToneClasses :: "row_tone \<Rightarrow> string" where
  "rowToneClasses ToneNeutral = ''text-slate-600 hover:bg-slate-100''"
| "rowToneClasses TonePrimary = ''text-blue-600 hover:bg-blue-50''"
| "rowToneClasses ToneDanger = ''text-red-600 hover:bg-red-50''"
| "rowToneClasses ToneSuccess = ''text-emerald-700 hover:bg-emerald-50''"

definition default_of :: "'a \<Rightarrow> 'a option \<Rightarrow> 'a" where
  "default_of d v = (case v of Some x \<Rightarrow> x | None \<Rightarrow> d)"

text \<open>
  \<^verbatim>\<open>Button\<close>: the remaining properties are passed to the element before its own class, so that a
  class among them cannot win.
\<close>

definition Button :: "'h node list \<Rightarrow> string option \<Rightarrow> button_variant option \<Rightarrow> button_size option
    \<Rightarrow> string option \<Rightarrow> 'h attrs \<Rightarrow> 'h node" where
  "Button children icon variant sz className props =
    (let v = default_of VSecondary variant; z = default_of Md sz; c = default_of [] className
     in Elem ''button''
          ((''className'', AStr (''focus-ring inline-flex items-center justify-center border font-medium disabled:opacity-60 ''
              @ sizeClasses z @ '' '' @ variantClasses v @ '' '' @ c)) # props)
          ((case icon of Some i \<Rightarrow> [svg i (if z = Sm then 13 else 16) ''shrink-0''] | None \<Rightarrow> []) @ children))"

definition RowActionButton :: "'h node list \<Rightarrow> string \<Rightarrow> row_tone option \<Rightarrow> string option \<Rightarrow> 'h attrs \<Rightarrow> 'h node" where
  "RowActionButton children icon tone className props =
    Elem ''button''
      ((''className'', AStr (''focus-ring inline-flex min-w-[86px] items-center justify-start gap-1.5 whitespace-nowrap rounded-md px-2.5 py-1.5 text-xs font-medium disabled:opacity-60 ''
          @ rowToneClasses (default_of TonePrimary tone) @ '' '' @ default_of [] className)) # props)
      (svg icon 13 ''shrink-0'' # children)"

section \<open>Panels and filters\<close>

definition Panel :: "string \<Rightarrow> 'h node list \<Rightarrow> 'h node list \<Rightarrow> 'h node" where
  "Panel title children actions =
    Elem ''section'' [(''className'', AStr ''rounded-md border border-slate-200 bg-white'')]
      [Elem ''div'' [(''className'', AStr ''flex items-center justify-between border-b border-slate-200 px-5 py-4'')]
         (Elem ''h1'' [(''className'', AStr ''text-lg font-semibold'')] [TextN title] # actions),
       Elem ''div'' [(''className'', AStr ''p-5'')] children]"

definition FilterToolbar :: "'h node list \<Rightarrow> 'h node" where
  "FilterToolbar children = Elem ''div'' [(''className'', AStr ''template-toolbar'')] children"

definition SearchControl :: "string \<Rightarrow> string \<Rightarrow> string \<Rightarrow> (string \<Rightarrow> 'h) \<Rightarrow> string \<Rightarrow> 'h node" where
  "SearchControl ident label value onChange placeholder =
    Elem ''div'' [(''className'', AStr ''template-search-control'')]
      [Elem ''label'' [(''htmlFor'', AStr ident), (''className'', AStr ''mb-1.5 block text-xs font-semibold uppercase tracking-wide text-slate-600'')] [TextN label],
       Elem ''div'' [(''className'', AStr ''template-control-input'')]
         [Elem ''svg'' [(''icon'', AStr ''Search''), (''aria-hidden'', AStr ''true''), (''size'', ANum 16)] [],
          Elem ''input'' [(''id'', AStr ident), (''value'', AStr value), (''onChange'', ARead onChange), (''placeholder'', AStr placeholder)] []]]"

definition SelectFilter :: "string \<Rightarrow> string \<Rightarrow> string \<Rightarrow> (string \<Rightarrow> 'h) \<Rightarrow> 'h node list \<Rightarrow> 'h node" where
  "SelectFilter ident label value onChange children =
    Elem ''div'' [(''className'', AStr ''template-filter-control'')]
      [Elem ''label'' [(''htmlFor'', AStr ident)] [TextN label],
       Elem ''div'' [(''className'', AStr ''template-control-select'')]
         [Elem ''select'' [(''id'', AStr ident), (''value'', AStr value), (''onChange'', ARead onChange)] children]]"

section \<open>Modals\<close>

definition Modal :: "string \<Rightarrow> string option \<Rightarrow> 'h node list \<Rightarrow> 'h node list \<Rightarrow> 'h \<Rightarrow> string option \<Rightarrow> 'h node" where
  "Modal title description children footer onClose width =
    Elem ''div'' [(''className'', AStr ''template-modal-root''), (''role'', AStr ''dialog''),
                  (''aria-modal'', AStr ''true''), (''aria-label'', AStr title)]
      [Elem ''button'' [(''className'', AStr ''template-modal-backdrop''), (''onClick'', AFire onClose), (''aria-label'', AStr ''Close modal'')] [],
       Elem ''section'' [(''className'', AStr (''template-modal-panel '' @ default_of ''max-w-3xl'' width))]
         ([Elem ''header'' [(''className'', AStr ''flex items-start justify-between border-b border-slate-200 px-6 py-5'')]
             [Elem ''div'' []
                (Elem ''h2'' [(''className'', AStr ''text-lg font-semibold text-slate-900'')] [TextN title]
                 # show_if (or_opt description [] \<noteq> [])
                     (Elem ''p'' [(''className'', AStr ''mt-1 text-sm text-slate-500'')] [TextN (or_opt description [])])),
              Elem ''button'' [(''onClick'', AFire onClose), (''className'', AStr ''focus-ring rounded-md p-1.5 text-slate-400 hover:bg-slate-100 hover:text-slate-700''), (''aria-label'', AStr ''Close'')]
                [svg ''X'' 19 []]],
           Elem ''div'' [(''className'', AStr ''max-h-[calc(92vh-160px)] overflow-y-auto'')] children]
          @ show_if (footer \<noteq> [])
              (Elem ''footer'' [(''className'', AStr ''flex justify-end gap-2 border-t border-slate-200 bg-slate-50 px-6 py-4'')] footer))]"

fun modal_icon_name :: "modal_icon \<Rightarrow> string" where
  "modal_icon_name LoaderCircle = ''LoaderCircle''"
| "modal_icon_name XIcon = ''X''"
| "modal_icon_name Trash2 = ''Trash2''"
| "modal_icon_name PencilIcon = ''Pencil''"
| "modal_icon_name PlusIcon = ''Plus''"
| "modal_icon_name CheckIcon = ''Check''"
| "modal_icon_name SaveIcon = ''Save''"

datatype button_type = TypeButton | TypeSubmit

text \<open>
  \<^verbatim>\<open>ModalButton\<close> with the text \<^verbatim>\<open>children\<close>. Unlike \<^verbatim>\<open>Button\<close> it sets the type of
  the element, \<^verbatim>\<open>button\<close> unless told otherwise.
\<close>

definition ModalButton :: "string \<Rightarrow> 'h option \<Rightarrow> button_variant option \<Rightarrow> bool \<Rightarrow> button_type option \<Rightarrow> 'h node" where
  "ModalButton children onClick variant disabled type =
    Button [TextN children] (map_option modal_icon_name (modalIcon (Some children)))
      (Some (default_of VSecondary variant)) None
      (Some (if list_ex (str_includes (to_lower children)) [''creating'', ''saving'', ''deleting'']
             then ''[&_svg]:animate-spin'' else []))
      ((''type'', AStr (case default_of TypeButton type of TypeButton \<Rightarrow> ''button'' | TypeSubmit \<Rightarrow> ''submit''))
       # (case onClick of Some h \<Rightarrow> [(''onClick'', AFire h)] | None \<Rightarrow> [])
       @ [(''disabled'', AFlag disabled)])"

section \<open>Confirmation dialog\<close>

text \<open>
  The modal of \<^verbatim>\<open>useConfirmDialog\<close>. Its handlers are the close of the modal
  (\<^const>\<open>confirm_close\<close>), the cancel button (which drops the intent) and the confirm button
  (\<^const>\<open>confirm_start\<close>).
\<close>

datatype dialog_control = DialogClose | DialogCancel | DialogConfirm

definition confirmDialog_node :: "'act confirm_state \<Rightarrow> dialog_control node option" where
  "confirmDialog_node s =
    (case intent s of
       None \<Rightarrow> None
     | Some i \<Rightarrow> Some
         (Modal (intent_title i) (intent_description i)
           [Elem ''div'' [(''className'', AStr ''flex gap-4 px-6 py-5'')]
              [Elem ''span'' [(''className'', AStr (''flex h-10 w-10 shrink-0 items-center justify-center rounded-full ''
                  @ (if intent_variant i = Some CDanger then ''bg-red-100 text-red-600'' else ''bg-blue-100 text-blue-600'')))]
                 [svg ''AlertTriangle'' 20 []],
               Elem ''div'' [(''className'', AStr ''text-sm leading-6 text-slate-600'')]
                 (if intent_body i = [] then [TextN ''This action will be applied immediately.''] else map TextN (intent_body i))]]
           [ModalButton ''Cancel'' (Some DialogCancel) None (running s) None,
            ModalButton (if running s then ''Saving...'' else or_opt (intent_confirmLabel i) ''Confirm'') (Some DialogConfirm)
              (Some (if intent_variant i = Some CDanger then VDanger else VPrimary)) (running s) None]
           DialogClose (Some ''max-w-md'')))"

definition dialog_click :: "dialog_control \<Rightarrow> 'act confirm_state \<Rightarrow> 'act option \<times> 'act confirm_state" where
  "dialog_click c s =
    (case c of
       DialogClose \<Rightarrow> (None, confirm_close s)
     | DialogCancel \<Rightarrow> (None, s\<lparr>intent := None\<rparr>)
     | DialogConfirm \<Rightarrow> confirm_start s)"

section \<open>Searchable select\<close>

datatype select_click = SelectToggle | SelectSearch string | SelectChoose string

text \<open>
  Where the menu is shown, in pixels. \<^verbatim>\<open>place\<close> reads the rectangle of the control, which is
  missing only while the control is not mounted.
\<close>

record menu_rect =
  menu_top :: rat
  menu_left :: rat
  menu_width :: rat

record dom_rect =
  rect_bottom :: rat
  rect_left :: rat
  rect_width :: rat

definition menu_rect_init :: menu_rect where
  "menu_rect_init = \<lparr>menu_top = 0, menu_left = 0, menu_width = 0\<rparr>"

definition place :: "dom_rect option \<Rightarrow> menu_rect \<Rightarrow> menu_rect" where
  "place rect m =
    (case rect of
       None \<Rightarrow> m
     | Some r \<Rightarrow> \<lparr>menu_top = rect_bottom r + 4, menu_left = rect_left r, menu_width = rect_width r\<rparr>)"

text \<open>
  The effect on \<^verbatim>\<open>open\<close>: the menu is placed when it opens and again at every resize and scroll
  while it is open; the listeners are gone when it is closed. The rectangles are those the control has at
  these moments.
\<close>

definition place_all :: "bool \<Rightarrow> dom_rect option list \<Rightarrow> menu_rect \<Rightarrow> menu_rect" where
  "place_all is_open rects m = (if is_open then fold place rects m else m)"

definition SearchSelect_entry :: "string \<Rightarrow> select_option \<Rightarrow> select_click node" where
  "SearchSelect_entry value opt =
    Elem ''button'' [(''type'', AStr ''button''), (''key'', AStr (so_value opt)), (''disabled'', AFlag (so_disabled opt)),
        (''onClick'', AFire (SelectChoose (so_value opt))),
        (''className'', AStr ''flex w-full items-center justify-between rounded-md px-3 py-2 text-left text-sm hover:bg-blue-50 disabled:opacity-40'')]
      (Elem ''span'' [] [TextN (so_label opt)] # show_if (value = so_value opt) (svg ''Check'' 15 ''text-blue-600''))"

definition SearchSelect_node ::
    "string \<Rightarrow> select_option list \<Rightarrow> string option \<Rightarrow> string option \<Rightarrow> select_state \<Rightarrow> menu_rect \<Rightarrow> select_click node" where
  "SearchSelect_node value options placeholder className s m =
    (let selected = find (\<lambda>opt. so_value opt = value) options;
         filtered = select_filtered options s
     in Elem ''div'' [(''className'', AStr (''relative '' @ default_of [] className))]
          (Elem ''button'' [(''type'', AStr ''button''), (''aria-haspopup'', AStr ''listbox''), (''aria-expanded'', AFlag (ss_open s)),
               (''onClick'', AFire SelectToggle),
               (''className'', AStr ''focus-ring flex w-full items-center justify-between rounded-md border border-slate-300 bg-white px-3 py-2 text-left text-sm'')]
             [Elem ''span'' [(''className'', AStr (if selected \<noteq> None then ''truncate text-slate-900'' else ''truncate text-slate-400''))]
                [TextN (select_label value options (default_of ''Select an option'' placeholder))],
              Elem ''span'' [(''className'', AStr ''ml-2 flex shrink-0 items-center gap-1.5 text-slate-400'')] [svg ''Search'' 14 [], svg ''ChevronDown'' 16 []]]
           # show_if (ss_open s)
               (Elem ''div'' [(''top'', APx (menu_top m)), (''left'', APx (menu_left m)), (''width'', APx (menu_width m)),
                    (''className'', AStr ''fixed z-[100] overflow-hidden rounded-lg border border-slate-200 bg-white shadow-xl'')]
                 [Elem ''div'' [(''className'', AStr ''flex items-center gap-2 border-b border-slate-100 px-3'')]
                    [svg ''Search'' 15 ''text-slate-400'',
                     Elem ''input'' [(''autoFocus'', AFlag True), (''value'', AStr (ss_query s)), (''onChange'', ARead SelectSearch), (''placeholder'', AStr ''Search...''),
                         (''className'', AStr ''h-10 min-w-0 flex-1 border-0 text-sm outline-none'')] []],
                  Elem ''div'' [(''className'', AStr ''max-h-60 overflow-y-auto p-1''), (''role'', AStr ''listbox'')]
                    (map (SearchSelect_entry value) filtered
                     @ show_if (filtered = []) (Elem ''div'' [(''className'', AStr ''px-3 py-6 text-center text-sm text-slate-400'')] [TextN ''No results found'']))])))"

section \<open>Toasts\<close>

fun toast_styles :: "toast_kind \<Rightarrow> string \<times> string \<times> string" where
  "toast_styles TSuccess = (''CheckCircle2'', ''border-emerald-200 bg-emerald-50 text-emerald-900'', ''text-emerald-600'')"
| "toast_styles TError = (''AlertTriangle'', ''border-red-200 bg-red-50 text-red-900'', ''text-red-600'')"
| "toast_styles TInfo = (''Info'', ''border-blue-200 bg-blue-50 text-blue-900'', ''text-blue-600'')"

definition toast_node :: "toast_item \<Rightarrow> toast_event node" where
  "toast_node item =
    (case toast_styles (toast_kind item) of (icon, cls, iconClass) \<Rightarrow>
       Elem ''div'' [(''key'', AStr (int_str (toast_id item))),
           (''className'', AStr (''pointer-events-auto flex items-start gap-3 rounded-lg border px-4 py-3 shadow-lg '' @ cls))]
         [svg icon 18 (''mt-0.5 shrink-0 '' @ iconClass),
          Elem ''div'' [(''className'', AStr ''min-w-0 flex-1'')]
            (Elem ''div'' [(''className'', AStr ''text-sm font-semibold'')] [TextN (toast_title item)]
             # show_if (or_opt (toast_message item) [] \<noteq> [])
                 (Elem ''div'' [(''className'', AStr ''mt-0.5 break-words text-sm opacity-80'')] [TextN (or_opt (toast_message item) [])])),
          Elem ''button'' [(''onClick'', AFire (Dismiss (toast_id item))),
              (''className'', AStr ''focus-ring rounded p-1 opacity-60 hover:bg-white/60 hover:opacity-100''), (''aria-label'', AStr ''Dismiss notification'')]
            [svg ''X'' 14 []]])"

definition toast_stack :: "toast_item list \<Rightarrow> toast_event node" where
  "toast_stack items =
    Elem ''div'' [(''className'', AStr ''pointer-events-none fixed right-5 top-5 z-[100] flex w-[min(420px,calc(100vw-2.5rem))] flex-col gap-3'')]
      (map toast_node items)"

section \<open>Contexts\<close>

text \<open>
  A context read outside of its provider has no value, and the hook throws. The value of the session
  context is what the provider shares with the pages.
\<close>

definition useToast :: "'a option \<Rightarrow> js_error + 'a" where
  "useToast ctx = (case ctx of None \<Rightarrow> Inl (OtherError ''useToast must be used within ToastProvider'') | Some v \<Rightarrow> Inr v)"

record auth_value =
  av_token :: "string option"
  av_user :: "principal option"
  av_can :: "string \<Rightarrow> bool"

definition auth_context :: "auth_state \<Rightarrow> auth_value" where
  "auth_context s =
    (let user = map_option principal_of (auth_user s)
     in \<lparr>av_token = auth_token s, av_user = user, av_can = hasPermission user\<rparr>)"

definition useAuth :: "auth_value option \<Rightarrow> js_error + auth_value" where
  "useAuth ctx = (case ctx of None \<Rightarrow> Inl (OtherError ''useAuth must be used inside AuthProvider'') | Some v \<Rightarrow> Inr v)"

section \<open>Login form\<close>

datatype login_click = LoginEmail string | LoginPassword string | LoginSubmit

definition login_field :: "string \<Rightarrow> string \<Rightarrow> string \<Rightarrow> (string \<Rightarrow> login_click) \<Rightarrow> login_click node" where
  "login_field label kind value onChange =
    Elem ''label'' [(''className'', AStr ''block text-sm'')]
      [Elem ''span'' [(''className'', AStr ''mb-1 block font-medium'')] [TextN label],
       Elem ''input'' ((if kind = [] then [] else [(''type'', AStr kind)])
           @ [(''value'', AStr value), (''onChange'', ARead onChange),
              (''className'', AStr ''focus-ring w-full rounded-md border border-slate-300 px-3 py-2'')]) []]"

definition LoginPage_node :: "login_page \<Rightarrow> login_click node" where
  "LoginPage_node p =
    Elem ''main'' [(''className'', AStr ''grid min-h-screen place-items-center bg-[#f7f8fb] px-4'')]
      [Elem ''form'' [(''onSubmit'', AFire LoginSubmit), (''className'', AStr ''w-full max-w-sm rounded-md border border-slate-200 bg-white p-6 shadow-sm'')]
         [Elem ''h1'' [(''className'', AStr ''text-xl font-semibold'')] [TextN ''Notification Admin''],
          Elem ''div'' [(''className'', AStr ''mt-6 space-y-4'')]
            ([login_field ''Email'' [] (lp_email p) LoginEmail,
              login_field ''Password'' ''password'' (lp_password p) LoginPassword]
             @ show_if (lp_error p \<noteq> [])
                 (Elem ''div'' [(''className'', AStr ''rounded-md border border-red-200 bg-red-50 px-3 py-2 text-sm text-red-700'')] [TextN (lp_error p)])
             @ [Button [TextN (if lp_loading p then ''Signing in...'' else ''Sign in'')] (Some ''LogIn'') (Some VPrimary) None (Some ''w-full'')
                  [(''disabled'', AFlag (lp_loading p))]])]]"

section \<open>Lemmas\<close>

lemma attrs_Cons:
  "handler_of ((k, a) # ats) name = (if name = k then (case a of AFire h \<Rightarrow> [h] | _ \<Rightarrow> []) else handler_of ats name)"
  "flag_of ((k, a) # ats) name = (if name = k then (case a of AFlag b \<Rightarrow> b | _ \<Rightarrow> False) else flag_of ats name)"
  "text_of ((k, a) # ats) name = (if name = k then (case a of AStr s \<Rightarrow> s | _ \<Rightarrow> []) else text_of ats name)"
  by (auto simp: handler_of_def flag_of_def text_of_def)

lemma attrs_Nil: "handler_of [] name = []" "flag_of [] name = False" "text_of [] name = []"
  by (simp_all add: handler_of_def flag_of_def text_of_def)

lemma fires_show_if: "concat (map (fires form) (show_if c n)) = (if c then fires form n else [])"
  by (simp add: show_if_def)

lemma texts_show_if: "concat (map texts (show_if c n)) = (if c then texts n else [])"
  by (simp add: show_if_def)

lemma fires_svg: "fires form (svg name px cls) = []"
  by (simp add: svg_def attrs_Cons attrs_Nil)

lemma texts_svg: "texts (svg name px cls) = []"
  by (simp add: svg_def)

lemmas [markup_simps] = attrs_Cons attrs_Nil fires_show_if texts_show_if fires_svg texts_svg

text \<open>A button sets off its own handler and the form around it, unless it is disabled or of type button.\<close>

lemma fires_Button [markup_simps]:
  "fires form (Button children icon variant sz cls props) =
     (if flag_of props ''disabled'' then []
      else handler_of props ''onClick'' @ (if text_of props ''type'' \<noteq> ''button'' then form else [])
           @ concat (map (fires form) children))"
  by (cases icon) (simp_all add: Button_def Let_def markup_simps)

lemma texts_Button [markup_simps]: "texts (Button children icon variant sz cls props) = concat (map texts children)"
  by (cases icon) (simp_all add: Button_def Let_def markup_simps)

lemma fires_RowActionButton [markup_simps]:
  "fires form (RowActionButton children icon tone cls props) =
     (if flag_of props ''disabled'' then []
      else handler_of props ''onClick'' @ (if text_of props ''type'' \<noteq> ''button'' then form else [])
           @ concat (map (fires form) children))"
  by (simp add: RowActionButton_def markup_simps)

text \<open>A modal button never submits the form around it unless it is told to.\<close>

lemma fires_ModalButton [markup_simps]:
  "fires form (ModalButton label onClick variant disabled type) =
     (if disabled then []
      else (case onClick of Some h \<Rightarrow> [h] | None \<Rightarrow> []) @ (if type = Some TypeSubmit then form else []))"
proof -
  have "(case default_of TypeButton type of TypeButton \<Rightarrow> ''button'' | TypeSubmit \<Rightarrow> ''submit'') \<noteq> ''button''
       \<longleftrightarrow> type = Some TypeSubmit"
    by (auto simp: default_of_def split: option.splits button_type.splits)
  then show ?thesis by (cases onClick; cases disabled) (simp_all add: ModalButton_def markup_simps)
qed

lemma texts_ModalButton [markup_simps]: "texts (ModalButton label onClick variant disabled type) = [label]"
  by (simp add: ModalButton_def markup_simps)

lemma fires_Modal [markup_simps]:
  "fires [] (Modal title description children footer onClose width) =
     onClose # onClose # concat (map (fires []) children) @ concat (map (fires []) footer)"
  by (simp add: Modal_def markup_simps)

lemma texts_Modal [markup_simps]:
  "texts (Modal title description children footer onClose width) =
     title # (if or_opt description [] \<noteq> [] then [or_opt description []] else [])
       @ concat (map texts children) @ concat (map texts footer)"
  by (simp add: Modal_def markup_simps)

text \<open>Typing into a search control reports the typed value, and only that control listens.\<close>

lemma types_in_SearchControl: "ident \<noteq> [] \<Longrightarrow> types_in i v (SearchControl ident label value onChange placeholder) = (if i = ident then [onChange v] else [])"
  by (auto simp: SearchControl_def markup_simps)

lemma concat_fires_TextN [markup_simps]: "concat (map (fires form) (map TextN ts)) = []"
  by (induction ts) auto

lemma concat_texts_TextN [markup_simps]: "concat (map texts (map TextN ts)) = ts"
  by (induction ts) auto

section \<open>The dialog and its tree\<close>

lemma confirmDialog_node_fires:
  "confirmDialog_node s = Some n \<Longrightarrow>
     fires [] n = DialogClose # DialogClose # (if running s then [] else [DialogCancel, DialogConfirm])"
  by (auto simp: confirmDialog_node_def markup_simps split: option.splits)

lemma confirmDialog_node_Some: "(\<exists>n. confirmDialog_node s = Some n) \<longleftrightarrow> (\<exists>v. confirmDialog s = Some v)"
  by (auto simp: confirmDialog_node_def confirmDialog_def split: option.splits)

lemma confirmDialog_node_texts:
  "confirmDialog_node s = Some n \<Longrightarrow> confirmDialog s = Some v \<Longrightarrow>
     hd (texts n) = dv_title v \<and> last (texts n) = dv_confirm_label v"
  by (auto simp: confirmDialog_node_def confirmDialog_def markup_simps split: option.splits)

section \<open>Properties\<close>

text \<open>
  Property C17. The tree of the confirmation dialog implements the dialog of the model: it is there exactly
  when a confirmation is asked for, shows its title and the label of the confirm button, and every click it
  offers is a step of the dialog (the one that starts the action is offered only while none runs); closing
  is offered always, cancelling and confirming exactly while they are enabled.
\<close>

theorem confirm_tree_refines_dialog:
  "(confirmDialog_node s = None \<longleftrightarrow> confirmDialog s = None)
   \<and> (\<forall>n v. confirmDialog_node s = Some n \<and> confirmDialog s = Some v \<longrightarrow>
        hd (texts n) = dv_title v \<and> last (texts n) = dv_confirm_label v
        \<and> (DialogCancel \<in> set (fires [] n) \<longleftrightarrow> dv_cancel_enabled v)
        \<and> (DialogConfirm \<in> set (fires [] n) \<longleftrightarrow> dv_confirm_enabled v)
        \<and> DialogClose \<in> set (fires [] n)
        \<and> (\<forall>c \<in> set (fires [] n). case dialog_click c s of (started, s') \<Rightarrow>
             dialog_step (s, acts) (s', acts @ (case started of Some a \<Rightarrow> [a] | None \<Rightarrow> []))))"
proof (intro conjI allI impI)
  show "confirmDialog_node s = None \<longleftrightarrow> confirmDialog s = None"
    using confirmDialog_node_Some by (metis not_None_eq)
next
  fix n v assume nv: "confirmDialog_node s = Some n \<and> confirmDialog s = Some v"
  then have enabled: "dv_cancel_enabled v = (\<not> running s)" "dv_confirm_enabled v = (\<not> running s)" and "intent s \<noteq> None"
    by (auto simp: confirmDialog_def split: option.splits)
  note fires = confirmDialog_node_fires [OF conjunct1 [OF nv]]
  from nv show "hd (texts n) = dv_title v" "last (texts n) = dv_confirm_label v"
    using confirmDialog_node_texts by blast+
  show "DialogCancel \<in> set (fires [] n) \<longleftrightarrow> dv_cancel_enabled v" "DialogConfirm \<in> set (fires [] n) \<longleftrightarrow> dv_confirm_enabled v"
    "DialogClose \<in> set (fires [] n)"
    by (simp_all add: fires enabled)
  obtain i where i: "intent s = Some i" using \<open>intent s \<noteq> None\<close> by auto
  show "\<forall>c \<in> set (fires [] n). case dialog_click c s of (started, s') \<Rightarrow>
             dialog_step (s, acts) (s', acts @ (case started of Some a \<Rightarrow> [a] | None \<Rightarrow> []))"
  proof
    fix c assume c: "c \<in> set (fires [] n)"
    show "case dialog_click c s of (started, s') \<Rightarrow>
             dialog_step (s, acts) (s', acts @ (case started of Some a \<Rightarrow> [a] | None \<Rightarrow> []))"
      using c nv enabled fires dialog_step.close [of s acts] dialog_step.cancel [of s v acts]
        dialog_step.click [of s v "intent_onConfirm i" "s\<lparr>running := True\<rparr>" acts] i
      by (cases c) (auto simp: dialog_click_def confirm_start_def split: if_splits)
  qed
qed

theorem confirm_tree_refines_dialog_witness:
  "\<exists>n. confirmDialog_node \<lparr>intent = Some demo_intent, running = False\<rparr> = Some n \<and> DialogConfirm \<in> set (fires [] n)"
proof -
  let ?s = "\<lparr>intent = Some demo_intent, running = False\<rparr>"
  obtain v where v: "confirmDialog ?s = Some v" "dv_confirm_enabled v" by (simp add: confirmDialog_def)
  with confirm_tree_refines_dialog [of ?s "[]"] show ?thesis by (metis not_None_eq)
qed

text \<open>
  The menu of the searchable select offers exactly the choices the model of the select accepts: the values
  of the entries that match the query and are not disabled, and none while the menu is closed.
\<close>

lemma SearchSelect_fires:
  "fires form (SearchSelect_node value opts placeholder cls s m) =
     SelectToggle # (if ss_open s then map (SelectChoose \<circ> so_value) (filter (\<lambda>opt. \<not> so_disabled opt) (select_filtered opts s)) else [])"
proof -
  have entry: "fires form (SearchSelect_entry value opt) = (if so_disabled opt then [] else [SelectChoose (so_value opt)])" for opt
    by (simp add: SearchSelect_entry_def markup_simps)
  have "concat (map (fires form \<circ> SearchSelect_entry value) xs) = map (SelectChoose \<circ> so_value) (filter (\<lambda>opt. \<not> so_disabled opt) xs)" for xs
    by (induction xs) (simp_all add: entry)
  then show ?thesis by (simp add: SearchSelect_node_def Let_def markup_simps)
qed

theorem select_tree_offers_choices:
  "SelectChoose v \<in> set (fires [] (SearchSelect_node value opts placeholder cls s m))
     \<longleftrightarrow> (\<exists>k s'. select_choose opts k s = (Some v, s'))"
  by (auto simp: SearchSelect_fires select_choose_def in_set_conv_nth filter_empty_conv set_filter)

text \<open>
  The login form offers its submission exactly while no attempt is running, and shows the message of the
  last failed one.
\<close>

theorem login_form_offers_submit:
  "fires [] (LoginPage_node p) = (if fst (login_button p) then [LoginSubmit] else [])
   \<and> texts (LoginPage_node p) = [''Notification Admin'', ''Email'', ''Password'']
       @ (if lp_error p = [] then [] else [lp_error p]) @ [snd (login_button p)]"
  by (simp add: LoginPage_node_def login_field_def login_button_def markup_simps)

text \<open>Every toast of the list is shown, in order, and each can be dismissed by its own button.\<close>

theorem toast_stack_dismissals:
  "fires [] (toast_stack items) = map (Dismiss \<circ> toast_id) items"
proof -
  have "fires [] (toast_node item) = [Dismiss (toast_id item)]" for item
    by (cases "toast_styles (toast_kind item)") (simp add: toast_node_def markup_simps)
  then show ?thesis
    by (induction items) (simp_all add: toast_stack_def markup_simps)
qed

text \<open>An open menu hangs four pixels under its control, whatever the sequence of scrolls and resizes.\<close>

lemma place_all_under_control:
  "menu_top (place_all True (rects @ [Some r]) m) = rect_bottom r + 4
   \<and> menu_left (place_all True (rects @ [Some r]) m) = rect_left r
   \<and> menu_width (place_all True (rects @ [Some r]) m) = rect_width r"
  by (simp add: place_all_def place_def)

end
