(* ===== verification/Modal_Effects.thy ===== *)
theory Modal_Effects
  imports Markup Api_Keys
begin

text \<open>
  The effect of \<^verbatim>\<open>Modal\<close> on the document
  (\<^verbatim>\<open>src/notification-admin-ui/src/components/Modal.tsx\<close> and the copy of it in
  \<^verbatim>\<open>src/notification-admin-ui/src/pages/templates/TemplatesPage.tsx\<close>): while a modal is mounted the
  body does not scroll and the Escape key closes it. The effect depends on \<^verbatim>\<open>onClose\<close>, which every
  page passes as a new closure, so each render of a page cleans up and sets up again the effect of every modal
  it keeps. As React documents it, a render first runs all cleanups, those of the kept modals in the order of
  the tree, then all effects in the order of the tree; the place of the cleanups of removed modals among the
  others is left open here.
\<close>

section \<open>The document\<close>

text \<open>
  \<^verbatim>\<open>saved_overflow\<close> holds, per mounted modal, the constant \<^verbatim>\<open>previous\<close> its effect has
  closed over; \<^verbatim>\<open>key_listeners\<close> the modals that listen to the keyboard, in order of registration.
\<close>

record document =
  body_overflow :: string
  saved_overflow :: "(nat \<times> string) list"
  key_listeners :: "nat list"

definition modal_effect :: "nat \<Rightarrow> document \<Rightarrow> document" where
  "modal_effect k d =
    d\<lparr>key_listeners := key_listeners d @ [k],
      saved_overflow := (k, body_overflow d) # saved_overflow d,
      body_overflow := ''hidden''\<rparr>"

definition modal_cleanup :: "nat \<Rightarrow> document \<Rightarrow> document" where
  "modal_cleanup k d =
    d\<lparr>key_listeners := filter (\<lambda>j. j \<noteq> k) (key_listeners d),
      body_overflow := (case map_of (saved_overflow d) k of Some previous \<Rightarrow> previous | None \<Rightarrow> body_overflow d),
      saved_overflow := filter (\<lambda>(j, _). j \<noteq> k) (saved_overflow d)\<rparr>"

definition commit_effects :: "nat list \<Rightarrow> nat list \<Rightarrow> document \<Rightarrow> document" where
  "commit_effects cleanups effects d = fold modal_effect effects (fold modal_cleanup cleanups d)"

text \<open>A key press: the modals whose \<^verbatim>\<open>onClose\<close> is called.\<close>

definition modal_keydown :: "string \<Rightarrow> document \<Rightarrow> nat list" where
  "modal_keydown key d = (if modal_key key then key_listeners d else [])"

section \<open>Renders\<close>

text \<open>
  A state is the list of mounted modals in the order of the tree, and the document. A render replaces the list
  by another one.
\<close>

inductive render_step :: "nat list \<times> document \<Rightarrow> nat list \<times> document \<Rightarrow> bool" where
  render: "distinct ms' \<Longrightarrow> mset cs = mset ms \<Longrightarrow>
     filter (\<lambda>k. k \<in> set ms') cs = filter (\<lambda>k. k \<in> set ms') ms \<Longrightarrow>
     render_step (ms, d) (ms', commit_effects cs ms' d)"

inductive_cases render_stepE: "render_step (ms, d) (ms', d')"

abbreviation renders :: "nat list \<times> document \<Rightarrow> nat list \<times> document \<Rightarrow> bool" where
  "renders \<equiv> render_step\<^sup>*\<^sup>*"

definition fresh_document :: "string \<Rightarrow> document" where
  "fresh_document v = \<lparr>body_overflow = v, saved_overflow = [], key_listeners = []\<rparr>"

text \<open>The states after renders with at most a given number of modals each.\<close>

definition small_render :: "nat \<Rightarrow> nat list \<times> document \<Rightarrow> nat list \<times> document \<Rightarrow> bool" where
  "small_render n c c' \<longleftrightarrow> render_step c c' \<and> length (fst c') \<le> n"

abbreviation mounted :: "nat \<Rightarrow> string \<Rightarrow> nat list \<times> document \<Rightarrow> bool" where
  "mounted n v \<equiv> reachable (\<lambda>c. c = ([], fresh_document v)) (small_render n)"

section \<open>Lemmas\<close>

lemma cleanup_listeners: "key_listeners (fold modal_cleanup cs d) = filter (\<lambda>j. j \<notin> set cs) (key_listeners d)"
  by (induction cs arbitrary: d) (auto simp: modal_cleanup_def intro: filter_cong)

lemma cleanup_saved: "saved_overflow (fold modal_cleanup cs d) = filter (\<lambda>(j, _). j \<notin> set cs) (saved_overflow d)"
  by (induction cs arbitrary: d) (auto simp: modal_cleanup_def intro: filter_cong)

lemma effects_listeners: "key_listeners (fold modal_effect ms d) = key_listeners d @ ms"
  by (induction ms arbitrary: d) (simp_all add: modal_effect_def)

lemma effects_overflow: "body_overflow (fold modal_effect ms d) = (if ms = [] then body_overflow d else ''hidden'')"
  by (induction ms arbitrary: d) (simp_all add: modal_effect_def)

text \<open>The first modal of the tree remembers what the cleanups left, the others the lock itself.\<close>

lemma effects_saved_locked:
  "body_overflow d = ''hidden'' \<Longrightarrow>
     saved_overflow (fold modal_effect ms d) = rev (map (\<lambda>k. (k, ''hidden'')) ms) @ saved_overflow d"
  by (induction ms arbitrary: d) (simp_all add: modal_effect_def)

text \<open>Cleaning up every modal leaves what the last one remembered.\<close>

lemma cleanup_overflow_snoc:
  "distinct (cs @ [k]) \<Longrightarrow> map_of (saved_overflow d) k = Some v \<Longrightarrow>
     body_overflow (fold modal_cleanup (cs @ [k]) d) = v"
proof -
  assume "distinct (cs @ [k])" and v: "map_of (saved_overflow d) k = Some v"
  then have "map_of (filter (\<lambda>(j, _). j \<notin> set cs) (saved_overflow d)) k = Some v"
    by (simp add: map_of_filter_in)
  then show ?thesis by (simp add: modal_cleanup_def cleanup_saved)
qed

text \<open>The shape of a state between renders.\<close>

definition mounted_inv :: "nat list \<times> document \<Rightarrow> bool" where
  "mounted_inv c \<longleftrightarrow> (case c of (ms, d) \<Rightarrow>
     distinct ms \<and> key_listeners d = ms
     \<and> (case ms of
          [] \<Rightarrow> saved_overflow d = []
        | m # ks \<Rightarrow> body_overflow d = ''hidden''
            \<and> (\<exists>v. saved_overflow d = rev (map (\<lambda>k. (k, ''hidden'')) ks) @ [(m, v)])))"

lemma commit_inv:
  assumes "mounted_inv (ms, d)" "distinct ms'" "mset cs = mset ms"
  shows "mounted_inv (ms', commit_effects cs ms' d)"
proof -
  have cs: "set cs = set ms" using assms(3) by (metis set_mset_mset)
  let ?e = "fold modal_cleanup cs d"
  have "key_listeners ?e = []" using assms(1) by (simp add: cleanup_listeners mounted_inv_def cs)
  moreover have "saved_overflow ?e = []"
    using assms(1) by (auto simp: cleanup_saved mounted_inv_def cs filter_empty_conv split: list.splits)
  ultimately show ?thesis
    using assms(2) by (cases ms')
      (simp_all add: mounted_inv_def commit_effects_def effects_listeners effects_overflow effects_saved_locked modal_effect_def)
qed

lemma render_inv: "render_step c c' \<Longrightarrow> mounted_inv c \<Longrightarrow> mounted_inv c'"
  by (induction rule: render_step.induct) (rule commit_inv)

interpretation modals: step_invariant "small_render n" mounted_inv "\<lambda>c. c = ([], fresh_document v)" for n v
  by unfold_locales (auto simp: small_render_def intro: render_inv, simp add: mounted_inv_def fresh_document_def)

lemma mset_single: "mset cs = mset [k] \<Longrightarrow> cs = [k]"
  by (metis mset_single_iff_right mset.simps(1) mset.simps(2) add_mset_eq_single mset_zero_iff list.exhaust)

text \<open>With one modal at most, the modal remembers the style the page started with.\<close>

definition lock_inv :: "string \<Rightarrow> nat list \<times> document \<Rightarrow> bool" where
  "lock_inv v c \<longleftrightarrow> (case c of (ms, d) \<Rightarrow>
     (ms = [] \<longrightarrow> body_overflow d = v) \<and> (\<forall>k. ms = [k] \<longrightarrow> saved_overflow d = [(k, v)]))"

lemma commit_lock:
  assumes "mounted_inv (ms, d)" "lock_inv v (ms, d)" "length ms \<le> 1" "mset cs = mset ms" "length ms' \<le> 1"
  shows "lock_inv v (ms', commit_effects cs ms' d)"
proof -
  have "body_overflow (fold modal_cleanup cs d) = v \<and> saved_overflow (fold modal_cleanup cs d) = []"
  proof (cases ms)
    case Nil
    with assms show ?thesis by (simp add: mounted_inv_def lock_inv_def)
  next
    case (Cons k ks)
    with assms(3) have ms: "ms = [k]" by simp
    with assms(4) have "cs = [k]" by (simp add: mset_single)
    with assms(2) ms show ?thesis by (simp add: lock_inv_def modal_cleanup_def)
  qed
  with assms(5) show ?thesis
    by (cases ms') (simp_all add: lock_inv_def commit_effects_def modal_effect_def)
qed

lemma small_render_lock:
  assumes "small_render 1 c c'" "mounted_inv c" "length (fst c) \<le> 1" "lock_inv v c"
  shows "lock_inv v c'"
  using assms(1) unfolding small_render_def
proof (elim conjE render_step.cases)
  fix ms ms' cs d
  assume "length (fst c') \<le> 1" and c: "c = (ms, d)" "c' = (ms', commit_effects cs ms' d)" and "mset cs = mset ms"
  then show ?thesis using assms(2-4) by (simp add: commit_lock)
qed

interpretation single_modal: step_invariant "small_render 1" "\<lambda>c. mounted_inv c \<and> length (fst c) \<le> 1 \<and> lock_inv v c"
    "\<lambda>c. c = ([], fresh_document v)" for v
proof unfold_locales
  fix c c' assume "small_render 1 c c'" "mounted_inv c \<and> length (fst c) \<le> 1 \<and> lock_inv v c"
  then show "mounted_inv c' \<and> length (fst c') \<le> 1 \<and> lock_inv v c'"
    using modals.kept small_render_lock unfolding small_render_def by blast
qed (simp add: mounted_inv_def lock_inv_def fresh_document_def)

text \<open>Once every mounted modal remembers the lock, it is never released.\<close>

definition stuck :: "document \<Rightarrow> bool" where
  "stuck d \<longleftrightarrow> body_overflow d = ''hidden'' \<and> (\<forall>(k, v) \<in> set (saved_overflow d). v = ''hidden'')"

lemma stuck_cleanup: "stuck d \<Longrightarrow> stuck (modal_cleanup k d)"
  by (auto simp: stuck_def modal_cleanup_def split: option.splits dest: map_of_SomeD)

lemma stuck_effect: "stuck d \<Longrightarrow> stuck (modal_effect k d)"
  by (auto simp: stuck_def modal_effect_def)

lemma stuck_fold: "stuck d \<Longrightarrow> (\<And>k d. stuck d \<Longrightarrow> stuck (f k d)) \<Longrightarrow> stuck (fold f ks d)"
  by (induction ks arbitrary: d) auto

interpretation stuck_lock: preserved render_step "\<lambda>c. stuck (snd c)"
  by unfold_locales (auto elim!: render_step.cases simp: commit_effects_def intro!: stuck_fold stuck_cleanup stuck_effect)

text \<open>A render that keeps two modals makes the lower one remember the lock of the upper one.\<close>

lemma two_modals_stuck:
  assumes "mounted_inv (ms, d)" "2 \<le> length ms" "set ms \<subseteq> set ms'" "render_step (ms, d) (ms', d')"
  shows "stuck d'"
proof -
  obtain cs where cs: "mset cs = mset ms" "filter (\<lambda>k. k \<in> set ms') cs = filter (\<lambda>k. k \<in> set ms') ms"
    and d': "d' = commit_effects cs ms' d"
    using assms(4) by (auto elim: render_stepE)
  have "set cs = set ms" using cs(1) by (metis set_mset_mset)
  then have "cs = ms" using cs(2) assms(3) by (simp add: filter_id_conv subset_iff)
  obtain m ks k where ms: "ms = m # ks @ [k]"
    using assms(2) by (cases ms; simp) (metis length_0_conv not_less_eq_eq le0 rev_exhaust numeral_2_eq_2 Suc_le_mono)
  obtain v where v: "saved_overflow d = rev (map (\<lambda>k. (k, ''hidden'')) (ks @ [k])) @ [(m, v)]" and dist: "distinct ms"
    using assms(1) ms by (auto simp: mounted_inv_def)
  have "body_overflow (fold modal_cleanup ((m # ks) @ [k]) d) = ''hidden''"
    by (rule cleanup_overflow_snoc) (use dist ms v in auto)
  moreover have "fst ` set (saved_overflow d) \<subseteq> set ms" using v ms by auto
  then have "saved_overflow (fold modal_cleanup ms d) = []"
    by (auto simp: cleanup_saved filter_empty_conv)
  ultimately have "stuck (fold modal_cleanup ms d)" using ms by (simp add: stuck_def)
  then show ?thesis unfolding d' \<open>cs = ms\<close> commit_effects_def by (rule stuck_fold) (rule stuck_effect)
qed

section \<open>The modals of the groups page\<close>

text \<open>
  The modals of \<^verbatim>\<open>GroupsPage\<close> in the order of its tree: the form, the opened group and, above
  them, the confirmation of a removal.
\<close>

definition groups_modals :: "groups_page \<Rightarrow> nat list" where
  "groups_modals s =
    (if gp_showForm s then [0] else [])
    @ (if expandedGroup s \<noteq> None then [1] else [])
    @ (if intent (gp_confirm s) \<noteq> None then [2] else [])"

lemma groups_modals_asked:
  "expandedGroup s \<noteq> None \<Longrightarrow>
     2 \<le> length (groups_modals (request_remove_member g m s))
     \<and> intent (gp_confirm (request_remove_member g m s)) \<noteq> None"
  by (simp add: groups_modals_def request_remove_member_def requestConfirm_def expandedGroup_def)

lemma groups_modals_started:
  "confirm_start (gp_confirm s) = (Some a, c) \<Longrightarrow> groups_modals (s\<lparr>gp_confirm := c\<rparr>) = groups_modals s"
  by (auto simp: groups_modals_def confirm_start_def expandedGroup_def split: option.splits)

section \<open>Properties\<close>

text \<open>
  Property C18. Modals give the page back as they found it, as long as they come one at a time: through any
  number of renders with at most one modal each, the body is locked exactly while a modal is mounted, its
  overflow style is the original one again whenever none is, and the Escape key closes the mounted modal and
  nothing else.
\<close>

theorem scroll_lock_released:
  assumes "mounted 1 v (ms, d)"
  shows "body_overflow d = (if ms = [] then v else ''hidden'') \<and> modal_keydown ''Escape'' d = ms"
  using single_modal.always [OF assms]
  by (auto simp: lock_inv_def mounted_inv_def modal_keydown_def modal_key_def split: list.splits)

lemma render_tree_order: "distinct ms' \<Longrightarrow> render_step (ms, d) (ms', commit_effects ms ms' d)"
  by (rule render_step.render) simp_all

lemma small_render_tree_order: "distinct ms' \<Longrightarrow> length ms' \<le> n \<Longrightarrow> small_render n (ms, d) (ms', commit_effects ms ms' d)"
  by (simp add: small_render_def render_tree_order)

theorem scroll_lock_released_witness:
  "body_overflow (commit_effects [3] [] (commit_effects [] [3] (fresh_document ''auto''))) = ''auto''"
proof -
  have "mounted 1 ''auto'' ([3], commit_effects [] [3] (fresh_document ''auto''))"
    by (rule reachable_once, rule small_render_tree_order) simp_all
  then have "mounted 1 ''auto'' ([], commit_effects [3] [] (commit_effects [] [3] (fresh_document ''auto'')))"
    by (rule reachable.step) (simp add: small_render_tree_order)
  then show ?thesis using scroll_lock_released by fastforce
qed

text \<open>
  Property C19. Confirming an action above an open modal blocks the page for good: when a member is removed
  from an opened group, the render that shows the running confirmation keeps both modals, the lower one then
  remembers the lock of the upper one, and from there on the body does not scroll in any later state, also
  when every modal has been closed.
\<close>

theorem confirmation_over_modal_locks_scrolling:
  assumes "mounted n v (groups_modals s, d)" and "expandedGroup s = Some g"
    and "confirm_start (gp_confirm (request_remove_member g m s)) = (Some a, c)"
    and "render_step (groups_modals s, d) (groups_modals (request_remove_member g m s), d1)"
    and "render_step (groups_modals (request_remove_member g m s), d1)
           (groups_modals ((request_remove_member g m s)\<lparr>gp_confirm := c\<rparr>), d2)"
    and "renders (groups_modals ((request_remove_member g m s)\<lparr>gp_confirm := c\<rparr>), d2) (ms, d3)"
  shows "body_overflow d3 = ''hidden''"
proof -
  have "mounted_inv (groups_modals (request_remove_member g m s), d1)"
    using modals.always [OF assms(1)] render_inv [OF assms(4)] by blast
  moreover have "2 \<le> length (groups_modals (request_remove_member g m s))"
    using groups_modals_asked assms(2) by blast
  ultimately have "stuck d2"
    using two_modals_stuck assms(5) groups_modals_started [OF assms(3)] by fastforce
  then show ?thesis using stuck_lock.stays [OF assms(6)] by (simp add: stuck_def)
qed

definition opened_group :: group where
  "opened_group = \<lparr>gr_id = ''g1'', gr_tenant_name = None, gr_name = ''Ops'', gr_description = [], gr_member_count = 1, gr_status = ''active''\<rparr>"

definition opened_group_page :: groups_page where
  "opened_group_page = (groups_mount False)\<lparr>gp_list := (pg_mount \<lparr>sf_tenant = [], sf_search = []\<rparr>)\<lparr>pg_items := [opened_group]\<rparr>,
     gp_expanded := Some ''g1''\<rparr>"

definition group_member :: member where
  "group_member = \<lparr>mb_id = ''c1'', mb_name = ''Ann'', mb_email = [], mb_phone = []\<rparr>"

theorem confirmation_over_modal_locks_scrolling_witness:
  "body_overflow (commit_effects [1] [] (commit_effects [1, 2] [1] (commit_effects [1, 2] [1, 2]
     (commit_effects [1] [1, 2] (commit_effects [] [1] (fresh_document ''auto'')))))) = ''hidden''"
proof -
  let ?s = opened_group_page
  let ?s1 = "request_remove_member opened_group group_member ?s"
  let ?c = "(gp_confirm ?s1)\<lparr>running := True\<rparr>"
  let ?d = "commit_effects [] [1] (fresh_document ''auto'')"
  let ?d2 = "commit_effects [1, 2] [1, 2] (commit_effects [1] [1, 2] ?d)"
  let ?d3 = "commit_effects [1] [] (commit_effects [1, 2] [1] ?d2)"
  have exp: "expandedGroup ?s = Some opened_group"
    by (simp add: expandedGroup_def opened_group_page_def opened_group_def)
  have start: "confirm_start (gp_confirm ?s1) = (Some (RemoveMember ''g1'' ''c1''), ?c)"
    by (simp add: confirm_start_def request_remove_member_def requestConfirm_def opened_group_def group_member_def)
  have ms: "groups_modals ?s = [1]" "groups_modals ?s1 = [1, 2]" "groups_modals (?s1\<lparr>gp_confirm := ?c\<rparr>) = [1, 2]"
    by (simp_all add: groups_modals_def request_remove_member_def requestConfirm_def expandedGroup_def
          opened_group_page_def opened_group_def groups_mount_def confirm_init_def)
  have "mounted 1 ''auto'' (groups_modals ?s, ?d)"
    unfolding ms by (rule reachable_once, rule small_render_tree_order) simp_all
  moreover have "renders ([1, 2], ?d2) ([], ?d3)"
    by (rule rtranclp.rtrancl_into_rtrancl [OF r_into_rtranclp [of render_step, OF render_tree_order] render_tree_order]) simp_all
  moreover have "render_step (ks, e) ([1, 2], commit_effects ks [1, 2] e)" for ks e
    by (rule render_tree_order) simp
  ultimately show ?thesis
    using confirmation_over_modal_locks_scrolling [OF _ exp start] unfolding ms by blast
qed

end
