(* ===== verification/Page_Parts.thy ===== *)
theory Page_Parts
  imports Modal_Effects Tenant_Detail Integration Send_Notification
begin

text \<open>
  The small components the pages keep for themselves, as trees: the switch and the option card of the tenant
  workspace (\<^verbatim>\<open>src/notification-admin-ui/src/pages/tenants/TenantDetailPage.tsx\<close>), the modal, badge
  and form field of the templates page, and the cards of the integration guide.
\<close>

section \<open>Tenant workspace\<close>

definition Toggle :: "bool \<Rightarrow> 'h \<Rightarrow> string \<Rightarrow> 'h node" where
  "Toggle value onChange label =
    Elem ''button'' [(''type'', AStr ''button''), (''role'', AStr ''switch''), (''aria-checked'', AFlag value), (''aria-label'', AStr label),
        (''onClick'', AFire onChange),
        (''className'', AStr (''focus-ring relative inline-flex h-5 w-9 shrink-0 cursor-pointer rounded-full border-2 border-transparent transition-colors ''
           @ (if value then ''bg-blue-600'' else ''bg-slate-300'')))]
      [Elem ''span'' [(''className'', AStr (''inline-block h-4 w-4 transform rounded-full bg-white transition-transform ''
           @ (if value then ''translate-x-4'' else ''translate-x-0'')))] []]"

definition StatusAction :: "bool \<Rightarrow> string \<Rightarrow> 'h \<Rightarrow> 'h node" where
  "StatusAction active label onConfirm =
    Elem ''div'' [(''className'', AStr ''flex shrink-0 items-center'')] [Toggle active onConfirm label]"

definition EmptyOptions :: "string \<Rightarrow> string \<Rightarrow> string \<Rightarrow> 'h node" where
  "EmptyOptions icon title message =
    Elem ''div'' [(''className'', AStr ''rounded-lg border border-dashed border-slate-300 py-10 text-center'')]
      [svg icon 28 ''mx-auto mb-2 text-slate-300'',
       Elem ''p'' [(''className'', AStr ''text-sm font-medium text-slate-600'')] [TextN title],
       Elem ''p'' [(''className'', AStr ''mt-1 text-xs text-slate-400'')] [TextN message]]"

text \<open>
  The card of a feature, channel or provider; its footer is an icon with a text. The switch asks for the
  confirmation of the opposite state.
\<close>

datatype card_request = AskToggle string string bool switch_action

definition OptionCard :: "string \<Rightarrow> option_card \<Rightarrow> card_request node" where
  "OptionCard icon c =
    Elem ''article'' [(''className'', AStr (''rounded-lg border p-4 transition-colors ''
        @ (if oa_active c then ''border-slate-200 bg-white'' else ''border-slate-200 bg-slate-50/70'')))]
      [Elem ''div'' [(''className'', AStr ''flex items-start justify-between gap-4'')]
         [Elem ''div'' [(''className'', AStr ''flex min-w-0 gap-3'')]
            [Elem ''span'' [(''className'', AStr (''flex h-10 w-10 shrink-0 items-center justify-center rounded-lg ''
                @ (if oa_active c then ''bg-blue-50 text-blue-600'' else ''bg-slate-200 text-slate-500'')))] [svg icon 18 []],
             Elem ''div'' [(''className'', AStr ''min-w-0'')]
               [Elem ''div'' [(''className'', AStr ''flex flex-wrap items-center gap-2'')]
                  (Elem ''h3'' [(''className'', AStr ''font-semibold text-slate-900'')] [TextN (oa_title c)]
                   # map (\<lambda>badge. Elem ''span'' [(''key'', AStr badge),
                        (''className'', AStr ''rounded-full bg-slate-100 px-2 py-0.5 text-[11px] font-medium capitalize text-slate-500'')] [TextN badge]) (oa_badges c)),
                Elem ''p'' [(''className'', AStr ''mt-1 text-sm leading-5 text-slate-600'')] [TextN (oa_description c)],
                Elem ''code'' [(''className'', AStr ''mt-2 block break-all text-xs text-slate-400'')] [TextN (oa_code c)]]],
          StatusAction (oa_active c) (oa_label c) (AskToggle (oa_kind c) (oa_title c) (\<not> oa_active c) (oa_action c))],
       Elem ''div'' [(''className'', AStr (''mt-3 flex items-center gap-1.5 border-t border-slate-100 pt-3 text-xs font-medium ''
           @ (if oa_active c then ''text-emerald-700'' else ''text-slate-500'')))]
         [svg (if oa_active c then ''CheckCircle2'' else ''XCircle'') 14 [], TextN (oa_footer c)]]"

fun card_click :: "card_request \<Rightarrow> tenant_detail \<Rightarrow> tenant_detail" where
  "card_click (AskToggle kind name active act) s = confirmToggle kind name active act s"

section \<open>Templates page\<close>

text \<open>The page's own modal: no footer, and the children stand directly in the panel.\<close>

definition TemplatesModal :: "string \<Rightarrow> string option \<Rightarrow> 'h node list \<Rightarrow> 'h \<Rightarrow> string option \<Rightarrow> 'h node" where
  "TemplatesModal title description children onClose width =
    Elem ''div'' [(''className'', AStr ''template-modal-root''), (''role'', AStr ''dialog''),
                  (''aria-modal'', AStr ''true''), (''aria-label'', AStr title)]
      [Elem ''button'' [(''className'', AStr ''template-modal-backdrop''), (''onClick'', AFire onClose), (''aria-label'', AStr ''Close modal'')] [],
       Elem ''section'' [(''className'', AStr (''template-modal-panel '' @ default_of ''max-w-3xl'' width))]
         (Elem ''header'' [(''className'', AStr ''flex items-start justify-between border-b border-slate-200 px-6 py-5'')]
            [Elem ''div'' []
               (Elem ''h2'' [(''className'', AStr ''text-lg font-semibold tracking-tight text-slate-900'')] [TextN title]
                # show_if (or_opt description [] \<noteq> [])
                    (Elem ''p'' [(''className'', AStr ''mt-1 text-sm text-slate-500'')] [TextN (or_opt description [])])),
             Elem ''button'' [(''onClick'', AFire onClose), (''className'', AStr ''focus-ring rounded-md p-1.5 text-slate-400 hover:bg-slate-100 hover:text-slate-700''), (''aria-label'', AStr ''Close'')]
               [svg ''X'' 19 []]]
          # children)]"

definition channel_badge_config :: "(string \<times> string \<times> string) list" where
  "channel_badge_config =
    [(''email'', (''Mail'', ''bg-blue-50 text-blue-700 ring-blue-600/20'')),
     (''sms'', (''MessageSquare'', ''bg-violet-50 text-violet-700 ring-violet-600/20'')),
     (''fcm'', (''Smartphone'', ''bg-amber-50 text-amber-700 ring-amber-600/20''))]"

definition ChannelBadge :: "string \<Rightarrow> 'h node" where
  "ChannelBadge channel =
    (case (case map_of channel_badge_config channel of
             Some item \<Rightarrow> item
           | None \<Rightarrow> (''FileText'', ''bg-slate-50 text-slate-700 ring-slate-600/20'')) of
       (icon, classes) \<Rightarrow>
         Elem ''span'' [(''className'', AStr (''inline-flex items-center gap-1.5 rounded-full px-2.5 py-1 text-xs font-medium capitalize ring-1 ring-inset '' @ classes))]
           [svg icon 13 [], TextN channel])"

definition FormField :: "string \<Rightarrow> string option \<Rightarrow> bool \<Rightarrow> 'h node list \<Rightarrow> 'h node" where
  "FormField label hint required children =
    Elem ''label'' [(''className'', AStr ''block'')]
      (Elem ''span'' [(''className'', AStr ''mb-1.5 block text-sm font-medium text-slate-700'')]
         (TextN label # show_if required (Elem ''span'' [(''className'', AStr ''ml-1 text-red-500'')] [TextN ''*'']))
       # children
       @ show_if (or_opt hint [] \<noteq> []) (Elem ''span'' [(''className'', AStr ''mt-1.5 block text-xs text-slate-500'')] [TextN (or_opt hint [])]))"

section \<open>Integration guide\<close>

definition Metric :: "string \<Rightarrow> string \<Rightarrow> 'h node" where
  "Metric label value =
    Elem ''div'' [(''className'', AStr ''rounded-md border border-slate-200 bg-slate-50 px-3 py-2'')]
      [Elem ''div'' [(''className'', AStr ''text-xs font-semibold uppercase text-slate-500'')] [TextN label],
       Elem ''div'' [(''className'', AStr ''mt-1 text-lg font-semibold text-slate-900'')] [TextN value]]"

definition GuideCard :: "string \<Rightarrow> string \<Rightarrow> string \<Rightarrow> string option \<Rightarrow> 'h node" where
  "GuideCard icon title words link =
    (let body = Elem ''div'' [(''className'', AStr ''rounded-md border border-slate-200 bg-white p-4'')]
           [svg icon 20 ''text-blue-600'',
            Elem ''h3'' [(''className'', AStr ''mt-3 font-semibold text-slate-900'')] [TextN title],
            Elem ''p'' [(''className'', AStr ''mt-1 text-sm leading-6 text-slate-600'')] [TextN words]]
     in if or_opt link [] \<noteq> [] then Elem ''a'' [(''to'', AStr (or_opt link []))] [body] else body)"

definition Endpoint :: "string \<Rightarrow> string \<Rightarrow> string \<Rightarrow> 'h node" where
  "Endpoint meth path label =
    Elem ''div'' [(''className'', AStr ''flex flex-wrap items-center gap-2 rounded-md border border-slate-200 bg-slate-50 px-3 py-2'')]
      [Elem ''span'' [(''className'', AStr ''rounded bg-emerald-100 px-2 py-0.5 text-xs font-bold text-emerald-700'')] [TextN meth],
       Elem ''code'' [(''className'', AStr ''font-mono text-sm'')] [TextN path],
       Elem ''span'' [(''className'', AStr ''text-slate-500'')] [TextN label]]"

section \<open>Lemmas\<close>

text \<open>
  The switch of a card is its only control: it asks to confirm the opposite of the state the card shows, with
  the action of the card, which is the step of the workspace that follows a click.
\<close>

lemma OptionCard_fires:
  "fires [] (OptionCard icon c) = [AskToggle (oa_kind c) (oa_title c) (\<not> oa_active c) (oa_action c)]"
proof -
  have "concat (map (fires [] \<circ> (\<lambda>badge. Elem ''span'' [(''key'', AStr badge), (''className'', AStr cls)] [TextN badge])) bs) = []" for cls bs
    by (induction bs) (simp_all add: markup_simps)
  then show ?thesis by (simp add: OptionCard_def StatusAction_def Toggle_def markup_simps)
qed

lemma TemplatesModal_fires:
  "fires [] (TemplatesModal title description children onClose width) = onClose # onClose # concat (map (fires []) children)"
  by (simp add: TemplatesModal_def markup_simps)

lemma GuideCard_link: "GuideCard icon title words (Some (c # cs)) = Elem ''a'' [(''to'', AStr (c # cs))] [GuideCard icon title words None]"
  by (simp add: GuideCard_def)

section \<open>End of the send form\<close>

text \<open>
  The last fields of the form of \<^verbatim>\<open>SendNotificationPage\<close>, the message of a failed attempt and the button, which
  has no type of its own and so submits the form.
\<close>

datatype send_click = SendPriority string | SendSchedule string | SendSubmit

definition send_form_end :: "principal option \<Rightarrow> send_page \<Rightarrow> send_click node list" where
  "send_form_end user s =
    [Elem ''label'' [(''className'', AStr ''block text-sm'')]
       [Elem ''span'' [(''className'', AStr ''mb-1 block font-medium'')] [TextN ''Priority (1-10)''],
        Elem ''input'' [(''type'', AStr ''number''), (''min'', ANum 1), (''max'', ANum 10), (''value'', ANum (sp_priority s)), (''onChange'', ARead SendPriority),
            (''className'', AStr ''focus-ring w-full rounded-md border border-slate-300 px-3 py-2'')] []],
     Elem ''label'' [(''className'', AStr ''block text-sm'')]
       [Elem ''span'' [(''className'', AStr ''mb-1 flex items-center gap-1 font-medium'')] [svg ''CalendarClock'' 14 [], TextN '' Schedule (optional)''],
        Elem ''input'' [(''type'', AStr ''datetime-local''), (''value'', AStr (sp_sendAt s)), (''onChange'', ARead SendSchedule),
            (''className'', AStr ''focus-ring w-full rounded-md border border-slate-300 px-3 py-2'')] []]]
    @ show_if (sp_error s \<noteq> [])
        (Elem ''div'' [(''className'', AStr ''flex items-start gap-2 rounded-md border border-red-200 bg-red-50 px-3 py-2 text-sm text-red-700'')]
           [svg ''AlertTriangle'' 15 ''mt-0.5 shrink-0'', TextN (sp_error s)])
    @ show_if (hasPermission user ''notifications.send'')
        (Button [TextN (if sp_sending s then ''Sending...'' else ''Queue Notification'')] (Some ''Send'') (Some VPrimary) None None
           [(''disabled'', AFlag (sp_sending s))])"

text \<open>The form can be submitted by a click exactly when the view of the page has an enabled button.\<close>

lemma send_form_end_submits:
  "fires [] (Elem ''form'' [(''onSubmit'', AFire SendSubmit)] (send_form_end user s)) =
     (case sv_button (SendNotificationPage user s) of Some (True, _) \<Rightarrow> [SendSubmit] | _ \<Rightarrow> [])"
  by (simp add: send_form_end_def SendNotificationPage_def Let_def markup_simps)

end
