(* ===== verification/Page_Modals.thy ===== *)
theory Page_Modals
  imports Page_Parts Contacts
begin

text \<open>
  The modals of two pages as trees, built from the shared components: the form, the profile and the removal of a
  contact (\<^verbatim>\<open>src/notification-admin-ui/src/pages/contacts/ContactsPage.tsx\<close>) and the details of a
  notification (\<^verbatim>\<open>src/notification-admin-ui/src/pages/notifications/NotificationsPage.tsx\<close>). The trees are related
  to the views and the step relation of \<^verbatim>\<open>Contacts\<close>: what can be clicked is a step of the page.
\<close>

section \<open>Status badge\<close>

definition StatusBadge_node :: "status_value \<Rightarrow> 'h node" where
  "StatusBadge_node status =
    (case StatusBadge status of (tone, label) \<Rightarrow>
       let icon = (case tone of Good \<Rightarrow> ''CheckCircle2'' | Bad \<Rightarrow> ''XCircle'' | Pending \<Rightarrow> ''Clock3'');
           colors = (case tone of Good \<Rightarrow> ''border-emerald-200 bg-emerald-50 text-emerald-700''
                     | Bad \<Rightarrow> ''border-red-200 bg-red-50 text-red-700'' | Pending \<Rightarrow> ''border-amber-200 bg-amber-50 text-amber-700'')
       in Elem ''span'' [(''className'', AStr (''inline-flex items-center gap-1.5 whitespace-nowrap rounded-full border px-2.5 py-1 text-xs font-semibold capitalize '' @ colors))]
            [svg icon 13 [], TextN label])"

section \<open>Contacts\<close>

text \<open>\<^verbatim>\<open>Field\<close> of the contacts page is the same component as \<^verbatim>\<open>FormField\<close> of the templates page.\<close>

definition Detail :: "string option \<Rightarrow> string \<Rightarrow> string \<Rightarrow> 'h node" where
  "Detail icon label value =
    Elem ''div'' []
      [Elem ''dt'' [(''className'', AStr ''flex items-center gap-1.5 text-xs font-medium uppercase tracking-wide text-slate-400'')]
         ((case icon of Some i \<Rightarrow> [svg i 15 []] | None \<Rightarrow> []) @ [TextN label]),
       Elem ''dd'' [(''className'', AStr ''mt-1.5 break-all text-sm font-medium text-slate-700'')] [TextN value]]"

text \<open>
  The handlers of the modals. The main button of the form dispatches a submit event to the form, whose
  handler is \<^verbatim>\<open>save\<close>; the tenant is chosen in a searchable select.
\<close>

datatype contact_click = ContactClose | ContactSave | ContactEdit contact | ContactRemove contact
  | ContactForm "contact_form" | ContactTenant select_click

definition contact_input :: "string option \<Rightarrow> string \<Rightarrow> string option \<Rightarrow> string \<Rightarrow> bool \<Rightarrow> (string \<Rightarrow> contact_form) \<Rightarrow> contact_click node" where
  "contact_input kind value placeholder cls required upd =
    Elem ''input''
      ((case kind of Some k \<Rightarrow> [(''type'', AStr k)] | None \<Rightarrow> [])
       @ [(''value'', AStr value), (''onChange'', ARead (\<lambda>v. ContactForm (upd v)))]
       @ (case placeholder of Some p \<Rightarrow> [(''placeholder'', AStr p)] | None \<Rightarrow> [])
       @ [(''className'', AStr cls)] @ (if required then [(''required'', AFlag True)] else [])) []"

definition contact_form_node :: "select_state \<Rightarrow> menu_rect \<Rightarrow> contacts_page \<Rightarrow> contact_click node" where
  "contact_form_node sel m s =
    (let f = cp_form s; plain = ''focus-ring w-full rounded-md border border-slate-300 px-3 py-2.5 text-sm''
     in Elem ''form'' [(''id'', AStr ''contact-modal-form''), (''onSubmit'', AFire ContactSave), (''className'', AStr ''space-y-5 px-6 py-5'')]
          (show_if (cp_error s \<noteq> [])
             (Elem ''div'' [(''className'', AStr ''rounded-md border border-red-200 bg-red-50 px-3 py-2 text-sm text-red-700'')] [TextN (cp_error s)])
           @ show_if (cp_isPlatform s \<and> cp_mode s = Some CreateContact)
               (FormField ''Tenant'' None True
                  [map_node ContactTenant (SearchSelect_node (cf_tenantId f)
                     (map (\<lambda>(t, st). \<lparr>so_value = to_id t, so_label = to_name t, so_disabled = False\<rparr>) (filter (\<lambda>(t, st). st = ''active'') (cp_tenants s)))
                     (Some ''Select tenant'') None sel m)])
           @ [FormField ''Full name'' None True [contact_input None (cf_name f) None plain True (\<lambda>v. f\<lparr>cf_name := v\<rparr>)],
              Elem ''div'' [(''className'', AStr ''grid gap-4 sm:grid-cols-2'')]
                [FormField ''Email address'' None False [contact_input (Some ''email'') (cf_email f) (Some ''name@example.com'') plain False (\<lambda>v. f\<lparr>cf_email := v\<rparr>)],
                 FormField ''Phone number'' None False [contact_input None (cf_phone f) (Some ''+1 202 555 0123'') plain False (\<lambda>v. f\<lparr>cf_phone := v\<rparr>)]],
              FormField ''External reference'' (Some ''Optional identifier from your CRM or source system.'') False
                [contact_input None (cf_externalRef f) None ''focus-ring w-full rounded-md border border-slate-300 px-3 py-2.5 font-mono text-sm'' False
                   (\<lambda>v. f\<lparr>cf_externalRef := v\<rparr>)]]))"

definition contact_profile :: "(string \<Rightarrow> string) \<Rightarrow> contact \<Rightarrow> 'h node" where
  "contact_profile toLocaleString c =
    Elem ''div'' [(''className'', AStr ''px-6 py-5'')]
      [Elem ''div'' [(''className'', AStr ''mb-5 flex items-center gap-4'')]
         [Elem ''span'' [(''className'', AStr ''flex h-14 w-14 items-center justify-center rounded-full bg-blue-50 text-blue-600'')] [svg ''UserRound'' 25 []],
          Elem ''div'' []
            [Elem ''div'' [(''className'', AStr ''font-semibold text-slate-900'')] [TextN (ct_name c)],
             Elem ''div'' [(''className'', AStr ''mt-1 text-xs text-slate-500'')]
               [TextN (or_str (or_opt (ct_tenant_name c) []) ''Current tenant''), TextN ('' '' @ [CHR 0xB7] @ '' ''), TextN (ct_status c)]]],
       Elem ''dl'' [(''className'', AStr ''grid gap-4 rounded-lg border border-slate-200 bg-slate-50 p-4 sm:grid-cols-2'')]
         [Detail (Some ''Mail'') ''Email'' (or_str (ct_email c) ''Not provided''),
          Detail (Some ''Phone'') ''Phone'' (or_str (ct_phone c) ''Not provided''),
          Detail None ''External reference'' (or_str (or_opt (ct_external_ref c) []) ''Not provided''),
          Detail None ''Created'' (toLocaleString (ct_created_at c))]]"

definition contact_removal :: "contact \<Rightarrow> 'h node" where
  "contact_removal c =
    Elem ''div'' [(''className'', AStr ''flex gap-4 px-6 py-5'')]
      [Elem ''span'' [(''className'', AStr ''flex h-10 w-10 shrink-0 items-center justify-center rounded-full bg-red-100 text-red-600'')] [svg ''AlertTriangle'' 20 []],
       Elem ''p'' [(''className'', AStr ''text-sm leading-6 text-slate-600'')]
         [TextN ''Delete '', Elem ''strong'' [(''className'', AStr ''text-slate-900'')] [TextN (ct_name c)],
          TextN ''? They will no longer be available as a notification recipient.'']]"

definition contact_modal :: "principal option \<Rightarrow> (string \<Rightarrow> string) \<Rightarrow> select_state \<Rightarrow> menu_rect \<Rightarrow> contacts_page \<Rightarrow> contact_click node option" where
  "contact_modal user toLocaleString sel m s =
    (case cp_mode s of
       None \<Rightarrow> None
     | Some (ViewContact c) \<Rightarrow>
         Some (Modal (ct_name c) (Some ''Contact profile and available delivery addresses.'') [contact_profile toLocaleString c]
           (ModalButton ''Close'' (Some ContactClose) None False None
            # show_if (hasPermission user ''contacts.update'') (ModalButton ''Edit contact'' (Some (ContactEdit c)) (Some VPrimary) False None))
           ContactClose (Some ''max-w-2xl''))
     | Some (DeleteContact c) \<Rightarrow>
         Some (Modal ''Delete contact'' (Some ''This action cannot be undone.'') [contact_removal c]
           [ModalButton ''Cancel'' (Some ContactClose) None False None,
            ModalButton (if cp_saving s then ''Deleting'' else ''Delete contact'') (Some (ContactRemove c)) (Some VDanger) (cp_saving s) None]
           ContactClose (Some ''max-w-md''))
     | Some mode \<Rightarrow>
         Some (Modal (if mode = CreateContact then ''Create contact'' else ''Edit contact'')
           (Some ''Store a recipient identity and one or more delivery addresses.'') [contact_form_node sel m s]
           [ModalButton ''Cancel'' (Some ContactClose) None False None,
            ModalButton (if cp_saving s then ''Saving'' else if mode = CreateContact then ''Create contact'' else ''Save changes'')
              (Some ContactSave) (Some VPrimary) (cp_saving s) (Some TypeSubmit)]
           ContactClose (Some ''max-w-2xl'')))"

text \<open>What a click does to the page; a value chosen in the select is written to the form.\<close>

definition contact_click_step :: "contact_click \<Rightarrow> contacts_page \<Rightarrow> contacts_page" where
  "contact_click_step k s =
    (case k of
       ContactClose \<Rightarrow> close_contact s
     | ContactSave \<Rightarrow> fst (save_contact_start s)
     | ContactEdit c \<Rightarrow> edit_contact c s
     | ContactRemove c \<Rightarrow> fst (remove_contact_start c s)
     | ContactForm f \<Rightarrow> s\<lparr>cp_form := f\<rparr>
     | ContactTenant (SelectChoose v) \<Rightarrow> s\<lparr>cp_form := (cp_form s)\<lparr>cf_tenantId := v\<rparr>\<rparr>
     | ContactTenant _ \<Rightarrow> s)"

section \<open>Notification details\<close>

definition InfoBox :: "string \<Rightarrow> 'h node \<Rightarrow> 'h node" where
  "InfoBox label value =
    Elem ''div'' [(''className'', AStr ''rounded-md border border-slate-200 bg-slate-50 px-3 py-2'')]
      [Elem ''div'' [(''className'', AStr ''text-xs font-semibold uppercase text-slate-500'')] [TextN label],
       Elem ''div'' [(''className'', AStr ''mt-1 text-sm text-slate-900'')] [value]]"

definition delivery_node :: "delivery_detail \<Rightarrow> 'h node" where
  "delivery_node x =
    Elem ''tr'' [(''key'', AStr (dd_id x)), (''className'', AStr ''border-t border-slate-100'')]
      [Elem ''td'' [(''className'', AStr ''px-3 py-2'')] [TextN (dd_channel x)], Elem ''td'' [] [TextN (dd_provider x)],
       Elem ''td'' [] [StatusBadge_node (StatusText (Some (dd_status x)))], Elem ''td'' [] [TextN (int_str (int (dd_attempts x)))],
       Elem ''td'' [] [TextN (fi_code (dd_failure x))],
       Elem ''td'' [(''className'', AStr ''max-w-xs text-slate-600'')] [TextN (fi_suggested_action (dd_failure x))]]"

text \<open>The head of an event; the name of its type is the first part of the line, the time the last one.\<close>

definition timeline_node :: "nat \<Rightarrow> timeline_event \<Rightarrow> 'h node" where
  "timeline_node i e =
    (let grey = (\<lambda>words. Elem ''span'' [(''className'', AStr ''text-slate-500'')] words);
         named = (\<lambda>v. show_if (or_opt v [] \<noteq> []) (grey [TextN (or_opt v [])]))
     in Elem ''div'' [(''key'', AStr (te_type e @ ''-'' @ int_str (int i))), (''className'', AStr ''rounded-md border border-slate-200 px-4 py-3'')]
          [Elem ''div'' [(''className'', AStr ''flex flex-wrap items-center gap-2 text-sm'')]
             (Elem ''span'' [(''className'', AStr ''font-semibold capitalize text-slate-900'')] [TextN (replace_all_char CHR ''_'' CHR '' '' (te_type e))]
              # named (te_channel e) @ named (te_provider e)
              @ (case te_attempt_no e of
                   None \<Rightarrow> []
                 | Some n \<Rightarrow> if n = 0 then [TextN (int_str n)] else [grey [TextN (''attempt '' @ int_str n)]])
              @ [Elem ''span'' [(''className'', AStr ''ml-auto text-xs text-slate-500'')] [TextN (te_timestamp e)]]),
           Elem ''p'' [(''className'', AStr ''mt-1 text-sm text-slate-600'')]
             (case (if or_opt (te_explanation e) [] \<noteq> [] then te_explanation e else map_option fi_explanation (te_failure e)) of
                Some x \<Rightarrow> [TextN x] | None \<Rightarrow> [])])"

datatype log_click = LogClose

definition notification_modal :: "log_page \<Rightarrow> log_click node option" where
  "notification_modal s = map_option (\<lambda>d.
    Modal (''Notification '' @ nd_public_id d) (Some (nd_tenant d @ '' '' @ [CHR 0xB7] @ '' '' @ nd_event d))
      [Elem ''div'' [(''className'', AStr ''space-y-5 p-6'')]
         [Elem ''div'' [(''className'', AStr ''grid gap-3 md:grid-cols-4'')]
            [InfoBox ''Status'' (StatusBadge_node (StatusText (Some (nd_status d)))),
             InfoBox ''Template'' (TextN (or_str (nd_template_key d) ''-'')),
             InfoBox ''Schedule'' (TextN (nd_schedule_type d)),
             InfoBox ''Created'' (TextN (nd_created_at d))],
          Elem ''div'' []
            [Elem ''h3'' [(''className'', AStr ''mb-2 text-sm font-semibold text-slate-900'')] [TextN ''Deliveries''],
             Elem ''div'' [(''className'', AStr ''overflow-hidden rounded-md border border-slate-200'')]
               [Elem ''table'' [(''className'', AStr ''w-full text-left text-sm'')]
                  [Elem ''thead'' [(''className'', AStr ''bg-slate-50 text-xs uppercase text-slate-500'')]
                     [Elem ''tr'' [] (Elem ''th'' [(''className'', AStr ''px-3 py-2'')] [TextN ''Channel'']
                        # map (\<lambda>h. Elem ''th'' [] [TextN h]) [''Provider'', ''Status'', ''Attempts'', ''Failure'', ''Suggested action''])],
                   Elem ''tbody'' [] (map delivery_node (nd_deliveries d))]]],
          Elem ''div'' []
            [Elem ''h3'' [(''className'', AStr ''mb-3 text-sm font-semibold text-slate-900'')] [TextN ''Lifecycle Timeline''],
             Elem ''div'' [(''className'', AStr ''space-y-3'')] (map2 timeline_node [0..<length (nd_timeline d)] (nd_timeline d))]]]
      [ModalButton ''Close'' (Some LogClose) None False None] LogClose (Some ''max-w-4xl'')) (lg_detail s)"

section \<open>Lemmas\<close>

lemma attrs_map:
  "handler_of (map (map_prod id (map_attr f)) ats) k = map f (handler_of ats k)"
  "flag_of (map (map_prod id (map_attr f)) ats) k = flag_of ats k"
  "text_of (map (map_prod id (map_attr f)) ats) k = text_of ats k"
  by (auto simp: handler_of_def flag_of_def text_of_def map_of_map map_prod_def split: option.splits attr.splits)

text \<open>Renaming the handlers of a tree renames what it sets off.\<close>

lemma fires_map: "fires (map f form) (map_node f n) = map f (fires form n)"
proof (induction n arbitrary: form)
  case (Elem tag ats kids)
  then have "concat (map (fires (map f g) \<circ> map_node f) kids) = map f (concat (map (fires g) kids))" for g
    by (induction kids) simp_all
  then show ?case by (simp add: attrs_map)
qed simp

lemma texts_map: "texts (map_node f n) = texts n"
proof (induction n)
  case (Elem tag ats kids)
  then show ?case by (induction kids) simp_all
qed simp

lemma map_show_if [markup_simps]: "set (show_if c n) = (if c then {n} else {})" "map_node f (svg name px cls) = svg name px cls"
  by (simp_all add: show_if_def svg_def)

lemma fires_FormField [markup_simps]:
  "fires form (FormField label hint required children) = concat (map (fires form) children)"
  by (simp add: FormField_def markup_simps)

lemma fires_contact_input [markup_simps]: "fires form (contact_input kind value placeholder cls required upd) = []"
  by (auto simp: contact_input_def markup_simps split: option.splits)

lemma fires_tenant_select [markup_simps]:
  "fires form (map_node f (SearchSelect_node value opts placeholder cls sel m)) =
     map f (fires [] (SearchSelect_node value opts placeholder cls sel m))"
proof -
  have entry: "fires form (map_node f (SearchSelect_entry value opt)) = (if so_disabled opt then [] else [f (SelectChoose (so_value opt))])" for opt
    by (simp add: SearchSelect_entry_def markup_simps)
  have "concat (map (fires form \<circ> (map_node f \<circ> SearchSelect_entry value)) xs) =
      map (f \<circ> (SelectChoose \<circ> so_value)) (filter (\<lambda>opt. \<not> so_disabled opt) xs)" for xs
    by (induction xs) (simp_all add: entry)
  then show ?thesis unfolding SearchSelect_fires by (simp add: SearchSelect_node_def Let_def markup_simps show_if_def)
qed

lemma fires_Detail [markup_simps]: "fires form (Detail icon label value) = []" "texts (Detail icon label value) = [label, value]"
  by (cases icon; simp add: Detail_def markup_simps)+

lemma fires_contact_form:
  "set (fires [] (contact_form_node sel m s)) \<subseteq> (if cp_isPlatform s \<and> cp_mode s = Some CreateContact then range ContactTenant else {})"
  by (auto simp: contact_form_node_def Let_def markup_simps)

text \<open>The main button of the shown modal.\<close>

definition contact_main :: "contacts_page \<Rightarrow> contact_click" where
  "contact_main s =
    (case cp_mode s of Some (ViewContact c) \<Rightarrow> ContactEdit c | Some (DeleteContact c) \<Rightarrow> ContactRemove c | _ \<Rightarrow> ContactSave)"

lemma contact_click_step_sound: "contact_click_step k s = s \<or> contacts_step ans s (contact_click_step k s)"
  by (cases k) (auto simp: contact_click_step_def split: select_click.splits intro: contacts_step.intros)

lemma contact_modal_fires:
  assumes "contact_modal user tls sel m s = Some n" and "contact_dialog user s = Some (title, enabled, label)"
  shows "contact_main s \<in> set (fires [] n) \<longleftrightarrow> enabled"
    and "set (fires [] n) \<subseteq> {ContactClose, contact_main s}
           \<union> (if cp_isPlatform s \<and> cp_mode s = Some CreateContact then range ContactTenant else {})"
    and "ContactClose \<in> set (fires [] n)"
  using assms fires_contact_form [of sel m s]
  by (auto simp: contact_modal_def contact_dialog_def contact_main_def contact_profile_def contact_removal_def markup_simps
      split: option.splits contact_mode.splits if_splits)

lemma contact_modal_texts:
  assumes "contact_modal user tls sel m s = Some n" and "contact_dialog user s = Some (title, enabled, label)"
  shows "hd (texts n) = title" and "enabled \<Longrightarrow> last (texts n) = label"
  using assms by (auto simp: contact_modal_def contact_dialog_def markup_simps split: option.splits contact_mode.splits if_splits)

section \<open>Properties\<close>

text \<open>
  The modals of the contacts page refine its view and its step relation: there is a modal exactly when the view has a
  dialog; its title, and the label of its main button where that is enabled, are those of the view; the main
  button can be clicked exactly when the view says so; and whatever can be clicked is closing, the main
  action or the choice of a tenant in a new contact, and acts as a step of the page or not at all.
\<close>

theorem contact_modal_refines_view:
  assumes "contact_modal user tls sel m s = Some n"
  shows "\<exists>title enabled label. contact_dialog user s = Some (title, enabled, label) \<and> hd (texts n) = title
     \<and> (contact_main s \<in> set (fires [] n) \<longleftrightarrow> enabled) \<and> (enabled \<longrightarrow> last (texts n) = label)
     \<and> (\<forall>k \<in> set (fires [] n). k \<in> {ContactClose, contact_main s} \<or> (\<exists>c. k = ContactTenant c \<and> cp_mode s = Some CreateContact))
     \<and> (\<forall>k \<in> set (fires [] n). contact_click_step k s = s \<or> contacts_step ans s (contact_click_step k s))"
proof -
  obtain title enabled label where d: "contact_dialog user s = Some (title, enabled, label)"
    using assms by (auto simp: contact_modal_def contact_dialog_def split: option.splits contact_mode.splits)
  note fired = contact_modal_fires [OF assms d] and shown = contact_modal_texts [OF assms d]
  have "\<forall>k \<in> set (fires [] n). k \<in> {ContactClose, contact_main s} \<or> (\<exists>c. k = ContactTenant c \<and> cp_mode s = Some CreateContact)"
    using fired(2) by (auto split: if_splits)
  with d fired(1) shown contact_click_step_sound show ?thesis by blast
qed

theorem contact_modal_refines_view_witness:
  "ContactSave \<in> set (fires [] (the (contact_modal None (\<lambda>d. d) \<lparr>ss_open = False, ss_query = []\<rparr> menu_rect_init (create_contact (contacts_mount True)))))"
proof -
  let ?s = "create_contact (contacts_mount True)" and ?sel = "\<lparr>ss_open = False, ss_query = []\<rparr>"
  obtain n where n: "contact_modal None (\<lambda>d. d) ?sel menu_rect_init ?s = Some n"
    by (simp add: contact_modal_def create_contact_def)
  have "contact_dialog None ?s = Some (''Create contact'', True, ''Create contact'')" "contact_main ?s = ContactSave"
    by (simp_all add: contact_dialog_def contact_main_def create_contact_def contacts_mount_def)
  with contact_modal_refines_view [OF n] n show ?thesis by auto
qed

text \<open>
  The message of a failed operation is part of the form only: the modal that asks about a removal shows the same
  texts whatever the message, so a failed removal is reported by its toast alone.
\<close>

theorem contact_removal_hides_error:
  assumes "cp_mode s = Some (DeleteContact c)"
  shows "contact_modal user tls sel m (s\<lparr>cp_error := msg\<rparr>) = contact_modal user tls sel m s"
  using assms by (simp add: contact_modal_def)

text \<open>The texts of the details of a notification are those of the view of the page, in its order.\<close>

lemma texts_badge [markup_simps]: "texts (StatusBadge_node st) = [snd (StatusBadge st)]"
  by (simp add: StatusBadge_node_def Let_def markup_simps split: prod.splits)

lemma texts_InfoBox [markup_simps]: "texts (InfoBox label value) = label # texts value"
  by (simp add: InfoBox_def)

lemma texts_delivery: "texts (delivery_node x) =
    [dd_channel x, dd_provider x, snd (StatusBadge (StatusText (Some (dd_status x)))), int_str (int (dd_attempts x)),
     fi_code (dd_failure x), fi_suggested_action (dd_failure x)]"
  by (simp add: delivery_node_def markup_simps)

lemma texts_timeline: "texts (timeline_node i e) = fst (timeline_line e) @ (case snd (timeline_line e) of Some x \<Rightarrow> [x] | None \<Rightarrow> [])"
  by (auto simp: timeline_node_def timeline_line_def Let_def markup_simps or_opt_def split: option.splits)

theorem notification_modal_shows_view:
  assumes "notification_modal s = Some n" and "lv_detail (NotificationsPage user s) = Some (title, badge, infos, rows, lines)"
  shows "\<exists>d. lg_detail s = Some d \<and> texts n =
     [title, nd_tenant d @ '' '' @ [CHR 0xB7] @ '' '' @ nd_event d, ''Status'', snd badge, ''Template'', infos ! 0, ''Schedule'', infos ! 1,
      ''Created'', infos ! 2, ''Deliveries'', ''Channel'', ''Provider'', ''Status'', ''Attempts'', ''Failure'', ''Suggested action'']
     @ concat rows @ [''Lifecycle Timeline'']
     @ concat (map (\<lambda>(parts, words). parts @ (case words of Some x \<Rightarrow> [x] | None \<Rightarrow> [])) lines) @ [''Close'']"
proof -
  obtain d where d: "lg_detail s = Some d" using assms(1) by (auto simp: notification_modal_def)
  have lines: "concat (map (\<lambda>x. texts (timeline_node (fst x) (snd x) :: log_click node)) (zip ns es)) =
      concat (map (\<lambda>e. fst (timeline_line e) @ (case snd (timeline_line e) of Some x \<Rightarrow> [x] | None \<Rightarrow> [])) es)"
    if "length ns = length es" for ns :: "nat list" and es
    using that by (induction ns es rule: list_induct2) (simp_all add: texts_timeline)
  show ?thesis using assms d lines [of "[0..<length (nd_timeline d)]" "nd_timeline d"]
    by (auto simp: notification_modal_def NotificationsPage_def markup_simps texts_delivery comp_def split_beta)
qed

end
