(* ===== verification/Session_Server.thy ===== *)
theory Session_Server
  imports Auth "HOL-Library.Countable"
begin

text \<open>
  The sessions of the server behind the HTTP client: \<^verbatim>\<open>Login\<close>, \<^verbatim>\<open>Refresh\<close>,
  \<^verbatim>\<open>RevokeRefreshToken\<close>, \<^verbatim>\<open>createSession\<close>, \<^verbatim>\<open>sign\<close> and
  \<^verbatim>\<open>VerifyJWT\<close> of \<^verbatim>\<open>src/notification-core-api/internal/auth/auth.go\<close>, the handlers that
  answer with them and the \<^verbatim>\<open>JWT\<close> middleware. Composed, they are a server in the sense of
  \<^verbatim>\<open>Api_Client\<close>, so that the refresh and retry of \<^verbatim>\<open>apiRequest\<close> can be followed through
  both programs.

  Parameters are the libraries the server calls (hashing, password comparison, signed tokens, random
  numbers), the handlers behind the middleware and the time that passes between requests. The statements on
  the database are taken to succeed; the audit and login attempt tables are not read by this code and are left
  out. Times are in seconds.
\<close>

section \<open>Libraries\<close>

record claims =
  cl_principal :: principal
  cl_session :: string
  cl_exp :: int

record crypto =
  cr_hash :: "string \<Rightarrow> string"
  cr_compare :: "string \<Rightarrow> string \<Rightarrow> bool"
  cr_sign :: "claims \<Rightarrow> string"
  cr_parse :: "string \<Rightarrow> claims option"
  cr_random :: "nat \<Rightarrow> string"

text \<open>
  What the code relies on: distinct secrets have distinct hashes, random texts do not repeat, and a token
  that was signed with the key of the service is parsed back to its claims; it is a text without white space.
\<close>

definition crypto_ok :: "crypto \<Rightarrow> bool" where
  "crypto_ok cr \<longleftrightarrow> inj (cr_hash cr) \<and> inj (cr_random cr)
     \<and> (\<forall>c. cr_parse cr (cr_sign cr c) = Some c \<and> cr_sign cr c \<noteq> [] \<and> trim (cr_sign cr c) = cr_sign cr c)"

section \<open>Tables\<close>

text \<open>
  A user with the active tenant memberships in order of their creation; a session, with an empty tenant for
  null. \<^verbatim>\<open>db_permissions\<close> is the answer of \<^verbatim>\<open>EffectivePermissions\<close> for a user and a
  tenant; \<^verbatim>\<open>db_random\<close> counts the random texts drawn.
\<close>

record user_row =
  ur_id :: string
  ur_tenants :: "string list"
  ur_email :: string
  ur_password_hash :: string
  ur_platform :: bool
  ur_status :: string
  ur_failed :: int
  ur_locked_until :: "int option"

record session_row =
  se_id :: nat
  se_user :: string
  se_tenant :: string
  se_hash :: string
  se_status :: string
  se_expires :: int
  se_trace :: string

record auth_db =
  db_users :: "user_row list"
  db_sessions :: "session_row list"
  db_permissions :: "string \<Rightarrow> string \<Rightarrow> string list"
  db_random :: nat
  db_now :: int

record auth_config =
  accessTokenTTL :: int
  refreshTokenTTL :: int
  loginMaxFailures :: int
  loginLockout :: int

definition RandomToken :: "crypto \<Rightarrow> string \<Rightarrow> auth_db \<Rightarrow> string \<times> auth_db" where
  "RandomToken cr pre db =
    (let token = cr_random cr (db_random db)
     in (if pre = [] then token else pre @ ''_'' @ token, db\<lparr>db_random := Suc (db_random db)\<rparr>))"

section \<open>Tokens\<close>

definition sign :: "crypto \<Rightarrow> auth_config \<Rightarrow> principal \<Rightarrow> string \<Rightarrow> auth_db \<Rightarrow> string" where
  "sign cr cfg p session db =
    cr_sign cr \<lparr>cl_principal = p, cl_session = session, cl_exp = db_now db + accessTokenTTL cfg\<rparr>"

text \<open>The library refuses a token that has expired.\<close>

definition VerifyJWT :: "crypto \<Rightarrow> auth_db \<Rightarrow> string \<Rightarrow> (principal \<times> string) option" where
  "VerifyJWT cr db token =
    (case cr_parse cr token of
       None \<Rightarrow> None
     | Some c \<Rightarrow> if db_now db < cl_exp c then Some (cl_principal c, cl_session c) else None)"

definition createSession :: "crypto \<Rightarrow> auth_config \<Rightarrow> principal \<Rightarrow> string \<Rightarrow> auth_db \<Rightarrow> string \<times> auth_db" where
  "createSession cr cfg p session db =
    (let (token, db1) = RandomToken cr ''rft'' db;
         (trace, db2) = (if session = [] then RandomToken cr ''sess'' db1 else (session, db1))
     in (token, db2\<lparr>db_sessions := db_sessions db2 @
          [\<lparr>se_id = length (db_sessions db2), se_user = user_id p, se_tenant = or_opt (tenant_id p) [], se_hash = cr_hash cr token,
            se_status = ''active'', se_expires = db_now db2 + refreshTokenTTL cfg, se_trace = trace\<rparr>]\<rparr>))"

section \<open>Refresh\<close>

text \<open>
  \<^verbatim>\<open>Refresh\<close> in the three statements it sends to the database one after the other, outside of a
  transaction: the query for the session, the update that retires it, the insertion of the next one.
\<close>

definition session_live :: "auth_db \<Rightarrow> string \<Rightarrow> session_row \<Rightarrow> bool" where
  "session_live db h s \<longleftrightarrow> se_hash s = h \<and> se_status s = ''active'' \<and> db_now db < se_expires s
     \<and> (\<exists>u \<in> set (db_users db). ur_id u = se_user s \<and> ur_status u = ''active'')"

definition refresh_select :: "crypto \<Rightarrow> string \<Rightarrow> auth_db \<Rightarrow> (session_row \<times> user_row) option" where
  "refresh_select cr token db =
    (case find (session_live db (cr_hash cr token)) (db_sessions db) of
       None \<Rightarrow> None
     | Some s \<Rightarrow> map_option (Pair s) (find (\<lambda>u. ur_id u = se_user s \<and> ur_status u = ''active'') (db_users db)))"

definition refresh_principal :: "auth_db \<Rightarrow> session_row \<Rightarrow> user_row \<Rightarrow> principal" where
  "refresh_principal db s u =
    \<lparr>user_id = ur_id u, tenant_id = (if se_tenant s = [] then None else Some (se_tenant s)), email = ur_email u,
     is_platform_admin = ur_platform u, permissions = Some (db_permissions db (ur_id u) (se_tenant s))\<rparr>"

definition set_session_status :: "(session_row \<Rightarrow> bool) \<Rightarrow> string \<Rightarrow> auth_db \<Rightarrow> auth_db" where
  "set_session_status P status db =
    db\<lparr>db_sessions := map (\<lambda>s. if P s then s\<lparr>se_status := status\<rparr> else s) (db_sessions db)\<rparr>"

definition refresh_rotate :: "session_row \<Rightarrow> auth_db \<Rightarrow> auth_db" where
  "refresh_rotate s db = set_session_status (\<lambda>s'. se_id s' = se_id s) ''rotated'' db"

definition refresh_issue :: "crypto \<Rightarrow> auth_config \<Rightarrow> session_row \<Rightarrow> principal \<Rightarrow> auth_db \<Rightarrow> (string \<times> string) \<times> auth_db" where
  "refresh_issue cr cfg s p db =
    (let accessToken = sign cr cfg p (se_trace s) db;
         (nextRefresh, db1) = createSession cr cfg p (se_trace s) db
     in ((accessToken, nextRefresh), db1))"

definition Refresh :: "crypto \<Rightarrow> auth_config \<Rightarrow> string \<Rightarrow> auth_db \<Rightarrow> ((string \<times> string) \<times> principal \<times> string) option \<times> auth_db" where
  "Refresh cr cfg token db =
    (case refresh_select cr token db of
       None \<Rightarrow> (None, db)
     | Some (s, u) \<Rightarrow>
         let p = refresh_principal db s u;
             (tokens, db1) = refresh_issue cr cfg s p (refresh_rotate s db)
         in (Some (tokens, p, se_trace s), db1))"

definition RevokeRefreshToken :: "crypto \<Rightarrow> string \<Rightarrow> auth_db \<Rightarrow> auth_db" where
  "RevokeRefreshToken cr token db = set_session_status (\<lambda>s. se_hash s = cr_hash cr token) ''revoked'' db"

section \<open>Login\<close>

definition set_user :: "string \<Rightarrow> (user_row \<Rightarrow> user_row) \<Rightarrow> auth_db \<Rightarrow> auth_db" where
  "set_user ident f db = db\<lparr>db_users := map (\<lambda>u. if ur_id u = ident then f u else u) (db_users db)\<rparr>"

definition recordFailedPassword :: "auth_config \<Rightarrow> string \<Rightarrow> auth_db \<Rightarrow> auth_db" where
  "recordFailedPassword cfg ident db =
    set_user ident (\<lambda>u. u\<lparr>ur_failed := ur_failed u + 1,
        ur_locked_until := (if ur_failed u + 1 \<ge> loginMaxFailures cfg then Some (db_now db + loginLockout cfg) else ur_locked_until u)\<rparr>) db"

datatype login_error = InvalidCredentials | AccountLocked

text \<open>The part of \<^verbatim>\<open>Login\<close> after the password: a session is opened and the failures are forgotten.\<close>

definition login_principal :: "auth_db \<Rightarrow> user_row \<Rightarrow> principal" where
  "login_principal db u =
    (let tenant = (case ur_tenants u of [] \<Rightarrow> [] | t # _ \<Rightarrow> t)
     in \<lparr>user_id = ur_id u, tenant_id = (if tenant = [] then None else Some tenant), email = ur_email u,
         is_platform_admin = ur_platform u, permissions = Some (db_permissions db (ur_id u) tenant)\<rparr>)"

definition open_session :: "crypto \<Rightarrow> auth_config \<Rightarrow> user_row \<Rightarrow> auth_db \<Rightarrow> ((string \<times> string) \<times> principal \<times> string) \<times> auth_db" where
  "open_session cr cfg u db =
    (let p = login_principal db u;
         (session, db1) = RandomToken cr ''sess'' db;
         (refreshToken, db2) = createSession cr cfg p session db1;
         accessToken = sign cr cfg p session db2
     in (((accessToken, refreshToken), p, session),
         set_user (ur_id u) (\<lambda>u. u\<lparr>ur_failed := 0, ur_locked_until := None\<rparr>) db2))"

definition Login ::
    "crypto \<Rightarrow> auth_config \<Rightarrow> string \<Rightarrow> string \<Rightarrow> auth_db \<Rightarrow> (login_error + ((string \<times> string) \<times> principal \<times> string)) \<times> auth_db" where
  "Login cr cfg mail password db =
    (case find (\<lambda>u. ur_email u = mail \<and> ur_status u = ''active'') (db_users db) of
       None \<Rightarrow> (Inl InvalidCredentials, db)
     | Some u \<Rightarrow>
         if (case ur_locked_until u of Some t \<Rightarrow> db_now db < t | None \<Rightarrow> False) then (Inl AccountLocked, db)
         else if \<not> cr_compare cr (ur_password_hash u) password
         then (Inl InvalidCredentials, recordFailedPassword cfg (ur_id u) db)
         else (case open_session cr cfg u db of (res, db1) \<Rightarrow> (Inr res, db1)))"

section \<open>Handlers\<close>

definition json_response :: "int \<Rightarrow> string \<Rightarrow> json \<Rightarrow> response" where
  "json_response status statusText body = \<lparr>resp_status = status, resp_statusText = statusText, resp_json = Some body\<rparr>"

text \<open>The principal with its session as it is encoded: an empty tenant and an empty session are left out.\<close>

definition principal_json :: "principal \<times> string \<Rightarrow> json" where
  "principal_json ps = (case ps of (p, session) \<Rightarrow> JObj
    ([(''user_id'', JStr (user_id p))]
     @ (case tenant_id p of Some t \<Rightarrow> [(''tenant_id'', JStr t)] | None \<Rightarrow> [])
     @ [(''email'', JStr (email p)), (''is_platform_admin'', JBool (is_platform_admin p))]
     @ (if session = [] then [] else [(''session_id'', JStr session)])
     @ [(''permissions'', case permissions p of Some perms \<Rightarrow> JArr (map JStr perms) | None \<Rightarrow> JNull)]))"

definition tokens_json :: "string \<times> string \<Rightarrow> principal \<times> string \<Rightarrow> json" where
  "tokens_json tokens p = JObj
    [(''access_token'', JStr (fst tokens)), (''refresh_token'', JStr (snd tokens)), (''user'', principal_json p)]"

text \<open>
  A text field of the decoded body: missing and null fields are empty, a field of another kind is an error, as
  is a body that is no object.
\<close>

definition decode_text :: "string \<Rightarrow> json option \<Rightarrow> string option" where
  "decode_text field body =
    (case body of
       Some (JObj ob) \<Rightarrow>
         (case obj_get ob field of
            None \<Rightarrow> Some []
          | Some JNull \<Rightarrow> Some []
          | Some (JStr s) \<Rightarrow> Some s
          | Some _ \<Rightarrow> None)
     | Some JNull \<Rightarrow> Some []
     | _ \<Rightarrow> None)"

definition error_response :: "int \<Rightarrow> string \<Rightarrow> string \<Rightarrow> response" where
  "error_response status statusText message = json_response status statusText (JObj [(''error'', JStr message)])"

definition RefreshHandler :: "crypto \<Rightarrow> auth_config \<Rightarrow> http_request \<Rightarrow> auth_db \<Rightarrow> response \<times> auth_db" where
  "RefreshHandler cr cfg rq db =
    (case decode_text ''refresh_token'' (rq_body rq) of
       None \<Rightarrow> (error_response 400 ''Bad Request'' ''invalid json'', db)
     | Some token \<Rightarrow>
         (case Refresh cr cfg token db of
            (None, db1) \<Rightarrow> (error_response 401 ''Unauthorized'' ''invalid refresh token'', db1)
          | (Some (tokens, p), db1) \<Rightarrow> (json_response 200 ''OK'' (tokens_json tokens p), db1)))"

definition LoginHandler :: "crypto \<Rightarrow> auth_config \<Rightarrow> http_request \<Rightarrow> auth_db \<Rightarrow> response \<times> auth_db" where
  "LoginHandler cr cfg rq db =
    (case (decode_text ''email'' (rq_body rq), decode_text ''password'' (rq_body rq)) of
       (Some mail, Some password) \<Rightarrow>
         (case Login cr cfg mail password db of
            (Inl _, db1) \<Rightarrow> (error_response 401 ''Unauthorized'' ''invalid credentials'', db1)
          | (Inr (tokens, p), db1) \<Rightarrow> (json_response 200 ''OK'' (tokens_json tokens p), db1))
     | _ \<Rightarrow> (error_response 400 ''Bad Request'' ''invalid json'', db))"

definition bearer :: "string \<Rightarrow> string" where
  "bearer header = trim (if starts_with header ''Bearer '' then drop 7 header else header)"

text \<open>The middleware: the next handler is called with the principal of a valid token.\<close>

definition JWT :: "crypto \<Rightarrow> (principal \<times> string \<Rightarrow> http_request \<Rightarrow> auth_db \<Rightarrow> response \<times> auth_db) \<Rightarrow> http_request \<Rightarrow> auth_db \<Rightarrow> response \<times> auth_db" where
  "JWT cr next rq db =
    (case VerifyJWT cr db (bearer (or_opt (obj_get (rq_headers rq) ''authorization'') [])) of
       None \<Rightarrow> (error_response 401 ''Unauthorized'' ''unauthorized'', db)
     | Some p \<Rightarrow> next p rq db)"

definition MeHandler :: "principal \<times> string \<Rightarrow> http_request \<Rightarrow> auth_db \<Rightarrow> response \<times> auth_db" where
  "MeHandler p rq db = (json_response 200 ''OK'' (JObj [(''user'', principal_json p)]), db)"

text \<open>\<^verbatim>\<open>tick\<close> seconds pass before a request, as a function of the state.\<close>

definition later :: "(auth_db \<Rightarrow> nat) \<Rightarrow> auth_db \<Rightarrow> auth_db" where
  "later tick db = db\<lparr>db_now := db_now db + int (tick db)\<rparr>"

text \<open>
  The server: login and refresh are open, the rest is behind the middleware. \<^verbatim>\<open>app\<close> stands for the
  handlers of the other routes, with their permission checks.
\<close>

definition auth_server ::
    "crypto \<Rightarrow> auth_config \<Rightarrow> string \<Rightarrow> (principal \<times> string \<Rightarrow> http_request \<Rightarrow> auth_db \<Rightarrow> response \<times> auth_db) \<Rightarrow> (auth_db \<Rightarrow> nat) \<Rightarrow> auth_db server" where
  "auth_server cr cfg base app tick db0 rq =
    (let db = later tick db0;
         (r, db1) =
           (if rq_method rq = ''POST'' \<and> rq_url rq = base @ login_path then LoginHandler cr cfg rq db
            else if rq_method rq = ''POST'' \<and> rq_url rq = base @ refresh_path then RefreshHandler cr cfg rq db
            else if rq_method rq = ''GET'' \<and> rq_url rq = base @ me_path then JWT cr MeHandler rq db
            else JWT cr app rq db)
     in (Reply r, db1))"

section \<open>The session table\<close>

text \<open>
  Every session was issued with a random token of its own: identifiers count the rows, hashes are distinct and
  stem from texts already drawn.
\<close>

definition issued :: "crypto \<Rightarrow> auth_db \<Rightarrow> string \<Rightarrow> bool" where
  "issued cr db h \<longleftrightarrow> (\<exists>k < db_random db. h = cr_hash cr (''rft_'' @ cr_random cr k))"

definition db_inv :: "crypto \<Rightarrow> auth_db \<Rightarrow> bool" where
  "db_inv cr db \<longleftrightarrow> map se_id (db_sessions db) = [0..<length (db_sessions db)]
     \<and> distinct (map se_hash (db_sessions db)) \<and> (\<forall>s \<in> set (db_sessions db). issued cr db (se_hash s))"

text \<open>
  The steps of the tables: the three operations on sessions, the passing of time, and changes to users and
  their permissions by the rest of the server.
\<close>

inductive db_step :: "crypto \<Rightarrow> auth_config \<Rightarrow> auth_db \<Rightarrow> auth_db \<Rightarrow> bool" for cr cfg where
  login: "db_step cr cfg db (snd (Login cr cfg mail password db))"
| refresh: "db_step cr cfg db (snd (Refresh cr cfg token db))"
| revoke: "db_step cr cfg db (RevokeRefreshToken cr token db)"
| time: "db_step cr cfg db (db\<lparr>db_now := db_now db + int n\<rparr>)"
| users: "db_step cr cfg db (db\<lparr>db_users := us, db_permissions := perms\<rparr>)"

abbreviation db_steps :: "crypto \<Rightarrow> auth_config \<Rightarrow> auth_db \<Rightarrow> auth_db \<Rightarrow> bool" where
  "db_steps cr cfg \<equiv> (db_step cr cfg)\<^sup>*\<^sup>*"

section \<open>Lemmas\<close>

lemma fresh_not_issued: "crypto_ok cr \<Longrightarrow> \<not> issued cr db (cr_hash cr (''rft_'' @ cr_random cr (db_random db)))"
  by (auto simp: issued_def crypto_ok_def dest: injD)

lemma issued_mono: "issued cr db h \<Longrightarrow> db_random db \<le> db_random db' \<Longrightarrow> issued cr db' h"
  unfolding issued_def using less_le_trans by blast

text \<open>The new row and its token.\<close>

lemma createSession_row:
  "createSession cr cfg p session db = (token, db') \<Longrightarrow>
     token = ''rft_'' @ cr_random cr (db_random db)
     \<and> db_random db < db_random db' \<and> db_users db' = db_users db \<and> db_now db' = db_now db
     \<and> db_permissions db' = db_permissions db
     \<and> (\<exists>trace. db_sessions db' = db_sessions db @
          [\<lparr>se_id = length (db_sessions db), se_user = user_id p, se_tenant = or_opt (tenant_id p) [], se_hash = cr_hash cr token,
            se_status = ''active'', se_expires = db_now db + refreshTokenTTL cfg, se_trace = trace\<rparr>])"
  by (auto simp: createSession_def RandomToken_def Let_def split: if_splits)

lemma createSession_inv:
  assumes "crypto_ok cr" "db_inv cr db" "createSession cr cfg p session db = (token, db')"
  shows "db_inv cr db'"
proof -
  note row = createSession_row [OF assms(3)]
  have "issued cr db' (se_hash s)" if "s \<in> set (db_sessions db)" for s
    using assms(2) that row issued_mono [of cr db _ db'] by (auto simp: db_inv_def)
  moreover have "issued cr db' (cr_hash cr token)" using row by (auto simp: issued_def)
  moreover have "cr_hash cr token \<notin> set (map se_hash (db_sessions db))"
    using fresh_not_issued [OF assms(1), of db] assms(2) row by (auto simp: db_inv_def)
  ultimately show ?thesis using assms(2) row by (auto simp: db_inv_def)
qed

lemma status_sessions:
  "map se_id (db_sessions (set_session_status P st db)) = map se_id (db_sessions db)"
  "map se_hash (db_sessions (set_session_status P st db)) = map se_hash (db_sessions db)"
  "length (db_sessions (set_session_status P st db)) = length (db_sessions db)"
  "db_random (set_session_status P st db) = db_random db" "db_now (set_session_status P st db) = db_now db"
  "db_users (set_session_status P st db) = db_users db" "db_permissions (set_session_status P st db) = db_permissions db"
  by (auto simp: set_session_status_def)

lemma db_inv_cong:
  assumes "db_inv cr db" "map se_id (db_sessions db') = map se_id (db_sessions db)"
    "map se_hash (db_sessions db') = map se_hash (db_sessions db)" "db_random db \<le> db_random db'"
  shows "db_inv cr db'"
proof -
  have "length (db_sessions db') = length (db_sessions db)" using assms(2) by (metis length_map)
  moreover have "se_hash ` set (db_sessions db') = se_hash ` set (db_sessions db)" using assms(3) by (metis set_map)
  ultimately show ?thesis
    using assms issued_mono [OF _ assms(4)] unfolding db_inv_def by (metis (no_types, lifting) image_iff)
qed

lemma db_inv_status: "db_inv cr db \<Longrightarrow> db_inv cr (set_session_status P st db)"
  by (erule db_inv_cong) (simp_all add: status_sessions)

lemma open_session_row:
  assumes "open_session cr cfg u db = (res, db')"
  shows "\<exists>p session db1 token db2. db_sessions db1 = db_sessions db \<and> db_random db \<le> db_random db1
     \<and> createSession cr cfg p session db1 = (token, db2) \<and> db_sessions db' = db_sessions db2 \<and> db_random db' = db_random db2"
proof -
  obtain session db1 where r: "RandomToken cr ''sess'' db = (session, db1)" by fastforce
  obtain token db2 where c: "createSession cr cfg (login_principal db u) session db1 = (token, db2)" by fastforce
  have "db_sessions db1 = db_sessions db" "db_random db \<le> db_random db1" using r by (auto simp: RandomToken_def Let_def)
  moreover have "db_sessions db' = db_sessions db2" "db_random db' = db_random db2"
    using assms r c by (auto simp: open_session_def set_user_def Let_def)
  ultimately show ?thesis using c by blast
qed

lemma Login_cases:
  assumes "Login cr cfg mail password db = (res, db')"
  obtains (failed) "db_sessions db' = db_sessions db" "db_random db' = db_random db"
  | (entered) p session db1 token db2 where "db_sessions db1 = db_sessions db" "db_random db \<le> db_random db1"
      "createSession cr cfg p session db1 = (token, db2)" "db_sessions db' = db_sessions db2" "db_random db' = db_random db2"
proof -
  have "db_sessions db' = db_sessions db \<and> db_random db' = db_random db \<or> (\<exists>u res'. open_session cr cfg u db = (res', db'))"
    using assms
    by (auto simp: Login_def recordFailedPassword_def set_user_def split: option.splits if_splits prod.splits)
  then show thesis using failed entered open_session_row by metis
qed

lemma Refresh_cases:
  assumes "Refresh cr cfg token db = (res, db')"
  obtains (refused) "res = None" "refresh_select cr token db = None" "db' = db"
  | (granted) s u a t where "refresh_select cr token db = Some (s, u)"
      "res = Some ((a, t), refresh_principal db s u, se_trace s)"
      "a = sign cr cfg (refresh_principal db s u) (se_trace s) db"
      "createSession cr cfg (refresh_principal db s u) (se_trace s) (refresh_rotate s db) = (t, db')"
  using assms
  by (auto simp: Refresh_def refresh_issue_def Let_def sign_def refresh_rotate_def status_sessions split: option.splits prod.splits)

lemma db_step_inv:
  assumes "crypto_ok cr" "db_step cr cfg db db'" "db_inv cr db"
  shows "db_inv cr db'"
  using assms(2,3)
proof cases
  case (login mail password)
  obtain res where "Login cr cfg mail password db = (res, db')" using login by (metis prod.collapse)
  then show ?thesis
  proof (cases rule: Login_cases)
    case failed
    with assms(3) show ?thesis by (auto intro: db_inv_cong)
  next
    case (entered p session db1 token db2)
    then have "db_inv cr db1" using assms(3) by (auto intro: db_inv_cong)
    from createSession_inv [OF assms(1) this entered(3)] entered show ?thesis by (auto intro: db_inv_cong)
  qed
next
  case (refresh token)
  obtain res where "Refresh cr cfg token db = (res, db')" using refresh by (metis prod.collapse)
  then show ?thesis
  proof (cases rule: Refresh_cases)
    case (granted s u a t)
    have "db_inv cr (refresh_rotate s db)" using assms(3) by (simp add: refresh_rotate_def db_inv_status)
    from createSession_inv [OF assms(1) this granted(4)] show ?thesis .
  qed (use assms(3) in simp)
qed (auto simp: RevokeRefreshToken_def db_inv_status intro: db_inv_cong)

interpretation tables: preserved "db_step cr cfg" "\<lambda>db. crypto_ok cr \<and> db_inv cr db" for cr cfg
  by unfold_locales (blast intro: db_step_inv)

text \<open>A hash whose session has left the active state.\<close>

definition retired :: "string \<Rightarrow> auth_db \<Rightarrow> bool" where
  "retired h db \<longleftrightarrow> (\<exists>s \<in> set (db_sessions db). se_hash s = h \<and> se_status s \<noteq> ''active'')"

lemma session_unique:
  "db_inv cr db \<Longrightarrow> s \<in> set (db_sessions db) \<Longrightarrow> s' \<in> set (db_sessions db) \<Longrightarrow> se_hash s = se_hash s' \<Longrightarrow> s = s'"
  unfolding db_inv_def distinct_map by (meson inj_onD)

lemma retired_select:
  assumes "db_inv cr db" "retired (cr_hash cr token) db"
  shows "refresh_select cr token db = None"
proof -
  obtain s where s: "s \<in> set (db_sessions db)" "se_hash s = cr_hash cr token" "se_status s \<noteq> ''active''"
    using assms(2) by (auto simp: retired_def)
  have "\<not> session_live db (cr_hash cr token) s'" if s': "s' \<in> set (db_sessions db)" for s'
    using s session_unique [OF assms(1) s(1) s'] by (auto simp: session_live_def)
  then have "find (session_live db (cr_hash cr token)) (db_sessions db) = None" by (simp add: find_None_iff)
  then show ?thesis by (simp add: refresh_select_def)
qed

lemma retired_append: "retired h db \<Longrightarrow> db_sessions db' = db_sessions db @ rows \<Longrightarrow> retired h db'"
  by (auto simp: retired_def)

lemma retired_status: "retired h db \<Longrightarrow> st \<noteq> ''active'' \<Longrightarrow> retired h (set_session_status P st db)"
proof -
  assume "retired h db" and st: "st \<noteq> ''active''"
  then obtain s where s: "s \<in> set (db_sessions db)" "se_hash s = h" "se_status s \<noteq> ''active''" by (auto simp: retired_def)
  let ?s = "if P s then s\<lparr>se_status := st\<rparr> else s"
  have "?s \<in> set (db_sessions (set_session_status P st db))" using s(1) by (auto simp: set_session_status_def)
  moreover have "se_hash ?s = h" "se_status ?s \<noteq> ''active''" using s st by auto
  ultimately show ?thesis unfolding retired_def by blast
qed

lemma createSession_retired: "createSession cr cfg p session db = (token, db') \<Longrightarrow> retired h db \<Longrightarrow> retired h db'"
proof -
  assume c: "createSession cr cfg p session db = (token, db')" and "retired h db"
  from createSession_row [OF c] obtain rows where "db_sessions db' = db_sessions db @ rows" by blast
  with \<open>retired h db\<close> show ?thesis by (rule retired_append)
qed

lemma db_step_retired:
  assumes "db_step cr cfg db db'" "retired h db"
  shows "retired h db'"
  using assms
proof cases
  case (login mail password)
  obtain res where "Login cr cfg mail password db = (res, db')" using login by (metis prod.collapse)
  then show ?thesis
  proof (cases rule: Login_cases)
    case failed
    with assms(2) show ?thesis by (simp add: retired_def)
  next
    case (entered p session db1 token db2)
    then have "retired h db2" using assms(2) createSession_retired [OF entered(3)] by (simp add: retired_def)
    with entered show ?thesis by (simp add: retired_def)
  qed
next
  case (refresh token)
  obtain res where "Refresh cr cfg token db = (res, db')" using refresh by (metis prod.collapse)
  then show ?thesis
  proof (cases rule: Refresh_cases)
    case (granted s u a t)
    have "retired h (refresh_rotate s db)" using assms(2) by (simp add: refresh_rotate_def retired_status)
    from createSession_retired [OF granted(4) this] show ?thesis .
  qed (use assms(2) in simp)
next
  case (revoke token)
  with assms(2) show ?thesis by (simp add: RevokeRefreshToken_def retired_status)
qed (use assms(2) in \<open>simp_all add: retired_def\<close>)

interpretation retirement: preserved "db_step cr cfg" "retired h" for cr cfg h
  by unfold_locales (rule db_step_retired)

lemma refresh_select_Some:
  "refresh_select cr token db = Some (s, u) \<Longrightarrow>
     s \<in> set (db_sessions db) \<and> se_hash s = cr_hash cr token \<and> se_status s = ''active'' \<and> db_now db < se_expires s
     \<and> u \<in> set (db_users db) \<and> ur_id u = se_user s \<and> ur_status u = ''active''"
  by (auto simp: refresh_select_def session_live_def find_Some_iff split: option.splits)

lemma rotate_retired: "s \<in> set (db_sessions db) \<Longrightarrow> retired (se_hash s) (refresh_rotate s db)"
proof -
  assume "s \<in> set (db_sessions db)"
  then have "s\<lparr>se_status := ''rotated''\<rparr> \<in> set (db_sessions (refresh_rotate s db))"
    by (auto simp: refresh_rotate_def set_session_status_def intro: rev_image_eqI)
  then show ?thesis unfolding retired_def by (rule rev_bexI) simp
qed

lemma Refresh_retires: "Refresh cr cfg token db = (Some res, db') \<Longrightarrow> retired (cr_hash cr token) db'"
proof -
  assume "Refresh cr cfg token db = (Some res, db')"
  then show ?thesis
  proof (cases rule: Refresh_cases)
    case (granted s u a t)
    have "s \<in> set (db_sessions db)" and h: "se_hash s = cr_hash cr token" using refresh_select_Some [OF granted(1)] by auto
    then have "retired (se_hash s) (refresh_rotate s db)" by (intro rotate_retired)
    from createSession_retired [OF granted(4) this] show ?thesis by (simp add: h)
  qed simp
qed

text \<open>A session just issued to an active user is live.\<close>

lemma find_live:
  assumes "db_inv cr db" "s \<in> set (db_sessions db)" "session_live db h s"
  shows "find (session_live db h) (db_sessions db) = Some s"
proof -
  obtain s' where s': "find (session_live db h) (db_sessions db) = Some s'"
    using assms(2,3) by (metis find_None_iff not_None_eq)
  then have "s' \<in> set (db_sessions db)" "session_live db h s'" by (auto simp: find_Some_iff)
  then have "s' = s" using session_unique [OF assms(1)] assms(2,3) by (simp add: session_live_def)
  with s' show ?thesis by simp
qed

lemma live_select:
  assumes "db_inv cr db" "s \<in> set (db_sessions db)" "session_live db (cr_hash cr token) s"
  shows "\<exists>u. refresh_select cr token db = Some (s, u)"
proof -
  have "find (\<lambda>u. ur_id u = se_user s \<and> ur_status u = ''active'') (db_users db) \<noteq> None"
    using assms(3) by (auto simp: find_None_iff session_live_def)
  then show ?thesis using find_live [OF assms] by (auto simp: refresh_select_def)
qed

lemma createSession_live:
  assumes "crypto_ok cr" "db_inv cr db" "createSession cr cfg p session db = (token, db')" "0 < refreshTokenTTL cfg"
    "\<exists>u \<in> set (db_users db). ur_id u = user_id p \<and> ur_status u = ''active''"
  shows "refresh_select cr token db' \<noteq> None"
proof -
  note row = createSession_row [OF assms(3)]
  then obtain trace where rows: "db_sessions db' = db_sessions db @
     [\<lparr>se_id = length (db_sessions db), se_user = user_id p, se_tenant = or_opt (tenant_id p) [], se_hash = cr_hash cr token,
       se_status = ''active'', se_expires = db_now db + refreshTokenTTL cfg, se_trace = trace\<rparr>]" by blast
  let ?s = "last (db_sessions db')"
  have "?s \<in> set (db_sessions db')" "session_live db' (cr_hash cr token) ?s"
    using assms(4,5) row by (auto simp: session_live_def rows)
  from live_select [OF createSession_inv [OF assms(1-3)] this] show ?thesis by auto
qed

section \<open>The server and the client\<close>

lemma later_simps [simp]:
  "db_now (later tick db) = db_now db + int (tick db)" "db_sessions (later tick db) = db_sessions db"
  "db_random (later tick db) = db_random db" "db_users (later tick db) = db_users db"
  by (simp_all add: later_def)

lemma db_inv_later: "db_inv cr db \<Longrightarrow> db_inv cr (later tick db)"
  by (auto intro: db_inv_cong)

lemma paths_differ: "base @ refresh_path \<noteq> base @ login_path"
  by (simp add: refresh_path_def login_path_def)

lemma shouldRefresh_paths: "shouldRefresh path \<Longrightarrow> base @ path \<noteq> base @ login_path \<and> base @ path \<noteq> base @ refresh_path"
  by (auto simp: shouldRefresh_def str_includes_iff) (metis append_Nil append_Nil2)+

lemma server_refresh:
  "auth_server cr cfg base app tick db (refresh_request base tok) =
     (case Refresh cr cfg tok (later tick db) of
        (None, db1) \<Rightarrow> (Reply (error_response 401 ''Unauthorized'' ''invalid refresh token''), db1)
      | (Some (tokens, p), db1) \<Rightarrow> (Reply (json_response 200 ''OK'' (tokens_json tokens p)), db1))"
  using paths_differ [of base]
  by (auto simp: auth_server_def refresh_request_def RefreshHandler_def decode_text_def Let_def split: prod.splits option.splits)

lemma server_replies: "\<exists>r db'. auth_server cr cfg base app tick db rq = (Reply r, db')"
  by (simp add: auth_server_def Let_def case_prod_beta)

lemma server_call:
  assumes "shouldRefresh path"
  shows "\<exists>next. (next = MeHandler \<or> next = app)
     \<and> auth_server cr cfg base app tick db (build_request base path opts st) =
         (case JWT cr next (build_request base path opts st) (later tick db) of (r, db1) \<Rightarrow> (Reply r, db1))"
  using shouldRefresh_paths [OF assms, of base]
  by (auto simp: auth_server_def build_request_def Let_def)

lemma apply_refresh_tokens:
  "a \<noteq> [] \<Longrightarrow> t \<noteq> [] \<Longrightarrow>
   apply_refresh (Reply (json_response 200 ''OK'' (tokens_json (a, t) ps))) st =
     (True, \<lparr>access_token = Some a, refresh_token = Some t, stored_user = Some (SlotJson (principal_json ps))\<rparr>)"
  by (simp add: apply_refresh_def json_response_def tokens_json_def resp_ok_def resp_data_def principal_json_def
        truthy_opt_def js_string_opt_def split: prod.splits)

lemma apply_refresh_refused: "apply_refresh (Reply (error_response 401 txt msg)) st = (False, st)"
  by (simp add: apply_refresh_def error_response_def json_response_def resp_ok_def Let_def)

text \<open>A token signed less than its lifetime ago passes the middleware.\<close>

lemma JWT_fresh:
  assumes "crypto_ok cr" "access_token st = Some (sign cr cfg p session db0)" "db_now db < db_now db0 + accessTokenTTL cfg"
  shows "JWT cr next (build_request base path opts st) db = next (p, session) (build_request base path opts st) db"
proof -
  let ?a = "sign cr cfg p session db0"
  have a: "?a \<noteq> []" "trim ?a = ?a" using assms(1) by (simp_all add: crypto_ok_def sign_def)
  then have "bearer (''Bearer '' @ ?a) = ?a" by (simp add: bearer_def starts_with_def)
  moreover have "obj_get (rq_headers (build_request base path opts st)) ''authorization'' = Some (''Bearer '' @ ?a)"
    using assms(2) a(1) by (simp add: build_request_def request_headers_token)
  moreover have "VerifyJWT cr db ?a = Some (p, session)"
    using assms(1,3) by (simp add: VerifyJWT_def sign_def crypto_ok_def)
  ultimately show ?thesis by (simp add: JWT_def)
qed

lemma Refresh_tokens:
  assumes "crypto_ok cr" "Refresh cr cfg tok db = (Some ((a, t), ps), db')"
  shows "a \<noteq> [] \<and> t \<noteq> [] \<and> db_now db' = db_now db \<and> a = sign cr cfg (fst ps) (snd ps) db"
  using assms(2)
proof (cases rule: Refresh_cases)
  case (granted s u a' t')
  then show ?thesis
    using createSession_row [OF granted(4)] assms(1) by (auto simp: crypto_ok_def sign_def refresh_rotate_def status_sessions)
qed simp

lemma server_honours:
  assumes "crypto_ok cr" "\<forall>d. int (tick d) < accessTokenTTL cfg" "\<forall>ps rq d. resp_status (fst (app ps rq d)) \<noteq> 401" "shouldRefresh path"
  shows "honours_refresh (auth_server cr cfg base app tick) base path opts"
  unfolding honours_refresh_def
proof (intro allI impI)
  fix e tok r e' st st' r2 e2
  assume r: "auth_server cr cfg base app tick e (refresh_request base tok) = (Reply r, e')"
    and st': "apply_refresh (Reply r) st = (True, st')"
    and r2: "auth_server cr cfg base app tick e' (build_request base path opts st') = (Reply r2, e2)"
  obtain a t ps where ref: "Refresh cr cfg tok (later tick e) = (Some ((a, t), ps), e')"
      and r_eq: "r = json_response 200 ''OK'' (tokens_json (a, t) ps)"
    using r st' by (auto simp: server_refresh apply_refresh_refused split: prod.splits option.splits)
  note tokens = Refresh_tokens [OF assms(1) ref]
  have "access_token st' = Some a" using st' tokens by (auto simp: r_eq apply_refresh_tokens)
  moreover have "db_now (later tick e') < db_now (later tick e) + accessTokenTTL cfg" using tokens assms(2) by simp
  ultimately have jwt: "JWT cr hdl (build_request base path opts st') (later tick e') = hdl ps (build_request base path opts st') (later tick e')" for hdl
    using JWT_fresh [OF assms(1), of st' cfg "fst ps" "snd ps" "later tick e" "later tick e'"] tokens by simp
  obtain hdl where hdl: "hdl = MeHandler \<or> hdl = app"
    and call: "auth_server cr cfg base app tick e' (build_request base path opts st') =
       (case JWT cr hdl (build_request base path opts st') (later tick e') of (r, db1) \<Rightarrow> (Reply r, db1))"
    using server_call [OF assms(4), where app = app and cr = cr and cfg = cfg and base = base and tick = tick
        and db = e' and opts = opts and st = st'] by (elim exE conjE)
  have "resp_status (fst (hdl ps rq d)) \<noteq> 401" for rq d
    using hdl assms(3) by (cases ps) (auto simp: MeHandler_def json_response_def)
  then show "resp_status r2 \<noteq> 401"
    using r2 unfolding call jwt by (cases "hdl ps (build_request base path opts st') (later tick e')") (metis case_prod_conv fst_conv net_reply.inject(1) prod.inject)
qed

text \<open>A call whose token is refused leaves the tables alone.\<close>

lemma server_refuses:
  assumes "shouldRefresh path"
    "VerifyJWT cr (later tick db) (bearer (or_opt (obj_get (rq_headers (build_request base path opts st)) ''authorization'') [])) = None"
  shows "auth_server cr cfg base app tick db (build_request base path opts st) =
     (Reply (error_response 401 ''Unauthorized'' ''unauthorized''), later tick db)"
proof -
  have "JWT cr hdl (build_request base path opts st) (later tick db) = (error_response 401 ''Unauthorized'' ''unauthorized'', later tick db)" for hdl
    using assms(2) by (simp add: JWT_def)
  then show ?thesis using server_call [OF assms(1), of app cr cfg base tick db opts st] by (elim exE conjE) simp
qed

lemma Refresh_granted:
  assumes "crypto_ok cr" "db_inv cr db" "refresh_select cr tok db = Some (s, u)" "0 < refreshTokenTTL cfg"
  shows "\<exists>a t db'. Refresh cr cfg tok db = (Some ((a, t), refresh_principal db s u, se_trace s), db')
     \<and> db_inv cr db' \<and> refresh_select cr tok db' = None \<and> refresh_select cr t db' \<noteq> None"
proof -
  obtain res db' where ref: "Refresh cr cfg tok db = (res, db')" by fastforce
  then show ?thesis
  proof (cases rule: Refresh_cases)
    case refused
    with assms(3) show ?thesis by simp
  next
    case (granted s' u' a t)
    then have eq: "s' = s" "u' = u" using assms(3) by simp_all
    have inv: "db_inv cr (refresh_rotate s db)" using assms(2) by (simp add: refresh_rotate_def db_inv_status)
    have inv': "db_inv cr db'" using createSession_inv [OF assms(1) inv] granted(4) eq by blast
    have "refresh_select cr tok db' = None"
      using retired_select [OF inv'] Refresh_retires [of cr cfg tok db] ref granted(2) by blast
    moreover have "\<exists>v \<in> set (db_users (refresh_rotate s db)). ur_id v = user_id (refresh_principal db s u) \<and> ur_status v = ''active''"
      using refresh_select_Some [OF assms(3)] by (auto simp: refresh_rotate_def status_sessions refresh_principal_def)
    from createSession_live [OF assms(1) inv _ assms(4) this] granted(4) eq have "refresh_select cr t db' \<noteq> None" by blast
    ultimately show ?thesis using ref granted(2) inv' eq by blast
  qed
qed

section \<open>Properties\<close>

text \<open>
  Property C3. Against the server of this repository every call of the dashboard settles within two rounds,
  whatever the state of the sessions and of the browser: a refresh that is granted comes with an access token
  the next request passes with, as long as less than its lifetime goes by between the two.
\<close>

theorem server_call_settles:
  assumes "crypto_ok cr" and "\<forall>d. int (tick d) < accessTokenTTL cfg"
    and "\<forall>ps rq d. resp_status (fst (app ps rq d)) \<noteq> 401"
  shows "\<exists>res. apiRequest (auth_server cr cfg base app tick) base 2 path opts b db = Some res"
  by (rule honoured_call_settles) (use server_honours [OF assms] in blast)


section \<open>Refreshes that overlap\<close>

text \<open>
  Requests for a refresh that are served at the same time: each goes through its statements in order, the
  database interleaves them.
\<close>

datatype refresh_call = Asked string | Selected session_row principal | Rotated session_row principal | Answered string string | Refused

inductive conc_step :: "crypto \<Rightarrow> auth_config \<Rightarrow> refresh_call list \<times> auth_db \<Rightarrow> refresh_call list \<times> auth_db \<Rightarrow> bool" for cr cfg where
  select: "i < length cs \<Longrightarrow> cs ! i = Asked tok \<Longrightarrow> refresh_select cr tok db = Some (s, u) \<Longrightarrow>
     conc_step cr cfg (cs, db) (cs[i := Selected s (refresh_principal db s u)], db)"
| refuse: "i < length cs \<Longrightarrow> cs ! i = Asked tok \<Longrightarrow> refresh_select cr tok db = None \<Longrightarrow>
     conc_step cr cfg (cs, db) (cs[i := Refused], db)"
| rotate: "i < length cs \<Longrightarrow> cs ! i = Selected s p \<Longrightarrow>
     conc_step cr cfg (cs, db) (cs[i := Rotated s p], refresh_rotate s db)"
| issue: "i < length cs \<Longrightarrow> cs ! i = Rotated s p \<Longrightarrow> refresh_issue cr cfg s p db = ((a, t), db') \<Longrightarrow>
     conc_step cr cfg (cs, db) (cs[i := Answered a t], db')"

abbreviation conc_steps :: "crypto \<Rightarrow> auth_config \<Rightarrow> refresh_call list \<times> auth_db \<Rightarrow> refresh_call list \<times> auth_db \<Rightarrow> bool" where
  "conc_steps cr cfg \<equiv> (conc_step cr cfg)\<^sup>*\<^sup>*"

text \<open>Served alone, the statements are the function \<^const>\<open>Refresh\<close>.\<close>

lemma refresh_alone:
  assumes "Refresh cr cfg tok db = (Some ((a, t), ps), db')"
  shows "conc_steps cr cfg ([Asked tok], db) ([Answered a t], db')"
proof -
  obtain s u where sel: "refresh_select cr tok db = Some (s, u)"
    and iss: "refresh_issue cr cfg s (refresh_principal db s u) (refresh_rotate s db) = ((a, t), db')"
    using assms by (auto simp: Refresh_def Let_def split: option.splits prod.splits)
  have "conc_step cr cfg ([Asked tok], db) ([Selected s (refresh_principal db s u)], db)"
    using conc_step.select [of 0 "[Asked tok]"] sel by simp
  moreover have "conc_step cr cfg ([Selected s p], d) ([Rotated s p], refresh_rotate s d)" for p d
    using conc_step.rotate [of 0 "[Selected s p]"] by simp
  moreover have "conc_step cr cfg ([Rotated s (refresh_principal db s u)], refresh_rotate s db) ([Answered a t], db')"
    using conc_step.issue [of 0 "[Rotated s (refresh_principal db s u)]"] iss by simp
  ultimately show ?thesis by (meson converse_rtranclp_into_rtranclp rtranclp.rtrancl_refl)
qed

lemma rotated_row:
  "s \<in> set (db_sessions db) \<Longrightarrow>
     \<exists>s' \<in> set (db_sessions (refresh_rotate s db)). se_hash s' = se_hash s \<and> se_id s' = se_id s"
  by (rule bexI [of _ "s\<lparr>se_status := ''rotated''\<rparr>"])
     (auto simp: refresh_rotate_def set_session_status_def intro: rev_image_eqI)

text \<open>Both requests run their query before either retires the session.\<close>

lemma overlap_steps:
  assumes "refresh_select cr tok db = Some (s, u)"
    and i1: "refresh_issue cr cfg s (refresh_principal db s u) (refresh_rotate s db) = ((a1, t1), db1)"
    and i2: "refresh_issue cr cfg s (refresh_principal db s u) (refresh_rotate s db1) = ((a2, t2), db2)"
  shows "conc_steps cr cfg ([Asked tok, Asked tok], db) ([Answered a1 t1, Answered a2 t2], db2)"
proof -
  let ?S = "Selected s (refresh_principal db s u)" and ?R = "Rotated s (refresh_principal db s u)"
  have "conc_step cr cfg ([Asked tok, Asked tok], db) ([?S, Asked tok], db)" "conc_step cr cfg ([?S, Asked tok], db) ([?S, ?S], db)"
    using conc_step.select [of 0 "[Asked tok, Asked tok]"] conc_step.select [of 1 "[?S, Asked tok]"] assms(1) by simp_all
  moreover have "conc_step cr cfg ([?S, ?S], db) ([?R, ?S], refresh_rotate s db)"
      "conc_step cr cfg ([?R, ?S], refresh_rotate s db) ([Answered a1 t1, ?S], db1)"
    using conc_step.rotate [of 0 "[?S, ?S]"] conc_step.issue [of 0 "[?R, ?S]"] i1 by simp_all
  moreover have "conc_step cr cfg ([Answered a1 t1, ?S], db1) ([Answered a1 t1, ?R], refresh_rotate s db1)"
      "conc_step cr cfg ([Answered a1 t1, ?R], refresh_rotate s db1) ([Answered a1 t1, Answered a2 t2], db2)"
    using conc_step.rotate [of 1 "[Answered a1 t1, ?S]"] conc_step.issue [of 1 "[Answered a1 t1, ?R]"] i2 by simp_all
  ultimately show ?thesis by (meson converse_rtranclp_into_rtranclp rtranclp.rtrancl_refl)
qed

text \<open>A session issued by one of two overlapping refreshes survives the update and the insertion of the other.\<close>

lemma other_row_live:
  assumes "crypto_ok cr" "db_inv cr db" "s \<in> set (db_sessions db)" "n \<in> set (db_sessions db)" "se_hash n \<noteq> se_hash s"
    and live: "session_live db (cr_hash cr token) n"
    and next_row: "createSession cr cfg p session (refresh_rotate s db) = (token', db')"
  shows "refresh_select cr token db' \<noteq> None"
proof -
  have inv: "db_inv cr (refresh_rotate s db)" using assms(2) by (simp add: refresh_rotate_def db_inv_status)
  have "distinct (map se_id (db_sessions db))" using assms(2) by (simp add: db_inv_def)
  then have "se_id n \<noteq> se_id s" using assms(3-5) by (auto simp: distinct_map dest: inj_onD)
  then have "n \<in> set (db_sessions (refresh_rotate s db))"
    using assms(4) by (auto simp: refresh_rotate_def set_session_status_def intro: rev_image_eqI)
  then have "n \<in> set (db_sessions db')" using createSession_row [OF next_row] by auto
  moreover have "session_live db' (cr_hash cr token) n"
    using live createSession_row [OF next_row] by (auto simp: session_live_def refresh_rotate_def status_sessions)
  ultimately show ?thesis using live_select [OF createSession_inv [OF assms(1) inv next_row]] by blast
qed

text \<open>The session that \<^const>\<open>createSession\<close> adds.\<close>

lemma createSession_new:
  assumes "createSession cr cfg p session db = (token, db')" "0 < refreshTokenTTL cfg"
    "\<exists>u \<in> set (db_users db). ur_id u = user_id p \<and> ur_status u = ''active''"
  shows "\<exists>n \<in> set (db_sessions db'). se_hash n = cr_hash cr token \<and> session_live db' (cr_hash cr token) n"
  using createSession_row [OF assms(1)] assms(2,3) by (auto simp: session_live_def)

text \<open>
  Property C9. One after the other, a refresh token is good for one refresh: once it has been accepted, no later
  refresh with it is, whatever logins, refreshes and revocations, whatever changes to users and whatever time
  lie in between.
\<close>

theorem refresh_token_single_use:
  assumes "crypto_ok cr" and "db_inv cr db" and "Refresh cr cfg tok db = (Some res, db1)" and "db_steps cr cfg db1 db2"
  shows "Refresh cr cfg tok db2 = (None, db2)"
proof -
  have "db_step cr cfg db db1" using db_step.refresh [of cr cfg db tok] assms(3) by simp
  then have "db_inv cr db2" using db_step_inv tables.stays [OF assms(4)] assms(1,2) by blast
  moreover have "retired (cr_hash cr tok) db2" using Refresh_retires [OF assms(3)] retirement.stays [OF assms(4)] by blast
  ultimately have "refresh_select cr tok db2 = None" by (rule retired_select)
  then show ?thesis by (simp add: Refresh_def)
qed

text \<open>
  Property C10. Two refreshes with the same token that overlap are both granted: the query and the update that
  retires the session are separate statements, and the update does not ask for the state it found, so both
  requests may find the session active; each is answered with a refresh token of its own, and both tokens are
  good for further refreshes.
\<close>

theorem overlapping_refreshes_both_granted:
  assumes "crypto_ok cr" and "db_inv cr db" and "0 < refreshTokenTTL cfg" and "refresh_select cr tok db = Some (s, u)"
  shows "\<exists>a1 t1 a2 t2 db'. conc_steps cr cfg ([Asked tok, Asked tok], db) ([Answered a1 t1, Answered a2 t2], db')
     \<and> t1 \<noteq> t2 \<and> refresh_select cr t1 db' \<noteq> None \<and> refresh_select cr t2 db' \<noteq> None"
proof -
  let ?p = "refresh_principal db s u"
  note sel = refresh_select_Some [OF assms(4)]
  have user: "\<exists>v \<in> set (db_users (refresh_rotate s d)). ur_id v = user_id ?p \<and> ur_status v = ''active''"
    if "db_users d = db_users db" for d
    using sel that by (auto simp: refresh_rotate_def status_sessions refresh_principal_def)
  have inv0: "db_inv cr (refresh_rotate s db)" using assms(2) by (simp add: refresh_rotate_def db_inv_status)
  obtain a1 t1 db1 where i1: "refresh_issue cr cfg s ?p (refresh_rotate s db) = ((a1, t1), db1)" by (metis prod.collapse)
  then have c1: "createSession cr cfg ?p (se_trace s) (refresh_rotate s db) = (t1, db1)"
    by (auto simp: refresh_issue_def Let_def split: prod.splits)
  note row1 = createSession_row [OF c1] and inv1 = createSession_inv [OF assms(1) inv0 c1]
  obtain n where n: "n \<in> set (db_sessions db1)" "se_hash n = cr_hash cr t1" "session_live db1 (cr_hash cr t1) n"
    using createSession_new [OF c1 assms(3)] user by blast
  obtain s' where s': "s' \<in> set (db_sessions db1)" "se_hash s' = se_hash s" "se_id s' = se_id s"
  proof -
    obtain rows where "db_sessions db1 = db_sessions (refresh_rotate s db) @ rows" using row1 by blast
    then have "set (db_sessions (refresh_rotate s db)) \<subseteq> set (db_sessions db1)" by simp
    then show ?thesis using rotated_row [of s db] sel that by blast
  qed
  have "issued cr db (se_hash s)" using assms(2) sel unfolding db_inv_def by blast
  then have "se_hash n \<noteq> se_hash s'"
    using fresh_not_issued [OF assms(1), of db] n(2) s'(2) row1 by (auto simp: refresh_rotate_def status_sessions)
  have rot: "refresh_rotate s db1 = refresh_rotate s' db1" by (simp add: refresh_rotate_def s'(3))
  obtain a2 t2 db2 where i2: "refresh_issue cr cfg s ?p (refresh_rotate s db1) = ((a2, t2), db2)" by (metis prod.collapse)
  then have c2: "createSession cr cfg ?p (se_trace s) (refresh_rotate s db1) = (t2, db2)"
    by (auto simp: refresh_issue_def Let_def split: prod.splits)
  have "refresh_select cr t1 db2 \<noteq> None"
    using other_row_live [OF assms(1) inv1 s'(1) n(1) \<open>se_hash n \<noteq> se_hash s'\<close> n(3) c2 [unfolded rot]] .
  moreover have "refresh_select cr t2 db2 \<noteq> None"
    using createSession_live [OF assms(1) _ c2 assms(3) user] inv1 row1
    by (simp add: refresh_rotate_def db_inv_status status_sessions)
  moreover have "db_random db < db_random db1" using row1 by (simp add: refresh_rotate_def status_sessions)
  then have "t1 \<noteq> t2"
    using row1 createSession_row [OF c2] assms(1) by (auto simp: crypto_ok_def refresh_rotate_def status_sessions dest: injD)
  moreover have "conc_steps cr cfg ([Asked tok, Asked tok], db) ([Answered a1 t1, Answered a2 t2], db2)"
    using overlap_steps [OF assms(4) i1 i2] .
  ultimately show ?thesis by blast
qed

text \<open>A refresh token just granted is still good when less than its lifetime has gone by.\<close>

lemma granted_live_later:
  assumes "crypto_ok cr" "db_inv cr db" "Refresh cr cfg tok db = (Some ((a, t), ps), db')" "int (tick db') < refreshTokenTTL cfg"
  shows "refresh_select cr t (later tick db') \<noteq> None"
  using assms(3)
proof (cases rule: Refresh_cases)
  case (granted s u a' t')
  have inv: "db_inv cr (refresh_rotate s db)" using assms(2) by (simp add: refresh_rotate_def db_inv_status)
  have t: "t' = t" using granted(2) by simp
  note row = createSession_row [OF granted(4)]
  have "\<exists>n \<in> set (db_sessions db'). session_live (later tick db') (cr_hash cr t) n"
    using row refresh_select_Some [OF granted(1)] assms(4) t
    by (auto simp: session_live_def refresh_rotate_def status_sessions refresh_principal_def)
  moreover have "db_inv cr (later tick db')"
    using createSession_inv [OF assms(1) inv granted(4)] by (rule db_inv_later)
  ultimately show ?thesis using live_select [of cr "later tick db'"] by fastforce
qed simp


section \<open>A concrete server\<close>

text \<open>
  An instance of the libraries for the witnesses: secrets are their own hashes, random texts are of growing
  length, and a token spells the number of its claims.
\<close>

definition claims_tuple :: "claims \<Rightarrow> (string \<times> string option \<times> string \<times> bool \<times> string list option) \<times> string \<times> int" where
  "claims_tuple c =
    (let p = cl_principal c
     in ((user_id p, tenant_id p, email p, is_platform_admin p, permissions p), cl_session c, cl_exp c))"

definition tuple_claims :: "(string \<times> string option \<times> string \<times> bool \<times> string list option) \<times> string \<times> int \<Rightarrow> claims" where
  "tuple_claims x =
    (case x of ((i, t, m, b, ps), session, ex) \<Rightarrow>
       \<lparr>cl_principal = \<lparr>user_id = i, tenant_id = t, email = m, is_platform_admin = b, permissions = ps\<rparr>,
        cl_session = session, cl_exp = ex\<rparr>)"

definition plain_crypto :: crypto where
  "plain_crypto =
    \<lparr>cr_hash = id, cr_compare = (=),
     cr_sign = (\<lambda>c. replicate (Suc (to_nat (claims_tuple c))) CHR ''x''),
     cr_parse = (\<lambda>token. if token = [] then None else Some (tuple_claims (from_nat (length token - 1)))),
     cr_random = (\<lambda>k. replicate k CHR ''r'')\<rparr>"

lemma trim_replicate: "\<not> is_ws c \<Longrightarrow> trim (replicate n c) = replicate n c"
proof -
  assume "\<not> is_ws c"
  then have "dropWhile is_ws (replicate n c) = replicate n c" by (cases n) simp_all
  then show ?thesis by (simp add: trim_def)
qed

lemma plain_crypto_ok: "crypto_ok plain_crypto"
proof -
  have "tuple_claims (claims_tuple c) = c" for c
    by (cases c) (simp add: tuple_claims_def claims_tuple_def Let_def)
  moreover have "inj (\<lambda>k. replicate k CHR ''r'')" by (rule injI) (metis length_replicate)
  moreover have "\<not> is_ws CHR ''x''" by (simp add: is_ws_def)
  ultimately show ?thesis by (simp add: crypto_ok_def plain_crypto_def trim_replicate del: replicate.simps)
qed

definition plain_config :: auth_config where
  "plain_config = \<lparr>accessTokenTTL = 900, refreshTokenTTL = 1209600, loginMaxFailures = 5, loginLockout = 900\<rparr>"

definition ann_row :: user_row where
  "ann_row = \<lparr>ur_id = ''u1'', ur_tenants = [''t1''], ur_email = ''ann@b.co'', ur_password_hash = ''pw'', ur_platform = False,
     ur_status = ''active'', ur_failed = 0, ur_locked_until = None\<rparr>"

definition ann_session :: session_row where
  "ann_session = \<lparr>se_id = 0, se_user = ''u1'', se_tenant = ''t1'', se_hash = ''rft_'', se_status = ''active'', se_expires = 5000, se_trace = ''sess_r''\<rparr>"

definition ann_db :: auth_db where
  "ann_db = \<lparr>db_users = [ann_row], db_sessions = [ann_session], db_permissions = (\<lambda>_ _. [''users.view'']), db_random = 1, db_now = 1000\<rparr>"

abbreviation plain_app :: "principal \<times> string \<Rightarrow> http_request \<Rightarrow> auth_db \<Rightarrow> response \<times> auth_db" where
  "plain_app \<equiv> \<lambda>_ _ d. (ok_response (JObj []), d)"

definition ann_browser :: browser where
  "ann_browser = \<lparr>store = \<lparr>access_token = None, refresh_token = Some ''rft_'', stored_user = None\<rparr>, pathname = ''/users'', events = []\<rparr>"

lemma ann_db_inv: "db_inv plain_crypto ann_db"
  by (auto simp: db_inv_def ann_db_def ann_session_def issued_def plain_crypto_def)

lemma ann_select: "db_users d = [ann_row] \<Longrightarrow> db_sessions d = [ann_session] \<Longrightarrow> db_now d < 5000 \<Longrightarrow>
    refresh_select plain_crypto ''rft_'' d = Some (ann_session, ann_row)"
  by (simp add: refresh_select_def session_live_def ann_session_def ann_row_def plain_crypto_def)

lemma plain_ttl: "0 < refreshTokenTTL plain_config" "\<forall>d. int ((\<lambda>_. 1) d) < refreshTokenTTL plain_config"
  by (simp_all add: plain_config_def)

theorem server_call_settles_witness:
  "\<exists>res. apiRequest (auth_server plain_crypto plain_config [] plain_app (\<lambda>_. 1)) [] 2 ''/x'' get_options ann_browser ann_db = Some res"
  by (rule server_call_settles [OF plain_crypto_ok]) (simp_all add: plain_config_def ok_response_def)


theorem refresh_token_single_use_witness:
  "Refresh plain_crypto plain_config ''rft_'' (snd (Refresh plain_crypto plain_config ''rft_'' ann_db))
     = (None, snd (Refresh plain_crypto plain_config ''rft_'' ann_db))"
proof -
  have "refresh_select plain_crypto ''rft_'' ann_db = Some (ann_session, ann_row)" by (rule ann_select) (simp_all add: ann_db_def)
  then obtain res db1 where "Refresh plain_crypto plain_config ''rft_'' ann_db = (Some res, db1)"
    using Refresh_granted [OF plain_crypto_ok ann_db_inv _ plain_ttl(1)] by blast
  from refresh_token_single_use [OF plain_crypto_ok ann_db_inv this rtranclp.rtrancl_refl] this show ?thesis by simp
qed

theorem overlapping_refreshes_both_granted_witness:
  "\<exists>a1 t1 a2 t2 db'. conc_steps plain_crypto plain_config ([Asked ''rft_'', Asked ''rft_''], ann_db) ([Answered a1 t1, Answered a2 t2], db') \<and> t1 \<noteq> t2"
proof -
  have "refresh_select plain_crypto ''rft_'' ann_db = Some (ann_session, ann_row)" by (rule ann_select) (simp_all add: ann_db_def)
  from overlapping_refreshes_both_granted [OF plain_crypto_ok ann_db_inv plain_ttl(1) this] show ?thesis by blast
qed


end
