(* ===== verification/Single_Tab.thy ===== *)
theory Single_Tab
  imports Refresh_Flight Session_Server
begin

text \<open>
  One browser tab and the session server together: the overlapping calls of \<^verbatim>\<open>Refresh_Flight\<close>
  (\<^verbatim>\<open>src/notification-admin-ui/src/api/client.ts\<close>, \<^verbatim>\<open>auth/AuthContext.tsx\<close>), whose refresh is answered by the
  tables of \<^verbatim>\<open>Session_Server\<close> (\<^verbatim>\<open>src/notification-core-api/internal/auth/auth.go\<close>), among other clients of the same
  server. The composition is shown to simulate both of its parts, and carries the questions that neither can
  answer alone: whether a tab is ever refused while its session lives, and what a logout leaves behind.
\<close>

section \<open>The composition\<close>

text \<open>
  What the tab does. Its calls are answered by whatever the rest of the server says; a refresh is answered by
  the handler, its answer may be lost on the way back, or the request on the way there. Logging in asks the
  server, logging out does not.
\<close>

inductive own_step :: "crypto \<Rightarrow> auth_config \<Rightarrow> string \<Rightarrow> net_state \<times> auth_db \<Rightarrow> net_state \<times> auth_db \<Rightarrow> bool" for cr cfg base where
  start: "own_step cr cfg base (s, db) (start_call path s, db)"
| reply: "i < length (calls s) \<Longrightarrow> calls s ! i = Sent path \<Longrightarrow> own_step cr cfg base (s, db) (on_reply i path r s, db)"
| refreshed: "refreshRequest s = Some tok \<Longrightarrow> RefreshHandler cr cfg (refresh_request base tok) db = (resp, db') \<Longrightarrow>
    own_step cr cfg base (s, db) (on_refresh (Reply resp) s, db')"
| lost: "refreshRequest s = Some tok \<Longrightarrow> RefreshHandler cr cfg (refresh_request base tok) db = (resp, db') \<Longrightarrow>
    own_step cr cfg base (s, db) (on_refresh (NetFail m) s, db')"
| unsent: "refreshRequest s = Some tok \<Longrightarrow> own_step cr cfg base (s, db) (on_refresh (NetFail m) s, db)"
| logout: "own_step cr cfg base (s, db) (session_logout s, db)"
| login: "Login cr cfg mail password db = (Inr ((a, t), p), db') \<Longrightarrow>
    own_step cr cfg base (s, db) (session_login a t (principal_json p) s, db')"
| login_failed: "Login cr cfg mail password db = (Inl e, db') \<Longrightarrow> own_step cr cfg base (s, db) (s, db')"

text \<open>The refresh tokens the tab holds: the stored one, and the one its pending refresh was sent with.\<close>

definition held :: "net_state \<Rightarrow> string set" where
  "held s = set_option (refresh_token (store (browser_of s))) \<union> set_option (refreshRequest s)"

text \<open>
  The tab in the world: time passes, accounts and permissions change, and other clients log in, refresh and
  revoke, with any tokens but those the tab holds.
\<close>

inductive world_step :: "crypto \<Rightarrow> auth_config \<Rightarrow> string \<Rightarrow> net_state \<times> auth_db \<Rightarrow> net_state \<times> auth_db \<Rightarrow> bool" for cr cfg base where
  own: "own_step cr cfg base c c' \<Longrightarrow> world_step cr cfg base c c'"
| time: "world_step cr cfg base (s, db) (s, db\<lparr>db_now := db_now db + int n\<rparr>)"
| accounts: "world_step cr cfg base (s, db) (s, db\<lparr>db_users := us, db_permissions := perms\<rparr>)"
| other_login: "world_step cr cfg base (s, db) (s, snd (Login cr cfg mail password db))"
| other_refresh: "tok \<notin> held s \<Longrightarrow> world_step cr cfg base (s, db) (s, snd (Refresh cr cfg tok db))"
| other_revoke: "tok \<notin> held s \<Longrightarrow> world_step cr cfg base (s, db) (s, RevokeRefreshToken cr tok db)"

definition active :: "crypto \<Rightarrow> string \<Rightarrow> auth_db \<Rightarrow> bool" where
  "active cr tok db \<longleftrightarrow> (\<exists>se \<in> set (db_sessions db). se_hash se = cr_hash cr tok \<and> se_status se = ''active'')"

text \<open>The sessions of a token have not run out and belong to active users.\<close>

definition unexpired :: "crypto \<Rightarrow> string \<Rightarrow> auth_db \<Rightarrow> bool" where
  "unexpired cr tok db \<longleftrightarrow> (\<forall>se \<in> set (db_sessions db). se_hash se = cr_hash cr tok \<longrightarrow>
     db_now db < se_expires se \<and> (\<exists>u \<in> set (db_users db). ur_id u = se_user se \<and> ur_status u = ''active''))"

text \<open>A tab just loaded; a stored token is that of an active session.\<close>

definition tab_start :: "crypto \<Rightarrow> net_state \<times> auth_db \<Rightarrow> bool" where
  "tab_start cr c \<longleftrightarrow> crypto_ok cr \<and> db_inv cr (snd c) \<and> (\<exists>b. fst c = idle_state b) \<and> (\<forall>tok \<in> held (fst c). active cr tok (snd c))"

section \<open>The parts are simulated\<close>

lemma RefreshHandler_request:
  "RefreshHandler cr cfg (refresh_request base tok) db =
     (case Refresh cr cfg tok db of
        (None, db1) \<Rightarrow> (error_response 401 ''Unauthorized'' ''invalid refresh token'', db1)
      | (Some (tokens, p), db1) \<Rightarrow> (json_response 200 ''OK'' (tokens_json tokens p), db1))"
  by (simp add: RefreshHandler_def refresh_request_def decode_text_def)

lemma RefreshHandler_db: "snd (RefreshHandler cr cfg (refresh_request base tok) db) = snd (Refresh cr cfg tok db)"
  by (simp add: RefreshHandler_request split: prod.splits option.splits)

lemma own_step_net: "own_step cr cfg base c c' \<Longrightarrow> fst c' = fst c \<or> net_step (fst c) (fst c')"
  by (induction rule: own_step.induct) (auto intro: net_step.intros)

lemma own_step_db: "own_step cr cfg base c c' \<Longrightarrow> snd c' = snd c \<or> db_step cr cfg (snd c) (snd c')"
proof (induction rule: own_step.induct)
  case (refreshed s tok db resp db')
  then show ?case using db_step.refresh [of cr cfg db tok] RefreshHandler_db [of cr cfg base tok db] by simp
next
  case (lost s tok db resp db' m)
  then show ?case using db_step.refresh [of cr cfg db tok] RefreshHandler_db [of cr cfg base tok db] by simp
next
  case (login mail password db a t p db' s)
  then show ?case using db_step.login [of cr cfg db mail password] by simp
next
  case (login_failed mail password db e db' s)
  then show ?case using db_step.login [of cr cfg db mail password] by simp
qed simp_all

interpretation tab_calls: simulation fst "tab_start cr" "world_step cr cfg base" "\<lambda>s. \<exists>b. s = idle_state b" net_step for cr cfg base
  by unfold_locales (auto simp: tab_start_def elim!: world_step.cases dest: own_step_net)

interpretation tab_tables: simulation snd "tab_start cr" "world_step cr cfg base" "db_inv cr" "db_step cr cfg" for cr cfg base
  by unfold_locales (auto simp: tab_start_def elim!: world_step.cases dest: own_step_db intro: db_step.intros)

section \<open>Active sessions\<close>

lemma active_append: "active cr tok db \<Longrightarrow> db_sessions db' = db_sessions db @ rows \<Longrightarrow> active cr tok db'"
  by (auto simp: active_def)

lemma active_cong: "active cr tok db \<Longrightarrow> db_sessions db' = db_sessions db \<Longrightarrow> active cr tok db'"
  by (simp add: active_def)

lemma active_createSession: "createSession cr cfg p session db = (token, db') \<Longrightarrow> active cr tok db \<Longrightarrow> active cr tok db'"
  using createSession_row [of cr cfg p session db token db'] by (auto intro: active_append)

lemma active_created: "createSession cr cfg p session db = (token, db') \<Longrightarrow> active cr token db'"
  using createSession_row [of cr cfg p session db token db'] by (auto simp: active_def)

text \<open>A change of status leaves the sessions alone that it does not select.\<close>

lemma active_status:
  assumes "active cr tok db" "\<And>se. se \<in> set (db_sessions db) \<Longrightarrow> se_hash se = cr_hash cr tok \<Longrightarrow> \<not> P se"
  shows "active cr tok (set_session_status P st db)"
proof -
  obtain se where se: "se \<in> set (db_sessions db)" "se_hash se = cr_hash cr tok" "se_status se = ''active''"
    using assms(1) by (auto simp: active_def)
  then have "\<not> P se" using assms(2) by blast
  then have "se \<in> set (db_sessions (set_session_status P st db))"
    using se(1) by (simp add: set_session_status_def)
  with se show ?thesis by (auto simp: active_def)
qed

lemma other_hash: "crypto_ok cr \<Longrightarrow> tok \<noteq> tok' \<Longrightarrow> cr_hash cr tok \<noteq> cr_hash cr tok'"
  by (auto simp: crypto_ok_def dest: injD)

lemma active_rotate:
  assumes "crypto_ok cr" "db_inv cr db" "active cr tok db" "refresh_select cr tok' db = Some (s, u)" "tok \<noteq> tok'"
  shows "active cr tok (refresh_rotate s db)"
  unfolding refresh_rotate_def
proof (rule active_status [OF assms(3)])
  fix se assume se: "se \<in> set (db_sessions db)" "se_hash se = cr_hash cr tok"
  have s: "s \<in> set (db_sessions db)" "se_hash s = cr_hash cr tok'" using refresh_select_Some [OF assms(4)] by auto
  have "inj_on se_id (set (db_sessions db))"
    using assms(2) unfolding db_inv_def by (metis distinct_map distinct_upt)
  then have "se_id se = se_id s \<Longrightarrow> se = s" using se(1) s(1) by (meson inj_onD)
  then show "se_id se \<noteq> se_id s" using se(2) s(2) other_hash [OF assms(1,5)] by metis
qed

lemma active_Refresh:
  assumes "crypto_ok cr" "db_inv cr db" "active cr tok db" "tok \<noteq> tok'"
  shows "active cr tok (snd (Refresh cr cfg tok' db))"
proof -
  obtain res db' where ref: "Refresh cr cfg tok' db = (res, db')" by fastforce
  then show ?thesis
  proof (cases rule: Refresh_cases)
    case (granted s u a t)
    from active_createSession [OF granted(4) active_rotate [OF assms(1-3) granted(1) assms(4)]] ref show ?thesis by simp
  qed (use assms(3) ref in simp)
qed

lemma active_revoke:
  "crypto_ok cr \<Longrightarrow> active cr tok db \<Longrightarrow> tok \<noteq> tok' \<Longrightarrow> active cr tok (RevokeRefreshToken cr tok' db)"
  unfolding RevokeRefreshToken_def by (rule active_status) (auto dest: other_hash)

lemma active_Login: "active cr tok db \<Longrightarrow> active cr tok (snd (Login cr cfg mail password db))"
proof -
  assume act: "active cr tok db"
  obtain res db' where log: "Login cr cfg mail password db = (res, db')" by fastforce
  then show ?thesis
  proof (cases rule: Login_cases)
    case failed
    with act log show ?thesis by (auto intro: active_cong)
  next
    case (entered p session db1 token db2)
    with active_createSession [OF entered(3)] act log show ?thesis by (metis active_cong snd_conv)
  qed
qed

lemma Login_granted:
  assumes "Login cr cfg mail password db = (Inr ((a, t), p), db')"
  shows "active cr t db'" and "t = ''rft_'' @ cr_random cr (Suc (db_random db))"
proof -
  obtain u where o: "open_session cr cfg u db = (((a, t), p), db')"
    using assms by (auto simp: Login_def split: option.splits if_splits prod.splits)
  obtain session db1 where r: "RandomToken cr ''sess'' db = (session, db1)" by fastforce
  obtain token db2 where c: "createSession cr cfg (login_principal db u) session db1 = (token, db2)" by fastforce
  have "t = token" "db_sessions db' = db_sessions db2"
    using o r c by (auto simp: open_session_def set_user_def Let_def)
  moreover have "db_random db1 = Suc (db_random db)" using r by (auto simp: RandomToken_def Let_def)
  ultimately show "active cr t db'" "t = ''rft_'' @ cr_random cr (Suc (db_random db))"
    using active_created [OF c] createSession_row [OF c] active_cong by auto
qed

lemma active_select:
  assumes "db_inv cr db" "active cr tok db" "unexpired cr tok db"
  shows "\<exists>se u. refresh_select cr tok db = Some (se, u)"
proof -
  obtain se where se: "se \<in> set (db_sessions db)" "se_hash se = cr_hash cr tok" "se_status se = ''active''"
    using assms(2) by (auto simp: active_def)
  then have "session_live db (cr_hash cr tok) se" using assms(3) by (simp add: unexpired_def session_live_def)
  from live_select [OF assms(1) se(1) this] show ?thesis by blast
qed

section \<open>What the tab holds\<close>

lemma held_simps [simp]:
  "held (start_call path s) = held s" "held (session_logout s) = set_option (refreshRequest s)"
  "held (session_login a t u s) = insert t (set_option (refreshRequest s))"
  by (auto simp: held_def start_call_def session_logout_def session_login_def empty_storage_def)

lemma held_pending: "refreshRequest s = Some tok \<Longrightarrow> tok \<in> held s"
  by (simp add: held_def)

lemma held_reply: "held (on_reply i path r s) \<subseteq> held s"
  by (auto simp: held_def on_reply_def await_refresh_def Let_def usable_def empty_storage_def split: net_reply.splits option.splits if_splits)

text \<open>A refresh that fails finds a waiting call, which empties the storage.\<close>

lemma held_refresh:
  assumes "flight_inv s" "refreshRequest s = Some tok" "apply_refresh r (store (browser_of s)) = (ok, st)"
  shows "held (on_refresh r s) = (if ok then set_option (refresh_token st) else {})"
proof -
  have "list_ex is_waiting (calls s)" using assms(1,2) by (simp add: flight_inv_def)
  then have "0 < length (filter is_waiting (calls s))" by (auto simp: list_ex_iff filter_empty_conv)
  then have "store ((clearAuthAndRedirect ^^ length (filter is_waiting (calls s))) b) = empty_storage" for b
    by (rule clear_power_store)
  then show ?thesis using assms(3) by (simp add: held_def on_refresh_def empty_storage_def)
qed

lemma held_unanswered: "flight_inv s \<Longrightarrow> refreshRequest s = Some tok \<Longrightarrow> held (on_refresh (NetFail m) s) = {}"
  using held_refresh [of s tok "NetFail m" False "store (browser_of s)"] by (simp add: apply_refresh_def)

section \<open>The invariant\<close>

text \<open>Every token the tab holds is that of an active session.\<close>

definition tab_inv :: "crypto \<Rightarrow> net_state \<times> auth_db \<Rightarrow> bool" where
  "tab_inv cr c \<longleftrightarrow> crypto_ok cr \<and> db_inv cr (snd c) \<and> flight_inv (fst c) \<and> (\<forall>tok \<in> held (fst c). active cr tok (snd c))"

text \<open>The tokens of a granted refresh, and what the tab makes of them.\<close>

lemma refresh_answer:
  assumes "crypto_ok cr" "RefreshHandler cr cfg (refresh_request base tok) db = (resp, db')"
  obtains (refused) "db' = db" "\<And>st. apply_refresh (Reply resp) st = (False, st)"
  | (granted) a t ps where "Refresh cr cfg tok db = (Some ((a, t), ps), db')" "active cr t db'"
      "\<And>st. apply_refresh (Reply resp) st =
         (True, \<lparr>access_token = Some a, refresh_token = Some t, stored_user = Some (SlotJson (principal_json ps))\<rparr>)"
proof (cases "fst (Refresh cr cfg tok db)")
  case None
  then have ref: "Refresh cr cfg tok db = (None, db)"
    by (cases "refresh_select cr tok db") (auto simp: Refresh_def Let_def split: prod.splits)
  then show thesis using assms(2) by (intro refused) (auto simp: RefreshHandler_request apply_refresh_refused)
next
  case (Some res)
  obtain a t ps where "res = ((a, t), ps)" by (metis prod.collapse)
  with Some have ref: "Refresh cr cfg tok db = (Some ((a, t), ps), snd (Refresh cr cfg tok db))" by (metis prod.collapse)
  then have resp: "resp = json_response 200 ''OK'' (tokens_json (a, t) ps)" "db' = snd (Refresh cr cfg tok db)"
    using assms(2) by (auto simp: RefreshHandler_request split: prod.splits)
  have "active cr t (snd (Refresh cr cfg tok db))"
    using ref by (cases rule: Refresh_cases) (auto intro: active_created)
  moreover have "apply_refresh (Reply resp) st =
      (True, \<lparr>access_token = Some a, refresh_token = Some t, stored_user = Some (SlotJson (principal_json ps))\<rparr>)" for st
    unfolding resp(1) by (rule apply_refresh_tokens) (use Refresh_tokens [OF assms(1) ref] in blast)+
  ultimately show thesis using granted ref resp(2) by metis
qed

lemma own_step_tab_inv: "own_step cr cfg base c c' \<Longrightarrow> tab_inv cr c \<Longrightarrow> tab_inv cr c'"
proof -
  assume step: "own_step cr cfg base c c'" and inv: "tab_inv cr c"
  have parts: "crypto_ok cr" "db_inv cr (snd c)" "flight_inv (fst c)" and act: "\<And>tok. tok \<in> held (fst c) \<Longrightarrow> active cr tok (snd c)"
    using inv by (auto simp: tab_inv_def)
  have net: "flight_inv (fst c')" using own_step_net [OF step] parts(3) flight.kept by metis
  have tables: "db_inv cr (snd c')" using own_step_db [OF step] parts(1,2) db_step_inv by metis
  have "active cr tok (snd c')" if tok: "tok \<in> held (fst c')" for tok
    using step
  proof cases
    case (reply i s path db r)
    with tok act held_reply [of i path r s] show ?thesis by auto
  next
    case (refreshed s p db resp db')
    show ?thesis using parts(1) refreshed(4)
    proof (cases rule: refresh_answer)
      case refused
      from held_refresh [OF _ refreshed(3) refused(2)] refreshed tok parts(3) show ?thesis by simp
    next
      case (granted a t ps)
      from held_refresh [OF _ refreshed(3) granted(3)] granted(2) refreshed tok parts(3) show ?thesis by simp
    qed
  next
    case (lost s p db resp db' m)
    with held_unanswered [of s p m] tok parts(3) show ?thesis by simp
  next
    case (unsent s p db m)
    with held_unanswered [of s p m] tok parts(3) show ?thesis by simp
  next
    case (login mail password db a t p db' s)
    show ?thesis
    proof (cases "tok = t")
      case True
      with login Login_granted(1) show ?thesis by simp
    next
      case False
      then have "refreshRequest s = Some tok" using tok login by simp
      then have "tok \<in> held s" by (rule held_pending)
      then have "active cr tok db" using act login by simp
      from active_Login [OF this, of cfg mail password] login show ?thesis by simp
    qed
  next
    case (login_failed mail password db e db' s)
    with tok have "active cr tok db" using act by simp
    from active_Login [OF this, of cfg mail password] login_failed show ?thesis by simp
  qed (use tok act held_pending in auto)
  with parts(1) net tables show ?thesis by (simp add: tab_inv_def)
qed

lemma world_step_tab_inv: "world_step cr cfg base c c' \<Longrightarrow> tab_inv cr c \<Longrightarrow> tab_inv cr c'"
proof -
  assume step: "world_step cr cfg base c c'" and inv: "tab_inv cr c"
  have parts: "crypto_ok cr" "db_inv cr (snd c)" "flight_inv (fst c)" and act: "\<And>tok. tok \<in> held (fst c) \<Longrightarrow> active cr tok (snd c)"
    using inv by (auto simp: tab_inv_def)
  have tables: "db_inv cr (snd c')" using tab_tables.step_abs [OF step] parts(1,2) db_step_inv by metis
  show ?thesis using step
  proof cases
    case own
    then show ?thesis using own_step_tab_inv inv by blast
  next
    case (other_refresh tok s db)
    then have "active cr t (snd (Refresh cr cfg tok db))" if "t \<in> held s" for t
      using active_Refresh [OF parts(1), of db t tok] act [of t] parts(2) that by auto
    with other_refresh parts tables show ?thesis by (simp add: tab_inv_def)
  next
    case (other_revoke tok s db)
    then have "active cr t (RevokeRefreshToken cr tok db)" if "t \<in> held s" for t
      using active_revoke [OF parts(1), of t db tok] act [of t] that by auto
    with other_revoke parts tables show ?thesis by (simp add: tab_inv_def)
  qed (use parts act tables active_Login in \<open>auto simp: tab_inv_def active_def\<close>)
qed

interpretation tab: step_invariant "world_step cr cfg base" "tab_inv cr" "tab_start cr" for cr cfg base
  by unfold_locales (erule (1) world_step_tab_inv, auto simp: tab_start_def tab_inv_def flight.initially)

section \<open>Properties\<close>

text \<open>
  Property C7. A tab on its own is never turned away while its session lives: whatever has happened before (calls that
  overlap, answers that were lost, logging out and in again, the doings of other clients), when a refresh is
  pending and the session of its token has not run out and belongs to an active user, then the server grants it;
  the tab stores the new pair, which is good for the next refresh, stays where it is, and every waiting call is
  sent again.
\<close>

theorem single_tab_stays_signed_in:
  assumes "reachable (tab_start cr) (world_step cr cfg base) (s, db)" and "refreshRequest s = Some tok" and "0 < refreshTokenTTL cfg"
    and "unexpired cr tok db"
  shows "\<exists>resp db' a t. RefreshHandler cr cfg (refresh_request base tok) db = (resp, db') \<and> resp_status resp = 200
     \<and> access_token (store (browser_of (on_refresh (Reply resp) s))) = Some a
     \<and> refresh_token (store (browser_of (on_refresh (Reply resp) s))) = Some t \<and> refresh_select cr t db' \<noteq> None
     \<and> pathname (browser_of (on_refresh (Reply resp) s)) = pathname (browser_of s)
     \<and> events (browser_of (on_refresh (Reply resp) s)) = events (browser_of s)
     \<and> (\<forall>i < length (calls s). \<forall>path r. calls s ! i = Waiting path r \<longrightarrow> calls (on_refresh (Reply resp) s) ! i = Sent path)"
proof -
  have inv: "crypto_ok cr" "db_inv cr db" "active cr tok db"
    using tab.always [OF assms(1)] assms(2) by (auto simp: tab_inv_def held_def)
  obtain se u where "refresh_select cr tok db = Some (se, u)" using active_select [OF inv(2,3) assms(4)] by blast
  from Refresh_granted [OF inv(1,2) this assms(3)] obtain a t ps db' where
    ref: "Refresh cr cfg tok db = (Some ((a, t), ps), db')" and next_one: "refresh_select cr t db' \<noteq> None" by blast
  let ?resp = "json_response 200 ''OK'' (tokens_json (a, t) ps)"
  have "RefreshHandler cr cfg (refresh_request base tok) db = (?resp, db')" by (simp add: RefreshHandler_request ref)
  moreover have "apply_refresh (Reply ?resp) st =
      (True, \<lparr>access_token = Some a, refresh_token = Some t, stored_user = Some (SlotJson (principal_json ps))\<rparr>)" for st
    by (rule apply_refresh_tokens) (use Refresh_tokens [OF inv(1) ref] in blast)+
  ultimately show ?thesis using next_one by (auto simp: on_refresh_def json_response_def)
qed

text \<open>A token the tab no longer holds: nothing the tab does brings it back or ends its session.\<close>

definition abandoned :: "crypto \<Rightarrow> string \<Rightarrow> net_state \<times> auth_db \<Rightarrow> bool" where
  "abandoned cr tok c \<longleftrightarrow> tab_inv cr c \<and> tok \<notin> held (fst c) \<and> active cr tok (snd c)"

lemma active_issued: "db_inv cr db \<Longrightarrow> active cr tok db \<Longrightarrow> issued cr db (cr_hash cr tok)"
  by (auto simp: active_def db_inv_def)

lemma drawn_differs:
  assumes "crypto_ok cr" "db_inv cr db" "active cr tok db" "db_random db \<le> k"
  shows "tok \<noteq> ''rft_'' @ cr_random cr k"
proof -
  obtain j where j: "j < db_random db" "cr_hash cr tok = cr_hash cr (''rft_'' @ cr_random cr j)"
    using active_issued [OF assms(2,3)] by (auto simp: issued_def)
  then have "tok = ''rft_'' @ cr_random cr j" using assms(1) by (auto simp: crypto_ok_def dest: injD)
  moreover have "cr_random cr j \<noteq> cr_random cr k" using j(1) assms(1,4) by (auto simp: crypto_ok_def inj_eq)
  ultimately show ?thesis by simp
qed

lemma Refresh_token_fresh:
  "Refresh cr cfg p db = (Some ((a, t), ps), db') \<Longrightarrow> t = ''rft_'' @ cr_random cr (db_random db)"
  by (erule Refresh_cases) (auto dest!: createSession_row simp: refresh_rotate_def status_sessions)

lemma own_step_abandoned: "own_step cr cfg base c c' \<Longrightarrow> abandoned cr tok c \<Longrightarrow> abandoned cr tok c'"
proof -
  assume step: "own_step cr cfg base c c'" and ab: "abandoned cr tok c"
  have parts: "crypto_ok cr" "db_inv cr (snd c)" "flight_inv (fst c)" and act: "active cr tok (snd c)" and not_held: "tok \<notin> held (fst c)"
    using ab by (auto simp: abandoned_def tab_inv_def)
  have "tok \<notin> held (fst c') \<and> active cr tok (snd c')"
    using step
  proof cases
    case (reply i s path db r)
    with act not_held held_reply [of i path r s] show ?thesis by auto
  next
    case (refreshed s p db resp db')
    have p: "p \<noteq> tok" using refreshed not_held held_pending by auto
    show ?thesis using parts(1) refreshed(4)
    proof (cases rule: refresh_answer)
      case refused
      from held_refresh [OF _ refreshed(3) refused(2)] refused(1) refreshed act parts(3) show ?thesis by simp
    next
      case (granted a t ps)
      have "tok \<noteq> t" using drawn_differs [OF parts(1,2) act] Refresh_token_fresh [OF granted(1)] refreshed by simp
      moreover have "active cr tok db'" using active_Refresh [OF parts(1,2) act, of p cfg] p granted(1) refreshed by simp
      ultimately show ?thesis using held_refresh [OF _ refreshed(3) granted(3)] refreshed parts(3) by simp
    qed
  next
    case (lost s p db resp db' m)
    have "p \<noteq> tok" using lost not_held held_pending by auto
    then have "active cr tok db'"
      using active_Refresh [OF parts(1,2) act, of p cfg] lost RefreshHandler_db [of cr cfg base p db] by simp
    with lost held_unanswered [of s p m] parts(3) show ?thesis by simp
  next
    case (unsent s p db m)
    with held_unanswered [of s p m] parts(3) act show ?thesis by simp
  next
    case (login mail password db a t p db' s)
    have "tok \<noteq> t" using drawn_differs [OF parts(1,2) act] Login_granted(2) [OF login(3)] login(1) by simp
    then show ?thesis using login active_Login [OF act, of cfg mail password] not_held held_pending by auto
  next
    case (login_failed mail password db e db' s)
    then show ?thesis using active_Login [OF act, of cfg mail password] not_held by simp
  qed (use act not_held held_pending in auto)
  then show ?thesis using ab own_step_tab_inv [OF step] by (simp add: abandoned_def)
qed

interpretation left_behind: preserved "own_step cr cfg base" "abandoned cr tok" for cr cfg base tok
  by unfold_locales (rule own_step_abandoned)

text \<open>
  Property C8. Logging out ends nothing on the server: after the logout of a tab with a stored token and no refresh pending the
  storage is empty, yet whatever the tab does from then on (logging in again, calls, refreshes), the session it
  logged out of stays active, and the server grants a refresh to whoever presents the old token until the
  session runs out.
\<close>

theorem logged_out_session_survives:
  assumes "reachable (tab_start cr) (world_step cr cfg base) (s, db)" and "refresh_token (store (browser_of s)) = Some tok"
    and "refreshRequest s = None" and "(own_step cr cfg base)\<^sup>*\<^sup>* (session_logout s, db) (s', db')"
  shows "store (browser_of (session_logout s)) = empty_storage \<and> active cr tok db' \<and> tok \<notin> held s'
     \<and> (unexpired cr tok db' \<longrightarrow> refresh_select cr tok db' \<noteq> None)"
proof -
  have inv: "tab_inv cr (s, db)" by (rule tab.always [OF assms(1)])
  then have "active cr tok db" using assms(2) by (simp add: tab_inv_def held_def)
  moreover have "tab_inv cr (session_logout s, db)" using own_step_tab_inv [OF own_step.logout inv] .
  ultimately have "abandoned cr tok (session_logout s, db)" using assms(3) by (simp add: abandoned_def)
  then have ab: "abandoned cr tok (s', db')" by (rule left_behind.stays [OF assms(4)])
  then have live: "db_inv cr db'" "active cr tok db'" "tok \<notin> held s'" by (auto simp: abandoned_def tab_inv_def)
  then have "unexpired cr tok db' \<longrightarrow> refresh_select cr tok db' \<noteq> None" using active_select by fastforce
  with live show ?thesis by (simp add: session_logout_def)
qed

section \<open>Examples\<close>

lemma ann_tab_start: "tab_start plain_crypto (idle_state ann_browser, ann_db)"
proof -
  have "active plain_crypto ''rft_'' ann_db" by (simp add: active_def ann_db_def ann_session_def plain_crypto_def)
  moreover have "held (idle_state ann_browser) = {''rft_''}" by (simp add: held_def idle_state_def ann_browser_def)
  ultimately show ?thesis using plain_crypto_ok ann_db_inv by (auto simp: tab_start_def)
qed

lemma ann_unexpired: "unexpired plain_crypto ''rft_'' ann_db"
  by (simp add: unexpired_def ann_db_def ann_session_def ann_row_def)

definition ann_waiting :: net_state where
  "ann_waiting = on_reply 0 ''/a'' (Reply unauthorized_response) (start_call ''/a'' (idle_state ann_browser))"

lemma ann_waiting_eq:
  "ann_waiting = \<lparr>browser_of = ann_browser, refreshRequest = Some ''rft_'', calls = [Waiting ''/a'' unauthorized_response],
     refreshes_sent = 1, refreshes_answered = 0\<rparr>"
  by (simp add: ann_waiting_def on_reply_def await_refresh_def start_call_def idle_state_def ann_browser_def demo_simps)

lemma ann_waiting_reachable: "reachable (tab_start plain_crypto) (world_step plain_crypto plain_config base) (ann_waiting, ann_db)"
proof -
  have "world_step plain_crypto plain_config base (idle_state ann_browser, ann_db) (start_call ''/a'' (idle_state ann_browser), ann_db)"
    by (intro world_step.own own_step.start)
  then have "reachable (tab_start plain_crypto) (world_step plain_crypto plain_config base) (start_call ''/a'' (idle_state ann_browser), ann_db)"
    by (rule reachable_once) (rule ann_tab_start)
  then show ?thesis
    unfolding ann_waiting_def
    by (rule reachable.step) (rule world_step.own, rule own_step.reply, simp_all add: start_call_def idle_state_def)
qed

theorem single_tab_stays_signed_in_witness:
  "\<exists>resp t. resp_status resp = 200 \<and> refresh_token (store (browser_of (on_refresh (Reply resp) ann_waiting))) = Some t
     \<and> calls (on_refresh (Reply resp) ann_waiting) ! 0 = Sent ''/a''"
proof -
  note ann_unexpired
  moreover have "refreshRequest ann_waiting = Some ''rft_''" "calls ann_waiting = [Waiting ''/a'' unauthorized_response]"
    by (simp_all add: ann_waiting_eq)
  ultimately show ?thesis
    using single_tab_stays_signed_in [OF ann_waiting_reachable, of "''rft_''"] plain_ttl(1) by fastforce
qed

theorem logged_out_session_survives_witness:
  "refresh_select plain_crypto ''rft_'' ann_db \<noteq> None \<and> store (browser_of (session_logout (idle_state ann_browser))) = empty_storage"
proof -
  have "reachable (tab_start plain_crypto) (world_step plain_crypto plain_config []) (idle_state ann_browser, ann_db)"
    by (rule reachable.init) (rule ann_tab_start)
  moreover have "refresh_token (store (browser_of (idle_state ann_browser))) = Some ''rft_''" "refreshRequest (idle_state ann_browser) = None"
    by (simp_all add: idle_state_def ann_browser_def)
  ultimately show ?thesis
    using logged_out_session_survives [of plain_crypto plain_config "[]" "idle_state ann_browser" ann_db "''rft_''"] ann_unexpired by blast
qed

end
