(* ===== verification/Role_Server.thy ===== *)
theory Role_Server
  imports Roles Session_Server
begin

text \<open>
  The roles of the server behind the role page: the handlers of
  \<^verbatim>\<open>src/notification-core-api/internal/http/handlers/rbac.go\<close> over the tables of roles, permissions and
  assignments, and the query \<^verbatim>\<open>EffectivePermissions\<close> of \<^verbatim>\<open>internal/auth/auth.go\<close> that
  turns them into the permissions of a session. Keys, unique indexes and references of the tables are those of
  \<^verbatim>\<open>migrations/000001_init.up.sql\<close>; a statement that breaks one fails and changes nothing.

  Each handler stands behind the middleware that asks for \<^verbatim>\<open>roles.manage\<close>. The audit trail and the
  table of cache versions are written but not read by this code and are left out, as is the time of the last
  change of a row; opening and committing a transaction succeed.
\<close>

section \<open>Tables\<close>

text \<open>
  What the database and the libraries contribute to a request: which texts are identifiers, the collation of
  texts, the identifier and the time of a new row, and the text of a database error.
\<close>

record rbac_env =
  en_uuid :: "string \<Rightarrow> bool"
  en_le :: "string \<Rightarrow> string \<Rightarrow> bool"
  en_id :: string
  en_now :: string
  en_detail :: string

text \<open>An empty tenant stands for null. Roles and permissions have the fields the role page knows.\<close>

record role_of_user =
  ul_tenant :: string
  ul_user :: string
  ul_role :: string

record user_permission =
  up_tenant :: string
  up_user :: string
  up_permission :: string
  up_effect :: string

record rbac_db =
  rb_tenants :: "string list"
  rb_users :: "string list"
  rb_roles :: "role list"
  rb_permissions :: "permission list"
  rb_role_permissions :: "(string \<times> string) list"
  rb_user_roles :: "role_of_user list"
  rb_user_permissions :: "user_permission list"

definition role_row_by :: "rbac_env \<Rightarrow> string \<Rightarrow> rbac_db \<Rightarrow> role option" where
  "role_row_by env ident db = (if en_uuid env ident then find (\<lambda>r. ro_id r = ident) (rb_roles db) else None)"

text \<open>
  Scope and tenant as the guards of the handlers read them: the error of the query is dropped, so both are
  empty when there is no such role.
\<close>

definition existing :: "rbac_env \<Rightarrow> string \<Rightarrow> rbac_db \<Rightarrow> string \<times> string" where
  "existing env ident db = (case role_row_by env ident db of Some r \<Rightarrow> (ro_scope r, ro_tenant_id r) | None \<Rightarrow> ([], []))"

text \<open>\<^verbatim>\<open>ORDER BY\<close> a text.\<close>

fun insert_by :: "(string \<Rightarrow> string \<Rightarrow> bool) \<Rightarrow> ('a \<Rightarrow> string) \<Rightarrow> 'a \<Rightarrow> 'a list \<Rightarrow> 'a list" where
  "insert_by le f x [] = [x]"
| "insert_by le f x (y # ys) = (if le (f x) (f y) then x # y # ys else y # insert_by le f x ys)"

definition order_by :: "(string \<Rightarrow> string \<Rightarrow> bool) \<Rightarrow> ('a \<Rightarrow> string) \<Rightarrow> 'a list \<Rightarrow> 'a list" where
  "order_by le f xs = foldr (insert_by le f) xs []"

section \<open>Requests\<close>

abbreviation caller_tenant :: "principal \<Rightarrow> string" where
  "caller_tenant p \<equiv> or_opt (tenant_id p) []"

definition decode_fields :: "string list \<Rightarrow> json option \<Rightarrow> string list option" where
  "decode_fields names body = those (map (\<lambda>f. decode_text f body) names)"

text \<open>A field with a list of texts: null is the empty list, and a null in the list the empty text.\<close>

definition decode_item :: "json \<Rightarrow> string option" where
  "decode_item j = (case j of JStr s \<Rightarrow> Some s | JNull \<Rightarrow> Some [] | _ \<Rightarrow> None)"

definition decode_texts :: "string \<Rightarrow> json option \<Rightarrow> string list option" where
  "decode_texts field body =
    (case body of
       Some (JObj ob) \<Rightarrow>
         (case obj_get ob field of
            None \<Rightarrow> Some []
          | Some JNull \<Rightarrow> Some []
          | Some (JArr js) \<Rightarrow> those (map decode_item js)
          | Some _ \<Rightarrow> None)
     | Some JNull \<Rightarrow> Some []
     | _ \<Rightarrow> None)"

definition bad_json :: response where
  "bad_json = error_response 400 ''Bad Request'' ''invalid json''"

definition forbidden :: "string \<Rightarrow> response" where
  "forbidden msg = error_response 403 ''Forbidden'' msg"

definition failed :: "string \<Rightarrow> response" where
  "failed msg = error_response 500 ''Internal Server Error'' msg"

definition failed_detail :: "rbac_env \<Rightarrow> string \<Rightarrow> response" where
  "failed_detail env msg = json_response 500 ''Internal Server Error'' (JObj [(''error'', JStr msg), (''detail'', JStr (en_detail env))])"

definition role_missing :: "string \<Rightarrow> response" where
  "role_missing msg = error_response 404 ''Not Found'' msg"

definition done_message :: "string \<Rightarrow> response" where
  "done_message msg = json_response 200 ''OK'' (JObj [(''message'', JStr msg)])"

definition created_message :: "string \<Rightarrow> response" where
  "created_message msg = json_response 201 ''Created'' (JObj [(''message'', JStr msg)])"

section \<open>Roles\<close>

definition permission_json :: "permission \<Rightarrow> json" where
  "permission_json p = str_obj [(''id'', pe_id p), (''key'', pe_key p), (''description'', pe_description p)]"

text \<open>The join of permissions with the assignments of a role, in the order of the keys.\<close>

definition permissions_of :: "rbac_env \<Rightarrow> string \<Rightarrow> rbac_db \<Rightarrow> permission list" where
  "permissions_of env ident db =
    order_by (en_le env) pe_key (filter (\<lambda>p. (ident, pe_id p) \<in> set (rb_role_permissions db)) (rb_permissions db))"

definition GetRole :: "rbac_env \<Rightarrow> principal \<Rightarrow> string \<Rightarrow> rbac_db \<Rightarrow> response" where
  "GetRole env p ident db =
    (case role_row_by env ident db of
       None \<Rightarrow> role_missing ''role not found''
     | Some r \<Rightarrow>
         if \<not> is_platform_admin p \<and> ro_tenant_id r \<noteq> [] \<and> ro_tenant_id r \<noteq> caller_tenant p
         then forbidden ''access denied''
         else json_response 200 ''OK'' (JObj [(''data'', JObj
           [(''id'', JStr (ro_id r)), (''tenant_id'', JStr (ro_tenant_id r)), (''name'', JStr (ro_name r)), (''key'', JStr (ro_key r)),
            (''scope'', JStr (ro_scope r)), (''status'', JStr (ro_status r)), (''created_at'', JStr (ro_created_at r)),
            (''permissions'', JArr (map permission_json (permissions_of env ident db)))])]))"

definition ListRolePermissions :: "rbac_env \<Rightarrow> string \<Rightarrow> rbac_db \<Rightarrow> response" where
  "ListRolePermissions env ident db =
    (if \<not> en_uuid env ident then failed ''query failed''
     else json_response 200 ''OK'' (JObj [(''data'', JArr (map permission_json (permissions_of env ident db)))]))"

text \<open>The insertion fails for an unknown tenant, a taken identifier and a taken key.\<close>

definition insert_role :: "rbac_env \<Rightarrow> string \<Rightarrow> string \<Rightarrow> string \<Rightarrow> string \<Rightarrow> rbac_db \<Rightarrow> rbac_db option" where
  "insert_role env tenant name key scope db =
    (if (tenant \<noteq> [] \<and> \<not> (en_uuid env tenant \<and> tenant \<in> set (rb_tenants db)))
        \<or> en_id env \<in> ro_id ` set (rb_roles db)
        \<or> (tenant, key) \<in> (\<lambda>r. (ro_tenant_id r, ro_key r)) ` set (rb_roles db)
     then None
     else Some (db\<lparr>rb_roles := rb_roles db @
       [\<lparr>ro_id = en_id env, ro_tenant_id = tenant, ro_name = name, ro_key = key, ro_scope = scope, ro_status = ''active'',
         ro_created_at = en_now env\<rparr>]\<rparr>))"

definition CreateRole :: "rbac_env \<Rightarrow> principal \<Rightarrow> json option \<Rightarrow> rbac_db \<Rightarrow> response \<times> rbac_db" where
  "CreateRole env p body db =
    (case decode_fields [''tenant_id'', ''name'', ''key'', ''scope''] body of
       Some [asked, name, key, scope0] \<Rightarrow>
         (let scope = (if scope0 = [] then ''tenant'' else scope0);
              tenant = (if is_platform_admin p then asked else caller_tenant p)
          in if name = [] \<or> key = [] then (error_response 400 ''Bad Request'' ''name and key are required'', db)
             else if \<not> is_platform_admin p \<and> scope = ''platform'' then (forbidden ''cannot create platform-scoped role'', db)
             else if scope \<noteq> ''tenant'' \<and> scope \<noteq> ''platform''
             then (error_response 400 ''Bad Request'' ''scope must be tenant or platform'', db)
             else if scope = ''tenant'' \<and> tenant = [] \<and> \<not> is_platform_admin p
             then (error_response 400 ''Bad Request'' ''tenant_id is required for tenant-scoped roles'', db)
             else (case insert_role env (if scope = ''platform'' then [] else tenant) name key scope db of
                     None \<Rightarrow> (failed_detail env ''create failed'', db)
                   | Some db1 \<Rightarrow>
                       (json_response 201 ''Created'' (JObj [(''id'', JStr (en_id env)), (''message'', JStr ''role created'')]), db1)))
     | _ \<Rightarrow> (bad_json, db))"

text \<open>The rows a statement on one role reaches: of the caller's tenant unless a platform administrator calls.\<close>

definition reaches :: "principal \<Rightarrow> string \<Rightarrow> role \<Rightarrow> bool" where
  "reaches p ident r \<longleftrightarrow> ro_id r = ident \<and> (is_platform_admin p \<or> (ro_tenant_id r \<noteq> [] \<and> ro_tenant_id r = caller_tenant p))"

definition keyed :: "rbac_env \<Rightarrow> principal \<Rightarrow> string \<Rightarrow> bool" where
  "keyed env p ident \<longleftrightarrow> en_uuid env ident \<and> (is_platform_admin p \<or> en_uuid env (caller_tenant p))"

definition role_guarded :: "rbac_env \<Rightarrow> principal \<Rightarrow> string \<Rightarrow> rbac_db \<Rightarrow> bool" where
  "role_guarded env p ident db \<longleftrightarrow>
    \<not> is_platform_admin p \<and> (fst (existing env ident db) = ''platform'' \<or> snd (existing env ident db) = [])"

definition role_updates :: "principal \<Rightarrow> string \<Rightarrow> string \<Rightarrow> string \<Rightarrow> role \<Rightarrow> role" where
  "role_updates p name status scope r =
    r\<lparr>ro_name := (if name \<noteq> [] then name else ro_name r), ro_status := (if status \<noteq> [] then status else ro_status r),
      ro_scope := (if scope \<noteq> [] \<and> is_platform_admin p then scope else ro_scope r)\<rparr>"

definition UpdateRole :: "rbac_env \<Rightarrow> principal \<Rightarrow> string \<Rightarrow> json option \<Rightarrow> rbac_db \<Rightarrow> response \<times> rbac_db" where
  "UpdateRole env p ident body db =
    (case decode_fields [''name'', ''status'', ''scope''] body of
       Some [name, status, scope] \<Rightarrow>
         if role_guarded env p ident db then (forbidden ''cannot modify this role'', db)
         else if \<not> keyed env p ident then (failed ''update failed'', db)
         else if \<not> list_ex (reaches p ident) (rb_roles db) then (role_missing ''role not found'', db)
         else (done_message ''role updated'',
               db\<lparr>rb_roles := map (\<lambda>r. if reaches p ident r then role_updates p name status scope r else r) (rb_roles db)\<rparr>)
     | _ \<Rightarrow> (bad_json, db))"

text \<open>Removing a role removes what refers to it.\<close>

definition delete_roles :: "(role \<Rightarrow> bool) \<Rightarrow> rbac_db \<Rightarrow> rbac_db" where
  "delete_roles P db =
    (let gone = map ro_id (filter P (rb_roles db))
     in db\<lparr>rb_roles := filter (\<lambda>r. \<not> P r) (rb_roles db),
           rb_role_permissions := filter (\<lambda>(r, _). r \<notin> set gone) (rb_role_permissions db),
           rb_user_roles := filter (\<lambda>ur. ul_role ur \<notin> set gone) (rb_user_roles db)\<rparr>)"

definition DeleteRole :: "rbac_env \<Rightarrow> principal \<Rightarrow> string \<Rightarrow> rbac_db \<Rightarrow> response \<times> rbac_db" where
  "DeleteRole env p ident db =
    (if role_guarded env p ident db then (forbidden ''cannot delete this role'', db)
     else if \<not> keyed env p ident then (failed ''delete failed'', db)
     else if \<not> list_ex (reaches p ident) (rb_roles db) then (role_missing ''role not found'', db)
     else (done_message ''role deleted'', delete_roles (reaches p ident) db))"

section \<open>Permissions of a role\<close>

definition insert_role_permission :: "rbac_env \<Rightarrow> string \<Rightarrow> string \<Rightarrow> rbac_db \<Rightarrow> rbac_db option" where
  "insert_role_permission env ident pid db =
    (if en_uuid env ident \<and> en_uuid env pid \<and> ident \<in> ro_id ` set (rb_roles db) \<and> pid \<in> pe_id ` set (rb_permissions db)
     then Some (if (ident, pid) \<in> set (rb_role_permissions db) then db
                else db\<lparr>rb_role_permissions := rb_role_permissions db @ [(ident, pid)]\<rparr>)
     else None)"

fun insert_role_permissions :: "rbac_env \<Rightarrow> string \<Rightarrow> string list \<Rightarrow> rbac_db \<Rightarrow> rbac_db option" where
  "insert_role_permissions env ident [] db = Some db"
| "insert_role_permissions env ident (pid # pids) db =
    Option.bind (insert_role_permission env ident pid db) (insert_role_permissions env ident pids)"

definition clear_role_permissions :: "string \<Rightarrow> rbac_db \<Rightarrow> rbac_db" where
  "clear_role_permissions ident db = db\<lparr>rb_role_permissions := filter (\<lambda>(r, _). r \<noteq> ident) (rb_role_permissions db)\<rparr>"

text \<open>The transaction: a failure rolls the removal back.\<close>

definition SetRolePermissions :: "rbac_env \<Rightarrow> principal \<Rightarrow> string \<Rightarrow> json option \<Rightarrow> rbac_db \<Rightarrow> response \<times> rbac_db" where
  "SetRolePermissions env p ident body db =
    (case decode_texts ''permission_ids'' body of
       None \<Rightarrow> (bad_json, db)
     | Some pids \<Rightarrow>
         if role_guarded env p ident db then (forbidden ''cannot modify this role permissions'', db)
         else if \<not> en_uuid env ident then (failed ''clear failed'', db)
         else (case insert_role_permissions env ident pids (clear_role_permissions ident db) of
                 None \<Rightarrow> (failed ''assign failed'', db)
               | Some db1 \<Rightarrow> (done_message ''permissions updated'', db1)))"

text \<open>The role comes from the body, not from the address.\<close>

definition AssignRolePermission :: "rbac_env \<Rightarrow> json option \<Rightarrow> rbac_db \<Rightarrow> response \<times> rbac_db" where
  "AssignRolePermission env body db =
    (case decode_fields [''role_id'', ''permission_id''] body of
       Some [ident, pid] \<Rightarrow>
         (case insert_role_permission env ident pid db of
            None \<Rightarrow> (failed ''assign failed'', db)
          | Some db1 \<Rightarrow> (created_message ''permission assigned'', db1))
     | _ \<Rightarrow> (bad_json, db))"

definition RemoveRolePermission :: "rbac_env \<Rightarrow> string \<Rightarrow> string \<Rightarrow> rbac_db \<Rightarrow> response \<times> rbac_db" where
  "RemoveRolePermission env ident pid db =
    (if \<not> (en_uuid env ident \<and> en_uuid env pid) then (failed ''remove failed'', db)
     else (done_message ''permission removed'',
           db\<lparr>rb_role_permissions := filter (\<lambda>rp. rp \<noteq> (ident, pid)) (rb_role_permissions db)\<rparr>))"

section \<open>Roles of a user\<close>

definition insert_user_role :: "rbac_env \<Rightarrow> string \<Rightarrow> string \<Rightarrow> string \<Rightarrow> rbac_db \<Rightarrow> rbac_db option" where
  "insert_user_role env tenant user ident db =
    (let row = \<lparr>ul_tenant = tenant, ul_user = user, ul_role = ident\<rparr>
     in if (tenant \<noteq> [] \<and> \<not> (en_uuid env tenant \<and> tenant \<in> set (rb_tenants db)))
           \<or> \<not> (en_uuid env user \<and> user \<in> set (rb_users db))
           \<or> \<not> (en_uuid env ident \<and> ident \<in> ro_id ` set (rb_roles db))
           \<or> row \<in> set (rb_user_roles db)
        then None
        else Some (db\<lparr>rb_user_roles := rb_user_roles db @ [row]\<rparr>))"

definition AssignUserRole :: "rbac_env \<Rightarrow> principal \<Rightarrow> string \<Rightarrow> json option \<Rightarrow> rbac_db \<Rightarrow> response \<times> rbac_db" where
  "AssignUserRole env p user body db =
    (case decode_fields [''tenant_id'', ''role_id''] body of
       Some [asked, ident] \<Rightarrow>
         (let tenant = (if is_platform_admin p then asked else caller_tenant p);
              scope = fst (existing env ident db)
          in if \<not> is_platform_admin p \<and> scope = ''platform'' then (forbidden ''cannot assign platform role'', db)
             else if scope = ''tenant'' \<and> tenant = []
             then (error_response 400 ''Bad Request'' ''tenant_id is required for tenant role assignment'', db)
             else (case insert_user_role env tenant user ident db of
                     None \<Rightarrow> (failed_detail env ''assign failed'', db)
                   | Some db1 \<Rightarrow> (created_message ''role assigned'', db1)))
     | _ \<Rightarrow> (bad_json, db))"

definition RemoveUserRole :: "rbac_env \<Rightarrow> principal \<Rightarrow> string \<Rightarrow> string \<Rightarrow> rbac_db \<Rightarrow> response \<times> rbac_db" where
  "RemoveUserRole env p user ident db =
    (let P = (\<lambda>ur. ul_user ur = user \<and> ul_role ur = ident)
     in if \<not> is_platform_admin p \<and> fst (existing env ident db) = ''platform'' then (forbidden ''cannot remove platform role'', db)
        else if \<not> (en_uuid env user \<and> en_uuid env ident) then (failed ''remove failed'', db)
        else if \<not> list_ex P (rb_user_roles db) then (role_missing ''assignment not found'', db)
        else (done_message ''role removed'', db\<lparr>rb_user_roles := filter (\<lambda>ur. \<not> P ur) (rb_user_roles db)\<rparr>))"

section \<open>The permissions of a session\<close>

definition in_tenant :: "string \<Rightarrow> string \<Rightarrow> bool" where
  "in_tenant row tenant \<longleftrightarrow> row = [] \<or> row = tenant"

text \<open>The joins of a query for distinct keys: a permission is selected when some rows of the other tables go with it.\<close>

definition role_keys :: "string \<Rightarrow> string \<Rightarrow> rbac_db \<Rightarrow> string list" where
  "role_keys user tenant db =
    map pe_key (filter (\<lambda>p. list_ex (\<lambda>(r, pid). pid = pe_id p
        \<and> list_ex (\<lambda>ur. ul_role ur = r \<and> ul_user ur = user \<and> in_tenant (ul_tenant ur) tenant) (rb_user_roles db))
      (rb_role_permissions db)) (rb_permissions db))"

definition effect_keys :: "string \<Rightarrow> string \<Rightarrow> string \<Rightarrow> rbac_db \<Rightarrow> string list" where
  "effect_keys effect user tenant db =
    map pe_key (filter (\<lambda>p. list_ex (\<lambda>up. up_permission up = pe_id p \<and> up_user up = user \<and> up_effect up = effect
        \<and> in_tenant (up_tenant up) tenant) (rb_user_permissions db)) (rb_permissions db))"

definition EffectivePermissions :: "rbac_env \<Rightarrow> rbac_db \<Rightarrow> string \<Rightarrow> string \<Rightarrow> string list" where
  "EffectivePermissions env db user tenant =
    order_by (en_le env) id
      (filter (\<lambda>k. k \<notin> set (effect_keys ''deny'' user tenant db))
         (remdups (role_keys user tenant db @ effect_keys ''allow'' user tenant db)))"

text \<open>
  The words of the specification: a role grants a permission key, a user holds a role in a tenant, and a
  user's own entries allow or deny a key.
\<close>

definition role_grants :: "rbac_db \<Rightarrow> string \<Rightarrow> string \<Rightarrow> bool" where
  "role_grants db ident k \<longleftrightarrow> (\<exists>p \<in> set (rb_permissions db). pe_key p = k \<and> (ident, pe_id p) \<in> set (rb_role_permissions db))"

definition holds_role :: "rbac_db \<Rightarrow> string \<Rightarrow> string \<Rightarrow> string \<Rightarrow> bool" where
  "holds_role db user tenant ident \<longleftrightarrow>
    (\<exists>ur \<in> set (rb_user_roles db). ul_role ur = ident \<and> ul_user ur = user \<and> in_tenant (ul_tenant ur) tenant)"

definition own_entry :: "rbac_db \<Rightarrow> string \<Rightarrow> string \<Rightarrow> string \<Rightarrow> string \<Rightarrow> bool" where
  "own_entry db effect user tenant k \<longleftrightarrow> k \<in> set (effect_keys effect user tenant db)"

section \<open>Integrity of the tables\<close>

definition rbac_ok :: "rbac_db \<Rightarrow> bool" where
  "rbac_ok db \<longleftrightarrow>
     distinct (map ro_id (rb_roles db)) \<and> distinct (map (\<lambda>r. (ro_tenant_id r, ro_key r)) (rb_roles db))
     \<and> distinct (rb_role_permissions db)
     \<and> (\<forall>rp \<in> set (rb_role_permissions db). fst rp \<in> ro_id ` set (rb_roles db) \<and> snd rp \<in> pe_id ` set (rb_permissions db))
     \<and> distinct (rb_user_roles db) \<and> (\<forall>ur \<in> set (rb_user_roles db). ul_role ur \<in> ro_id ` set (rb_roles db))"

text \<open>Every request a server answers is one of these steps, by any caller and in any environment.\<close>

inductive rbac_step :: "rbac_db \<Rightarrow> rbac_db \<Rightarrow> bool" where
  create: "rbac_step db (snd (CreateRole env p body db))"
| update: "rbac_step db (snd (UpdateRole env p ident body db))"
| delete: "rbac_step db (snd (DeleteRole env p ident db))"
| set_permissions: "rbac_step db (snd (SetRolePermissions env p ident body db))"
| assign_permission: "rbac_step db (snd (AssignRolePermission env body db))"
| remove_permission: "rbac_step db (snd (RemoveRolePermission env ident pid db))"
| assign_user: "rbac_step db (snd (AssignUserRole env p user body db))"
| remove_user: "rbac_step db (snd (RemoveUserRole env p user ident db))"

inductive_cases rbac_stepE: "rbac_step db db'"

section \<open>Lemmas\<close>

lemma set_insert_by [simp]: "set (insert_by le f x xs) = insert x (set xs)"
  by (induction xs) auto

lemma set_order_by [simp]: "set (order_by le f xs) = set xs"
  unfolding order_by_def by (induction xs) auto

lemma set_role_keys: "k \<in> set (role_keys user tenant db) \<longleftrightarrow> (\<exists>r. holds_role db user tenant r \<and> role_grants db r k)"
proof -
  have "k \<in> set (role_keys user tenant db) \<longleftrightarrow>
      (\<exists>p \<in> set (rb_permissions db). k = pe_key p \<and> (\<exists>r. (r, pe_id p) \<in> set (rb_role_permissions db) \<and> holds_role db user tenant r))"
    by (fastforce simp: role_keys_def holds_role_def list_ex_iff)
  then show ?thesis by (auto simp: role_grants_def)
qed

text \<open>The query means: allowed by a held role or an own entry, and not denied by an own entry.\<close>

lemma effective_iff:
  "k \<in> set (EffectivePermissions env db user tenant) \<longleftrightarrow>
     \<not> own_entry db ''deny'' user tenant k
     \<and> ((\<exists>r. holds_role db user tenant r \<and> role_grants db r k) \<or> own_entry db ''allow'' user tenant k)"
  by (auto simp: EffectivePermissions_def own_entry_def set_role_keys)

lemma distinct_insert_by: "distinct (insert_by le f x xs) \<longleftrightarrow> x \<notin> set xs \<and> distinct xs"
  by (induction xs) auto

lemma distinct_order_by: "distinct (order_by le f xs) \<longleftrightarrow> distinct xs"
proof -
  have "distinct (foldr (insert_by le f) xs []) \<longleftrightarrow> distinct xs"
  proof (induction xs)
    case (Cons x xs)
    have "set (foldr (insert_by le f) xs []) = set xs" using set_order_by [of le f xs] by (simp add: order_by_def)
    with Cons show ?case by (simp add: distinct_insert_by)
  qed simp
  then show ?thesis by (simp add: order_by_def)
qed

lemma those_Some: "those (map f xs) = Some ys \<Longrightarrow> length ys = length xs"
  by (induction xs arbitrary: ys) (auto split: option.splits)

lemma those_JStr [simp]: "those (map (decode_item \<circ> JStr) xs) = Some xs"
  by (induction xs) (simp_all add: decode_item_def)

text \<open>One insertion into the permissions of a role, and a sequence of them.\<close>

lemma insert_role_permission_Some:
  assumes "insert_role_permission env ident pid db = Some db'"
  shows "\<exists>rps. db' = db\<lparr>rb_role_permissions := rps\<rparr> \<and> set rps = insert (ident, pid) (set (rb_role_permissions db))
     \<and> (distinct (rb_role_permissions db) \<longrightarrow> distinct rps)
     \<and> ident \<in> ro_id ` set (rb_roles db) \<and> pid \<in> pe_id ` set (rb_permissions db)"
proof (cases "(ident, pid) \<in> set (rb_role_permissions db)")
  case True
  with assms show ?thesis
    by (intro exI [of _ "rb_role_permissions db"]) (auto simp: insert_role_permission_def split: if_splits)
next
  case False
  with assms show ?thesis
    by (intro exI [of _ "rb_role_permissions db @ [(ident, pid)]"]) (auto simp: insert_role_permission_def split: if_splits)
qed

lemma insert_role_permissions_Some:
  assumes "insert_role_permissions env ident pids db = Some db'"
  shows "\<exists>rps. db' = db\<lparr>rb_role_permissions := rps\<rparr> \<and> set rps = {ident} \<times> set pids \<union> set (rb_role_permissions db)
     \<and> (distinct (rb_role_permissions db) \<longrightarrow> distinct rps)
     \<and> (pids \<noteq> [] \<longrightarrow> ident \<in> ro_id ` set (rb_roles db)) \<and> set pids \<subseteq> pe_id ` set (rb_permissions db)"
  using assms
proof (induction pids arbitrary: db)
  case Nil
  then show ?case by (intro exI [of _ "rb_role_permissions db"]) auto
next
  case (Cons pid pids)
  then obtain db1 where 1: "insert_role_permission env ident pid db = Some db1"
    and 2: "insert_role_permissions env ident pids db1 = Some db'" by (auto simp: bind_eq_Some_conv)
  from insert_role_permission_Some [OF 1] Cons.IH [OF 2] show ?case by fastforce
qed

lemma insert_role_permissions_succeeds:
  assumes "en_uuid env ident" "ident \<in> ro_id ` set (rb_roles db)"
    and "\<forall>pid \<in> set pids. en_uuid env pid \<and> pid \<in> pe_id ` set (rb_permissions db)"
  shows "\<exists>db'. insert_role_permissions env ident pids db = Some db'"
  using assms(2,3)
proof (induction pids arbitrary: db)
  case (Cons pid pids)
  with assms(1) obtain db1 where 1: "insert_role_permission env ident pid db = Some db1"
    by (fastforce simp: insert_role_permission_def)
  moreover have "rb_roles db1 = rb_roles db" "rb_permissions db1 = rb_permissions db"
    using insert_role_permission_Some [OF 1] by auto
  ultimately show ?case using Cons.IH [of db1] Cons.prems by auto
qed simp

lemma clear_simps [simp]:
  "rb_roles (clear_role_permissions ident db) = rb_roles db"
  "rb_permissions (clear_role_permissions ident db) = rb_permissions db"
  "set (rb_role_permissions (clear_role_permissions ident db)) = {rp \<in> set (rb_role_permissions db). fst rp \<noteq> ident}"
  "distinct (rb_role_permissions db) \<Longrightarrow> distinct (rb_role_permissions (clear_role_permissions ident db))"
  by (auto simp: clear_role_permissions_def)

lemma SetRolePermissions_cases:
  assumes "SetRolePermissions env p ident body db = (resp, db')"
  obtains "db' = db" "resp_status resp \<noteq> 200"
  | pids rps where "decode_texts ''permission_ids'' body = Some pids" "\<not> role_guarded env p ident db"
      "db' = db\<lparr>rb_role_permissions := rps\<rparr>" "resp_status resp = 200"
      "set rps = {ident} \<times> set pids \<union> {rp \<in> set (rb_role_permissions db). fst rp \<noteq> ident}"
      "distinct (rb_role_permissions db) \<Longrightarrow> distinct rps" "pids \<noteq> [] \<Longrightarrow> ident \<in> ro_id ` set (rb_roles db)"
      "set pids \<subseteq> pe_id ` set (rb_permissions db)"
proof (cases "db' = db \<and> resp_status resp \<noteq> 200")
  case False
  with assms obtain pids where pids: "decode_texts ''permission_ids'' body = Some pids" "\<not> role_guarded env p ident db"
    and ins: "insert_role_permissions env ident pids (clear_role_permissions ident db) = Some db'" "resp_status resp = 200"
    by (auto simp: SetRolePermissions_def bad_json_def forbidden_def failed_def done_message_def error_response_def json_response_def
        split: option.splits if_splits)
  from insert_role_permissions_Some [OF ins(1)] obtain rps where
    "db' = (clear_role_permissions ident db)\<lparr>rb_role_permissions := rps\<rparr>"
    "set rps = {ident} \<times> set pids \<union> {rp \<in> set (rb_role_permissions db). fst rp \<noteq> ident}"
    "distinct (rb_role_permissions (clear_role_permissions ident db)) \<longrightarrow> distinct rps"
    "pids \<noteq> [] \<longrightarrow> ident \<in> ro_id ` set (rb_roles db)" "set pids \<subseteq> pe_id ` set (rb_permissions db)"
    by auto
  with pids ins(2) show ?thesis using that(2) [of pids rps] by (simp add: clear_role_permissions_def)
qed (use that(1) in blast)

lemma effective_distinct: "distinct (EffectivePermissions env db user tenant)"
  by (simp add: EffectivePermissions_def distinct_order_by)

text \<open>The handlers keep the integrity of the tables.\<close>

lemma insert_role_ok: "insert_role env tenant name key scope db = Some db' \<Longrightarrow> rbac_ok db \<Longrightarrow> rbac_ok db'"
  by (simp add: insert_role_def rbac_ok_def split: if_split_asm) (elim conjE, hypsubst, simp)

lemma CreateRole_cases:
  "snd (CreateRole env p body db) = db \<or> (\<exists>tenant name key scope. insert_role env tenant name key scope db = Some (snd (CreateRole env p body db)))"
proof (cases "decode_fields [''tenant_id'', ''name'', ''key'', ''scope''] body")
  case (Some vs)
  then have "length vs = 4" unfolding decode_fields_def using those_Some [of "\<lambda>f. decode_text f body"] by fastforce
  then obtain a b c d where "vs = [a, b, c, d]" by (auto simp: length_Suc_conv eval_nat_numeral)
  with Some show ?thesis by (simp add: CreateRole_def Let_def split: option.split) blast
qed (simp add: CreateRole_def)

lemma CreateRole_ok: "rbac_ok db \<Longrightarrow> rbac_ok (snd (CreateRole env p body db))"
  using CreateRole_cases [of env p body db] insert_role_ok by metis

lemma role_updates_keys [simp]:
  "ro_id (role_updates p name status scope r) = ro_id r" "ro_tenant_id (role_updates p name status scope r) = ro_tenant_id r"
  "ro_key (role_updates p name status scope r) = ro_key r"
  by (simp_all add: role_updates_def)

lemma rbac_ok_roles:
  assumes "map ro_id rs = map ro_id (rb_roles db)" "map (\<lambda>r. (ro_tenant_id r, ro_key r)) rs = map (\<lambda>r. (ro_tenant_id r, ro_key r)) (rb_roles db)"
  shows "rbac_ok (db\<lparr>rb_roles := rs\<rparr>) \<longleftrightarrow> rbac_ok db"
proof -
  have "ro_id ` set rs = ro_id ` set (rb_roles db)" by (metis assms(1) set_map)
  with assms show ?thesis by (simp add: rbac_ok_def)
qed

lemma UpdateRole_ok: "rbac_ok db \<Longrightarrow> rbac_ok (snd (UpdateRole env p ident body db))"
  by (auto simp: UpdateRole_def rbac_ok_roles split: option.split list.split)

lemma delete_roles_ok: "rbac_ok db \<Longrightarrow> rbac_ok (delete_roles P db)"
proof -
  assume ok: "rbac_ok db"
  have left: "i \<in> ro_id ` {r \<in> set (rb_roles db). \<not> P r}"
    if "i \<in> ro_id ` set (rb_roles db)" "i \<notin> ro_id ` {r \<in> set (rb_roles db). P r}" for i
    using that by blast
  show ?thesis
    using ok by (simp add: rbac_ok_def delete_roles_def Let_def distinct_map_filter split_def left)
qed

lemma DeleteRole_ok: "rbac_ok db \<Longrightarrow> rbac_ok (snd (DeleteRole env p ident db))"
  by (simp add: DeleteRole_def delete_roles_ok)

lemma SetRolePermissions_ok: "rbac_ok db \<Longrightarrow> rbac_ok (snd (SetRolePermissions env p ident body db))"
proof (cases "SetRolePermissions env p ident body db")
  case (Pair resp db')
  assume ok: "rbac_ok db"
  from Pair show ?thesis
  proof (cases rule: SetRolePermissions_cases)
    case 1
    with ok Pair show ?thesis by simp
  next
    case (2 pids rps)
    with ok have "\<forall>rp \<in> set rps. fst rp \<in> ro_id ` set (rb_roles db) \<and> snd rp \<in> pe_id ` set (rb_permissions db)"
      by (cases pids) (auto simp: rbac_ok_def)
    with 2 ok Pair show ?thesis by (simp add: rbac_ok_def)
  qed
qed

lemma insert_role_permission_ok: "insert_role_permission env ident pid db = Some db' \<Longrightarrow> rbac_ok db \<Longrightarrow> rbac_ok db'"
  by (drule insert_role_permission_Some) (clarsimp simp: rbac_ok_def)

lemma AssignRolePermission_ok: "rbac_ok db \<Longrightarrow> rbac_ok (snd (AssignRolePermission env body db))"
  by (auto simp: AssignRolePermission_def insert_role_permission_ok split: option.split list.split)

lemma RemoveRolePermission_ok: "rbac_ok db \<Longrightarrow> rbac_ok (snd (RemoveRolePermission env ident pid db))"
  by (auto simp: RemoveRolePermission_def rbac_ok_def)

lemma insert_user_role_ok: "insert_user_role env tenant user ident db = Some db' \<Longrightarrow> rbac_ok db \<Longrightarrow> rbac_ok db'"
  by (simp add: insert_user_role_def Let_def rbac_ok_def split: if_split_asm) (elim conjE, hypsubst, simp)

lemma AssignUserRole_ok: "rbac_ok db \<Longrightarrow> rbac_ok (snd (AssignUserRole env p user body db))"
  by (simp add: AssignUserRole_def Let_def split: option.split list.split) (blast intro: insert_user_role_ok)

lemma RemoveUserRole_ok: "rbac_ok db \<Longrightarrow> rbac_ok (snd (RemoveUserRole env p user ident db))"
  by (simp add: RemoveUserRole_def rbac_ok_def Let_def)

interpretation rbac: preserved rbac_step rbac_ok
  by unfold_locales (auto elim!: rbac_stepE simp: CreateRole_ok UpdateRole_ok DeleteRole_ok SetRolePermissions_ok
      AssignRolePermission_ok RemoveRolePermission_ok AssignUserRole_ok RemoveUserRole_ok)

section \<open>Properties\<close>

lemma role_row_by_Some: "role_row_by env ident db = Some r \<Longrightarrow> en_uuid env ident \<and> r \<in> set (rb_roles db) \<and> ro_id r = ident"
  by (auto simp: role_row_by_def find_Some_iff split: if_splits)

text \<open>A request of the role page with known permissions replaces those of the role.\<close>

lemma SetRolePermissions_grants:
  assumes "\<not> role_guarded env a ident db" "en_uuid env ident" "ident \<in> ro_id ` set (rb_roles db)"
    and "\<forall>pid \<in> set pids. en_uuid env pid \<and> pid \<in> pe_id ` set (rb_permissions db)"
    and "decode_texts ''permission_ids'' body = Some pids"
    and "SetRolePermissions env a ident body db = (resp, db')"
  shows "resp = done_message ''permissions updated''
     \<and> (\<exists>rps. db' = db\<lparr>rb_role_permissions := rps\<rparr>
          \<and> set rps = {ident} \<times> set pids \<union> {rp \<in> set (rb_role_permissions db). fst rp \<noteq> ident})"
proof -
  obtain db1 where "insert_role_permissions env ident pids (clear_role_permissions ident db) = Some db1"
    using insert_role_permissions_succeeds [of env ident "clear_role_permissions ident db" pids] assms(2,3,4) by auto
  with assms have resp: "resp = done_message ''permissions updated''" by (simp add: SetRolePermissions_def)
  from assms(6) resp show ?thesis
    by (cases rule: SetRolePermissions_cases) (use assms(5) in \<open>auto simp: done_message_def json_response_def\<close>)
qed

text \<open>The permissions a refresh reads, and the principal it hands to the dashboard.\<close>

lemma Refresh_permissions:
  assumes "Refresh cr cfg tok adb = (Some (tokens, q, trace), adb')"
  shows "permissions q = Some (db_permissions adb (user_id q) (or_opt (tenant_id q) []))"
  using assms by (cases rule: Refresh_cases) (simp_all add: refresh_principal_def or_opt_def or_str_def)

lemma saveEdit_decoded:
  "saveEdit_named p ident (Inr ()) p = (p1, toasts, Some call) \<Longrightarrow> decode_texts ''permission_ids'' (call_body call) = Some (rp_editPerms p)"
  by (auto simp: saveEdit_named_def api_send_def decode_texts_def obj_get_def)

text \<open>What an assignment leaves of the other roles and of the users' own entries.\<close>

lemma rps_simps [simp]:
  "role_grants (db\<lparr>rb_role_permissions := rps\<rparr>) r k \<longleftrightarrow> (\<exists>pe \<in> set (rb_permissions db). pe_key pe = k \<and> (r, pe_id pe) \<in> set rps)"
  "holds_role (db\<lparr>rb_role_permissions := rps\<rparr>) = holds_role db"
  "own_entry (db\<lparr>rb_role_permissions := rps\<rparr>) = own_entry db"
  by (simp_all add: role_grants_def holds_role_def own_entry_def effect_keys_def fun_eq_iff)

text \<open>
  Property C38. A role edited in the dashboard reaches its holders: when the save of the role page arrives
  from someone who may edit the role, and the ticked permissions exist, the server answers with success, the
  role grants exactly the ticked permissions and every other role what it granted before, and opening the role
  again ticks the same boxes. A session that is refreshed afterwards has a permission exactly when no entry of
  the user denies it and a held role or an entry of the user allows it; the dashboard then shows a holder what
  the ticked permissions open.
\<close>

theorem role_edit_reaches_holders:
  assumes may: "\<not> role_guarded env a ident db" "en_uuid env ident" "ident \<in> ro_id ` set (rb_roles db)"
    and known: "\<forall>pid \<in> set (rp_editPerms p). en_uuid env pid \<and> pid \<in> pe_id ` set (rb_permissions db)"
    and call: "saveEdit_named p ident (Inr ()) p = (p1, toasts, Some call)"
    and saved: "SetRolePermissions env a ident (call_body call) db = (resp, db')"
    and tables: "db_permissions adb = EffectivePermissions env' db'"
    and refreshed: "Refresh cr cfg tok adb = (Some (tokens, q, trace), adb')"
  shows "resp_status resp = 200
     \<and> (\<forall>k. role_grants db' ident k \<longleftrightarrow> (\<exists>pe \<in> set (rb_permissions db). pe_key pe = k \<and> pe_id pe \<in> set (rp_editPerms p)))
     \<and> (\<forall>r k. r \<noteq> ident \<longrightarrow> role_grants db' r k = role_grants db r k)
     \<and> (\<forall>d s. ro_permissions d = Some (permissions_of env ident db') \<longrightarrow>
          set (rp_editPerms (startEdit_loaded (Inr (Some d)) s)) = set (rp_editPerms p))
     \<and> (\<forall>k. has (permissions q) k \<longleftrightarrow>
          \<not> own_entry db ''deny'' (user_id q) (caller_tenant q) k
          \<and> ((\<exists>r. holds_role db (user_id q) (caller_tenant q) r \<and> role_grants db' r k)
             \<or> own_entry db ''allow'' (user_id q) (caller_tenant q) k))
     \<and> (\<forall>pe \<in> set (rb_permissions db). pe_id pe \<in> set (rp_editPerms p) \<and> holds_role db (user_id q) (caller_tenant q) ident
          \<and> \<not> own_entry db ''deny'' (user_id q) (caller_tenant q) (pe_key pe) \<longrightarrow> hasPermission (Some q) (pe_key pe))"
proof -
  from SetRolePermissions_grants [OF may known saveEdit_decoded [OF call] saved] obtain rps where
    resp: "resp = done_message ''permissions updated''" and db': "db' = db\<lparr>rb_role_permissions := rps\<rparr>"
    and rps: "set rps = {ident} \<times> set (rp_editPerms p) \<union> {rp \<in> set (rb_role_permissions db). fst rp \<noteq> ident}" by blast
  have "resp_status resp = 200" by (simp add: resp done_message_def json_response_def)
  moreover have ticked: "\<forall>k. role_grants db' ident k \<longleftrightarrow> (\<exists>pe \<in> set (rb_permissions db). pe_key pe = k \<and> pe_id pe \<in> set (rp_editPerms p))"
    by (auto simp: db' rps)
  moreover have "\<forall>r k. r \<noteq> ident \<longrightarrow> role_grants db' r k = role_grants db r k"
    by (auto simp: db' rps role_grants_def [of db])
  moreover have "pe_id ` set (permissions_of env ident db') = set (rp_editPerms p)"
    using known by (force simp: permissions_of_def db' rps)
  then have "\<forall>d s. ro_permissions d = Some (permissions_of env ident db') \<longrightarrow>
      set (rp_editPerms (startEdit_loaded (Inr (Some d)) s)) = set (rp_editPerms p)"
    by (simp add: startEdit_loaded_def uniq_def set_uniq_acc)
  moreover have eff: "\<forall>k. has (permissions q) k \<longleftrightarrow>
          \<not> own_entry db ''deny'' (user_id q) (caller_tenant q) k
          \<and> ((\<exists>r. holds_role db (user_id q) (caller_tenant q) r \<and> role_grants db' r k)
             \<or> own_entry db ''allow'' (user_id q) (caller_tenant q) k)"
    using Refresh_permissions [OF refreshed] by (simp add: tables has_def List.member_iff effective_iff db' del: rps_simps(1))
  moreover have "has (permissions q) k \<Longrightarrow> hasPermission (Some q) k" for k by (simp add: hasPermission_def)
  then have "\<forall>pe \<in> set (rb_permissions db). pe_id pe \<in> set (rp_editPerms p) \<and> holds_role db (user_id q) (caller_tenant q) ident
          \<and> \<not> own_entry db ''deny'' (user_id q) (caller_tenant q) (pe_key pe) \<longrightarrow> hasPermission (Some q) (pe_key pe)"
    using eff ticked by blast
  ultimately show ?thesis by blast
qed

text \<open>
  Property C39. Roles of another tenant: someone who is no platform administrator is refused when he reads,
  renames or deletes the role of another tenant, and these requests change nothing; but replacing the
  permissions of the same role succeeds, and adding a permission succeeds for every role, those of the
  platform included.
\<close>

theorem foreign_role_rewritten:
  assumes other: "\<not> is_platform_admin a" "role_row_by env ident db = Some r" "ro_tenant_id r \<noteq> []" "ro_tenant_id r \<noteq> caller_tenant a"
    and scope: "ro_scope r \<noteq> ''platform''" and ids: "rbac_ok db" "en_uuid env (caller_tenant a)"
    and known: "\<forall>pid \<in> set pids. en_uuid env pid \<and> pid \<in> pe_id ` set (rb_permissions db)"
    and bodies: "decode_texts ''permission_ids'' body = Some pids" "decode_fields [''name'', ''status'', ''scope''] body' = Some [n, st, sc]"
  shows "GetRole env a ident db = forbidden ''access denied''
     \<and> UpdateRole env a ident body' db = (role_missing ''role not found'', db)
     \<and> DeleteRole env a ident db = (role_missing ''role not found'', db)
     \<and> resp_status (fst (SetRolePermissions env a ident body db)) = 200
     \<and> {pid. (ident, pid) \<in> set (rb_role_permissions (snd (SetRolePermissions env a ident body db)))} = set pids
     \<and> (\<forall>r' \<in> set (rb_roles db). \<forall>pe \<in> set (rb_permissions db). en_uuid env (ro_id r') \<and> en_uuid env (pe_id pe) \<longrightarrow>
          role_grants (snd (AssignRolePermission env (Some (str_obj [(''role_id'', ro_id r'), (''permission_id'', pe_id pe)])) db))
            (ro_id r') (pe_key pe))"
proof -
  note row = role_row_by_Some [OF other(2)]
  have open_role: "\<not> role_guarded env a ident db" using other scope by (simp add: role_guarded_def existing_def)
  have "r' = r" if "r' \<in> set (rb_roles db)" "ro_id r' = ident" for r'
    using ids(1) row that by (auto simp: rbac_ok_def distinct_map dest: inj_onD)
  then have unreached: "\<not> list_ex (reaches a ident) (rb_roles db)"
    using other by (auto simp: list_ex_iff reaches_def)
  have "GetRole env a ident db = forbidden ''access denied''" using other by (simp add: GetRole_def)
  moreover have "UpdateRole env a ident body' db = (role_missing ''role not found'', db)"
    "DeleteRole env a ident db = (role_missing ''role not found'', db)"
    using bodies(2) open_role row ids(2) unreached by (simp_all add: UpdateRole_def DeleteRole_def keyed_def)
  moreover obtain resp db' where "SetRolePermissions env a ident body db = (resp, db')" by (cases "SetRolePermissions env a ident body db")
  moreover have "ident \<in> ro_id ` set (rb_roles db)" using row by auto
  ultimately show ?thesis
    using SetRolePermissions_grants [OF open_role _ _ known bodies(1)] row
    by (auto simp: done_message_def json_response_def AssignRolePermission_def decode_fields_def decode_text_def str_obj_def obj_get_def
        insert_role_permission_def role_grants_def)
qed

text \<open>Two tenants with a role each, a role of the platform, and two permissions.\<close>

definition plain_env :: rbac_env where
  "plain_env = \<lparr>en_uuid = (\<lambda>s. s \<noteq> []), en_le = (\<lambda>_ _. True), en_id = ''r9'', en_now = ''2024'', en_detail = []\<rparr>"

definition two_tenants :: rbac_db where
  "two_tenants = \<lparr>rb_tenants = [''t1'', ''t2''], rb_users = [''u1''],
     rb_roles = [demo_role\<lparr>ro_tenant_id := ''t1''\<rparr>, demo_role\<lparr>ro_id := ''r2'', ro_tenant_id := ''t2''\<rparr>, demo_role\<lparr>ro_id := ''r3'', ro_scope := ''platform''\<rparr>],
     rb_permissions = [\<lparr>pe_id = ''p1'', pe_key = ''users.view'', pe_description = []\<rparr>, \<lparr>pe_id = ''p2'', pe_key = ''roles.manage'', pe_description = []\<rparr>],
     rb_role_permissions = [(''r1'', ''p2''), (''r2'', ''p2'')],
     rb_user_roles = [\<lparr>ul_tenant = ''t1'', ul_user = ''u1'', ul_role = ''r1''\<rparr>], rb_user_permissions = []\<rparr>"

definition tenant_admin :: principal where
  "tenant_admin = \<lparr>user_id = ''u1'', tenant_id = Some ''t1'', email = ''ann@b.co'', is_platform_admin = False, permissions = Some [''roles.manage'']\<rparr>"

definition ticked_page :: roles_page where
  "ticked_page = (roles_mount False)\<lparr>rp_editPerms := [''p1'']\<rparr>"

definition ticked_call :: api_call where
  "ticked_call = the (snd (snd (saveEdit_named ticked_page ''r1'' (Inr ()) ticked_page)))"

definition ticked_db :: rbac_db where
  "ticked_db = snd (SetRolePermissions plain_env tenant_admin ''r1'' (call_body ticked_call) two_tenants)"

lemmas two_tenants_simps = plain_env_def two_tenants_def tenant_admin_def demo_role_def or_opt_def or_str_def

lemma ann_refresh:
  "\<exists>tokens adb'. Refresh plain_crypto plain_config ''rft_'' (ann_db\<lparr>db_permissions := perms\<rparr>)
     = (Some (tokens, refresh_principal (ann_db\<lparr>db_permissions := perms\<rparr>) ann_session ann_row, se_trace ann_session), adb')"
proof -
  have "refresh_select plain_crypto ''rft_'' (ann_db\<lparr>db_permissions := perms\<rparr>) = Some (ann_session, ann_row)"
    by (rule ann_select) (simp_all add: ann_db_def)
  then show ?thesis by (simp add: Refresh_def Let_def split_def)
qed

theorem role_edit_reaches_holders_witness:
  "\<exists>tokens adb' q trace. Refresh plain_crypto plain_config ''rft_'' (ann_db\<lparr>db_permissions := EffectivePermissions plain_env ticked_db\<rparr>)
     = (Some (tokens, q, trace), adb') \<and> has (permissions q) ''users.view'' \<and> \<not> has (permissions q) ''roles.manage''"
proof -
  let ?adb = "ann_db\<lparr>db_permissions := EffectivePermissions plain_env ticked_db\<rparr>"
  let ?q = "refresh_principal ?adb ann_session ann_row"
  obtain tokens adb' where ref: "Refresh plain_crypto plain_config ''rft_'' ?adb = (Some (tokens, ?q, se_trace ann_session), adb')"
    using ann_refresh by blast
  have call: "saveEdit_named ticked_page ''r1'' (Inr ()) ticked_page = (ticked_page, [], Some ticked_call)"
    by (simp add: ticked_call_def saveEdit_named_def)
  have set: "SetRolePermissions plain_env tenant_admin ''r1'' (call_body ticked_call) two_tenants
      = (fst (SetRolePermissions plain_env tenant_admin ''r1'' (call_body ticked_call) two_tenants), ticked_db)"
    by (simp add: ticked_db_def)
  have q: "user_id ?q = ''u1''" "caller_tenant ?q = ''t1''"
    by (simp_all add: refresh_principal_def ann_row_def ann_session_def or_opt_def or_str_def)
  have facts: "\<not> role_guarded plain_env tenant_admin ''r1'' two_tenants" "en_uuid plain_env ''r1''" "''r1'' \<in> ro_id ` set (rb_roles two_tenants)"
    "\<forall>pid \<in> set (rp_editPerms ticked_page). en_uuid plain_env pid \<and> pid \<in> pe_id ` set (rb_permissions two_tenants)"
    by (simp_all add: role_guarded_def existing_def role_row_by_def ticked_page_def two_tenants_simps)
  have tables: "db_permissions ?adb = EffectivePermissions plain_env ticked_db" by simp
  note edit = role_edit_reaches_holders [OF facts call set tables ref, unfolded q]
  have "\<not> own_entry two_tenants effect u t k" for effect u t k by (simp add: own_entry_def effect_keys_def two_tenants_def)
  moreover have "holds_role two_tenants ''u1'' ''t1'' r \<longleftrightarrow> r = ''r1''" for r
    by (auto simp: holds_role_def two_tenants_def in_tenant_def)
  ultimately have "has (permissions ?q) k \<longleftrightarrow> (\<exists>pe \<in> set (rb_permissions two_tenants). pe_key pe = k \<and> pe_id pe \<in> set (rp_editPerms ticked_page))" for k
    using edit by simp
  then have "has (permissions ?q) ''users.view'' \<and> \<not> has (permissions ?q) ''roles.manage''"
    by (simp add: two_tenants_def ticked_page_def)
  with ref show ?thesis by blast
qed

theorem foreign_role_rewritten_witness:
  "GetRole plain_env tenant_admin ''r2'' two_tenants = forbidden ''access denied''
   \<and> {pid. (''r2'', pid) \<in> set (rb_role_permissions (snd (SetRolePermissions plain_env tenant_admin ''r2''
          (Some (JObj [(''permission_ids'', JArr [JStr ''p1''])])) two_tenants)))} = {''p1''}"
  using foreign_role_rewritten [of tenant_admin plain_env "''r2''" two_tenants "demo_role\<lparr>ro_id := ''r2'', ro_tenant_id := ''t2''\<rparr>" "[''p1'']"
      "Some (JObj [(''permission_ids'', JArr [JStr ''p1''])])" "Some (JObj [])" "[]" "[]" "[]"]
  by (simp add: role_row_by_def rbac_ok_def decode_texts_def decode_item_def decode_fields_def decode_text_def obj_get_def two_tenants_simps)

end
