(* ===== verification/Spec2Isabelle.thy ===== *)
theory Spec2Isabelle
  imports Send_Notification Providers Roles Users Settings Catalogs Tenant_Detail Served_Lists Routes Page_Modals Single_Tab Role_Server
begin

text \<open>
  \<^bold>\<open>The administration dashboard of the notification platform.\<close>

  The program is the single-page application under \<^verbatim>\<open>src/notification-admin-ui/src\<close>: a client for
  the HTTP interface of the notification service, the session it keeps in the browser, a router with a
  menu, a set of shared widgets, and one page per kind of resource. Every page talks to the server
  through the client only; the client owns the stored credentials and renews them behind the pages'
  backs; the session provider owns the current user and answers every permission question; the list
  pages share one scheme of filters, page counters and reloads. The server
  (\<^verbatim>\<open>src/notification-core-api\<close>, written in Go) enters as a parameter of the client. The parts of it that the
  dashboard relies on are translated to compare both sides: the sessions and the roles with their handlers and
  tables, so that client and pages are also composed with them, and elsewhere single decisions and statements.

  \<^bold>\<open>Theories, in the order in which they build on each other.\<close>

  \<^item> \<^verbatim>\<open>Transitions\<close>: reachable states of a step relation, and three interfaces that the step relations of the other
    theories interpret: \<^verbatim>\<open>preserved\<close> (a property that no step destroys), \<^verbatim>\<open>step_invariant\<close>, \<^verbatim>\<open>simulation\<close>.
  \<^item> \<^verbatim>\<open>UI_Prelude\<close>: objects of JavaScript as association lists in the language's key order, truthiness,
    text helpers of the standard library (trim, split, join, replace, number to text), and the collections
    of rewrite rules the other theories use.
  \<^item> \<^verbatim>\<open>Json_Value\<close>: JSON values, property access and string conversion.
  \<^item> \<^verbatim>\<open>Url_Query\<close>: URLSearchParams and encodeURIComponent on UTF-8 bytes, with the decoder as its inverse.
  \<^item> \<^verbatim>\<open>Api_Client\<close> (\<^verbatim>\<open>api/client.ts\<close>): apiRequest, refreshAccessToken, clearAuthAndRedirect, listPage, list
    and ApiError over a browser record (storage, address, events). A server is a function from its state
    and a request to a response. apiRequest calls itself again after a successful refresh and so need not
    return: it takes fuel, and None means that the fuel is used up. Two rounds suffice against a server
    whose refused refreshes are not granted later and whose fresh tokens are accepted; against one that does
    not accept them, no amount does.
  \<^item> \<^verbatim>\<open>Refresh_Flight\<close> (\<^verbatim>\<open>api/client.ts\<close>): the same functions as a transition system of overlapping calls
    that share the promise of one refresh, with reachability and its invariant.
  \<^item> \<^verbatim>\<open>Auth\<close> (\<^verbatim>\<open>auth/AuthContext.tsx\<close>): principal, permission table and check, login, logout, the
    start of the application, and the check of the server (\<^verbatim>\<open>internal/auth/auth.go\<close>) beside it.
  \<^item> \<^verbatim>\<open>Widgets\<close> (\<^verbatim>\<open>components/\<close>): toasts, confirm dialog, searchable select, tenant filter, status badge
    and toggle, modal, as state and as what is shown.
  \<^item> \<^verbatim>\<open>Markup\<close> (\<^verbatim>\<open>components/\<close>, the contexts of toasts and session, the login page): the elements these components return,
    as trees of nodes with their attributes and classes, and the events that reach a handler. The tree of the
    confirmation refines the dialog of \<^verbatim>\<open>Widgets\<close>.
  \<^item> \<^verbatim>\<open>Modal_Effects\<close> (\<^verbatim>\<open>components/Modal.tsx\<close>): what an open modal does to the document, its scrolling and its
    listeners, over every sequence of renders.
  \<^item> \<^verbatim>\<open>Shell\<close> (\<^verbatim>\<open>app/main.tsx\<close>, \<^verbatim>\<open>layouts/AppLayout.tsx\<close>, \<^verbatim>\<open>pages/login\<close>): route table, guard, menus and
    login form, with the permissions of the server's route table (\<^verbatim>\<open>internal/http/router.go\<close>).
  \<^item> \<^verbatim>\<open>Paged_List\<close> (\<^verbatim>\<open>hooks/usePagination.ts\<close>, \<^verbatim>\<open>components/TablePagination.tsx\<close> and the loading effect the
    pages repeat): filters, counters and rows with the requests that are outstanding; the paging of the
    server's list middleware; three interfaces, \<^verbatim>\<open>list_source\<close> (the request of a list), \<^verbatim>\<open>list_page\<close> (a page built
    around a list) and \<^verbatim>\<open>served_page\<close> (both), interpreted by the pages.
  \<^item> \<^verbatim>\<open>Template_Text\<close>, \<^verbatim>\<open>Send_Notification\<close> (\<^verbatim>\<open>pages/notifications/SendNotificationPage.tsx\<close>): rendering of
    templates, message preview, segment count, address check; then the page with its effects, validation
    and request.
  \<^item> \<^verbatim>\<open>Providers\<close>, \<^verbatim>\<open>Roles\<close>, \<^verbatim>\<open>Users\<close>, \<^verbatim>\<open>Templates\<close>, \<^verbatim>\<open>Settings\<close>, \<^verbatim>\<open>Contacts\<close> (with the delivery log
    \<^verbatim>\<open>pages/notifications/NotificationsPage.tsx\<close>), \<^verbatim>\<open>Campaigns\<close> (with \<^verbatim>\<open>pages/queues\<close>), \<^verbatim>\<open>Api_Keys\<close> (with
    \<^verbatim>\<open>pages/groups\<close>), \<^verbatim>\<open>Audit_Logs\<close> (with \<^verbatim>\<open>pages/permissions\<close>), \<^verbatim>\<open>Catalogs\<close> (\<^verbatim>\<open>pages/features\<close>, \<^verbatim>\<open>pages/channels\<close> and the start page
    \<^verbatim>\<open>pages/dashboard\<close>), \<^verbatim>\<open>Integration\<close>: the pages of these names, each a record, its handlers, what it shows, and a
    step relation of what users and answers can do to it.
  \<^item> \<^verbatim>\<open>Tenants\<close> and \<^verbatim>\<open>Tenant_Detail\<close> (\<^verbatim>\<open>pages/tenants\<close>): the list with the provisioning form, and the workspace of one
    tenant, which reuses the audit grouping, the template preview and the integration guide. Both have the
    server's statements beside them.
  \<^item> \<^verbatim>\<open>Served_Lists\<close>: the list handlers and the list middleware of the server against the list pages, with the
    interface \<^verbatim>\<open>search_page\<close>; the delivery log and its double paging.
  \<^item> \<^verbatim>\<open>Page_Parts\<close>: the small components that pages declare beside themselves, as trees of nodes.
  \<^item> \<^verbatim>\<open>Page_Modals\<close> (\<^verbatim>\<open>pages/contacts/ContactsPage.tsx\<close>, \<^verbatim>\<open>pages/notifications/NotificationsPage.tsx\<close>): the forms and
    details these pages open above themselves, as trees that refine what the page records show.
  \<^item> \<^verbatim>\<open>Session_Server\<close> (\<^verbatim>\<open>internal/auth\<close>, \<^verbatim>\<open>internal/http\<close> of the server): login, refresh, logout and the check of access
    tokens over the tables of users and sessions, with the library for hashing and signing as a record of
    functions and its documented laws as a hypothesis. A refresh is three statements, so overlapping ones
    interleave. The server is then the parameter of apiRequest.
  \<^item> \<^verbatim>\<open>Single_Tab\<close>: a browser tab with its overlapping calls and the session server as one system, among other
    clients of the server; it simulates \<^verbatim>\<open>Refresh_Flight\<close> and the tables of \<^verbatim>\<open>Session_Server\<close>.
  \<^item> \<^verbatim>\<open>Role_Server\<close> (\<^verbatim>\<open>internal/http/handlers/rbac.go\<close>, \<^verbatim>\<open>EffectivePermissions\<close> of \<^verbatim>\<open>internal/auth\<close>): the handlers of roles over their
    tables, whose keys and references every request keeps, composed with the role page on one side and with
    the refresh of a session on the other.
  \<^item> \<^verbatim>\<open>Routes\<close>: requests against the route table of the server, decided for all identifiers at once.
  \<^item> this theory: buttons, the requests they send, and the routes that serve them, across the pages.

  \<^bold>\<open>How code becomes definitions.\<close> The state hooks of a component form a record; a handler is a function
  on that record. A handler that waits for the server is split at its \<^verbatim>\<open>await\<close> into a function that returns
  the call and one that takes the outcome (a value or a thrown error), which also takes the page as it was
  when the handler started wherever the closure reads it. Effects that follow from a change are part of the
  operation that causes it. The rendered page is a record of what is shown and which controls are enabled.
  Toasts are returned as the list of calls to the toast functions.

  \<^bold>\<open>What is shown.\<close> Client: recovery from an expired token, the outcome of a denied refresh, settling and
  not settling, the pairing of the tokens, the form of errors, the round trip of query strings. Overlapping
  calls: one refresh at a time, every waiter is resumed, and the logout that a pending refresh undoes. Client and
  session server together: every call settles, an expired access token is recovered from without notice, a
  refresh token is honoured once unless requests overlap, two overlapping refreshes of one token may both be granted, and a
  second tab with the same storage is logged out by the rotation; a lone tab is never refused while its session
  lives, and the session of a tab that logged out lives on at the server. Roles: what is ticked in the
  dashboard is what the holders of a role get, and the requests that reach roles of other tenants. Components: the rendered confirmation sends
  exactly what the dialog's state machine allows, and the scroll lock of modals with where it goes wrong.
  Permissions: the check against the table and against the server's. Shell: no page without a token, menu
  entries permitted, routed and served. Lists: idle lists are current, the first page after a filter change,
  the agreement of footer and server paging, and the rows a late answer leaves. Sending: template rendering,
  segments, consistency of the page in every reachable state, completeness of what is submitted. Pages:
  the configuration of a provider, the permissions of a role, the account form, the template and settings
  round trips, the fields of a contact, the life of a campaign, the display of a key's secret, the members of a
  group, the sessions of the audit log, the switches of the catalogs, the examples of the guide. Tenants: what an
  edit stores, that the workspace shows rows of its tenant only, and that its overview stays in step with the
  server. Across components: end to end, an idle table shows the page of the stored rows its controls describe;
  a button that is shown sends a request that has a route and is permitted. Some theorems describe behaviour that
  the code does not seem to intend (a log that cannot be paged, an edit that resets a tenant, settings saved
  under the wrong tenant, a button without a route); they say so.

  \<^bold>\<open>Bounds and simplifications.\<close> Texts are lists of characters of code below 256, so typographic ellipses,
  dashes and dots of labels are left out or plain. Numbers typed into forms are integral, percentages exact
  rationals. JSON text is not parsed or printed: bodies are JSON values, and \<^verbatim>\<open>JSON.parse\<close>, pretty printing, \<^verbatim>\<open>atob\<close> and
  \<^verbatim>\<open>toFixed\<close> are arguments where a page uses them. Keys inherited from Object.prototype and the formatting of
  dates are left out; style classes, icons and positions appear in the trees of \<^verbatim>\<open>Markup\<close> and \<^verbatim>\<open>Page_Parts\<close> only, the pages
  show records of their contents. Matching an address of the dashboard against its route
  table is a parameter of the router. Two updates of state in one event take effect together; effects run in the
  order of their hooks. The database is a set of lists; which texts it takes for identifiers and how it orders
  texts are arguments. The only fuel is that of apiRequest, two rounds; against the
  server of the repository they are enough as long as answering takes less than the life of an access token. Step relations let answers of
  lists arrive in the order of the requests, except where a theorem is about late ones. Page numbers sent to the
  server are below 2 to the 63.

  \<^bold>\<open>Not modelled.\<close> The markup of the pages around the shared components (tables, headings, layout), of which
  the pages keep what is shown and which controls are enabled; the rows of the user list on the server; of the
  sessions, hashing and signing (libraries), failures of the database, the audit trail and the reset of a
  password; of the roles, the handlers that list them; the rest of the server apart from the statements named; sorting in the list middleware,
  which the dashboard never asks for; build and style files. \<^verbatim>\<open>TemplatesPage\<close> and \<^verbatim>\<open>TenantDetailPage\<close> repeat the
  template preview of the send page; the copies share its definition.
\<close>

section \<open>Requests of the buttons\<close>

text \<open>
  Per page, the requests of its buttons against the route table: the user who sees the button holds the permission.
\<close>

lemma served_templates:
  assumes "plain_id (mt_id t)"
  shows "mr_edit (template_row_of user s t) \<Longrightarrow> snd (saveTemplate_start (openEdit t s)) = Some call \<Longrightarrow> granted user call"
    and "mr_delete (template_row_of user s t) \<Longrightarrow> granted user (snd (removeTemplate_start t s))"
  by (rule granted_item [OF routes_updates(1) assms],
      auto simp: template_row_of_def saveTemplate_start_def openEdit_def api_send_def split: if_splits)
     (rule granted_item [OF routes_deletes(1) assms], simp_all add: template_row_of_def removeTemplate_start_def api_delete_def)

lemma served_contacts:
  assumes "plain_id (ct_id c)"
  shows "crw_edit (contact_row_of user s c) \<Longrightarrow> snd (save_contact_start (edit_contact c s)) = Some call \<Longrightarrow> granted user call"
    and "crw_delete (contact_row_of user s c) \<Longrightarrow> granted user (snd (remove_contact_start c s))"
  by (rule granted_item [OF routes_updates(2) assms],
      auto simp: contact_row_of_def save_contact_start_def edit_contact_def api_send_def split: if_splits)
     (rule granted_item [OF routes_deletes(2) assms], simp_all add: contact_row_of_def remove_contact_start_def api_delete_def)

lemma served_campaigns:
  "plain_id i \<Longrightarrow> (label, verb) \<in> set (campaign_buttons user st) \<Longrightarrow> granted user (campaign_transition (i, verb))"
  by (auto simp: campaign_buttons_def campaign_transition_def split: if_splits
      intro: granted_below [OF routes_posts(2)] granted_below [OF routes_posts(3)] granted_below [OF routes_posts(4)])

lemma served_queues:
  "plain_id (qc_id q) \<Longrightarrow> (label, st) \<in> set (queue_buttons user (qc_status q)) \<Longrightarrow> granted user (snd (updateStatus_start q st s))"
  by (rule granted_item [OF routes_updates(4)]) (auto simp: queue_buttons_def updateStatus_start_def api_send_def split: if_splits)

lemma served_keys: "plain_id (ak_id k) \<Longrightarrow> snd (snd (snd (snd (key_row_of user s k)))) \<Longrightarrow> granted user (revoke_call (ak_id k))"
  by (rule granted_item [OF routes_deletes(3)]) (auto simp: key_row_of_def revoke_call_def api_delete_def)

lemma served_groups:
  assumes "plain_id g"
  shows "snd (snd (snd (group_row_of user s gr))) \<Longrightarrow> granted user (group_action_call (RemoveGroup g))"
    and "gd_manage (group_dialog_of user s gr) \<Longrightarrow> plain_id m \<Longrightarrow> granted user (group_action_call (RemoveMember g m))"
    and "gd_manage (group_dialog_of user s gr) \<Longrightarrow> granted user (addMember_call g m)"
    apply (rule granted_item [OF routes_deletes(4) assms]; simp add: group_row_of_def group_action_call_def api_delete_def)
   apply (rule granted_below_item [OF routes_deletes(5) assms]; simp add: group_dialog_of_def group_action_call_def api_delete_def)
  apply (rule granted_below [OF routes_posts(1) assms]; simp add: group_dialog_of_def addMember_call_def api_send_def)
  done

lemma served_catalogs:
  "fi_identifier f \<noteq> [] \<Longrightarrow> tv_enabled (snd (feature_row_of user f)) \<Longrightarrow> granted user (toggleFeature_call f)"
  "plain_id (ci_channel ch) \<Longrightarrow> tv_enabled (snd (channel_row_of user s ch)) \<Longrightarrow> granted user (snd (toggle_channel_start ch s))"
   apply (rule granted_item [OF routes_updates(5) encoded_plain]; simp add: feature_row_of_def StatusToggle_def Let_def toggleFeature_call_def api_send_def)
  apply (rule granted_item [OF routes_updates(6)]; simp add: channel_row_of_def StatusToggle_def Let_def toggle_channel_start_def api_send_def)
  done

lemma served_users:
  assumes "plain_id (us_id u)"
  shows "uw_edit (user_row_of user s u) \<Longrightarrow> granted user (user_action_call (ToggleUser u))"
    and "uw_edit (user_row_of user s u) \<Longrightarrow> granted user (snd (save_user_start (us_id u) s))"
    and "route_permission (user_action_call (RemoveUser (us_id u))) = None"
    apply (rule granted_item [OF routes_updates(3) assms]; simp add: user_row_of_def user_action_call_def api_send_def)
   apply (rule granted_item [OF routes_updates(3) assms]; simp add: user_row_of_def save_user_start_def api_send_def)
  apply (rule unrouted_item [OF routes_deletes(6) assms]; simp add: user_action_call_def api_delete_def)
  done

section \<open>Properties that span components\<close>

text \<open>
  Property C25. Buttons, requests and routes agree, whatever the identifiers: for every button that edits, deletes or
  switches an item of the pages of templates, contacts, campaigns, queue controls, API keys, groups and the
  two catalogs, and for editing and switching users: where the user sees it, the request it sends has a route
  on the server and the user holds the permission that route asks for. The button that deletes a
  user is the exception: its request has no route, so the deletion fails for everyone who may press it.
\<close>

theorem buttons_are_served:
  assumes ids: "plain_id (mt_id t)" "plain_id (ct_id c)" "plain_id (us_id u)" "plain_id (qc_id q)" "plain_id (ak_id k)" "plain_id g" "plain_id m"
      "plain_id i" "plain_id (ci_channel ch)" "fi_identifier f \<noteq> []"
  shows "(mr_edit (template_row_of user s1 t) \<and> snd (saveTemplate_start (openEdit t s1)) = Some call1 \<longrightarrow> granted user call1) \<and>
    (mr_delete (template_row_of user s1 t) \<longrightarrow> granted user (snd (removeTemplate_start t s1))) \<and>
    (crw_edit (contact_row_of user s2 c) \<and> snd (save_contact_start (edit_contact c s2)) = Some call2 \<longrightarrow> granted user call2) \<and>
    (crw_delete (contact_row_of user s2 c) \<longrightarrow> granted user (snd (remove_contact_start c s2))) \<and>
    ((label, verb) \<in> set (campaign_buttons user status) \<longrightarrow> granted user (campaign_transition (i, verb))) \<and>
    ((label', st) \<in> set (queue_buttons user (qc_status q)) \<longrightarrow> granted user (snd (updateStatus_start q st s3))) \<and>
    (snd (snd (snd (snd (key_row_of user s4 k)))) \<longrightarrow> granted user (revoke_call (ak_id k))) \<and>
    (snd (snd (snd (group_row_of user s5 gr))) \<longrightarrow> granted user (group_action_call (RemoveGroup g))) \<and>
    (gd_manage (group_dialog_of user s5 gr) \<longrightarrow> granted user (group_action_call (RemoveMember g m)) \<and> granted user (addMember_call g m)) \<and>
    (tv_enabled (snd (feature_row_of user f)) \<longrightarrow> granted user (toggleFeature_call f)) \<and>
    (tv_enabled (snd (channel_row_of user s6 ch)) \<longrightarrow> granted user (snd (toggle_channel_start ch s6))) \<and>
    (uw_edit (user_row_of user s7 u) \<longrightarrow> granted user (user_action_call (ToggleUser u)) \<and> granted user (snd (save_user_start (us_id u) s7))) \<and>
    route_permission (user_action_call (RemoveUser (us_id u))) = None"
  using ids by (intro conjI impI) (auto intro: served_templates served_contacts served_campaigns served_queues served_keys served_groups
      served_catalogs served_users)

definition a_template :: msg_template where
  "a_template = \<lparr>mt_id = ''m1'', mt_tenant_id = ''t1'', mt_tenant_name = None, mt_template_key = ''welcome'', mt_channel = ''email'', mt_subject = [],
     mt_body = ''hi'', mt_status = ''active'', mt_created_at = []\<rparr>"

definition a_contact :: contact where
  "a_contact = \<lparr>ct_id = ''c1'', ct_tenant_id = ''t1'', ct_name = ''Ann'', ct_email = [], ct_phone = [], ct_status = ''active'', ct_created_at = [],
     ct_external_ref = None, ct_tenant_name = None\<rparr>"

definition an_account :: account where
  "an_account = \<lparr>us_id = ''u1'', us_email = ''a@b.co'', us_name = ''Ann'', us_is_platform_admin = False, us_status = ''active'', us_created_at = [],
     us_roles = None, us_tenants = None\<rparr>"

definition a_queue :: queue_control where
  "a_queue = \<lparr>qc_id = ''q1'', qc_tenant_id = ''t1'', qc_tenant_name = None, qc_channel = ''email'', qc_queue_name = ''email'', qc_status = ''active'',
     qc_max_attempts = 3, qc_retry_delay_seconds = 5, qc_notes = [], qc_updated_at = []\<rparr>"

definition a_key :: api_key where
  "a_key = \<lparr>ak_id = ''k1'', ak_tenant_id = ''t1'', ak_tenant_name = None, ak_name = ''ci'', ak_scopes = [], ak_status = ''active'', ak_last_used_at = [],
     ak_created_at = []\<rparr>"

definition a_channel :: channel_item where
  "a_channel = \<lparr>ci_channel = ''email'', ci_description = [], ci_tenant_count = 1, ci_enabled = True\<rparr>"

definition a_feature :: feature_item where
  "a_feature = \<lparr>fi_identifier = ''campaigns'', fi_name = ''Campaigns'', fi_description = [], fi_category = ''core'', fi_tenant_count = 0,
     fi_status = None, fi_enabled = True\<rparr>"

lemmas sample_items = a_template_def a_contact_def an_account_def a_queue_def a_key_def a_channel_def a_feature_def

text \<open>A platform administrator may remove a template, and asks in vain for the removal of a user.\<close>

theorem buttons_are_served_witness:
  "granted (Some platform_admin) (snd (removeTemplate_start a_template (templates_mount True))) \<and>
   uw_delete (user_row_of (Some platform_admin) (users_mount True) an_account) \<and> route_permission (user_action_call (RemoveUser ''u1'')) = None"
proof -
  have ids: "plain_id (mt_id a_template)" "plain_id (ct_id a_contact)" "plain_id (us_id an_account)" "plain_id (qc_id a_queue)" "plain_id (ak_id a_key)"
    "plain_id ''x''" "plain_id (ci_channel a_channel)" "fi_identifier a_feature \<noteq> []"
    by (simp_all add: sample_items plain_id_def)
  have "us_id an_account = ''u1''" "mr_delete (template_row_of (Some platform_admin) (templates_mount True) a_template)"
    "uw_delete (user_row_of (Some platform_admin) (users_mount True) an_account)"
    by (simp_all add: sample_items template_row_of_def user_row_of_def hasPermission_simps platform_admin_def)
  then show ?thesis
    using buttons_are_served [OF ids(1-5) ids(6) ids(6) ids(6) ids(7) ids(8), of "Some platform_admin" "templates_mount True"] by auto
qed

end
